(* ===== verification/Prelude.thy ===== *)
theory Prelude
  imports Main "HOL-Library.Multiset" "HOL-Library.List_Lexorder" "HOL-Library.Char_ord"
begin

text \<open>
  Shared vocabulary of the development.

  \<^item> Fallible Go code is a function into \<open>('e, 'a) result\<close>: an \<open>Inl\<close> is either an
    error value the Go function returns (\<open>Err\<close>) or a run-time panic (\<open>Panic\<close>: nil
    dereference, write to a nil map, index out of range).
  \<^item> A Go \<open>map[string]T\<close> is a \<open>'v gomap\<close>: \<open>None\<close> is the nil map, \<open>Some xs\<close> an allocated
    map whose list order is the order in which a \<open>range\<close> loop visits it. The list is an
    arbitrary one, so a theorem for all lists covers every order Go may choose.
  \<^item> A Go pointer is an option, and a slice is a list (an option of one where the code
    distinguishes a nil slice from an empty one).
\<close>

section \<open>Results\<close>

datatype go_panic = NilDeref | NilMapWrite | IndexOutOfRange | NegativeLen

datatype 'e fault = Err 'e | Panic go_panic

type_synonym ('e, 'a) result = "'e fault + 'a"

named_theorems result_simps "evaluation rules of the result monad"
named_theorems gomap_simps "laws of Go maps"

definition rbind :: "('e, 'a) result \<Rightarrow> ('a \<Rightarrow> ('e, 'b) result) \<Rightarrow> ('e, 'b) result" where
  "rbind m f = (case m of Inl e \<Rightarrow> Inl e | Inr x \<Rightarrow> f x)"

definition deref :: "'a option \<Rightarrow> ('e, 'a) result" where
  "deref p = (case p of None \<Rightarrow> Inl (Panic NilDeref) | Some x \<Rightarrow> Inr x)"

fun rfold :: "('s \<Rightarrow> 'a \<Rightarrow> ('e, 's) result) \<Rightarrow> 's \<Rightarrow> 'a list \<Rightarrow> ('e, 's) result" where
  "rfold f s [] = Inr s"
| "rfold f s (x # xs) = (case f s x of Inl e \<Rightarrow> Inl e | Inr s' \<Rightarrow> rfold f s' xs)"

fun rall :: "('a \<Rightarrow> ('e, unit) result) \<Rightarrow> 'a list \<Rightarrow> ('e, unit) result" where
  "rall f [] = Inr ()"
| "rall f (x # xs) = rbind (f x) (\<lambda>_. rall f xs)"

abbreviation is_ok :: "('e, 'a) result \<Rightarrow> bool" where
  "is_ok r \<equiv> \<not> isl r"

lemma rbind_Inl [simp, result_simps]: "rbind (Inl e) f = Inl e"
  by (simp add: rbind_def)

lemma rbind_Inr [simp, result_simps]: "rbind (Inr x) f = f x"
  by (simp add: rbind_def)

lemma rbind_eq_Inr: "rbind m f = Inr y \<longleftrightarrow> (\<exists>x. m = Inr x \<and> f x = Inr y)"
  by (cases m) auto

lemma rbind_eq_Inl: "rbind m f = Inl e \<longleftrightarrow> m = Inl e \<or> (\<exists>x. m = Inr x \<and> f x = Inl e)"
  by (cases m) auto

lemma rbind_assoc: "rbind (rbind m f) g = rbind m (\<lambda>x. rbind (f x) g)"
  by (cases m) auto

lemma deref_simps [simp, result_simps]:
  "deref (Some x) = Inr x" "deref None = Inl (Panic NilDeref)"
  by (simp_all add: deref_def)

lemma deref_eq_Inr [simp]: "deref p = Inr x \<longleftrightarrow> p = Some x"
  by (cases p) auto

lemma rfold_append:
  "rfold f s (xs @ ys) = (case rfold f s xs of Inl e \<Rightarrow> Inl e | Inr s' \<Rightarrow> rfold f s' ys)"
  by (induction xs arbitrary: s) (auto split: sum.splits)

lemma rfold_total:
  assumes "\<And>s x. f s x = Inr (g s x)"
  shows "rfold f s xs = Inr (foldl g s xs)"
  using assms by (induction xs arbitrary: s) auto

lemma rfold_pure:
  assumes "\<And>s x. x \<in> set xs \<Longrightarrow> f s x = Inr (g s x)"
  shows "rfold f s xs = Inr (foldl g s xs)"
  using assms by (induction xs arbitrary: s) auto

lemma foldl_component:
  assumes "\<And>s x. c (f s x) = h (c s) x"
  shows "c (foldl f s xs) = foldl h (c s) xs"
  by (induction xs arbitrary: s) (simp_all add: assms)

lemma foldl_concat_map: "foldl f s (concat (map g xs)) = foldl (\<lambda>s x. foldl f s (g x)) s xs"
  by (induction xs arbitrary: s) simp_all

lemma rfold_invariant:
  assumes "rfold f s xs = Inr t" "P s"
    and step: "\<And>s x s'. P s \<Longrightarrow> x \<in> set xs \<Longrightarrow> f s x = Inr s' \<Longrightarrow> P s'"
  shows "P t"
  using assms
proof (induction xs arbitrary: s)
  case (Cons x xs)
  from Cons.prems(1) obtain s' where s': "f s x = Inr s'" "rfold f s' xs = Inr t"
    by (cases "f s x") auto
  have "P s'" by (rule Cons.prems(3)[OF Cons.prems(2) _ s'(1)]) simp
  show ?case
    by (rule Cons.IH[OF s'(2) \<open>P s'\<close>], rule Cons.prems(3)) auto
qed simp

lemma rall_ok_iff: "rall f xs = Inr () \<longleftrightarrow> (\<forall>x\<in>set xs. f x = Inr ())"
  by (induction xs) (auto simp: rbind_eq_Inr)

lemma rall_Inl:
  "rall f xs = Inl e \<Longrightarrow> \<exists>x\<in>set xs. f x = Inl e"
  by (induction xs) (auto simp: rbind_eq_Inl)

lemma rall_first_error:
  assumes "\<forall>y\<in>set ys. f y = Inr ()" "f x = Inl e"
  shows "rall f (ys @ x # zs) = Inl e"
  using assms by (induction ys) auto

lemma rall_append: "rall f (xs @ ys) = rbind (rall f xs) (\<lambda>_. rall f ys)"
  by (induction xs) (auto simp: rbind_assoc)

section \<open>Go maps\<close>

type_synonym 'v alist = "(string \<times> 'v) list"
type_synonym 'v gomap = "(string \<times> 'v) list option"

definition entries :: "'v gomap \<Rightarrow> 'v alist" where
  "entries m = (case m of None \<Rightarrow> [] | Some xs \<Rightarrow> xs)"

definition gkeys :: "'v gomap \<Rightarrow> string list" where
  "gkeys m = map fst (entries m)"

definition gget :: "'v gomap \<Rightarrow> string \<Rightarrow> 'v option" where
  "gget m k = map_of (entries m) k"

fun alist_put :: "string \<Rightarrow> 'v \<Rightarrow> 'v alist \<Rightarrow> 'v alist" where
  "alist_put k v [] = [(k, v)]"
| "alist_put k v ((a, b) # xs) = (if a = k then (k, v) # xs else (a, b) # alist_put k v xs)"

definition alist_del :: "string \<Rightarrow> 'v alist \<Rightarrow> 'v alist" where
  "alist_del k xs = filter (\<lambda>p. fst p \<noteq> k) xs"

text \<open>\<open>m[k] = v\<close> panics on a nil map; \<open>delete(m, k)\<close> does not.\<close>

definition gput :: "string \<Rightarrow> 'v \<Rightarrow> 'v gomap \<Rightarrow> ('e, 'v gomap) result" where
  "gput k v m = (case m of None \<Rightarrow> Inl (Panic NilMapWrite) | Some xs \<Rightarrow> Inr (Some (alist_put k v xs)))"

definition gdelete :: "string \<Rightarrow> 'v gomap \<Rightarrow> 'v gomap" where
  "gdelete k m = map_option (alist_del k) m"

abbreviation gmake :: "'v gomap" where
  "gmake \<equiv> Some []"

abbreviation gomap_wf :: "'v gomap \<Rightarrow> bool" where
  "gomap_wf m \<equiv> distinct (gkeys m)"

lemma entries_simps [simp]: "entries None = []" "entries (Some xs) = xs"
  by (simp_all add: entries_def)

lemma gkeys_simps [simp]: "gkeys None = []" "gkeys (Some xs) = map fst xs"
  by (simp_all add: gkeys_def)

lemma gget_simps [simp]: "gget None k = None" "gget (Some xs) k = map_of xs k"
  by (simp_all add: gget_def)

lemma map_of_alist_put [gomap_simps]:
  "map_of (alist_put k v xs) j = (if j = k then Some v else map_of xs j)"
  by (induction xs) auto

lemma fst_image_alist_put [simp]: "fst ` set (alist_put k v xs) = insert k (fst ` set xs)"
proof (induction k v xs rule: alist_put.induct)
  case (2 k v a b xs)
  then show ?case by (cases "a = k") auto
qed simp

lemma distinct_alist_put [simp]:
  "distinct (map fst xs) \<Longrightarrow> distinct (map fst (alist_put k v xs))"
  by (induction k v xs rule: alist_put.induct) auto

lemma alist_put_ne [simp]: "alist_put k v xs \<noteq> []"
  by (cases xs) (auto split: if_splits)

lemma alist_put_set: "set (alist_put k v xs) \<subseteq> insert (k, v) (set xs)"
  by (induction k v xs rule: alist_put.induct) auto

lemma map_of_alist_del [gomap_simps]:
  "map_of (alist_del k xs) j = (if j = k then None else map_of xs j)"
  unfolding alist_del_def by (induction xs) auto

lemma distinct_alist_del: "distinct (map fst xs) \<Longrightarrow> distinct (map fst (alist_del k xs))"
  unfolding alist_del_def by (simp add: distinct_map_filter)

lemma gget_gdelete [gomap_simps]: "gget (gdelete k m) j = (if j = k then None else gget m j)"
  by (cases m) (auto simp: gdelete_def map_of_alist_del)

lemma gomap_wf_gdelete [simp]: "gomap_wf m \<Longrightarrow> gomap_wf (gdelete k m)"
  by (cases m) (auto simp: gdelete_def distinct_alist_del)

lemma gput_eq_Inr: "gput k v m = Inr m' \<longleftrightarrow> (\<exists>xs. m = Some xs \<and> m' = Some (alist_put k v xs))"
  by (cases m) (auto simp: gput_def)

lemma gput_Some [simp, result_simps]: "gput k v (Some xs) = Inr (Some (alist_put k v xs))"
  by (simp add: gput_def)

lemma gput_None [simp, result_simps]: "gput k v None = Inl (Panic NilMapWrite)"
  by (simp add: gput_def)

lemma gget_in_keys: "gget m k = Some v \<Longrightarrow> k \<in> set (gkeys m)"
  by (cases m) (auto dest: map_of_SomeD simp: rev_image_eqI)

lemma gget_None_iff: "gget m k = None \<longleftrightarrow> k \<notin> set (gkeys m)"
  by (cases m) (auto simp: map_of_eq_None_iff)

lemma gget_entries: "gomap_wf m \<Longrightarrow> gget m k = Some v \<longleftrightarrow> (k, v) \<in> set (entries m)"
  by (cases m) auto

section \<open>Keyed stores\<close>

text \<open>The contract of a store that is read by key and changed one key at a time. Go maps keep
  it, and so do the tables of the persistent state and of a state difference.\<close>

locale kv_table =
  fixes lookup :: "'s \<Rightarrow> 'k \<Rightarrow> 'v option"
    and put :: "'k \<Rightarrow> 'v \<Rightarrow> 's \<Rightarrow> 's"
    and invar :: "'s \<Rightarrow> bool"
  assumes lookup_put: "invar s \<Longrightarrow> lookup (put k v s) j = (if j = k then Some v else lookup s j)"
    and invar_put: "invar s \<Longrightarrow> invar (put k v s)"
begin

definition puts :: "('k \<times> 'v) list \<Rightarrow> 's \<Rightarrow> 's" where
  "puts ps s = foldl (\<lambda>s (k, v). put k v s) s ps"

lemma puts_Nil [simp]: "puts [] s = s"
  by (simp add: puts_def)

lemma puts_Cons [simp]: "puts ((k, v) # ps) s = puts ps (put k v s)"
  by (simp add: puts_def)

lemma invar_puts: "invar s \<Longrightarrow> invar (puts ps s)"
proof (induction ps arbitrary: s)
  case (Cons p ps)
  then show ?case by (cases p) (simp add: invar_put)
qed simp

text \<open>The last binding of a key wins.\<close>

lemma lookup_puts:
  "invar s \<Longrightarrow> lookup (puts ps s) j = (case map_of (rev ps) j of Some v \<Rightarrow> Some v | None \<Rightarrow> lookup s j)"
proof (induction ps arbitrary: s)
  case (Cons p ps)
  then show ?case
    by (cases p) (auto simp: invar_put lookup_put map_add_Some_iff map_add_def split: option.splits)
qed simp

lemma lookup_puts_distinct:
  assumes "invar s" "distinct (map fst ps)"
  shows "lookup (puts ps s) j = (case map_of ps j of Some v \<Rightarrow> Some v | None \<Rightarrow> lookup s j)"
proof -
  have "map_of (rev ps) = map_of ps"
    using assms(2) by (subst map_of_inject_set) (simp_all add: rev_map [symmetric])
  then show ?thesis using lookup_puts[OF assms(1)] by simp
qed

lemma put_overwrites: "invar s \<Longrightarrow> lookup (put k v (put k w s)) = lookup (put k v s)"
  by (rule ext) (simp add: lookup_put invar_put)

lemma put_commute: "invar s \<Longrightarrow> k \<noteq> j \<Longrightarrow> lookup (put k v (put j w s)) = lookup (put j w (put k v s))"
  by (rule ext) (simp add: lookup_put invar_put)

end

locale kv_store = kv_table lookup put invar
  for lookup :: "'s \<Rightarrow> 'k \<Rightarrow> 'v option" and put :: "'k \<Rightarrow> 'v \<Rightarrow> 's \<Rightarrow> 's" and invar :: "'s \<Rightarrow> bool" +
  fixes del :: "'k \<Rightarrow> 's \<Rightarrow> 's"
  assumes lookup_del: "invar s \<Longrightarrow> lookup (del k s) j = (if j = k then None else lookup s j)"
    and invar_del: "invar s \<Longrightarrow> invar (del k s)"
begin

lemma del_put_same: "invar s \<Longrightarrow> lookup s k = None \<Longrightarrow> lookup (del k (put k v s)) = lookup s"
  by (rule ext) (simp add: lookup_put lookup_del invar_put)

lemma put_del_same: "invar s \<Longrightarrow> lookup (put k v (del k s)) = lookup (put k v s)"
  by (rule ext) (simp add: lookup_put lookup_del invar_del)

lemma del_commute: "invar s \<Longrightarrow> lookup (del k (del j s)) = lookup (del j (del k s))"
  by (rule ext) (simp add: lookup_del invar_del)

end

interpretation assoc: kv_store map_of alist_put "\<lambda>xs. distinct (map fst xs)" alist_del
  by unfold_locales (simp_all add: map_of_alist_put map_of_alist_del distinct_alist_del)

section \<open>Sorted strings\<close>

text \<open>\<open>sort.Strings\<close> orders byte strings lexicographically, which is the order of
  \<open>string\<close> given by \<open>Char_ord\<close> and \<open>List_Lexorder\<close>.\<close>

definition sortedKeys :: "'v gomap \<Rightarrow> string list" where
  "sortedKeys m = sort (gkeys m)"

lemma set_sortedKeys [simp]: "set (sortedKeys m) = set (gkeys m)"
  by (simp add: sortedKeys_def)

lemma sorted_sortedKeys [simp]: "sorted (sortedKeys m)"
  by (simp add: sortedKeys_def)

lemma distinct_sortedKeys [simp]: "distinct (sortedKeys m) \<longleftrightarrow> gomap_wf m"
  by (simp add: sortedKeys_def)

lemma sortedKeys_order_irrelevant:
  "mset (gkeys m) = mset (gkeys m') \<Longrightarrow> sortedKeys m = sortedKeys m'"
  unfolding sortedKeys_def by (metis properties_for_sort mset_sort sorted_sort)

end
