(* ===== verification/GoStd.thy ===== *)
theory GoStd
  imports Prelude "HOL-Library.Word" "HOL-Library.Code_Target_Nat"
begin

text \<open>
  The parts of the Go standard library the program uses: \<open>strings\<close>, \<open>strconv\<close> and \<open>fmt\<close>
  number formatting, and the address parsers of \<open>net\<close> and \<open>net/netip\<close>. A Go string is a
  list of bytes (\<open>char\<close>), so every function below works on UTF-8 bytes as Go does.

  \<open>to_lower\<close> and \<open>fold_norm\<close> are exact for the only use the program makes of
  \<open>strings.ToLower\<close> and \<open>strings.EqualFold\<close>, the comparison with an ASCII literal: they
  treat the code points outside ASCII whose lower case or fold is an ASCII letter (the Kelvin
  sign, the dotted capital I, the long s) and leave every other byte alone.
\<close>

section \<open>Bytes and characters\<close>

type_synonym byte = "8 word"

abbreviation code :: "char \<Rightarrow> nat" where
  "code c \<equiv> of_char c"

definition digit_val :: "char \<Rightarrow> nat option" where
  "digit_val c = (let n = code c in if 48 \<le> n \<and> n \<le> 57 then Some (n - 48) else None)"

definition hex_val :: "char \<Rightarrow> nat option" where
  "hex_val c = (let n = code c in
     if 48 \<le> n \<and> n \<le> 57 then Some (n - 48)
     else if 97 \<le> n \<and> n \<le> 102 then Some (n - 87)
     else if 65 \<le> n \<and> n \<le> 70 then Some (n - 55)
     else None)"

abbreviation is_digit :: "char \<Rightarrow> bool" where
  "is_digit c \<equiv> digit_val c \<noteq> None"

section \<open>strings\<close>

fun rune_map :: "(string \<Rightarrow> char \<times> nat) \<Rightarrow> nat \<Rightarrow> string \<Rightarrow> string" where
  "rune_map f n [] = []"
| "rune_map f (Suc n) (c # cs) = rune_map f n cs"
| "rune_map f 0 (c # cs) = fst (f (c # cs)) # rune_map f (snd (f (c # cs))) cs"

definition ascii_lower :: "char \<Rightarrow> char" where
  "ascii_lower c = (if 65 \<le> code c \<and> code c \<le> 90 then char_of (code c + 32) else c)"

definition lower_rune :: "string \<Rightarrow> char \<times> nat" where
  "lower_rune s =
    (if map code (take 3 s) = [226, 132, 170] then (CHR ''k'', 2)
     else if map code (take 2 s) = [196, 176] then (CHR ''i'', 1)
     else (ascii_lower (hd s), 0))"

definition fold_rune :: "string \<Rightarrow> char \<times> nat" where
  "fold_rune s =
    (if map code (take 3 s) = [226, 132, 170] then (CHR ''k'', 2)
     else if map code (take 2 s) = [197, 191] then (CHR ''s'', 1)
     else (ascii_lower (hd s), 0))"

definition to_lower :: "string \<Rightarrow> string" where
  "to_lower s = rune_map lower_rune 0 s"

definition fold_norm :: "string \<Rightarrow> string" where
  "fold_norm s = rune_map fold_rune 0 s"

definition equal_fold :: "string \<Rightarrow> string \<Rightarrow> bool" where
  "equal_fold s t \<longleftrightarrow> fold_norm s = fold_norm t"

definition contains_byte :: "char \<Rightarrow> string \<Rightarrow> bool" where
  "contains_byte c s \<longleftrightarrow> c \<in> set s"

text \<open>\<open>strings.Cut\<close> and \<open>strings.SplitN(s, sep, 2)[0]\<close> at a one-byte separator.\<close>

definition before :: "char \<Rightarrow> string \<Rightarrow> string" where
  "before c s = takeWhile (\<lambda>x. x \<noteq> c) s"

definition after :: "char \<Rightarrow> string \<Rightarrow> string" where
  "after c s = drop 1 (dropWhile (\<lambda>x. x \<noteq> c) s)"

definition has_prefix :: "string \<Rightarrow> string \<Rightarrow> bool" where
  "has_prefix s p \<longleftrightarrow> take (length p) s = p"

fun contains_sub :: "string \<Rightarrow> string \<Rightarrow> bool" where
  "contains_sub [] p = (p = [])"
| "contains_sub (c # cs) p = (has_prefix (c # cs) p \<or> contains_sub cs p)"

fun split_on :: "char \<Rightarrow> string \<Rightarrow> string list" where
  "split_on c [] = [[]]"
| "split_on c (x # xs) =
    (if x = c then [] # split_on c xs
     else (case split_on c xs of [] \<Rightarrow> [[x]] | y # ys \<Rightarrow> (x # y) # ys))"

fun join_with :: "string \<Rightarrow> string list \<Rightarrow> string" where
  "join_with sep [] = []"
| "join_with sep [x] = x"
| "join_with sep (x # y # ys) = x @ sep @ join_with sep (y # ys)"

text \<open>\<open>unicode.IsSpace\<close> on the UTF-8 rune at the head of a string: its length in bytes, or 0.\<close>

definition space_rune :: "string \<Rightarrow> nat" where
  "space_rune s =
    (case map code (take 3 s) of
       [] \<Rightarrow> 0
     | a # r \<Rightarrow>
        if (9 \<le> a \<and> a \<le> 13) \<or> a = 32 then 1
        else (case r of
           [] \<Rightarrow> 0
         | b # r' \<Rightarrow>
            if a = 194 \<and> (b = 133 \<or> b = 160) then 2
            else (case r' of
               [] \<Rightarrow> 0
             | c # _ \<Rightarrow>
                if (a = 225 \<and> b = 154 \<and> c = 128)
                  \<or> (a = 226 \<and> b = 128 \<and> ((128 \<le> c \<and> c \<le> 138) \<or> c = 168 \<or> c = 169 \<or> c = 175))
                  \<or> (a = 226 \<and> b = 129 \<and> c = 159)
                  \<or> (a = 227 \<and> b = 128 \<and> c = 128)
                then 3 else 0)))"

fun fields_aux :: "nat \<Rightarrow> string \<Rightarrow> string \<Rightarrow> string list" where
  "fields_aux n cur [] = (if cur = [] then [] else [rev cur])"
| "fields_aux (Suc n) cur (c # cs) = fields_aux n cur cs"
| "fields_aux 0 cur (c # cs) =
    (case space_rune (c # cs) of
       0 \<Rightarrow> fields_aux 0 (c # cur) cs
     | Suc n \<Rightarrow> (if cur = [] then [] else [rev cur]) @ fields_aux n [] cs)"

definition Fields :: "string \<Rightarrow> string list" where
  "Fields s = fields_aux 0 [] s"

section \<open>Numbers\<close>

fun digits :: "nat \<Rightarrow> string" where
  "digits n = (if n < 10 then [char_of (48 + n)] else digits (n div 10) @ [char_of (48 + n mod 10)])"

declare digits.simps [simp del]

definition itoa :: "int \<Rightarrow> string" where
  "itoa i = (if i < 0 then CHR ''-'' # digits (nat (- i)) else digits (nat i))"

definition hex_digit :: "nat \<Rightarrow> char" where
  "hex_digit d = (if d < 10 then char_of (48 + d) else char_of (87 + d))"

text \<open>Hexadecimal without leading zeros, as \<open>strconv.AppendUint(b, v, 16)\<close> writes it.\<close>

fun hexs :: "nat \<Rightarrow> string" where
  "hexs n = (if n < 16 then [hex_digit n] else hexs (n div 16) @ [hex_digit (n mod 16)])"

declare hexs.simps [simp del]

definition dec_val :: "string \<Rightarrow> nat" where
  "dec_val s = foldl (\<lambda>a c. 10 * a + (case digit_val c of Some d \<Rightarrow> d | None \<Rightarrow> 0)) 0 s"

text \<open>\<open>fmt.Sscanf(s, "%d", &v)\<close> on a token without leading space: an optional sign and a
  non-empty run of digits that fits 64 bits; the rest of the token is not looked at.\<close>

definition sscanf_d :: "string \<Rightarrow> int option" where
  "sscanf_d s =
    (let neg = (s \<noteq> [] \<and> hd s = CHR ''-'');
         body = (if s \<noteq> [] \<and> (hd s = CHR ''-'' \<or> hd s = CHR ''+'') then tl s else s);
         ds = takeWhile is_digit body;
         v = (if neg then - int (dec_val ds) else int (dec_val ds))
     in if ds \<noteq> [] \<and> - (2 ^ 63) \<le> v \<and> v < 2 ^ 63 then Some v else None)"

text \<open>\<open>strconv.Atoi\<close>, \<open>strings.TrimSpace\<close>, and \<open>strings.ToUpper\<close> on ASCII letters.\<close>

definition atoi :: "string \<Rightarrow> int option" where
  "atoi s =
    (let neg = (s \<noteq> [] \<and> hd s = CHR ''-'');
         body = (if s \<noteq> [] \<and> (hd s = CHR ''-'' \<or> hd s = CHR ''+'') then tl s else s);
         v = (if neg then - int (dec_val body) else int (dec_val body))
     in if body \<noteq> [] \<and> list_all is_digit body \<and> - (2 ^ 63) \<le> v \<and> v < 2 ^ 63 then Some v else None)"

lemma space_rune_Nil [simp]: "space_rune [] = 0"
  by (simp add: space_rune_def)

function trim_left :: "string \<Rightarrow> string" where
  "trim_left s = (if space_rune s = 0 then s else trim_left (drop (space_rune s) s))"
  by auto
termination
proof (relation "measure length")
  fix s :: string assume "space_rune s \<noteq> 0"
  then show "(drop (space_rune s) s, s) \<in> measure length" by (cases s) simp_all
qed simp

declare trim_left.simps [simp del]

fun trim_right :: "string \<Rightarrow> string" where
  "trim_right [] = []"
| "trim_right (c # cs) = (if Fields (c # cs) = [] then [] else c # trim_right cs)"

definition trim_space :: "string \<Rightarrow> string" where
  "trim_space s = trim_right (trim_left s)"

definition to_upper :: "string \<Rightarrow> string" where
  "to_upper s = map (\<lambda>c. if 97 \<le> code c \<and> code c \<le> 122 then char_of (code c - 32) else c) s"

section \<open>net and net/netip\<close>

text \<open>A parsed address: four or sixteen bytes, and the zone of an IPv6 one.\<close>

datatype ipaddr = IP4 "byte list" | IP6 "byte list" string

definition octet :: "string \<Rightarrow> byte option" where
  "octet s =
    (if s = [] \<or> \<not> list_all is_digit s \<or> (1 < length s \<and> hd s = CHR ''0'') \<or> 255 < dec_val s then None
     else Some (of_nat (dec_val s)))"

definition those_bytes :: "byte option list \<Rightarrow> byte list option" where
  "those_bytes = those"

definition parse_ipv4 :: "string \<Rightarrow> byte list option" where
  "parse_ipv4 s =
    (let parts = split_on (CHR ''.'') s
     in if length parts = 4 then those_bytes (map octet parts) else None)"

definition hex_run :: "string \<Rightarrow> string" where
  "hex_run s = takeWhile (\<lambda>c. hex_val c \<noteq> None) s"

definition hex_num :: "string \<Rightarrow> nat" where
  "hex_num s = foldl (\<lambda>a c. 16 * a + (case hex_val c of Some d \<Rightarrow> d | None \<Rightarrow> 0)) 0 s"

text \<open>The loop of \<open>netip.parseIPv6\<close>: \<open>n\<close> bounds the iterations (eight two-byte groups),
  \<open>ip\<close> holds the bytes parsed so far, \<open>ell\<close> the position of the ellipsis. It returns the
  bytes, the ellipsis and the unparsed rest.\<close>

fun ipv6_groups :: "nat \<Rightarrow> byte list \<Rightarrow> nat option \<Rightarrow> string \<Rightarrow> (byte list \<times> nat option \<times> string) option" where
  "ipv6_groups 0 ip ell s = Some (ip, ell, s)"
| "ipv6_groups (Suc n) ip ell s =
    (let h = hex_run s; r = drop (length h) s in
     if h = [] \<or> 4 < length h then None
     else if r \<noteq> [] \<and> hd r = CHR ''.'' then
       (if (ell = None \<and> length ip \<noteq> 12) \<or> 16 < length ip + 4 then None
        else (case parse_ipv4 s of None \<Rightarrow> None | Some q \<Rightarrow> Some (ip @ q, ell, [])))
     else
       (let ip' = ip @ [of_nat (hex_num h div 256), of_nat (hex_num h mod 256)] in
        if r = [] then Some (ip', ell, [])
        else if hd r \<noteq> CHR '':'' \<or> length r = 1 then None
        else (let s' = tl r in
          if hd s' = CHR '':'' then
            (if ell \<noteq> None then None
             else if tl s' = [] then Some (ip', Some (length ip'), [])
             else ipv6_groups n ip' (Some (length ip')) (tl s'))
          else ipv6_groups n ip' ell s')))"

definition ipv6_finish :: "(byte list \<times> nat option \<times> string) \<Rightarrow> byte list option" where
  "ipv6_finish t = (case t of (ip, ell, s) \<Rightarrow>
     if s \<noteq> [] then None
     else if length ip < 16 then
       (case ell of None \<Rightarrow> None
        | Some e \<Rightarrow> Some (take e ip @ replicate (16 - length ip) 0 @ drop e ip))
     else if ell \<noteq> None then None else Some ip)"

definition parse_ipv6_body :: "string \<Rightarrow> byte list option" where
  "parse_ipv6_body s =
    (if has_prefix s ''::'' then
       (if length s = 2 then Some (replicate 16 0)
        else (case ipv6_groups 8 [] (Some 0) (drop 2 s) of None \<Rightarrow> None | Some t \<Rightarrow> ipv6_finish t))
     else (case ipv6_groups 8 [] None s of None \<Rightarrow> None | Some t \<Rightarrow> ipv6_finish t))"

definition parse_ipv6 :: "string \<Rightarrow> ipaddr option" where
  "parse_ipv6 s =
    (if contains_byte (CHR ''%'') s then
       (if after (CHR ''%'') s = [] then None
        else map_option (\<lambda>b. IP6 b (after (CHR ''%'') s)) (parse_ipv6_body (before (CHR ''%'') s)))
     else map_option (\<lambda>b. IP6 b []) (parse_ipv6_body s))"

text \<open>\<open>netip.ParseAddr\<close> dispatches on the first of the characters dot, colon and percent.\<close>

definition parse_addr :: "string \<Rightarrow> ipaddr option" where
  "parse_addr s =
    (case dropWhile (\<lambda>c. c \<notin> {CHR ''.'', CHR '':'', CHR ''%''}) s of
       [] \<Rightarrow> None
     | c # _ \<Rightarrow>
        if c = CHR ''.'' then map_option IP4 (parse_ipv4 s)
        else if c = CHR '':'' then parse_ipv6 s
        else None)"

definition v4_prefix :: "byte list" where
  "v4_prefix = replicate 10 0 @ [255, 255]"

text \<open>\<open>net.ParseIP\<close> yields the sixteen-byte form and rejects zones; \<open>To4\<close> recognises the
  IPv4-mapped form.\<close>

definition ParseIP :: "string \<Rightarrow> byte list option" where
  "ParseIP s =
    (case parse_addr s of
       None \<Rightarrow> None
     | Some (IP4 b) \<Rightarrow> Some (v4_prefix @ b)
     | Some (IP6 b z) \<Rightarrow> if z = [] then Some b else None)"

definition To4 :: "byte list \<Rightarrow> byte list option" where
  "To4 ip =
    (if length ip = 4 then Some ip
     else if length ip = 16 \<and> take 12 ip = v4_prefix then Some (drop 12 ip) else None)"

definition cidr_mask :: "nat \<Rightarrow> nat \<Rightarrow> byte list" where
  "cidr_mask n bits =
    map (\<lambda>i. if 8 * (i + 1) \<le> n then 255
             else if n \<le> 8 * i then 0 else of_nat (256 - 2 ^ (8 - (n - 8 * i)))) [0..<bits div 8]"

definition mask_bytes :: "byte list \<Rightarrow> byte list \<Rightarrow> byte list" where
  "mask_bytes ip m = map2 (\<lambda>a b. and a b) ip m"

text \<open>\<open>net.ParseCIDR\<close>: the address in sixteen-byte form and the masked network, in the
  length of the mask.\<close>

record IPNet =
  ipnet_IP :: "byte list"
  ipnet_Mask :: "byte list"

definition ParseCIDR :: "string \<Rightarrow> (byte list \<times> IPNet) option" where
  "ParseCIDR s =
    (let a = before (CHR ''/'') s; m = after (CHR ''/'') s; n = dec_val m in
     if \<not> contains_byte (CHR ''/'') s \<or> m = [] \<or> \<not> list_all is_digit m then None
     else (case parse_addr a of
        None \<Rightarrow> None
      | Some (IP4 b) \<Rightarrow>
         if 32 < n then None
         else Some (v4_prefix @ b, \<lparr>ipnet_IP = mask_bytes b (cidr_mask n 32), ipnet_Mask = cidr_mask n 32\<rparr>)
      | Some (IP6 b z) \<Rightarrow>
         if z \<noteq> [] \<or> 128 < n then None
         else Some (b, \<lparr>ipnet_IP = mask_bytes b (cidr_mask n 128), ipnet_Mask = cidr_mask n 128\<rparr>)))"

text \<open>\<open>net.ParseMAC\<close>: colon or hyphen separated octets, or dotted groups of two octets, of
  6, 8 or 20 octets.\<close>

definition hex2 :: "string \<Rightarrow> byte option" where
  "hex2 s = (case s of [a, b] \<Rightarrow>
      (case (hex_val a, hex_val b) of (Some x, Some y) \<Rightarrow> Some (of_nat (16 * x + y)) | _ \<Rightarrow> None)
    | _ \<Rightarrow> None)"

definition hex4 :: "string \<Rightarrow> byte list option" where
  "hex4 s = (if length s = 4 then those [hex2 (take 2 s), hex2 (drop 2 s)] else None)"

definition mac_len_ok :: "byte list \<Rightarrow> bool" where
  "mac_len_ok b \<longleftrightarrow> length b = 6 \<or> length b = 8 \<or> length b = 20"

definition ParseMAC :: "string \<Rightarrow> byte list option" where
  "ParseMAC s =
    (if length s < 14 then None
     else if s ! 2 = CHR '':'' \<or> s ! 2 = CHR ''-'' then
       (case those (map hex2 (split_on (s ! 2) s)) of
          None \<Rightarrow> None | Some b \<Rightarrow> if mac_len_ok b then Some b else None)
     else if s ! 4 = CHR ''.'' then
       (case those (map hex4 (split_on (CHR ''.'') s)) of
          None \<Rightarrow> None | Some bs \<Rightarrow> if mac_len_ok (concat bs) then Some (concat bs) else None)
     else None)"

definition isIPv6 :: "string \<Rightarrow> bool" where
  "isIPv6 s \<longleftrightarrow> (case ParseIP s of None \<Rightarrow> False | Some ip \<Rightarrow> To4 ip = None)"

definition isIPv4 :: "string \<Rightarrow> bool" where
  "isIPv4 s \<longleftrightarrow> (case ParseIP s of None \<Rightarrow> False | Some ip \<Rightarrow> To4 ip \<noteq> None)"

section \<open>YAML and JSON values\<close>

text \<open>The dynamic values an \<open>interface{}\<close> holds after decoding. A mapping with only string
  keys decodes to \<open>map[string]interface{}\<close> (\<open>YMap\<close>), any other to
  \<open>map[interface{}]interface{}\<close> (\<open>YAnyMap\<close>).\<close>

datatype yval =
    YNull
  | YBool bool
  | YInt int
  | YFloat string
  | YStr string
  | YSeq "yval list"
  | YMap "(string \<times> yval) list"
  | YAnyMap "(yval \<times> yval) list"

section \<open>Decimal numbers\<close>

lemma code_char_of_digit: "n < 10 \<Longrightarrow> code (char_of (48 + n)) = (48 + n :: nat)"
  by (simp add: of_char_of)

lemma digit_val_char: "n < 10 \<Longrightarrow> digit_val (char_of (48 + n)) = Some n"
  by (simp add: digit_val_def code_char_of_digit)

lemma digits_nonempty [simp]: "digits n \<noteq> []"
  by (subst digits.simps) simp

lemma digits_are_digits: "c \<in> set (digits n) \<Longrightarrow> \<exists>d<(10::nat). c = char_of (48 + d)"
proof (induction n rule: digits.induct)
  case (1 n)
  show ?case
  proof (cases "n < 10")
    case False
    then have "c \<in> set (digits (n div 10)) \<or> c = char_of (48 + n mod 10)"
      using "1.prems" by (subst (asm) digits.simps) auto
    then show ?thesis using "1.IH" False by (metis mod_less_divisor zero_less_numeral)
  qed (use "1.prems" in \<open>subst (asm) digits.simps, auto\<close>)
qed

lemma dec_val_snoc: "dec_val (s @ [c]) = 10 * dec_val s + (case digit_val c of Some d \<Rightarrow> d | None \<Rightarrow> 0)"
  by (simp add: dec_val_def)

lemma dec_val_digits [simp]: "dec_val (digits n) = n"
proof (induction n rule: digits.induct)
  case (1 n)
  show ?case
  proof (cases "n < 10")
    case True
    then show ?thesis by (subst digits.simps) (simp add: dec_val_def digit_val_char)
  next
    case False
    then have "dec_val (digits n) = 10 * (n div 10) + n mod 10"
      using 1 by (subst digits.simps) (simp add: dec_val_snoc digit_val_char)
    then show ?thesis by simp
  qed
qed

lemma digits_is_digit: "\<forall>c\<in>set (digits n). is_digit c"
  using digits_are_digits digit_val_char by (metis option.distinct(1))

lemma digits_code: "c \<in> set (digits n) \<Longrightarrow> 48 \<le> code c \<and> code c \<le> (57 :: nat)"
  by (drule digits_are_digits) (auto simp: of_char_of)

lemma digits_hd_sign: "hd (digits n) \<noteq> CHR ''-''" "hd (digits n) \<noteq> CHR ''+''"
  using digits_code[of "hd (digits n)" n] by auto

lemma sscanf_d_itoa:
  assumes "0 \<le> i" "i < 2 ^ 63"
  shows "sscanf_d (itoa i) = Some i"
proof -
  have tw: "takeWhile (\<lambda>c. \<exists>y. digit_val c = Some y) (digits (nat i)) = digits (nat i)"
    using digits_is_digit[of "nat i"] by (auto simp: takeWhile_eq_all_conv)
  show ?thesis
    using assms digits_hd_sign[of "nat i"] by (simp add: tw sscanf_d_def itoa_def Let_def)
qed

section \<open>Tokens\<close>

definition token :: "string \<Rightarrow> bool" where
  "token w \<longleftrightarrow> w \<noteq> [] \<and> (\<forall>i<length w. space_rune (drop i w) = 0)"

lemma space_rune_append_space:
  "v \<noteq> [] \<Longrightarrow> space_rune v = 0 \<Longrightarrow> space_rune (v @ CHR '' '' # r) = 0"
  by (cases v; cases "tl v"; cases "tl (tl v)") (auto simp: space_rune_def split: if_splits list.splits)

lemma space_rune_ascii: "32 < code c \<Longrightarrow> code c < (128::nat) \<Longrightarrow> space_rune (c # r) = 0"
  by (auto simp: space_rune_def split: list.splits)

lemma token_ascii:
  assumes "w \<noteq> []" "\<forall>c\<in>set w. 32 < code c \<and> code c < (128::nat)"
  shows "token w"
  unfolding token_def
proof (intro conjI allI impI)
  fix i assume "i < length w"
  then have "drop i w = w ! i # drop (Suc i) w" "w ! i \<in> set w" by (auto simp: Cons_nth_drop_Suc)
  then show "space_rune (drop i w) = 0" using assms space_rune_ascii by simp
qed (rule assms)

lemma fields_aux_run:
  assumes "\<forall>i<length w. space_rune (drop i w @ rest) = 0"
  shows "fields_aux 0 cur (w @ rest) = fields_aux 0 (rev w @ cur) rest"
  using assms
proof (induction w arbitrary: cur)
  case (Cons c w)
  have "space_rune (c # w @ rest) = 0" using Cons.prems by (metis append_Cons drop0 length_greater_0_conv list.distinct(1))
  moreover have "\<forall>i<length w. space_rune (drop i w @ rest) = 0"
    using Cons.prems by (metis drop_Suc_Cons Suc_less_eq length_Cons)
  ultimately show ?case using Cons.IH by simp
qed simp

lemma Fields_token: "token w \<Longrightarrow> Fields w = [w]"
  using fields_aux_run[of w "[]" "[]"] by (simp add: Fields_def token_def)

lemma Fields_token_space: "token w \<Longrightarrow> Fields (w @ CHR '' '' # rest) = w # Fields rest"
proof -
  assume w: "token w"
  have "\<forall>i<length w. space_rune (drop i w @ CHR '' '' # rest) = 0"
    using w by (auto simp: token_def space_rune_append_space)
  then have "Fields (w @ CHR '' '' # rest) = fields_aux 0 (rev w) (CHR '' '' # rest)"
    using fields_aux_run[of w "CHR '' '' # rest" "[]"] by (simp add: Fields_def)
  moreover have "space_rune (CHR '' '' # rest) = Suc 0"
    by (simp add: space_rune_def)
  ultimately show ?thesis
    using w by (simp add: Fields_def token_def)
qed

lemma token_digits: "token (digits n)"
  using digits_code by (intro token_ascii) (simp, fastforce)

end
