(* ===== verification/ConfigTypes.thy ===== *)
theory ConfigTypes
  imports GoStd
begin

text \<open>
  The configuration data model of \<open>config/config.go\<close>: one record per Go struct, in an order
  in which every struct follows those it mentions, with the fields in the order of the source.
  A pointer field is an option, a \<open>map[string]*T\<close> a \<open>T option gomap\<close>, an
  \<open>interface{}\<close> a \<open>yval\<close>; \<open>LinkLocal\<close> keeps the nil slice apart from the empty one. The
  constants \<open>zero_T\<close> are the Go zero values.
\<close>

section \<open>Structs\<close>

record Match =
  match_Driver :: string
  match_MacAddress :: string
  match_Name :: string

record Address =
  addr_CIDR :: string
  addr_Lifetime :: string
  addr_Label :: string

record DHCPOverrides =
  dhcpo_UseDNS :: "bool option"
  dhcpo_UseNTP :: "bool option"
  dhcpo_SendHostname :: "bool option"
  dhcpo_UseHostname :: "bool option"
  dhcpo_UseMTU :: "bool option"
  dhcpo_Hostname :: string
  dhcpo_UseRoutes :: "bool option"
  dhcpo_RouteMetric :: int
  dhcpo_UseDomains :: yval

record RouteEncap =
  encap_Type :: string
  encap_Mode :: string
  encap_Segments :: "string list"

record Route =
  route_To :: string
  route_Via :: string
  route_From :: string
  route_Metric :: int
  route_Table :: int
  route_Scope :: string
  route_Type :: string
  route_OnLink :: "bool option"
  route_MTU :: int
  route_Encap :: "RouteEncap option"

record RoutingPolicy =
  rp_From :: string
  rp_To :: string
  rp_Table :: int
  rp_Priority :: int
  rp_Mark :: int
  rp_TypeOfService :: int

record Nameservers =
  dns_Addresses :: "string list"
  dns_Search :: "string list"

record RAOverrides =
  rao_UseDNS :: "bool option"
  rao_UseDomains :: yval
  rao_Table :: int

record Auth =
  auth_KeyManagement :: string
  auth_Password :: string
  auth_Method :: string
  auth_Identity :: string
  auth_AnonymousIdentity :: string
  auth_CACertificate :: string
  auth_ClientCertificate :: string
  auth_ClientKey :: string
  auth_ClientKeyPassword :: string
  auth_Phase2Auth :: string

record NDProxyRule =
  rule_Prefix :: string
  rule_Neighbor :: string
  rule_Mode :: string

record NDProxy =
  ndp_Addresses :: "string list"
  ndp_Router :: "bool option"
  ndp_Rules :: "NDProxyRule option list"

record VPPDevice =
  vpp_Mode :: string
  vpp_HostIf :: string
  vpp_PCI :: string
  vpp_RxQueues :: int
  vpp_TxQueues :: int
  vpp_NumRxDesc :: int
  vpp_NumTxDesc :: int
  vpp_HostNS :: string
  vpp_Socket :: string
  vpp_ID :: int
  vpp_Role :: string
  vpp_RingSize :: int
  vpp_BdID :: int

record Ethernet =
  eth_Match :: "Match option"
  eth_SetName :: string
  eth_Addresses :: "Address list"
  eth_DHCP4 :: bool
  eth_DHCP6 :: bool
  eth_DHCP4Overrides :: "DHCPOverrides option"
  eth_DHCP6Overrides :: "DHCPOverrides option"
  eth_Gateway4 :: string
  eth_Gateway6 :: string
  eth_MTU :: int
  eth_IPv6MTU :: int
  eth_MacAddress :: string
  eth_Routes :: "Route option list"
  eth_RoutingPolicy :: "RoutingPolicy option list"
  eth_Nameservers :: "Nameservers option"
  eth_Optional :: bool
  eth_AcceptRA :: "bool option"
  eth_RAOverrides :: "RAOverrides option"
  eth_IPv6Privacy :: "bool option"
  eth_IPv6AddrGen :: string
  eth_IPv6AddrToken :: string
  eth_LinkLocal :: "string list option"
  eth_Wakeonlan :: bool
  eth_EmitLLDP :: "bool option"
  eth_InfinibandMode :: string
  eth_Auth :: "Auth option"
  eth_Link :: string
  eth_VirtualFunctionCount :: int
  eth_EmbeddedSwitchMode :: string
  eth_DelayVFRebind :: "bool option"
  eth_ReceiveChecksumOffload :: "bool option"
  eth_TransmitChecksumOffload :: "bool option"
  eth_TCPSegmentationOffload :: "bool option"
  eth_TCP6SegmentationOffload :: "bool option"
  eth_GenericSegmentationOffload :: "bool option"
  eth_GenericReceiveOffload :: "bool option"
  eth_LargeReceiveOffload :: "bool option"
  eth_ActivationMode :: string
  eth_DHCPIdentifier :: string
  eth_IgnoreCarrier :: "bool option"
  eth_Critical :: "bool option"
  eth_OptionalAddresses :: "string list"
  eth_NeighSuppress :: "bool option"
  eth_Hairpin :: "bool option"
  eth_PortMacLearning :: "bool option"
  eth_NDProxy :: "NDProxy option"
  eth_Renderer :: string
  eth_VPP :: "VPPDevice option"

record AccessPoint =
  ap_Password :: string
  ap_Mode :: string
  ap_Band :: string
  ap_Channel :: int
  ap_BSSID :: string
  ap_Hidden :: bool
  ap_Auth :: "Auth option"

record Wifi =
  wifi_AccessPoints :: "AccessPoint option gomap"
  wifi_Addresses :: "Address list"
  wifi_DHCP4 :: bool
  wifi_DHCP6 :: bool
  wifi_Gateway4 :: string
  wifi_Gateway6 :: string
  wifi_MTU :: int
  wifi_Routes :: "Route option list"
  wifi_Nameservers :: "Nameservers option"
  wifi_AcceptRA :: "bool option"
  wifi_LinkLocal :: "string list option"
  wifi_RegulatoryDomain :: string
  wifi_Wakeonwlan :: "string list"

record VirtualEthernet =
  virt_Peer :: string
  virt_Addresses :: "Address list"
  virt_Routes :: "Route option list"
  virt_MTU :: int
  virt_MacAddress :: string
  virt_Nameservers :: "Nameservers option"

record VethPeer =
  peer_Name :: string
  peer_Netns :: string
  peer_Addresses :: "Address list"
  peer_Routes :: "Route option list"
  peer_MTU :: int
  peer_MacAddress :: string

record VethDevice =
  veth_Addresses :: "Address list"
  veth_Routes :: "Route option list"
  veth_MTU :: int
  veth_MacAddress :: string
  veth_Peer :: "VethPeer option"
  veth_Nameservers :: "Nameservers option"

record MacvlanDevice =
  macvlan_Link :: string
  macvlan_Mode :: string
  macvlan_Addresses :: "Address list"
  macvlan_Routes :: "Route option list"
  macvlan_MTU :: int
  macvlan_MacAddress :: string
  macvlan_Nameservers :: "Nameservers option"

record IpvlanDevice =
  ipvlan_Link :: string
  ipvlan_Mode :: string
  ipvlan_Addresses :: "Address list"
  ipvlan_Routes :: "Route option list"
  ipvlan_MTU :: int
  ipvlan_Nameservers :: "Nameservers option"

record BridgeParameters =
  brp_STP :: "bool option"
  brp_ForwardDelay :: int
  brp_HelloTime :: int
  brp_MaxAge :: int
  brp_Priority :: int
  brp_AgeingTime :: int
  brp_PathCost :: "int gomap"
  brp_PortPriority :: "int gomap"

record FDBEntry =
  fdb_MAC :: string
  fdb_Dst :: string
  fdb_VNI :: int
  fdb_State :: string

record NeighEntry =
  neigh_IP :: string
  neigh_MAC :: string
  neigh_State :: string

record Bridge =
  br_Interfaces :: "string list"
  br_Addresses :: "Address list"
  br_Routes :: "Route option list"
  br_MTU :: int
  br_MacAddress :: string
  br_Parameters :: "BridgeParameters option"
  br_Nameservers :: "Nameservers option"
  br_DHCP4 :: bool
  br_DHCP6 :: bool
  br_VlanFiltering :: "bool option"
  br_FDB :: "FDBEntry option list"
  br_Neighbors :: "NeighEntry option list"
  br_NDProxy :: "NDProxy option"
  br_Renderer :: string
  br_VPP :: "VPPDevice option"

record BondParameters =
  bondp_Mode :: string
  bondp_LACPRate :: string
  bondp_MIIMonitorInterval :: int
  bondp_MinLinks :: int
  bondp_TransmitHashPolicy :: string
  bondp_ADSelect :: string
  bondp_AllSlavesActive :: bool
  bondp_ARPInterval :: int
  bondp_ARPIPTargets :: "string list"
  bondp_ARPValidate :: string
  bondp_ARPAllTargets :: string
  bondp_UpDelay :: int
  bondp_DownDelay :: int
  bondp_FailOverMACPolicy :: string
  bondp_GratuitousARP :: int
  bondp_PacketsPerSlave :: int
  bondp_PrimaryReselectPolicy :: string
  bondp_ResendIGMP :: int
  bondp_LearnPacketInterval :: int
  bondp_Primary :: string

record Bond =
  bond_Interfaces :: "string list"
  bond_Addresses :: "Address list"
  bond_Routes :: "Route option list"
  bond_MTU :: int
  bond_MacAddress :: string
  bond_Parameters :: "BondParameters option"
  bond_Nameservers :: "Nameservers option"
  bond_DHCP4 :: bool
  bond_DHCP6 :: bool
  bond_NDProxy :: "NDProxy option"
  bond_Renderer :: string
  bond_VPP :: "VPPDevice option"

record Vlan =
  vlan_ID :: int
  vlan_Link :: string
  vlan_Addresses :: "Address list"
  vlan_Routes :: "Route option list"
  vlan_MTU :: int
  vlan_MacAddress :: string
  vlan_Nameservers :: "Nameservers option"
  vlan_DHCP4 :: bool
  vlan_DHCP6 :: bool
  vlan_NDProxy :: "NDProxy option"
  vlan_Renderer :: string
  vlan_VPP :: "VPPDevice option"

record Vxlan =
  vxlan_ID :: int
  vxlan_Link :: string
  vxlan_Local :: string
  vxlan_Remote :: string
  vxlan_Group :: string
  vxlan_Port :: int
  vxlan_DestPort :: int
  vxlan_PortRange :: "int list"
  vxlan_TTL :: int
  vxlan_TOS :: int
  vxlan_Ageing :: int
  vxlan_Limit :: int
  vxlan_Learning :: "bool option"
  vxlan_ARPProxy :: "bool option"
  vxlan_NeighSuppress :: "bool option"
  vxlan_L2miss :: "bool option"
  vxlan_L3miss :: "bool option"
  vxlan_RSC :: "bool option"
  vxlan_NoAge :: bool
  vxlan_GBP :: bool
  vxlan_External :: bool
  vxlan_UDPChecksum :: bool
  vxlan_UDP6ZeroCSumTx :: bool
  vxlan_UDP6ZeroCSumRx :: bool
  vxlan_Addresses :: "Address list"
  vxlan_Routes :: "Route option list"
  vxlan_MTU :: int
  vxlan_MacAddress :: string
  vxlan_FDB :: "FDBEntry option list"
  vxlan_Neighbors :: "NeighEntry option list"
  vxlan_VPP :: "VPPDevice option"

record WireguardKeys =
  wgkeys_Public :: string
  wgkeys_Shared :: string

record TunnelWireguardPeer =
  wgpeer_Keys :: "WireguardKeys option"
  wgpeer_Endpoint :: string
  wgpeer_AllowedIPs :: "string list"
  wgpeer_Keepalive :: int

record Tunnel =
  tun_Mode :: string
  tun_Local :: string
  tun_Remote :: string
  tun_TTL :: int
  tun_TOS :: int
  tun_Key :: string
  tun_InputKey :: string
  tun_OutputKey :: string
  tun_Addresses :: "Address list"
  tun_Routes :: "Route option list"
  tun_MTU :: int
  tun_Port :: int
  tun_Mark :: int
  tun_Peers :: "TunnelWireguardPeer option list"
  tun_ID :: int
  tun_Link :: string
  tun_Group :: string
  tun_DestPort :: int
  tun_PortRange :: "int list"
  tun_MacLearning :: "bool option"
  tun_NeighSuppress :: "bool option"
  tun_Ageing :: int
  tun_Limit :: int
  tun_ARPProxy :: "bool option"
  tun_L2miss :: "bool option"
  tun_L3miss :: "bool option"
  tun_RSC :: "bool option"
  tun_NoAge :: bool
  tun_GBP :: bool
  tun_External :: bool
  tun_UDPChecksum :: bool
  tun_UDP6ZeroCSumTx :: bool
  tun_UDP6ZeroCSumRx :: bool
  tun_MacAddress :: string
  tun_FDB :: "FDBEntry option list"
  tun_Neighbors :: "NeighEntry option list"
  tun_Renderer :: string
  tun_VPP :: "VPPDevice option"

record Vrf =
  vrf_Table :: int
  vrf_Interfaces :: "string list"
  vrf_Routes :: "Route option list"
  vrf_RoutingPolicy :: "RoutingPolicy option list"

record TunTapDevice =
  tuntap_Addresses :: "Address list"
  tuntap_Routes :: "Route option list"
  tuntap_MTU :: int
  tuntap_User :: string
  tuntap_Group :: string
  tuntap_MultiQueue :: bool
  tuntap_Nameservers :: "Nameservers option"

record VPPDpdk =
  dpdk_UioDriver :: string
  dpdk_Dev :: "string list"

record VPPStartup =
  startup_MainCore :: "int option"
  startup_Workers :: "int option"
  startup_CorelistWorkers :: string
  startup_Hugepages :: int
  startup_Dpdk :: "VPPDpdk option"

record NatInterface =
  nif_Name :: string
  nif_Role :: string

record NatPool =
  pool_Start :: string
  pool_End :: string
  pool_TwiceNat :: "bool option"
  pool_VRF :: int

record NatStatic =
  nstat_Proto :: string
  nstat_Local :: string
  nstat_LocalPort :: int
  nstat_External :: string
  nstat_ExternalInterface :: string
  nstat_ExternalPort :: int
  nstat_TwiceNat :: "bool option"
  nstat_VRF :: int

record Nat44 =
  nat44_Enable :: "bool option"
  nat44_Mode :: string
  nat44_Sessions :: int
  nat44_InsideVRF :: int
  nat44_OutsideVRF :: int
  nat44_Interfaces :: "NatInterface option list"
  nat44_Pools :: "NatPool option list"
  nat44_Static :: "NatStatic option list"

record Nat64 =
  nat64_Enable :: "bool option"
  nat64_Prefix :: string
  nat64_Interfaces :: "NatInterface option list"
  nat64_Pools :: "NatPool option list"

record Nat66Static =
  n66s_Local :: string
  n66s_External :: string
  n66s_VRF :: int

record Nat66 =
  nat66_Static :: "Nat66Static option list"

record VPPNat =
  nat_Nat44 :: "Nat44 option"
  nat_Nat64 :: "Nat64 option"
  nat_Nat66 :: "Nat66 option"

record VPPGlobal =
  vppg_APISocket :: string
  vppg_Reconnect :: "bool option"
  vppg_Startup :: "VPPStartup option"
  vppg_NAT :: "VPPNat option"

record SRv6LocalSID =
  sid_SID :: string
  sid_Action :: string
  sid_Table :: int
  sid_VRFTable :: int
  sid_NH4 :: string
  sid_NH6 :: string
  sid_IIF :: string
  sid_OIF :: string
  sid_Segments :: "string list"
  sid_Dev :: string

record SRv6Config =
  srv6_Enabled :: "bool option"
  srv6_Interfaces :: "string list"
  srv6_Device :: string
  srv6_LocalSIDs :: "SRv6LocalSID option list"

record Namespace =
  ns_Loopback :: "Ethernet option"
  ns_Ethernets :: "Ethernet option gomap"
  ns_Wifis :: "Wifi option gomap"
  ns_DummyDevices :: "Ethernet option gomap"
  ns_VirtualEthernets :: "VirtualEthernet option gomap"
  ns_VethDevices :: "VethDevice option gomap"
  ns_MacvlanDevices :: "MacvlanDevice option gomap"
  ns_MacvtapDevices :: "MacvlanDevice option gomap"
  ns_IpvlanDevices :: "IpvlanDevice option gomap"
  ns_Bridges :: "Bridge option gomap"
  ns_Bonds :: "Bond option gomap"
  ns_Vlans :: "Vlan option gomap"
  ns_Vxlans :: "Vxlan option gomap"
  ns_Tunnels :: "Tunnel option gomap"
  ns_Vrfs :: "Vrf option gomap"
  ns_TunDevices :: "TunTapDevice option gomap"
  ns_TapDevices :: "TunTapDevice option gomap"
  ns_SRv6 :: "SRv6Config option"
  ns_PostScript :: string

record Network =
  net_Version :: int
  net_Renderer :: string
  net_Ethernets :: "Ethernet option gomap"
  net_Wifis :: "Wifi option gomap"
  net_DummyDevices :: "Ethernet option gomap"
  net_VirtualEthernets :: "VirtualEthernet option gomap"
  net_VethDevices :: "VethDevice option gomap"
  net_MacvlanDevices :: "MacvlanDevice option gomap"
  net_MacvtapDevices :: "MacvlanDevice option gomap"
  net_IpvlanDevices :: "IpvlanDevice option gomap"
  net_Bridges :: "Bridge option gomap"
  net_Bonds :: "Bond option gomap"
  net_Vlans :: "Vlan option gomap"
  net_Vxlans :: "Vxlan option gomap"
  net_Tunnels :: "Tunnel option gomap"
  net_Vrfs :: "Vrf option gomap"
  net_TunDevices :: "TunTapDevice option gomap"
  net_TapDevices :: "TunTapDevice option gomap"
  net_VPP :: "VPPGlobal option"
  net_SRv6 :: "SRv6Config option"
  net_Netns :: "Namespace option gomap"

record Config =
  cfg_Network :: Network
  cfg_Netns :: "Namespace option gomap"

record addressOptions =
  addropts_Lifetime :: yval
  addropts_Label :: string

section \<open>Zero values\<close>

definition zero_Match :: Match where
  "zero_Match = \<lparr>match_Driver = '''',
     match_MacAddress = '''',
     match_Name = ''''\<rparr>"

definition zero_Address :: Address where
  "zero_Address = \<lparr>addr_CIDR = '''',
     addr_Lifetime = '''',
     addr_Label = ''''\<rparr>"

definition zero_DHCPOverrides :: DHCPOverrides where
  "zero_DHCPOverrides = \<lparr>dhcpo_UseDNS = None,
     dhcpo_UseNTP = None,
     dhcpo_SendHostname = None,
     dhcpo_UseHostname = None,
     dhcpo_UseMTU = None,
     dhcpo_Hostname = '''',
     dhcpo_UseRoutes = None,
     dhcpo_RouteMetric = 0,
     dhcpo_UseDomains = YNull\<rparr>"

definition zero_RouteEncap :: RouteEncap where
  "zero_RouteEncap = \<lparr>encap_Type = '''',
     encap_Mode = '''',
     encap_Segments = []\<rparr>"

definition zero_Route :: Route where
  "zero_Route = \<lparr>route_To = '''',
     route_Via = '''',
     route_From = '''',
     route_Metric = 0,
     route_Table = 0,
     route_Scope = '''',
     route_Type = '''',
     route_OnLink = None,
     route_MTU = 0,
     route_Encap = None\<rparr>"

definition zero_RoutingPolicy :: RoutingPolicy where
  "zero_RoutingPolicy = \<lparr>rp_From = '''',
     rp_To = '''',
     rp_Table = 0,
     rp_Priority = 0,
     rp_Mark = 0,
     rp_TypeOfService = 0\<rparr>"

definition zero_Nameservers :: Nameservers where
  "zero_Nameservers = \<lparr>dns_Addresses = [],
     dns_Search = []\<rparr>"

definition zero_RAOverrides :: RAOverrides where
  "zero_RAOverrides = \<lparr>rao_UseDNS = None,
     rao_UseDomains = YNull,
     rao_Table = 0\<rparr>"

definition zero_Auth :: Auth where
  "zero_Auth = \<lparr>auth_KeyManagement = '''',
     auth_Password = '''',
     auth_Method = '''',
     auth_Identity = '''',
     auth_AnonymousIdentity = '''',
     auth_CACertificate = '''',
     auth_ClientCertificate = '''',
     auth_ClientKey = '''',
     auth_ClientKeyPassword = '''',
     auth_Phase2Auth = ''''\<rparr>"

definition zero_NDProxyRule :: NDProxyRule where
  "zero_NDProxyRule = \<lparr>rule_Prefix = '''',
     rule_Neighbor = '''',
     rule_Mode = ''''\<rparr>"

definition zero_NDProxy :: NDProxy where
  "zero_NDProxy = \<lparr>ndp_Addresses = [],
     ndp_Router = None,
     ndp_Rules = []\<rparr>"

definition zero_VPPDevice :: VPPDevice where
  "zero_VPPDevice = \<lparr>vpp_Mode = '''',
     vpp_HostIf = '''',
     vpp_PCI = '''',
     vpp_RxQueues = 0,
     vpp_TxQueues = 0,
     vpp_NumRxDesc = 0,
     vpp_NumTxDesc = 0,
     vpp_HostNS = '''',
     vpp_Socket = '''',
     vpp_ID = 0,
     vpp_Role = '''',
     vpp_RingSize = 0,
     vpp_BdID = 0\<rparr>"

definition zero_Ethernet :: Ethernet where
  "zero_Ethernet = \<lparr>eth_Match = None,
     eth_SetName = '''',
     eth_Addresses = [],
     eth_DHCP4 = False,
     eth_DHCP6 = False,
     eth_DHCP4Overrides = None,
     eth_DHCP6Overrides = None,
     eth_Gateway4 = '''',
     eth_Gateway6 = '''',
     eth_MTU = 0,
     eth_IPv6MTU = 0,
     eth_MacAddress = '''',
     eth_Routes = [],
     eth_RoutingPolicy = [],
     eth_Nameservers = None,
     eth_Optional = False,
     eth_AcceptRA = None,
     eth_RAOverrides = None,
     eth_IPv6Privacy = None,
     eth_IPv6AddrGen = '''',
     eth_IPv6AddrToken = '''',
     eth_LinkLocal = None,
     eth_Wakeonlan = False,
     eth_EmitLLDP = None,
     eth_InfinibandMode = '''',
     eth_Auth = None,
     eth_Link = '''',
     eth_VirtualFunctionCount = 0,
     eth_EmbeddedSwitchMode = '''',
     eth_DelayVFRebind = None,
     eth_ReceiveChecksumOffload = None,
     eth_TransmitChecksumOffload = None,
     eth_TCPSegmentationOffload = None,
     eth_TCP6SegmentationOffload = None,
     eth_GenericSegmentationOffload = None,
     eth_GenericReceiveOffload = None,
     eth_LargeReceiveOffload = None,
     eth_ActivationMode = '''',
     eth_DHCPIdentifier = '''',
     eth_IgnoreCarrier = None,
     eth_Critical = None,
     eth_OptionalAddresses = [],
     eth_NeighSuppress = None,
     eth_Hairpin = None,
     eth_PortMacLearning = None,
     eth_NDProxy = None,
     eth_Renderer = '''',
     eth_VPP = None\<rparr>"

definition zero_AccessPoint :: AccessPoint where
  "zero_AccessPoint = \<lparr>ap_Password = '''',
     ap_Mode = '''',
     ap_Band = '''',
     ap_Channel = 0,
     ap_BSSID = '''',
     ap_Hidden = False,
     ap_Auth = None\<rparr>"

definition zero_Wifi :: Wifi where
  "zero_Wifi = \<lparr>wifi_AccessPoints = None,
     wifi_Addresses = [],
     wifi_DHCP4 = False,
     wifi_DHCP6 = False,
     wifi_Gateway4 = '''',
     wifi_Gateway6 = '''',
     wifi_MTU = 0,
     wifi_Routes = [],
     wifi_Nameservers = None,
     wifi_AcceptRA = None,
     wifi_LinkLocal = None,
     wifi_RegulatoryDomain = '''',
     wifi_Wakeonwlan = []\<rparr>"

definition zero_VirtualEthernet :: VirtualEthernet where
  "zero_VirtualEthernet = \<lparr>virt_Peer = '''',
     virt_Addresses = [],
     virt_Routes = [],
     virt_MTU = 0,
     virt_MacAddress = '''',
     virt_Nameservers = None\<rparr>"

definition zero_VethPeer :: VethPeer where
  "zero_VethPeer = \<lparr>peer_Name = '''',
     peer_Netns = '''',
     peer_Addresses = [],
     peer_Routes = [],
     peer_MTU = 0,
     peer_MacAddress = ''''\<rparr>"

definition zero_VethDevice :: VethDevice where
  "zero_VethDevice = \<lparr>veth_Addresses = [],
     veth_Routes = [],
     veth_MTU = 0,
     veth_MacAddress = '''',
     veth_Peer = None,
     veth_Nameservers = None\<rparr>"

definition zero_MacvlanDevice :: MacvlanDevice where
  "zero_MacvlanDevice = \<lparr>macvlan_Link = '''',
     macvlan_Mode = '''',
     macvlan_Addresses = [],
     macvlan_Routes = [],
     macvlan_MTU = 0,
     macvlan_MacAddress = '''',
     macvlan_Nameservers = None\<rparr>"

definition zero_IpvlanDevice :: IpvlanDevice where
  "zero_IpvlanDevice = \<lparr>ipvlan_Link = '''',
     ipvlan_Mode = '''',
     ipvlan_Addresses = [],
     ipvlan_Routes = [],
     ipvlan_MTU = 0,
     ipvlan_Nameservers = None\<rparr>"

definition zero_BridgeParameters :: BridgeParameters where
  "zero_BridgeParameters = \<lparr>brp_STP = None,
     brp_ForwardDelay = 0,
     brp_HelloTime = 0,
     brp_MaxAge = 0,
     brp_Priority = 0,
     brp_AgeingTime = 0,
     brp_PathCost = None,
     brp_PortPriority = None\<rparr>"

definition zero_FDBEntry :: FDBEntry where
  "zero_FDBEntry = \<lparr>fdb_MAC = '''',
     fdb_Dst = '''',
     fdb_VNI = 0,
     fdb_State = ''''\<rparr>"

definition zero_NeighEntry :: NeighEntry where
  "zero_NeighEntry = \<lparr>neigh_IP = '''',
     neigh_MAC = '''',
     neigh_State = ''''\<rparr>"

definition zero_Bridge :: Bridge where
  "zero_Bridge = \<lparr>br_Interfaces = [],
     br_Addresses = [],
     br_Routes = [],
     br_MTU = 0,
     br_MacAddress = '''',
     br_Parameters = None,
     br_Nameservers = None,
     br_DHCP4 = False,
     br_DHCP6 = False,
     br_VlanFiltering = None,
     br_FDB = [],
     br_Neighbors = [],
     br_NDProxy = None,
     br_Renderer = '''',
     br_VPP = None\<rparr>"

definition zero_BondParameters :: BondParameters where
  "zero_BondParameters = \<lparr>bondp_Mode = '''',
     bondp_LACPRate = '''',
     bondp_MIIMonitorInterval = 0,
     bondp_MinLinks = 0,
     bondp_TransmitHashPolicy = '''',
     bondp_ADSelect = '''',
     bondp_AllSlavesActive = False,
     bondp_ARPInterval = 0,
     bondp_ARPIPTargets = [],
     bondp_ARPValidate = '''',
     bondp_ARPAllTargets = '''',
     bondp_UpDelay = 0,
     bondp_DownDelay = 0,
     bondp_FailOverMACPolicy = '''',
     bondp_GratuitousARP = 0,
     bondp_PacketsPerSlave = 0,
     bondp_PrimaryReselectPolicy = '''',
     bondp_ResendIGMP = 0,
     bondp_LearnPacketInterval = 0,
     bondp_Primary = ''''\<rparr>"

definition zero_Bond :: Bond where
  "zero_Bond = \<lparr>bond_Interfaces = [],
     bond_Addresses = [],
     bond_Routes = [],
     bond_MTU = 0,
     bond_MacAddress = '''',
     bond_Parameters = None,
     bond_Nameservers = None,
     bond_DHCP4 = False,
     bond_DHCP6 = False,
     bond_NDProxy = None,
     bond_Renderer = '''',
     bond_VPP = None\<rparr>"

definition zero_Vlan :: Vlan where
  "zero_Vlan = \<lparr>vlan_ID = 0,
     vlan_Link = '''',
     vlan_Addresses = [],
     vlan_Routes = [],
     vlan_MTU = 0,
     vlan_MacAddress = '''',
     vlan_Nameservers = None,
     vlan_DHCP4 = False,
     vlan_DHCP6 = False,
     vlan_NDProxy = None,
     vlan_Renderer = '''',
     vlan_VPP = None\<rparr>"

definition zero_Vxlan :: Vxlan where
  "zero_Vxlan = \<lparr>vxlan_ID = 0,
     vxlan_Link = '''',
     vxlan_Local = '''',
     vxlan_Remote = '''',
     vxlan_Group = '''',
     vxlan_Port = 0,
     vxlan_DestPort = 0,
     vxlan_PortRange = [],
     vxlan_TTL = 0,
     vxlan_TOS = 0,
     vxlan_Ageing = 0,
     vxlan_Limit = 0,
     vxlan_Learning = None,
     vxlan_ARPProxy = None,
     vxlan_NeighSuppress = None,
     vxlan_L2miss = None,
     vxlan_L3miss = None,
     vxlan_RSC = None,
     vxlan_NoAge = False,
     vxlan_GBP = False,
     vxlan_External = False,
     vxlan_UDPChecksum = False,
     vxlan_UDP6ZeroCSumTx = False,
     vxlan_UDP6ZeroCSumRx = False,
     vxlan_Addresses = [],
     vxlan_Routes = [],
     vxlan_MTU = 0,
     vxlan_MacAddress = '''',
     vxlan_FDB = [],
     vxlan_Neighbors = [],
     vxlan_VPP = None\<rparr>"

definition zero_WireguardKeys :: WireguardKeys where
  "zero_WireguardKeys = \<lparr>wgkeys_Public = '''',
     wgkeys_Shared = ''''\<rparr>"

definition zero_TunnelWireguardPeer :: TunnelWireguardPeer where
  "zero_TunnelWireguardPeer = \<lparr>wgpeer_Keys = None,
     wgpeer_Endpoint = '''',
     wgpeer_AllowedIPs = [],
     wgpeer_Keepalive = 0\<rparr>"

definition zero_Tunnel :: Tunnel where
  "zero_Tunnel = \<lparr>tun_Mode = '''',
     tun_Local = '''',
     tun_Remote = '''',
     tun_TTL = 0,
     tun_TOS = 0,
     tun_Key = '''',
     tun_InputKey = '''',
     tun_OutputKey = '''',
     tun_Addresses = [],
     tun_Routes = [],
     tun_MTU = 0,
     tun_Port = 0,
     tun_Mark = 0,
     tun_Peers = [],
     tun_ID = 0,
     tun_Link = '''',
     tun_Group = '''',
     tun_DestPort = 0,
     tun_PortRange = [],
     tun_MacLearning = None,
     tun_NeighSuppress = None,
     tun_Ageing = 0,
     tun_Limit = 0,
     tun_ARPProxy = None,
     tun_L2miss = None,
     tun_L3miss = None,
     tun_RSC = None,
     tun_NoAge = False,
     tun_GBP = False,
     tun_External = False,
     tun_UDPChecksum = False,
     tun_UDP6ZeroCSumTx = False,
     tun_UDP6ZeroCSumRx = False,
     tun_MacAddress = '''',
     tun_FDB = [],
     tun_Neighbors = [],
     tun_Renderer = '''',
     tun_VPP = None\<rparr>"

definition zero_Vrf :: Vrf where
  "zero_Vrf = \<lparr>vrf_Table = 0,
     vrf_Interfaces = [],
     vrf_Routes = [],
     vrf_RoutingPolicy = []\<rparr>"

definition zero_TunTapDevice :: TunTapDevice where
  "zero_TunTapDevice = \<lparr>tuntap_Addresses = [],
     tuntap_Routes = [],
     tuntap_MTU = 0,
     tuntap_User = '''',
     tuntap_Group = '''',
     tuntap_MultiQueue = False,
     tuntap_Nameservers = None\<rparr>"

definition zero_VPPDpdk :: VPPDpdk where
  "zero_VPPDpdk = \<lparr>dpdk_UioDriver = '''',
     dpdk_Dev = []\<rparr>"

definition zero_VPPStartup :: VPPStartup where
  "zero_VPPStartup = \<lparr>startup_MainCore = None,
     startup_Workers = None,
     startup_CorelistWorkers = '''',
     startup_Hugepages = 0,
     startup_Dpdk = None\<rparr>"

definition zero_NatInterface :: NatInterface where
  "zero_NatInterface = \<lparr>nif_Name = '''',
     nif_Role = ''''\<rparr>"

definition zero_NatPool :: NatPool where
  "zero_NatPool = \<lparr>pool_Start = '''',
     pool_End = '''',
     pool_TwiceNat = None,
     pool_VRF = 0\<rparr>"

definition zero_NatStatic :: NatStatic where
  "zero_NatStatic = \<lparr>nstat_Proto = '''',
     nstat_Local = '''',
     nstat_LocalPort = 0,
     nstat_External = '''',
     nstat_ExternalInterface = '''',
     nstat_ExternalPort = 0,
     nstat_TwiceNat = None,
     nstat_VRF = 0\<rparr>"

definition zero_Nat44 :: Nat44 where
  "zero_Nat44 = \<lparr>nat44_Enable = None,
     nat44_Mode = '''',
     nat44_Sessions = 0,
     nat44_InsideVRF = 0,
     nat44_OutsideVRF = 0,
     nat44_Interfaces = [],
     nat44_Pools = [],
     nat44_Static = []\<rparr>"

definition zero_Nat64 :: Nat64 where
  "zero_Nat64 = \<lparr>nat64_Enable = None,
     nat64_Prefix = '''',
     nat64_Interfaces = [],
     nat64_Pools = []\<rparr>"

definition zero_Nat66Static :: Nat66Static where
  "zero_Nat66Static = \<lparr>n66s_Local = '''',
     n66s_External = '''',
     n66s_VRF = 0\<rparr>"

definition zero_Nat66 :: Nat66 where
  "zero_Nat66 = \<lparr>nat66_Static = []\<rparr>"

definition zero_VPPNat :: VPPNat where
  "zero_VPPNat = \<lparr>nat_Nat44 = None,
     nat_Nat64 = None,
     nat_Nat66 = None\<rparr>"

definition zero_VPPGlobal :: VPPGlobal where
  "zero_VPPGlobal = \<lparr>vppg_APISocket = '''',
     vppg_Reconnect = None,
     vppg_Startup = None,
     vppg_NAT = None\<rparr>"

definition zero_SRv6LocalSID :: SRv6LocalSID where
  "zero_SRv6LocalSID = \<lparr>sid_SID = '''',
     sid_Action = '''',
     sid_Table = 0,
     sid_VRFTable = 0,
     sid_NH4 = '''',
     sid_NH6 = '''',
     sid_IIF = '''',
     sid_OIF = '''',
     sid_Segments = [],
     sid_Dev = ''''\<rparr>"

definition zero_SRv6Config :: SRv6Config where
  "zero_SRv6Config = \<lparr>srv6_Enabled = None,
     srv6_Interfaces = [],
     srv6_Device = '''',
     srv6_LocalSIDs = []\<rparr>"

definition zero_Namespace :: Namespace where
  "zero_Namespace = \<lparr>ns_Loopback = None,
     ns_Ethernets = None,
     ns_Wifis = None,
     ns_DummyDevices = None,
     ns_VirtualEthernets = None,
     ns_VethDevices = None,
     ns_MacvlanDevices = None,
     ns_MacvtapDevices = None,
     ns_IpvlanDevices = None,
     ns_Bridges = None,
     ns_Bonds = None,
     ns_Vlans = None,
     ns_Vxlans = None,
     ns_Tunnels = None,
     ns_Vrfs = None,
     ns_TunDevices = None,
     ns_TapDevices = None,
     ns_SRv6 = None,
     ns_PostScript = ''''\<rparr>"

definition zero_Network :: Network where
  "zero_Network = \<lparr>net_Version = 0,
     net_Renderer = '''',
     net_Ethernets = None,
     net_Wifis = None,
     net_DummyDevices = None,
     net_VirtualEthernets = None,
     net_VethDevices = None,
     net_MacvlanDevices = None,
     net_MacvtapDevices = None,
     net_IpvlanDevices = None,
     net_Bridges = None,
     net_Bonds = None,
     net_Vlans = None,
     net_Vxlans = None,
     net_Tunnels = None,
     net_Vrfs = None,
     net_TunDevices = None,
     net_TapDevices = None,
     net_VPP = None,
     net_SRv6 = None,
     net_Netns = None\<rparr>"

definition zero_Config :: Config where
  "zero_Config = \<lparr>cfg_Network = zero_Network,
     cfg_Netns = None\<rparr>"

definition zero_addressOptions :: addressOptions where
  "zero_addressOptions = \<lparr>addropts_Lifetime = YNull,
     addropts_Label = ''''\<rparr>"

section \<open>Errors\<close>

text \<open>The error values of package \<open>config\<close>, one constructor per \<open>fmt.Errorf\<close> site, with the
  values the message shows.\<close>

datatype cfg_error =
    VppUnknownMode string string
  | VppNeedsPci string string
  | VppNeedsSocket string
  | VppBadRole string string
  | VppPciConflict string string string
  | VppHostIfConflict string string string
  | Nat44BadMode string
  | Nat44BadRole string string
  | Nat44BadProto string string
  | Nat44NeedsExternal string
  | Nat64BadRole string string
  | EncapBadType string
  | EncapBadMode string
  | EncapNoSegments
  | EncapBadSegment string
  | SidMissing
  | SidNotIPv6 string
  | SidUnknownAction string string
  | SidRequires string string string
  | SidBadNH4 string string
  | SidBadNH6 string string
  | SidBadSegment string string
  | SidDuplicate string
  | NdpBadAddress string
  | NdpBadPrefix string
  | NdpBadNeighbor string
  | NdpBadMode string
  | InScope string cfg_error
  | GlobFailed string
  | NoYamlFiles string
  | ReadFailed string
  | ParseFailed string

end
