(* ===== verification/ConfigMerge.thy ===== *)
theory ConfigMerge
  imports ConfigTypes
begin

text \<open>
  Normalisation and merging of configurations (\<open>config/config.go\<close>): the legacy top-level
  \<open>netns\<close>, the move of VXLAN tunnels into \<open>Vxlans\<close>, the default-namespace view, and the
  later-file-wins merge. A merge writes into maps of the destination, so it panics on a nil
  destination map; \<open>mergeNamespace\<close> allocates them first.
\<close>

section \<open>Operations\<close>

definition toVxlan :: "Tunnel \<Rightarrow> Vxlan" where
  "toVxlan t = \<lparr>
     vxlan_ID = tun_ID t,
     vxlan_Link = tun_Link t,
     vxlan_Local = tun_Local t,
     vxlan_Remote = tun_Remote t,
     vxlan_Group = tun_Group t,
     vxlan_Port = tun_Port t,
     vxlan_DestPort = tun_DestPort t,
     vxlan_PortRange = tun_PortRange t,
     vxlan_TTL = tun_TTL t,
     vxlan_TOS = tun_TOS t,
     vxlan_Ageing = tun_Ageing t,
     vxlan_Limit = tun_Limit t,
     vxlan_Learning = tun_MacLearning t,
     vxlan_ARPProxy = tun_ARPProxy t,
     vxlan_NeighSuppress = tun_NeighSuppress t,
     vxlan_L2miss = tun_L2miss t,
     vxlan_L3miss = tun_L3miss t,
     vxlan_RSC = tun_RSC t,
     vxlan_NoAge = tun_NoAge t,
     vxlan_GBP = tun_GBP t,
     vxlan_External = tun_External t,
     vxlan_UDPChecksum = tun_UDPChecksum t,
     vxlan_UDP6ZeroCSumTx = tun_UDP6ZeroCSumTx t,
     vxlan_UDP6ZeroCSumRx = tun_UDP6ZeroCSumRx t,
     vxlan_Addresses = tun_Addresses t,
     vxlan_Routes = tun_Routes t,
     vxlan_MTU = tun_MTU t,
     vxlan_MacAddress = tun_MacAddress t,
     vxlan_FDB = tun_FDB t,
     vxlan_Neighbors = tun_Neighbors t,
     vxlan_VPP = tun_VPP t\<rparr>"

definition is_vxlan_tunnel :: "Tunnel option \<Rightarrow> bool" where
  "is_vxlan_tunnel t = (case t of None \<Rightarrow> False | Some t' \<Rightarrow> equal_fold (tun_Mode t') ''vxlan'')"

fun move_vxlan :: "Tunnel option gomap \<times> Vxlan option gomap \<Rightarrow> string \<times> Tunnel option
    \<Rightarrow> Tunnel option gomap \<times> Vxlan option gomap" where
  "move_vxlan (ts, vs) (name, t) =
    (if \<not> is_vxlan_tunnel t then (ts, vs)
     else (gdelete name ts, Some (alist_put name (map_option toVxlan t) (entries vs))))"

definition normalizeTunnelVxlans :: "Tunnel option gomap \<Rightarrow> Vxlan option gomap
    \<Rightarrow> Tunnel option gomap \<times> Vxlan option gomap" where
  "normalizeTunnelVxlans tunnels vxlans =
    (case tunnels of None \<Rightarrow> (tunnels, vxlans)
     | Some xs \<Rightarrow> foldl move_vxlan (tunnels, vxlans) xs)"

definition normalize_ns :: "Namespace \<Rightarrow> Namespace" where
  "normalize_ns ns =
    (let (ts, vs) = normalizeTunnelVxlans (ns_Tunnels ns) (ns_Vxlans ns)
     in ns\<lparr>ns_Tunnels := ts, ns_Vxlans := vs\<rparr>)"

definition legacy_netns :: "Config \<Rightarrow> Config" where
  "legacy_netns c =
    (if net_Version (cfg_Network c) = 0 \<and> entries (cfg_Netns c) \<noteq> []
     then c\<lparr>cfg_Network := (cfg_Network c)\<lparr>net_Netns := cfg_Netns c\<rparr>, cfg_Netns := None\<rparr>
     else c)"

definition normalize_network :: "Network \<Rightarrow> Network" where
  "normalize_network n =
    (let tv = normalizeTunnelVxlans (net_Tunnels n) (net_Vxlans n) in
     n\<lparr>net_Version := (if net_Version n = 0 then 2 else net_Version n),
       net_Tunnels := fst tv,
       net_Vxlans := snd tv,
       net_Netns := map_option (map (\<lambda>(k, ns). (k, map_option normalize_ns ns))) (net_Netns n)\<rparr>)"

definition Normalize :: "Config \<Rightarrow> Config" where
  "Normalize c =
    (let c1 = legacy_netns c in c1\<lparr>cfg_Network := normalize_network (cfg_Network c1)\<rparr>)"

definition HasDefaultNamespaceConfig :: "Config \<Rightarrow> bool" where
  "HasDefaultNamespaceConfig c =
    (let n = cfg_Network c in
       entries (net_Ethernets n) \<noteq> [] \<or>
       entries (net_Wifis n) \<noteq> [] \<or>
       entries (net_DummyDevices n) \<noteq> [] \<or>
       entries (net_VirtualEthernets n) \<noteq> [] \<or>
       entries (net_VethDevices n) \<noteq> [] \<or>
       entries (net_MacvlanDevices n) \<noteq> [] \<or>
       entries (net_MacvtapDevices n) \<noteq> [] \<or>
       entries (net_IpvlanDevices n) \<noteq> [] \<or>
       entries (net_Bridges n) \<noteq> [] \<or>
       entries (net_Bonds n) \<noteq> [] \<or>
       entries (net_Vlans n) \<noteq> [] \<or>
       entries (net_Vxlans n) \<noteq> [] \<or>
       entries (net_Tunnels n) \<noteq> [] \<or>
       entries (net_Vrfs n) \<noteq> [] \<or>
       entries (net_TunDevices n) \<noteq> [] \<or>
       entries (net_TapDevices n) \<noteq> [] \<or>
       net_SRv6 n \<noteq> None)"

definition ToNamespace :: "Network \<Rightarrow> Namespace" where
  "ToNamespace n = zero_Namespace\<lparr>
     ns_Ethernets := net_Ethernets n,
     ns_Wifis := net_Wifis n,
     ns_DummyDevices := net_DummyDevices n,
     ns_VirtualEthernets := net_VirtualEthernets n,
     ns_VethDevices := net_VethDevices n,
     ns_MacvlanDevices := net_MacvlanDevices n,
     ns_MacvtapDevices := net_MacvtapDevices n,
     ns_IpvlanDevices := net_IpvlanDevices n,
     ns_Bridges := net_Bridges n,
     ns_Bonds := net_Bonds n,
     ns_Vlans := net_Vlans n,
     ns_Vxlans := net_Vxlans n,
     ns_Tunnels := net_Tunnels n,
     ns_Vrfs := net_Vrfs n,
     ns_TunDevices := net_TunDevices n,
     ns_TapDevices := net_TapDevices n,
     ns_SRv6 := net_SRv6 n\<rparr>"

definition GetNetnsNames :: "Config \<Rightarrow> string list" where
  "GetNetnsNames c = sort (gkeys (net_Netns (cfg_Network c)))"

definition mergeMap :: "'v gomap \<Rightarrow> 'v gomap \<Rightarrow> (cfg_error, 'v gomap) result" where
  "mergeMap dst src = rfold (\<lambda>d (k, v). gput k v d) dst (entries src)"

text \<open>\<open>if dst == nil { dst = make(...) }; mergeMap(dst, src)\<close>, which cannot panic.\<close>

definition mergeInto :: "'v gomap \<Rightarrow> 'v gomap \<Rightarrow> 'v gomap" where
  "mergeInto dst src = Some (foldl (\<lambda>d (k, v). alist_put k v d) (entries dst) (entries src))"

definition mergeNamespace :: "Namespace \<Rightarrow> Namespace \<Rightarrow> Namespace" where
  "mergeNamespace dst src = dst\<lparr>
     ns_Ethernets := mergeInto (ns_Ethernets dst) (ns_Ethernets src),
     ns_Wifis := mergeInto (ns_Wifis dst) (ns_Wifis src),
     ns_DummyDevices := mergeInto (ns_DummyDevices dst) (ns_DummyDevices src),
     ns_VirtualEthernets := mergeInto (ns_VirtualEthernets dst) (ns_VirtualEthernets src),
     ns_VethDevices := mergeInto (ns_VethDevices dst) (ns_VethDevices src),
     ns_MacvlanDevices := mergeInto (ns_MacvlanDevices dst) (ns_MacvlanDevices src),
     ns_MacvtapDevices := mergeInto (ns_MacvtapDevices dst) (ns_MacvtapDevices src),
     ns_IpvlanDevices := mergeInto (ns_IpvlanDevices dst) (ns_IpvlanDevices src),
     ns_Bridges := mergeInto (ns_Bridges dst) (ns_Bridges src),
     ns_Bonds := mergeInto (ns_Bonds dst) (ns_Bonds src),
     ns_Vlans := mergeInto (ns_Vlans dst) (ns_Vlans src),
     ns_Vxlans := mergeInto (ns_Vxlans dst) (ns_Vxlans src),
     ns_Tunnels := mergeInto (ns_Tunnels dst) (ns_Tunnels src),
     ns_Vrfs := mergeInto (ns_Vrfs dst) (ns_Vrfs src),
     ns_TunDevices := mergeInto (ns_TunDevices dst) (ns_TunDevices src),
     ns_TapDevices := mergeInto (ns_TapDevices dst) (ns_TapDevices src),
     ns_PostScript := (if ns_PostScript src \<noteq> '''' then ns_PostScript src else ns_PostScript dst)\<rparr>"

text \<open>One iteration of the loop over \<open>src.Network.Netns\<close>: a new name takes the source's
  pointer, a known one is merged through its pointer (both are dereferenced).\<close>

fun merge_netns_entry :: "Namespace option gomap \<Rightarrow> string \<times> Namespace option
    \<Rightarrow> (cfg_error, Namespace option gomap) result" where
  "merge_netns_entry dst (name, ns) =
    (case gget dst name of
       None \<Rightarrow> gput name ns dst
     | Some old \<Rightarrow>
        rbind (deref old) (\<lambda>d. rbind (deref ns) (\<lambda>s. gput name (Some (mergeNamespace d s)) dst)))"

definition merge_scalars :: "Network \<Rightarrow> Network \<Rightarrow> Network" where
  "merge_scalars d s = d\<lparr>
     net_Version := (if net_Version s > net_Version d then net_Version s else net_Version d),
     net_VPP := (if net_VPP s \<noteq> None then net_VPP s else net_VPP d),
     net_SRv6 := (if net_SRv6 s \<noteq> None then net_SRv6 s else net_SRv6 d),
     net_Renderer := (if net_Renderer s \<noteq> '''' then net_Renderer s else net_Renderer d)\<rparr>"

definition mergeConfig :: "Config \<Rightarrow> Config \<Rightarrow> (cfg_error, Config) result" where
  "mergeConfig dst src =
    (let d = merge_scalars (cfg_Network dst) (cfg_Network src); s = cfg_Network src in
     rbind (mergeMap (net_Ethernets d) (net_Ethernets s)) (\<lambda>eth.
     rbind (mergeMap (net_Wifis d) (net_Wifis s)) (\<lambda>wifi.
     rbind (mergeMap (net_DummyDevices d) (net_DummyDevices s)) (\<lambda>dummy.
     rbind (mergeMap (net_VirtualEthernets d) (net_VirtualEthernets s)) (\<lambda>virt.
     rbind (mergeMap (net_VethDevices d) (net_VethDevices s)) (\<lambda>veth.
     rbind (mergeMap (net_MacvlanDevices d) (net_MacvlanDevices s)) (\<lambda>macvlan.
     rbind (mergeMap (net_MacvtapDevices d) (net_MacvtapDevices s)) (\<lambda>macvtap.
     rbind (mergeMap (net_IpvlanDevices d) (net_IpvlanDevices s)) (\<lambda>ipvlan.
     rbind (mergeMap (net_Bridges d) (net_Bridges s)) (\<lambda>br.
     rbind (mergeMap (net_Bonds d) (net_Bonds s)) (\<lambda>bond.
     rbind (mergeMap (net_Vlans d) (net_Vlans s)) (\<lambda>vlan.
     rbind (mergeMap (net_Vxlans d) (net_Vxlans s)) (\<lambda>vxlan.
     rbind (mergeMap (net_Tunnels d) (net_Tunnels s)) (\<lambda>tun.
     rbind (mergeMap (net_Vrfs d) (net_Vrfs s)) (\<lambda>vrf.
     rbind (mergeMap (net_TunDevices d) (net_TunDevices s)) (\<lambda>tund.
     rbind (mergeMap (net_TapDevices d) (net_TapDevices s)) (\<lambda>tapd.
     rbind (rfold merge_netns_entry (net_Netns d) (entries (net_Netns s))) (\<lambda>nns.
       Inr (dst\<lparr>cfg_Network := d\<lparr>
         net_Ethernets := eth, net_Wifis := wifi, net_DummyDevices := dummy,
         net_VirtualEthernets := virt, net_VethDevices := veth, net_MacvlanDevices := macvlan,
         net_MacvtapDevices := macvtap, net_IpvlanDevices := ipvlan, net_Bridges := br,
         net_Bonds := bond, net_Vlans := vlan, net_Vxlans := vxlan, net_Tunnels := tun,
         net_Vrfs := vrf, net_TunDevices := tund, net_TapDevices := tapd, net_Netns := nns\<rparr>\<rparr>)))))))))))))))))))"

text \<open>The configuration \<open>LoadConfig\<close> starts from: every map allocated, everything else zero.\<close>

definition empty_merged :: Config where
  "empty_merged = zero_Config\<lparr>cfg_Network := zero_Network\<lparr>
     net_Ethernets := gmake, net_Wifis := gmake, net_DummyDevices := gmake,
     net_VirtualEthernets := gmake, net_VethDevices := gmake, net_MacvlanDevices := gmake,
     net_MacvtapDevices := gmake, net_IpvlanDevices := gmake, net_Bridges := gmake,
     net_Bonds := gmake, net_Vlans := gmake, net_Vxlans := gmake, net_Tunnels := gmake,
     net_Vrfs := gmake, net_TunDevices := gmake, net_TapDevices := gmake, net_Netns := gmake\<rparr>\<rparr>"

section \<open>Merging maps\<close>

lemma mergeInto_puts: "mergeInto d s = Some (assoc.puts (entries s) (entries d))"
  by (simp add: mergeInto_def assoc.puts_def)

lemma mergeMap_made [result_simps]: "mergeMap (Some xs) src = Inr (Some (assoc.puts (entries src) xs))"
proof -
  have "rfold (\<lambda>d (k, v). gput k v d) (Some xs) ys = Inr (Some (assoc.puts ys xs))" for ys
    by (induction ys arbitrary: xs) auto
  then show ?thesis by (simp add: mergeMap_def)
qed

lemma mergeMap_nil: "mergeMap None src = (if entries src = [] then Inr None else Inl (Panic NilMapWrite))"
  by (cases "entries src") (auto simp: mergeMap_def)

lemma mergeMap_mergeInto: "d \<noteq> None \<Longrightarrow> mergeMap d s = Inr (mergeInto d s)"
  by (auto simp: mergeMap_made mergeInto_puts)

lemma mergeInto_lookup [gomap_simps]:
  "gomap_wf d \<Longrightarrow> gomap_wf s \<Longrightarrow>
    gget (mergeInto d s) k = (case gget s k of Some v \<Rightarrow> Some v | None \<Rightarrow> gget d k)"
  by (cases d; cases s) (auto simp: mergeInto_puts assoc.lookup_puts_distinct split: option.splits)

lemma mergeInto_wf [simp]: "gomap_wf d \<Longrightarrow> gomap_wf (mergeInto d s)"
  using assoc.invar_puts by (cases d) (auto simp: mergeInto_puts)

lemma mergeInto_made [simp]: "mergeInto d s \<noteq> None"
  by (simp add: mergeInto_def)

section \<open>Normalisation\<close>

lemma move_vxlan_tunnels:
  "fst (foldl move_vxlan (Some ts, vs) xs) =
    Some (filter (\<lambda>p. \<forall>q\<in>set xs. is_vxlan_tunnel (snd q) \<longrightarrow> fst q \<noteq> fst p) ts)"
proof (induction xs arbitrary: ts vs)
  case (Cons q xs)
  obtain k t where q: "q = (k, t)" by force
  show ?case
    by (auto simp: q Cons gdelete_def alist_del_def intro!: filter_cong)
qed simp

lemma move_vxlan_vxlans:
  assumes "distinct (map fst xs)" "gomap_wf vs"
  shows "gget (snd (foldl move_vxlan (ts, vs) xs)) k =
    (case map_of xs k of
       Some t \<Rightarrow> if is_vxlan_tunnel t then Some (map_option toVxlan t) else gget vs k
     | None \<Rightarrow> gget vs k)"
  using assms
proof (induction xs arbitrary: ts vs)
  case (Cons q xs)
  obtain j t where q: "q = (j, t)" by force
  have d: "distinct (map fst xs)" and j: "map_of xs j = None"
    using Cons.prems q by (auto simp: map_of_eq_None_iff)
  have w: "gomap_wf (Some (alist_put j (map_option toVxlan t) (entries vs)))"
    using Cons.prems(2) by (cases vs) simp_all
  show ?case
    using Cons.IH[OF d w] Cons.IH[OF d Cons.prems(2)] j
    by (cases vs) (auto simp: q map_of_alist_put split: option.splits)
qed simp

lemma map_of_filter_keys:
  "map_of (filter (\<lambda>p. P (fst p)) xs) k = (if P k then map_of xs k else None)"
  by (induction xs) auto

lemma vxlan_key_iff:
  assumes "distinct (map fst xs)"
  shows "(\<forall>q\<in>set xs. is_vxlan_tunnel (snd q) \<longrightarrow> fst q \<noteq> k) \<longleftrightarrow>
    (case map_of xs k of Some t \<Rightarrow> \<not> is_vxlan_tunnel t | None \<Rightarrow> True)"
  using assms by (auto split: option.splits simp: map_of_eq_None_iff dest: map_of_SomeD)
    (metis eq_key_imp_eq_value map_of_SomeD option.inject map_of_is_SomeI)

lemma normalizeTunnelVxlans_tunnels:
  assumes "gomap_wf tunnels"
  shows "gget (fst (normalizeTunnelVxlans tunnels vxlans)) k =
    (case gget tunnels k of Some t \<Rightarrow> if is_vxlan_tunnel t then None else Some t | None \<Rightarrow> None)"
proof (cases tunnels)
  case (Some xs)
  have "gget (fst (normalizeTunnelVxlans tunnels vxlans)) k =
      (if \<forall>q\<in>set xs. is_vxlan_tunnel (snd q) \<longrightarrow> fst q \<noteq> k then map_of xs k else None)"
    by (simp add: Some normalizeTunnelVxlans_def move_vxlan_tunnels
        map_of_filter_keys[where P = "\<lambda>k. \<forall>q\<in>set xs. is_vxlan_tunnel (snd q) \<longrightarrow> fst q \<noteq> k"])
  then show ?thesis
    using assms by (auto simp: Some vxlan_key_iff split: option.splits)
qed (simp add: normalizeTunnelVxlans_def)

lemma normalizeTunnelVxlans_vxlans:
  assumes "gomap_wf tunnels" "gomap_wf vxlans"
  shows "gget (snd (normalizeTunnelVxlans tunnels vxlans)) k =
    (case gget tunnels k of
       Some t \<Rightarrow> if is_vxlan_tunnel t then Some (map_option toVxlan t) else gget vxlans k
     | None \<Rightarrow> gget vxlans k)"
  using assms by (cases tunnels) (simp_all add: normalizeTunnelVxlans_def move_vxlan_vxlans)

lemma move_vxlan_idle:
  "\<forall>p\<in>set xs. \<not> is_vxlan_tunnel (snd p) \<Longrightarrow> foldl move_vxlan (ts, vs) xs = (ts, vs)"
  by (induction xs) auto

lemma normalizeTunnelVxlans_clean:
  "\<forall>p\<in>set (entries (fst (normalizeTunnelVxlans ts vs))). \<not> is_vxlan_tunnel (snd p)"
  by (cases ts) (auto simp: normalizeTunnelVxlans_def move_vxlan_tunnels)

lemma normalizeTunnelVxlans_again:
  assumes "\<forall>p\<in>set (entries ts). \<not> is_vxlan_tunnel (snd p)"
  shows "normalizeTunnelVxlans ts vs = (ts, vs)"
  using assms by (cases ts) (simp_all add: normalizeTunnelVxlans_def move_vxlan_idle)

lemma normalizeTunnelVxlans_idem:
  "normalizeTunnelVxlans ts vs = (ts', vs') \<Longrightarrow> normalizeTunnelVxlans ts' vs' = (ts', vs')"
  using normalizeTunnelVxlans_clean[of ts vs] by (intro normalizeTunnelVxlans_again) simp

lemma normalize_ns_idem: "normalize_ns (normalize_ns ns) = normalize_ns ns"
  by (auto simp: normalize_ns_def normalizeTunnelVxlans_idem split: prod.splits)

lemma normalize_network_idem: "normalize_network (normalize_network n) = normalize_network n"
proof -
  have "(\<lambda>(k, ns). (k, map_option normalize_ns ns)) \<circ> (\<lambda>(k, ns). (k, map_option normalize_ns ns))
      = (\<lambda>(k::string, ns). (k, map_option normalize_ns ns))"
    by (auto simp: fun_eq_iff option.map_comp comp_def normalize_ns_idem)
  moreover have "normalizeTunnelVxlans (fst tv) (snd tv) = tv"
    if "tv = normalizeTunnelVxlans ts vs" for tv ts vs
    using normalizeTunnelVxlans_idem[of ts vs "fst tv" "snd tv"] that by simp
  ultimately show ?thesis
    by (simp add: normalize_network_def Let_def option.map_comp)
qed



lemma equal_fold_vxlan: "equal_fold ''VXLAN'' ''vxlan''"
  by code_simp


section \<open>Merging\<close>

definition maps_made :: "Network \<Rightarrow> bool" where
  "maps_made n \<longleftrightarrow>
     net_Ethernets n \<noteq> None \<and> net_Wifis n \<noteq> None \<and> net_DummyDevices n \<noteq> None \<and>
     net_VirtualEthernets n \<noteq> None \<and> net_VethDevices n \<noteq> None \<and> net_MacvlanDevices n \<noteq> None \<and>
     net_MacvtapDevices n \<noteq> None \<and> net_IpvlanDevices n \<noteq> None \<and> net_Bridges n \<noteq> None \<and>
     net_Bonds n \<noteq> None \<and> net_Vlans n \<noteq> None \<and> net_Vxlans n \<noteq> None \<and> net_Tunnels n \<noteq> None \<and>
     net_Vrfs n \<noteq> None \<and> net_TunDevices n \<noteq> None \<and> net_TapDevices n \<noteq> None \<and> net_Netns n \<noteq> None"

definition net_wf :: "Network \<Rightarrow> bool" where
  "net_wf n \<longleftrightarrow>
     gomap_wf (net_Ethernets n) \<and> gomap_wf (net_Wifis n) \<and> gomap_wf (net_DummyDevices n) \<and>
     gomap_wf (net_VirtualEthernets n) \<and> gomap_wf (net_VethDevices n) \<and> gomap_wf (net_MacvlanDevices n) \<and>
     gomap_wf (net_MacvtapDevices n) \<and> gomap_wf (net_IpvlanDevices n) \<and> gomap_wf (net_Bridges n) \<and>
     gomap_wf (net_Bonds n) \<and> gomap_wf (net_Vlans n) \<and> gomap_wf (net_Vxlans n) \<and> gomap_wf (net_Tunnels n) \<and>
     gomap_wf (net_Vrfs n) \<and> gomap_wf (net_TunDevices n) \<and> gomap_wf (net_TapDevices n) \<and> gomap_wf (net_Netns n)"

text \<open>No namespace entry is a YAML null (which decodes to a nil pointer).\<close>

definition netns_given :: "Network \<Rightarrow> bool" where
  "netns_given n \<longleftrightarrow> (\<forall>p\<in>set (entries (net_Netns n)). snd p \<noteq> None)"

definition later :: "'v gomap \<Rightarrow> 'v gomap \<Rightarrow> string \<Rightarrow> 'v option" where
  "later d s k = (case gget s k of Some v \<Rightarrow> Some v | None \<Rightarrow> gget d k)"

fun merged_ns :: "Namespace option option \<Rightarrow> Namespace option option \<Rightarrow> Namespace option option" where
  "merged_ns x None = x"
| "merged_ns None y = y"
| "merged_ns (Some d) (Some s) = Some (Some (mergeNamespace (the d) (the s)))"

lemma later_mergeInto:
  "gomap_wf d \<Longrightarrow> gomap_wf s \<Longrightarrow> gget (mergeInto d s) k = later d s k"
  by (simp add: mergeInto_lookup later_def)

lemma merge_netns_fold:
  assumes "distinct (map fst xs)" "distinct (map fst ys)"
    "\<forall>p\<in>set xs. snd p \<noteq> None" "\<forall>p\<in>set ys. snd p \<noteq> None"
  shows "\<exists>zs. rfold merge_netns_entry (Some xs) ys = Inr (Some zs) \<and> distinct (map fst zs)
    \<and> (\<forall>p\<in>set zs. snd p \<noteq> None) \<and> (\<forall>k. map_of zs k = merged_ns (map_of xs k) (map_of ys k))"
  using assms
proof (induction ys arbitrary: xs)
  case Nil
  then show ?case by auto
next
  case (Cons p ys)
  obtain k v where p: "p = (k, Some v)"
    using Cons.prems(4) by (cases p) auto
  define x' where "x' = (case map_of xs k of Some d \<Rightarrow> Some (mergeNamespace (the d) v) | None \<Rightarrow> Some v)"
  have step: "merge_netns_entry (Some xs) p = Inr (Some (alist_put k x' xs))"
    using Cons.prems(3) by (fastforce simp: p x'_def split: option.splits dest: map_of_SomeD)
  have "\<forall>q\<in>set (alist_put k x' xs). snd q \<noteq> None"
    using Cons.prems(3) alist_put_set[of k x' xs] by (auto simp: x'_def split: option.splits)
  moreover have "distinct (map fst (alist_put k x' xs))" "distinct (map fst ys)"
    "\<forall>p\<in>set ys. snd p \<noteq> None"
    using Cons.prems by simp_all
  ultimately obtain zs where zs: "rfold merge_netns_entry (Some (alist_put k x' xs)) ys = Inr (Some zs)"
    "distinct (map fst zs)" "\<forall>p\<in>set zs. snd p \<noteq> None"
    "\<forall>j. map_of zs j = merged_ns (map_of (alist_put k x' xs) j) (map_of ys j)"
    using Cons.IH[of "alist_put k x' xs"] by blast
  have "map_of zs j = merged_ns (map_of xs j) (map_of (p # ys) j)" for j
  proof (cases "j = k")
    case True
    have "map_of ys k = None" using Cons.prems(2) by (auto simp: p map_of_eq_None_iff)
    then show ?thesis using zs(4) True by (cases "map_of xs k") (auto simp: p map_of_alist_put x'_def)
  qed (use zs(4) in \<open>simp add: p map_of_alist_put\<close>)
  then show ?case using zs step by auto
qed

definition later_wins :: "Network \<Rightarrow> Network \<Rightarrow> Network \<Rightarrow> bool" where
  "later_wins d s r \<longleftrightarrow>
     gget (net_Ethernets r) = later (net_Ethernets d) (net_Ethernets s) \<and>
     gget (net_Wifis r) = later (net_Wifis d) (net_Wifis s) \<and>
     gget (net_DummyDevices r) = later (net_DummyDevices d) (net_DummyDevices s) \<and>
     gget (net_VirtualEthernets r) = later (net_VirtualEthernets d) (net_VirtualEthernets s) \<and>
     gget (net_VethDevices r) = later (net_VethDevices d) (net_VethDevices s) \<and>
     gget (net_MacvlanDevices r) = later (net_MacvlanDevices d) (net_MacvlanDevices s) \<and>
     gget (net_MacvtapDevices r) = later (net_MacvtapDevices d) (net_MacvtapDevices s) \<and>
     gget (net_IpvlanDevices r) = later (net_IpvlanDevices d) (net_IpvlanDevices s) \<and>
     gget (net_Bridges r) = later (net_Bridges d) (net_Bridges s) \<and>
     gget (net_Bonds r) = later (net_Bonds d) (net_Bonds s) \<and>
     gget (net_Vlans r) = later (net_Vlans d) (net_Vlans s) \<and>
     gget (net_Vxlans r) = later (net_Vxlans d) (net_Vxlans s) \<and>
     gget (net_Tunnels r) = later (net_Tunnels d) (net_Tunnels s) \<and>
     gget (net_Vrfs r) = later (net_Vrfs d) (net_Vrfs s) \<and>
     gget (net_TunDevices r) = later (net_TunDevices d) (net_TunDevices s) \<and>
     gget (net_TapDevices r) = later (net_TapDevices d) (net_TapDevices s)"

lemma mergeConfig_made:
  assumes "maps_made (cfg_Network dst)"
  shows "mergeConfig dst src =
    (let d = merge_scalars (cfg_Network dst) (cfg_Network src); s = cfg_Network src in
     rbind (rfold merge_netns_entry (net_Netns d) (entries (net_Netns s))) (\<lambda>nns.
       Inr (dst\<lparr>cfg_Network := d\<lparr>
         net_Ethernets := mergeInto (net_Ethernets d) (net_Ethernets s),
         net_Wifis := mergeInto (net_Wifis d) (net_Wifis s),
         net_DummyDevices := mergeInto (net_DummyDevices d) (net_DummyDevices s),
         net_VirtualEthernets := mergeInto (net_VirtualEthernets d) (net_VirtualEthernets s),
         net_VethDevices := mergeInto (net_VethDevices d) (net_VethDevices s),
         net_MacvlanDevices := mergeInto (net_MacvlanDevices d) (net_MacvlanDevices s),
         net_MacvtapDevices := mergeInto (net_MacvtapDevices d) (net_MacvtapDevices s),
         net_IpvlanDevices := mergeInto (net_IpvlanDevices d) (net_IpvlanDevices s),
         net_Bridges := mergeInto (net_Bridges d) (net_Bridges s),
         net_Bonds := mergeInto (net_Bonds d) (net_Bonds s),
         net_Vlans := mergeInto (net_Vlans d) (net_Vlans s),
         net_Vxlans := mergeInto (net_Vxlans d) (net_Vxlans s),
         net_Tunnels := mergeInto (net_Tunnels d) (net_Tunnels s),
         net_Vrfs := mergeInto (net_Vrfs d) (net_Vrfs s),
         net_TunDevices := mergeInto (net_TunDevices d) (net_TunDevices s),
         net_TapDevices := mergeInto (net_TapDevices d) (net_TapDevices s),
         net_Netns := nns\<rparr>\<rparr>)))"
  using assms by (simp add: mergeConfig_def maps_made_def merge_scalars_def mergeMap_mergeInto Let_def)

text \<open>(C15) Merging a later file into the accumulated configuration never panics when no
  namespace is null, keeps the accumulator well-formed for the next file, and the later file
  wins key by key in every device map; a namespace known to both is merged, any other is
  taken over unchanged.\<close>

theorem mergeConfig_later_wins:
  assumes "maps_made (cfg_Network dst)" "net_wf (cfg_Network dst)" "net_wf (cfg_Network src)"
    "netns_given (cfg_Network dst)" "netns_given (cfg_Network src)"
  shows "case mergeConfig dst src of Inl _ \<Rightarrow> False | Inr r \<Rightarrow>
      maps_made (cfg_Network r) \<and> net_wf (cfg_Network r) \<and> netns_given (cfg_Network r)
    \<and> later_wins (cfg_Network dst) (cfg_Network src) (cfg_Network r)
    \<and> (\<forall>k. gget (net_Netns (cfg_Network r)) k =
          merged_ns (gget (net_Netns (cfg_Network dst)) k) (gget (net_Netns (cfg_Network src)) k))"
proof -
  let ?d = "cfg_Network dst" and ?s = "cfg_Network src"
  obtain xs where xs: "net_Netns ?d = Some xs" using assms(1) by (auto simp: maps_made_def)
  have "distinct (map fst xs)" "distinct (map fst (entries (net_Netns ?s)))"
    "\<forall>p\<in>set xs. snd p \<noteq> None" "\<forall>p\<in>set (entries (net_Netns ?s)). snd p \<noteq> None"
    using assms xs by (simp_all add: net_wf_def netns_given_def gkeys_def)
  from merge_netns_fold[OF this] obtain zs where
    zs: "rfold merge_netns_entry (Some xs) (entries (net_Netns ?s)) = Inr (Some zs)"
      "distinct (map fst zs)" "\<forall>p\<in>set zs. snd p \<noteq> None"
      "\<forall>k. map_of zs k = merged_ns (map_of xs k) (map_of (entries (net_Netns ?s)) k)"
    by blast
  note wf = assms(2,3)[unfolded net_wf_def]
  show ?thesis
    unfolding mergeConfig_made[OF assms(1)] Let_def
    using wf zs
    by (simp add: merge_scalars_def xs maps_made_def net_wf_def netns_given_def later_wins_def
        fun_eq_iff later_mergeInto gget_def[of "net_Netns ?s"])
qed

theorem mergeConfig_later_wins_witness:
  "case mergeConfig empty_merged (zero_Config\<lparr>cfg_Network := zero_Network\<lparr>
        net_Ethernets := Some [(''eth0'', Some zero_Ethernet)], net_Netns := Some [(''blue'', Some zero_Namespace)]\<rparr>\<rparr>) of
     Inl _ \<Rightarrow> False
   | Inr r \<Rightarrow> gget (net_Ethernets (cfg_Network r)) ''eth0'' = Some (Some zero_Ethernet)
       \<and> gget (net_Netns (cfg_Network r)) ''blue'' = Some (Some zero_Namespace)"
  using mergeConfig_later_wins[of empty_merged "zero_Config\<lparr>cfg_Network := zero_Network\<lparr>
        net_Ethernets := Some [(''eth0'', Some zero_Ethernet)], net_Netns := Some [(''blue'', Some zero_Namespace)]\<rparr>\<rparr>"]
  by (simp add: empty_merged_def zero_Config_def zero_Network_def maps_made_def net_wf_def
      netns_given_def later_wins_def later_def split: sum.splits)

text \<open>A namespace defined in two files: the device maps are merged key by key with the
  later file winning and the later post-script replaces the earlier, but the later file's
  \<open>loopback\<close> and \<open>srv6\<close> sections are dropped.\<close>

theorem mergeNamespace_drops_loopback_srv6:
  "ns_Loopback (mergeNamespace d s) = ns_Loopback d
   \<and> ns_SRv6 (mergeNamespace d s) = ns_SRv6 d
   \<and> ns_Ethernets (mergeNamespace d s) = mergeInto (ns_Ethernets d) (ns_Ethernets s)
   \<and> ns_PostScript (mergeNamespace d s) = (if ns_PostScript s = [] then ns_PostScript d else ns_PostScript s)"
  by (simp add: mergeNamespace_def)

end
