(* ===== verification/ConfigValid.thy ===== *)
theory ConfigValid
  imports ConfigMerge
begin

text \<open>
  Validation and loading of configurations: \<open>config/vpp.go\<close> (VPP devices, NAT,
  \<open>startup.conf\<close>), \<open>config/srv6.go\<close>, \<open>config/ndp.go\<close> and \<open>LoadConfig\<close> of
  \<open>config/config.go\<close>. Each validator is characterised by what it accepts. The file system and
  the YAML decoder are parameters of \<open>LoadConfig\<close>.
\<close>

section \<open>VPP devices\<close>

definition vppModes :: "string list" where
  "vppModes = ['''', ''af-packet'', ''dpdk'', ''avf'', ''rdma'', ''tap'', ''loopback'', ''memif'']"

definition VPPManaged :: "VPPDevice option \<Rightarrow> string \<Rightarrow> string \<Rightarrow> bool" where
  "VPPManaged deviceVPP deviceRenderer globalRenderer =
    (if deviceVPP \<noteq> None then True
     else (let r = (if deviceRenderer = '''' then globalRenderer else deviceRenderer)
           in equal_fold r ''vpp''))"

definition ValidateVPPDevice :: "string \<Rightarrow> VPPDevice option \<Rightarrow> (cfg_error, unit) result" where
  "ValidateVPPDevice name dev =
    (case dev of None \<Rightarrow> Inr ()
     | Some d \<Rightarrow>
        let m = to_lower (vpp_Mode d) in
        if m \<notin> set vppModes then Inl (Err (VppUnknownMode name (vpp_Mode d)))
        else if (m = ''dpdk'' \<or> m = ''avf'') \<and> vpp_PCI d = '''' then Inl (Err (VppNeedsPci name m))
        else if m = ''memif'' \<and> vpp_Socket d = '''' then Inl (Err (VppNeedsSocket name))
        else if vpp_Role d \<noteq> '''' \<and> vpp_Role d \<noteq> ''master'' \<and> vpp_Role d \<noteq> ''slave''
          then Inl (Err (VppBadRole name (vpp_Role d)))
        else Inr ())"

record devVPP =
  dv_name :: string
  dv_renderer :: string
  dv_vpp :: "VPPDevice option"

definition vpp_devs :: "Network \<Rightarrow> devVPP list" where
  "vpp_devs n =
     [\<lparr>dv_name = k, dv_renderer = eth_Renderer e, dv_vpp = eth_VPP e\<rparr>. (k, Some e) \<leftarrow> entries (net_Ethernets n)]
   @ [\<lparr>dv_name = k, dv_renderer = br_Renderer b, dv_vpp = br_VPP b\<rparr>. (k, Some b) \<leftarrow> entries (net_Bridges n)]
   @ [\<lparr>dv_name = k, dv_renderer = bond_Renderer b, dv_vpp = bond_VPP b\<rparr>. (k, Some b) \<leftarrow> entries (net_Bonds n)]
   @ [\<lparr>dv_name = k, dv_renderer = vlan_Renderer v, dv_vpp = vlan_VPP v\<rparr>. (k, Some v) \<leftarrow> entries (net_Vlans n)]
   @ [\<lparr>dv_name = k, dv_renderer = tun_Renderer t, dv_vpp = tun_VPP t\<rparr>. (k, Some t) \<leftarrow> entries (net_Tunnels n)]"

text \<open>Claiming a resource (a PCI address or a host interface) for a device in an owner map.\<close>

definition claim :: "(string \<Rightarrow> string \<Rightarrow> string \<Rightarrow> cfg_error) \<Rightarrow> string \<Rightarrow> string \<Rightarrow> string alist
    \<Rightarrow> (cfg_error, string alist) result" where
  "claim err res name owners =
    (if res = '''' then Inr owners
     else (case map_of owners res of
        Some owner \<Rightarrow> Inl (Err (err res owner name))
      | None \<Rightarrow> Inr (alist_put res name owners)))"

definition check_vpp_dev :: "string \<Rightarrow> string alist \<times> string alist \<Rightarrow> devVPP
    \<Rightarrow> (cfg_error, string alist \<times> string alist) result" where
  "check_vpp_dev g owners d =
    (if \<not> VPPManaged (dv_vpp d) (dv_renderer d) g then Inr owners
     else rbind (ValidateVPPDevice (dv_name d) (dv_vpp d)) (\<lambda>_.
       case dv_vpp d of None \<Rightarrow> Inr owners
       | Some v \<Rightarrow>
          rbind (claim VppPciConflict (vpp_PCI v) (dv_name d) (fst owners)) (\<lambda>pciOwner.
          rbind (claim VppHostIfConflict (vpp_HostIf v) (dv_name d) (snd owners)) (\<lambda>hostIfOwner.
            Inr (pciOwner, hostIfOwner)))))"

definition roleOK :: "string \<Rightarrow> bool" where
  "roleOK r \<longleftrightarrow> to_lower r \<in> set [''inside'', ''outside'', ''output'']"

definition check_nat_static :: "NatStatic option \<Rightarrow> (cfg_error, unit) result" where
  "check_nat_static p =
    rbind (deref p) (\<lambda>s.
      if nstat_Proto s \<noteq> '''' \<and> to_lower (nstat_Proto s) \<notin> set [''tcp'', ''udp'', ''icmp'']
      then Inl (Err (Nat44BadProto (nstat_Local s) (nstat_Proto s)))
      else if nstat_External s = '''' \<and> nstat_ExternalInterface s = ''''
      then Inl (Err (Nat44NeedsExternal (nstat_Local s)))
      else Inr ())"

definition check_nat_role :: "(string \<Rightarrow> string \<Rightarrow> cfg_error) \<Rightarrow> NatInterface option \<Rightarrow> (cfg_error, unit) result" where
  "check_nat_role err p =
    rbind (deref p) (\<lambda>i. if roleOK (nif_Role i) then Inr () else Inl (Err (err (nif_Name i) (nif_Role i))))"

definition validateNat :: "VPPNat \<Rightarrow> (cfg_error, unit) result" where
  "validateNat vn =
    rbind (case nat_Nat44 vn of None \<Rightarrow> Inr ()
      | Some n \<Rightarrow>
         if nat44_Mode n \<noteq> '''' \<and> \<not> equal_fold (nat44_Mode n) ''ed'' \<and> \<not> equal_fold (nat44_Mode n) ''ei''
         then Inl (Err (Nat44BadMode (nat44_Mode n)))
         else rbind (rall (check_nat_role Nat44BadRole) (nat44_Interfaces n)) (\<lambda>_.
              rall check_nat_static (nat44_Static n))) (\<lambda>_.
    case nat_Nat64 vn of None \<Rightarrow> Inr ()
      | Some n \<Rightarrow> rall (check_nat_role Nat64BadRole) (nat64_Interfaces n))"

definition ValidateVPP :: "Config \<Rightarrow> (cfg_error, unit) result" where
  "ValidateVPP cfg =
    (let n = cfg_Network cfg; devs = sort_key dv_name (vpp_devs n) in
     rbind (rfold (check_vpp_dev (net_Renderer n)) ([], []) devs) (\<lambda>_.
       case net_VPP n of None \<Rightarrow> Inr ()
       | Some g \<Rightarrow> (case vppg_NAT g of None \<Rightarrow> Inr () | Some vn \<Rightarrow> validateNat vn)))"

section \<open>startup.conf\<close>

record DpdkDev =
  dpdkdev_Name :: string
  dpdkdev_PCI :: string

abbreviation nl :: string where
  "nl \<equiv> [CHR 0x0A]"

definition lines_str :: "string list \<Rightarrow> string" where
  "lines_str ls = concat (map (\<lambda>l. l @ nl) ls)"

definition startup_of :: "VPPGlobal option \<Rightarrow> VPPStartup option" where
  "startup_of g = Option.bind g vppg_Startup"

definition startup_dpdk :: "VPPGlobal option \<Rightarrow> VPPDpdk option" where
  "startup_dpdk g = Option.bind (startup_of g) startup_Dpdk"

definition startup_cpu_lines :: "VPPStartup \<Rightarrow> string list" where
  "startup_cpu_lines s =
    (if startup_MainCore s \<noteq> None \<or> startup_Workers s \<noteq> None \<or> startup_CorelistWorkers s \<noteq> '''' then
       [''cpu {'']
       @ (case startup_MainCore s of None \<Rightarrow> [] | Some c \<Rightarrow> [''  main-core '' @ itoa c])
       @ (if startup_CorelistWorkers s \<noteq> '''' then [''  corelist-workers '' @ startup_CorelistWorkers s]
          else (case startup_Workers s of None \<Rightarrow> [] | Some w \<Rightarrow> [''  workers '' @ itoa w]))
       @ [''}'']
     else [])"

definition startup_devs :: "VPPGlobal option \<Rightarrow> DpdkDev list \<Rightarrow> DpdkDev list" where
  "startup_devs g dpdkDevs =
    dpdkDevs @ (case startup_dpdk g of None \<Rightarrow> []
      | Some d \<Rightarrow> map (\<lambda>pci. \<lparr>dpdkdev_Name = '''', dpdkdev_PCI = pci\<rparr>) (dpdk_Dev d))"

definition dpdk_dev_lines :: "DpdkDev \<Rightarrow> string list" where
  "dpdk_dev_lines d =
    (if dpdkdev_Name d \<noteq> '''' then [''  dev '' @ dpdkdev_PCI d @ '' {'', ''    name '' @ dpdkdev_Name d, ''  }'']
     else [''  dev '' @ dpdkdev_PCI d])"

definition GenerateStartupConf :: "VPPGlobal option \<Rightarrow> DpdkDev list \<Rightarrow> string" where
  "GenerateStartupConf g dpdkDevs =
    (let apiSock = (case g of None \<Rightarrow> ''/run/vpp/api.sock''
           | Some g' \<Rightarrow> if vppg_APISocket g' \<noteq> '''' then vppg_APISocket g' else ''/run/vpp/api.sock'');
         uio = (case startup_dpdk g of None \<Rightarrow> ''vfio-pci''
           | Some d \<Rightarrow> if dpdk_UioDriver d \<noteq> '''' then dpdk_UioDriver d else ''vfio-pci'');
         devs = startup_devs g dpdkDevs
     in lines_str
       ([''# Generated by netcfg '' @ [CHR 0xE2, CHR 0x80, CHR 0x94] @ '' do not edit by hand'',
         ''unix {'', ''  nodaemon'', ''  log /var/log/vpp/vpp.log'', ''  full-coredump'',
         ''  cli-listen /run/vpp/cli.sock'', ''  gid vpp'', ''}'',
         ''api-segment {'', ''  gid vpp'', ''}'',
         ''socksvr {'', ''  socket-name '' @ apiSock, ''}'']
        @ (case startup_of g of None \<Rightarrow> [] | Some s \<Rightarrow> startup_cpu_lines s)
        @ (if devs \<noteq> [] then
             [''dpdk {'', ''  uio-driver '' @ uio]
             @ concat (map dpdk_dev_lines (sort_key dpdkdev_PCI devs))
             @ [''}'']
           else [])))"

section \<open>SRv6\<close>

definition srv6Actions :: "(string \<times> string list) list" where
  "srv6Actions =
    [(''End'', []),
     (''End.X'', [''nh6'']),
     (''End.T'', [''table'']),
     (''End.DX2'', [''oif'']),
     (''End.DX4'', [''nh4'']),
     (''End.DX6'', [''nh6'']),
     (''End.DT4'', [''vrf-table'']),
     (''End.DT6'', [''table'']),
     (''End.DT46'', [''vrf-table'']),
     (''End.B6'', [''segments'']),
     (''End.B6.Encaps'', [''segments''])]"

definition ValidateRouteEncap :: "RouteEncap option \<Rightarrow> (cfg_error, unit) result" where
  "ValidateRouteEncap p =
    (case p of None \<Rightarrow> Inr ()
     | Some e \<Rightarrow>
        if \<not> equal_fold (encap_Type e) ''seg6'' then Inl (Err (EncapBadType (encap_Type e)))
        else if to_lower (encap_Mode e) \<notin> set ['''', ''encap'', ''inline''] then Inl (Err (EncapBadMode (encap_Mode e)))
        else if encap_Segments e = [] then Inl (Err EncapNoSegments)
        else rall (\<lambda>s. if isIPv6 s then Inr () else Inl (Err (EncapBadSegment s))) (encap_Segments e))"

definition check_required :: "SRv6LocalSID \<Rightarrow> string \<Rightarrow> (cfg_error, unit) result" where
  "check_required s field =
    (let fail = Inl (Err (SidRequires (sid_SID s) (sid_Action s) field)) in
     if field = ''table'' then (if sid_Table s \<le> 0 then fail else Inr ())
     else if field = ''vrf-table'' then (if sid_VRFTable s \<le> 0 then fail else Inr ())
     else if field = ''nh4'' then (if \<not> isIPv4 (sid_NH4 s) then fail else Inr ())
     else if field = ''nh6'' then (if \<not> isIPv6 (sid_NH6 s) then fail else Inr ())
     else if field = ''oif'' then (if sid_OIF s = '''' then fail else Inr ())
     else if field = ''segments'' then (if sid_Segments s = [] then fail else Inr ())
     else Inr ())"

definition validateLocalSID :: "SRv6LocalSID option \<Rightarrow> (cfg_error, unit) result" where
  "validateLocalSID p =
    rbind (deref p) (\<lambda>s.
      if sid_SID s = '''' then Inl (Err SidMissing)
      else if \<not> isIPv6 (before (CHR ''/'') (sid_SID s)) then Inl (Err (SidNotIPv6 (sid_SID s)))
      else (case map_of srv6Actions (sid_Action s) of
         None \<Rightarrow> Inl (Err (SidUnknownAction (sid_SID s) (sid_Action s)))
       | Some req \<Rightarrow>
          rbind (rall (check_required s) req) (\<lambda>_.
          if sid_NH4 s \<noteq> '''' \<and> \<not> isIPv4 (sid_NH4 s) then Inl (Err (SidBadNH4 (sid_SID s) (sid_NH4 s)))
          else if sid_NH6 s \<noteq> '''' \<and> \<not> isIPv6 (sid_NH6 s) then Inl (Err (SidBadNH6 (sid_SID s) (sid_NH6 s)))
          else rall (\<lambda>seg. if isIPv6 seg then Inr () else Inl (Err (SidBadSegment (sid_SID s) seg))) (sid_Segments s))))"

definition sid_key :: "SRv6LocalSID \<Rightarrow> string" where
  "sid_key s = before (CHR ''/'') (sid_SID s)"

definition check_sid_entry :: "string list \<Rightarrow> SRv6LocalSID option \<Rightarrow> (cfg_error, string list) result" where
  "check_sid_entry seen p =
    rbind (validateLocalSID p) (\<lambda>_. rbind (deref p) (\<lambda>s.
      if sid_key s \<in> set seen then Inl (Err (SidDuplicate (sid_SID s))) else Inr (sid_key s # seen)))"

definition in_scope :: "string \<Rightarrow> (cfg_error, 'a) result \<Rightarrow> (cfg_error, 'a) result" where
  "in_scope scope r = (case r of Inl (Err e) \<Rightarrow> Inl (Err (InScope scope e)) | Inl (Panic p) \<Rightarrow> Inl (Panic p) | Inr x \<Rightarrow> Inr x)"

definition validateSRv6Config :: "SRv6Config option \<Rightarrow> string \<Rightarrow> (cfg_error, unit) result" where
  "validateSRv6Config p scope =
    (case p of None \<Rightarrow> Inr ()
     | Some c \<Rightarrow> in_scope scope (rbind (rfold check_sid_entry [] (srv6_LocalSIDs c)) (\<lambda>_. Inr ())))"

definition ValidateSRv6 :: "Config \<Rightarrow> (cfg_error, unit) result" where
  "ValidateSRv6 cfg =
    rbind (validateSRv6Config (net_SRv6 (cfg_Network cfg)) ''srv6'') (\<lambda>_.
      rall (\<lambda>(name, p). case p of None \<Rightarrow> Inr ()
              | Some ns \<Rightarrow> validateSRv6Config (ns_SRv6 ns) (''netns '' @ name @ '' srv6''))
        (entries (net_Netns (cfg_Network cfg))))"

section \<open>NDP proxy\<close>

definition check_ndp_rule :: "NDProxyRule option \<Rightarrow> (cfg_error, unit) result" where
  "check_ndp_rule p =
    rbind (deref p) (\<lambda>r.
      if (case ParseCIDR (rule_Prefix r) of None \<Rightarrow> True | Some (ip, _) \<Rightarrow> To4 ip \<noteq> None)
      then Inl (Err (NdpBadPrefix (rule_Prefix r)))
      else if rule_Neighbor r \<noteq> '''' \<and> ParseMAC (rule_Neighbor r) = None
      then Inl (Err (NdpBadNeighbor (rule_Neighbor r)))
      else if rule_Mode r \<notin> set ['''', ''static'', ''auto''] then Inl (Err (NdpBadMode (rule_Mode r)))
      else Inr ())"

definition validateNDProxyBlock :: "string \<Rightarrow> NDProxy option \<Rightarrow> (cfg_error, unit) result" where
  "validateNDProxyBlock scope p =
    (case p of None \<Rightarrow> Inr ()
     | Some n \<Rightarrow> in_scope scope
        (rbind (rall (\<lambda>a. if isIPv6 a then Inr () else Inl (Err (NdpBadAddress a))) (ndp_Addresses n)) (\<lambda>_.
           rall check_ndp_rule (ndp_Rules n))))"

definition check_ndp_devs :: "string \<Rightarrow> string \<Rightarrow> ('d \<Rightarrow> NDProxy option) \<Rightarrow> 'd option gomap \<Rightarrow> (cfg_error, unit) result" where
  "check_ndp_devs scope kind ndproxy m =
    rall (\<lambda>(n, p). rbind (deref p) (\<lambda>d. validateNDProxyBlock (scope @ kind @ n) (ndproxy d))) (entries m)"

definition ndProxyDevices :: "Ethernet option gomap \<Rightarrow> Vlan option gomap \<Rightarrow> Bridge option gomap
    \<Rightarrow> Bond option gomap \<Rightarrow> string \<Rightarrow> (cfg_error, unit) result" where
  "ndProxyDevices eth vl br bo scope =
    rbind (check_ndp_devs scope '' ethernet '' eth_NDProxy eth) (\<lambda>_.
    rbind (check_ndp_devs scope '' vlan '' vlan_NDProxy vl) (\<lambda>_.
    rbind (check_ndp_devs scope '' bridge '' br_NDProxy br) (\<lambda>_.
      check_ndp_devs scope '' bond '' bond_NDProxy bo)))"

definition ValidateNDProxy :: "Config \<Rightarrow> (cfg_error, unit) result" where
  "ValidateNDProxy cfg =
    (let n = cfg_Network cfg in
     rbind (ndProxyDevices (net_Ethernets n) (net_Vlans n) (net_Bridges n) (net_Bonds n) ''ndp-proxy'') (\<lambda>_.
       rall (\<lambda>(name, p). case p of None \<Rightarrow> Inr ()
               | Some ns \<Rightarrow> ndProxyDevices (ns_Ethernets ns) (ns_Vlans ns) (ns_Bridges ns) (ns_Bonds ns) (''netns '' @ name))
         (entries (net_Netns n))))"

section \<open>Loading\<close>

text \<open>A list entry of addresses is a string or a mapping with a single key. Only the kind, the value and
  the content of a node of the YAML package matter; \<open>decode\<close> reads the options below the key, the lifetime as
  \<open>%v\<close> prints it.\<close>

datatype yaml_node = ScalarNode string | MappingNode "yaml_node list" | OtherNode

fun node_Value :: "yaml_node \<Rightarrow> string" where
  "node_Value (ScalarNode s) = s"
| "node_Value _ = ''''"

record addressOptions =
  ao_Lifetime :: "string option"
  ao_Label :: string

datatype address_error = NotOneKey | BadOptions string | BadKind

definition Address_UnmarshalYAML :: "(yaml_node \<Rightarrow> addressOptions option) \<Rightarrow> yaml_node \<Rightarrow> address_error + Address" where
  "Address_UnmarshalYAML decode v = (case v of
      ScalarNode s \<Rightarrow> Inr \<lparr>addr_CIDR = s, addr_Lifetime = '''', addr_Label = ''''\<rparr>
    | MappingNode [k, optNode] \<Rightarrow> (case decode optNode of
        None \<Rightarrow> Inl (BadOptions (node_Value k))
      | Some opts \<Rightarrow> Inr \<lparr>addr_CIDR = node_Value k, addr_Lifetime = (case ao_Lifetime opts of None \<Rightarrow> '''' | Some l \<Rightarrow> l),
          addr_Label = ao_Label opts\<rparr>)
    | MappingNode _ \<Rightarrow> Inl NotOneKey
    | OtherNode \<Rightarrow> Inl BadKind)"

definition load_file :: "(string \<Rightarrow> 'd option) \<Rightarrow> ('d \<Rightarrow> Config option) \<Rightarrow> Config \<Rightarrow> string \<Rightarrow> (cfg_error, Config) result" where
  "load_file readFile unmarshal merged file =
    (case readFile file of None \<Rightarrow> Inl (Err (ReadFailed file))
     | Some data \<Rightarrow>
       (case unmarshal data of None \<Rightarrow> Inl (Err (ParseFailed file))
        | Some cfg \<Rightarrow> mergeConfig merged (Normalize cfg)))"

definition LoadConfig :: "(string \<Rightarrow> string \<Rightarrow> string list option) \<Rightarrow> (string \<Rightarrow> 'd option) \<Rightarrow> ('d \<Rightarrow> Config option)
    \<Rightarrow> string \<Rightarrow> (cfg_error, Config) result" where
  "LoadConfig glob readFile unmarshal dirPath =
    (case glob dirPath ''*.yaml'' of None \<Rightarrow> Inl (Err (GlobFailed dirPath))
     | Some yaml \<Rightarrow>
     (case glob dirPath ''*.yml'' of None \<Rightarrow> Inl (Err (GlobFailed dirPath))
      | Some yml \<Rightarrow>
        if yaml @ yml = [] then Inl (Err (NoYamlFiles dirPath))
        else
          rbind (rfold (load_file readFile unmarshal) empty_merged (sort (yaml @ yml))) (\<lambda>merged.
          rbind (ValidateVPP merged) (\<lambda>_.
          rbind (ValidateSRv6 merged) (\<lambda>_.
          rbind (ValidateNDProxy merged) (\<lambda>_. Inr merged))))))"

text \<open>The default of \<open>--config-dir\<close>.\<close>

definition dirHasYAML :: "(string \<Rightarrow> string \<Rightarrow> string list option) \<Rightarrow> string \<Rightarrow> bool" where
  "dirHasYAML glob dir = list_ex (\<lambda>pat. case glob dir pat of Some m \<Rightarrow> m \<noteq> [] | None \<Rightarrow> False) [''*.yaml'', ''*.yml'']"

definition defaultConfigDir :: "(string \<Rightarrow> string \<Rightarrow> string list option) \<Rightarrow> string" where
  "defaultConfigDir glob = (if dirHasYAML glob ''/etc/netcfg'' then ''/etc/netcfg'' else ''/etc/netplan'')"

definition LoadConfigFile :: "(string \<Rightarrow> 'd option) \<Rightarrow> ('d \<Rightarrow> Config option) \<Rightarrow> string \<Rightarrow> (cfg_error, Config) result" where
  "LoadConfigFile readFile unmarshal filePath =
    (case readFile filePath of None \<Rightarrow> Inl (Err (ReadFailed filePath))
     | Some data \<Rightarrow>
       (case unmarshal data of None \<Rightarrow> Inl (Err (ParseFailed filePath))
        | Some cfg \<Rightarrow> Inr (Normalize cfg)))"

definition supportedNetworkKeys :: "string list" where
  "supportedNetworkKeys =
    [''version'', ''renderer'', ''ethernets'', ''wifis'', ''dummy-devices'', ''virtual-ethernets'',
     ''veth-devices'', ''macvlan-devices'', ''macvtap-devices'', ''ipvlan-devices'', ''bridges'', ''bonds'',
     ''vlans'', ''tunnels'', ''vrfs'', ''tun-devices'', ''tap-devices'', ''netns'', ''vpp'', ''srv6'']"

text \<open>The warnings of \<open>warnUnsupportedConfig\<close>, as the list of keys it names.\<close>

definition warnUnsupportedConfig :: "yval \<Rightarrow> string list" where
  "warnUnsupportedConfig raw =
    (case raw of
       YMap kvs \<Rightarrow> concat (map (\<lambda>(k, v).
         if k = ''network'' then
           (case v of YMap net \<Rightarrow> [''network.'' @ nk. (nk, _) \<leftarrow> net, nk \<notin> set supportedNetworkKeys] | _ \<Rightarrow> [])
         else if k = ''netns'' then []
         else [k]) kvs)
     | _ \<Rightarrow> [])"

section \<open>What the validators accept\<close>

abbreviation accepts :: "(cfg_error, 'a) result \<Rightarrow> bool" where
  "accepts r \<equiv> \<exists>x. r = Inr x"

lemma rbind_unit_ok: "rbind r (\<lambda>_. q) = Inr x \<longleftrightarrow> accepts r \<and> q = Inr x"
  by (auto simp: rbind_eq_Inr)

lemma in_scope_ok [simp]: "in_scope scope r = Inr x \<longleftrightarrow> r = Inr x"
  by (auto simp: in_scope_def split: sum.splits fault.splits)

definition claimed :: "(VPPDevice \<Rightarrow> string) \<Rightarrow> devVPP list \<Rightarrow> string list" where
  "claimed field devs =
    concat (map (\<lambda>d. case dv_vpp d of None \<Rightarrow> [] | Some v \<Rightarrow> if field v = '''' then [] else [field v]) devs)"

lemma claimed_simps [simp]:
  "claimed field [] = []"
  "claimed field (d # ds) =
    (case dv_vpp d of None \<Rightarrow> [] | Some v \<Rightarrow> if field v = '''' then [] else [field v]) @ claimed field ds"
  by (simp_all add: claimed_def)

lemma mset_claimed:
  "mset (claimed field ds) =
    (\<Sum>d\<in>#mset ds. mset (case dv_vpp d of None \<Rightarrow> [] | Some v \<Rightarrow> if field v = '''' then [] else [field v]))"
  by (induction ds) simp_all

lemma claimed_distinct_cong:
  "mset ds = mset ds' \<Longrightarrow> distinct (claimed field ds) = distinct (claimed field ds')"
  by (rule mset_eq_imp_distinct_iff) (simp only: mset_claimed)

lemma claim_ok:
  "claim err res name owners = Inr owners' \<longleftrightarrow>
    (if res = '''' then owners' = owners
     else res \<notin> fst ` set owners \<and> owners' = alist_put res name owners)"
  using map_of_eq_None_iff[of owners res] by (auto simp: claim_def split: option.splits)

lemma check_vpp_dev_None: "dv_vpp d = None \<Longrightarrow> check_vpp_dev g ow d = Inr ow"
  by (simp add: check_vpp_dev_def ValidateVPPDevice_def)

lemma check_vpp_dev_Some:
  assumes "dv_vpp d = Some v"
  shows "check_vpp_dev g (P, H) d = Inr ow \<longleftrightarrow>
    ValidateVPPDevice (dv_name d) (Some v) = Inr ()
    \<and> (vpp_PCI v = '''' \<or> vpp_PCI v \<notin> fst ` set P)
    \<and> (vpp_HostIf v = '''' \<or> vpp_HostIf v \<notin> fst ` set H)
    \<and> ow = (if vpp_PCI v = '''' then P else alist_put (vpp_PCI v) (dv_name d) P,
            if vpp_HostIf v = '''' then H else alist_put (vpp_HostIf v) (dv_name d) H)"
  using assms by (auto simp: check_vpp_dev_def VPPManaged_def rbind_eq_Inr claim_ok)

lemma check_vpp_fold:
  "accepts (rfold (check_vpp_dev g) (P, H) ds) \<longleftrightarrow>
    (\<forall>d\<in>set ds. ValidateVPPDevice (dv_name d) (dv_vpp d) = Inr ())
    \<and> distinct (claimed vpp_PCI ds) \<and> set (claimed vpp_PCI ds) \<inter> fst ` set P = {}
    \<and> distinct (claimed vpp_HostIf ds) \<and> set (claimed vpp_HostIf ds) \<inter> fst ` set H = {}"
proof (induction ds arbitrary: P H)
  case (Cons d ds)
  show ?case
  proof (cases "dv_vpp d")
    case None
    then show ?thesis
      using Cons by (simp add: check_vpp_dev_None ValidateVPPDevice_def)
  next
    case (Some v)
    let ?P = "if vpp_PCI v = '''' then P else alist_put (vpp_PCI v) (dv_name d) P"
    let ?H = "if vpp_HostIf v = '''' then H else alist_put (vpp_HostIf v) (dv_name d) H"
    have "accepts (rfold (check_vpp_dev g) (P, H) (d # ds)) \<longleftrightarrow>
        check_vpp_dev g (P, H) d = Inr (?P, ?H) \<and> accepts (rfold (check_vpp_dev g) (?P, ?H) ds)"
    proof (cases "check_vpp_dev g (P, H) d")
      case (Inr ow)
      then have "ow = (?P, ?H)" unfolding check_vpp_dev_Some[OF Some] by blast
      then show ?thesis using Inr by (simp only: rfold.simps sum.case simp_thms)
    qed simp
    then show ?thesis
      unfolding check_vpp_dev_Some[OF Some] Cons by (auto simp: Some)
  qed
qed simp

text \<open>(C22) \<open>ValidateVPP\<close> accepts a configuration exactly when every \<open>vpp:\<close> block of an
  ethernet, bridge, bond, vlan or tunnel is valid by itself, no PCI address and no host
  interface is claimed by two of them, and the NAT section is valid. The order in which the
  device maps are visited plays no part.\<close>

theorem ValidateVPP_iff:
  "ValidateVPP c = Inr () \<longleftrightarrow>
    (\<forall>d\<in>set (vpp_devs (cfg_Network c)). ValidateVPPDevice (dv_name d) (dv_vpp d) = Inr ())
    \<and> distinct (claimed vpp_PCI (vpp_devs (cfg_Network c)))
    \<and> distinct (claimed vpp_HostIf (vpp_devs (cfg_Network c)))
    \<and> (case net_VPP (cfg_Network c) of None \<Rightarrow> True
       | Some g \<Rightarrow> (case vppg_NAT g of None \<Rightarrow> True | Some vn \<Rightarrow> validateNat vn = Inr ()))"
proof -
  let ?n = "cfg_Network c"
  let ?ds = "sort_key dv_name (vpp_devs ?n)"
  have "ValidateVPP c = Inr () \<longleftrightarrow> accepts (rfold (check_vpp_dev (net_Renderer ?n)) ([], []) ?ds)
    \<and> (case net_VPP ?n of None \<Rightarrow> True
       | Some g \<Rightarrow> (case vppg_NAT g of None \<Rightarrow> True | Some vn \<Rightarrow> validateNat vn = Inr ()))"
    unfolding ValidateVPP_def Let_def rbind_unit_ok by (auto split: option.splits)
  then show ?thesis
    unfolding check_vpp_fold
    using claimed_distinct_cong[of ?ds "vpp_devs ?n" vpp_PCI]
      claimed_distinct_cong[of ?ds "vpp_devs ?n" vpp_HostIf] by simp
qed

definition dpdk_eth :: "string \<Rightarrow> Ethernet option" where
  "dpdk_eth pci = Some (zero_Ethernet\<lparr>eth_VPP := Some (zero_VPPDevice\<lparr>vpp_Mode := ''dpdk'', vpp_PCI := pci\<rparr>)\<rparr>)"

definition two_dpdk :: "string \<Rightarrow> string \<Rightarrow> Config" where
  "two_dpdk p q = zero_Config\<lparr>cfg_Network := zero_Network\<lparr>net_Ethernets :=
     Some [(''e0'', dpdk_eth p), (''e1'', dpdk_eth q)]\<rparr>\<rparr>"

theorem ValidateVPP_iff_witness:
  "ValidateVPP (two_dpdk ''0000:01:00.0'' ''0000:02:00.0'') = Inr ()
   \<and> ValidateVPP (two_dpdk ''0000:01:00.0'' ''0000:01:00.0'') \<noteq> Inr ()"
  unfolding ValidateVPP_iff by code_simp


section \<open>SRv6 and NDP proxy\<close>

definition sid_fields_ok :: "SRv6LocalSID \<Rightarrow> bool" where
  "sid_fields_ok s \<longleftrightarrow>
     (sid_Action s \<in> {''End.X'', ''End.DX6''} \<longrightarrow> isIPv6 (sid_NH6 s))
   \<and> (sid_Action s = ''End.DX4'' \<longrightarrow> isIPv4 (sid_NH4 s))
   \<and> (sid_Action s \<in> {''End.T'', ''End.DT6''} \<longrightarrow> 0 < sid_Table s)
   \<and> (sid_Action s \<in> {''End.DT4'', ''End.DT46''} \<longrightarrow> 0 < sid_VRFTable s)
   \<and> (sid_Action s = ''End.DX2'' \<longrightarrow> sid_OIF s \<noteq> '''')
   \<and> (sid_Action s \<in> {''End.B6'', ''End.B6.Encaps''} \<longrightarrow> sid_Segments s \<noteq> [])
   \<and> (sid_NH4 s \<noteq> '''' \<longrightarrow> isIPv4 (sid_NH4 s))
   \<and> (sid_NH6 s \<noteq> '''' \<longrightarrow> isIPv6 (sid_NH6 s))
   \<and> (\<forall>seg\<in>set (sid_Segments s). isIPv6 seg)"

lemma isIPv6_nonempty [simp]: "\<not> isIPv6 ''''"
  by (simp add: isIPv6_def ParseIP_def parse_addr_def)

lemma rall_test_ok:
  "rall (\<lambda>x. if P x then Inr () else Inl (e x)) xs = Inr () \<longleftrightarrow> (\<forall>x\<in>set xs. P x)"
  by (auto simp: rall_ok_iff)

lemma sid_matrix:
  assumes "(sid_Action s, req) \<in> set srv6Actions"
  shows "sid_fields_ok s \<longleftrightarrow>
      (\<forall>f\<in>set req. check_required s f = Inr ())
      \<and> (sid_NH4 s \<noteq> '''' \<longrightarrow> isIPv4 (sid_NH4 s)) \<and> (sid_NH6 s \<noteq> '''' \<longrightarrow> isIPv6 (sid_NH6 s))
      \<and> (\<forall>seg\<in>set (sid_Segments s). isIPv6 seg)"
  using assms unfolding srv6Actions_def list.set insert_iff empty_iff prod.inject
  by (elim disjE conjE) (simp_all add: sid_fields_ok_def check_required_def Let_def)

text \<open>(C29) \<open>validateLocalSID\<close> accepts exactly the local SIDs whose address part is an IPv6
  address, whose action is one of the eleven seg6local behaviours and which carry every field
  that behaviour requires, all given addresses being of the right family.\<close>

theorem validateLocalSID_iff:
  "validateLocalSID (Some s) = Inr () \<longleftrightarrow>
     isIPv6 (sid_key s) \<and> sid_Action s \<in> fst ` set srv6Actions \<and> sid_fields_ok s"
proof (cases "map_of srv6Actions (sid_Action s)")
  case None
  then have "sid_Action s \<notin> fst ` set srv6Actions" by (simp add: map_of_eq_None_iff)
  then show ?thesis by (simp add: validateLocalSID_def None)
next
  case (Some req)
  then have mem: "(sid_Action s, req) \<in> set srv6Actions" by (rule map_of_SomeD)
  have empty: "\<not> isIPv6 (before (CHR ''/'') [])" by (simp add: before_def)
  have "validateLocalSID (Some s) = Inr () \<longleftrightarrow>
      isIPv6 (sid_key s) \<and> (\<forall>f\<in>set req. check_required s f = Inr ())
      \<and> (sid_NH4 s \<noteq> '''' \<longrightarrow> isIPv4 (sid_NH4 s)) \<and> (sid_NH6 s \<noteq> '''' \<longrightarrow> isIPv6 (sid_NH6 s))
      \<and> (\<forall>seg\<in>set (sid_Segments s). isIPv6 seg)"
    using empty by (auto simp: validateLocalSID_def Some rbind_unit_ok rall_ok_iff rall_test_ok sid_key_def)
  also have "\<dots> \<longleftrightarrow> isIPv6 (sid_key s) \<and> sid_Action s \<in> fst ` set srv6Actions \<and> sid_fields_ok s"
    using rev_image_eqI[OF mem, of "sid_Action s" fst] sid_matrix[OF mem] by auto
  finally show ?thesis .
qed

lemma check_sid_entry_ok:
  "check_sid_entry seen p = Inr seen' \<longleftrightarrow>
    (\<exists>s. p = Some s \<and> validateLocalSID p = Inr () \<and> sid_key s \<notin> set seen \<and> seen' = sid_key s # seen)"
  by (cases p) (auto simp: check_sid_entry_def rbind_eq_Inr validateLocalSID_def)

lemma check_sid_fold:
  "accepts (rfold check_sid_entry seen ps) \<longleftrightarrow>
    (\<forall>p\<in>set ps. p \<noteq> None \<and> validateLocalSID p = Inr ())
    \<and> distinct (map (\<lambda>p. sid_key (the p)) ps) \<and> set (map (\<lambda>p. sid_key (the p)) ps) \<inter> set seen = {}"
proof (induction ps arbitrary: seen)
  case (Cons p ps)
  have "accepts (rfold check_sid_entry seen (p # ps)) \<longleftrightarrow>
      (\<exists>seen'. check_sid_entry seen p = Inr seen' \<and> accepts (rfold check_sid_entry seen' ps))"
    by (cases "check_sid_entry seen p") auto
  then show ?case
    unfolding check_sid_entry_ok Cons by (cases p) auto
qed simp

text \<open>(C30) An \<open>srv6:\<close> section is accepted exactly when every entry of its local SID table is
  valid and no two entries have the same text before the prefix length.\<close>

theorem validateSRv6Config_iff:
  "validateSRv6Config (Some c) scope = Inr () \<longleftrightarrow>
    (\<forall>p\<in>set (srv6_LocalSIDs c). p \<noteq> None \<and> validateLocalSID p = Inr ())
    \<and> distinct (map (\<lambda>p. sid_key (the p)) (srv6_LocalSIDs c))"
  using check_sid_fold[of "[]" "srv6_LocalSIDs c"] by (simp add: validateSRv6Config_def rbind_unit_ok)

definition two_sids :: "string \<Rightarrow> string \<Rightarrow> SRv6Config" where
  "two_sids a b = zero_SRv6Config\<lparr>srv6_LocalSIDs :=
     [Some (zero_SRv6LocalSID\<lparr>sid_SID := a, sid_Action := ''End''\<rparr>),
      Some (zero_SRv6LocalSID\<lparr>sid_SID := b, sid_Action := ''End''\<rparr>)]\<rparr>"

theorem validateSRv6Config_iff_witness:
  "validateSRv6Config (Some (two_sids ''fc00::1'' ''fc00::2'')) ''srv6'' = Inr ()
   \<and> validateSRv6Config (Some (two_sids ''fc00::1'' ''fc00::1/128'')) ''srv6'' \<noteq> Inr ()"
  unfolding validateSRv6Config_iff by code_simp

text \<open>The duplicate check compares spellings: two entries for the same IPv6 address in
  different notation are both accepted.\<close>

theorem validateSRv6Config_textual_duplicates:
  "validateSRv6Config (Some (zero_SRv6Config\<lparr>srv6_LocalSIDs :=
      [Some (zero_SRv6LocalSID\<lparr>sid_SID := ''fc00::1'', sid_Action := ''End''\<rparr>),
       Some (zero_SRv6LocalSID\<lparr>sid_SID := ''fc00:0::1'', sid_Action := ''End''\<rparr>)]\<rparr>)) ''srv6'' = Inr ()
   \<and> ParseIP ''fc00::1'' = ParseIP ''fc00:0::1''"
proof -
  have "isIPv6 ''fc00::1''" "isIPv6 ''fc00:0::1''" "ParseIP ''fc00::1'' = ParseIP ''fc00:0::1''"
    by code_simp+
  then show ?thesis
    unfolding validateSRv6Config_def in_scope_def
    by (simp add: zero_SRv6Config_def zero_SRv6LocalSID_def check_sid_entry_def validateLocalSID_def
        sid_key_def before_def srv6Actions_def)
qed

lemma check_ndp_devs_ok:
  "check_ndp_devs scope kind ndproxy m = Inr () \<longleftrightarrow>
    (\<forall>(n, p)\<in>set (entries m). \<exists>d. p = Some d \<and> validateNDProxyBlock (scope @ kind @ n) (ndproxy d) = Inr ())"
  by (auto simp: check_ndp_devs_def rall_ok_iff rbind_eq_Inr)

text \<open>\<open>ValidateNDProxy\<close> never accepts a configuration with a null device among the
  ethernets, vlans, bridges or bonds (its loops dereference every entry), while
  \<open>ValidateVPP\<close> skips such entries.\<close>

theorem null_device_never_loads:
  assumes "(k, None) \<in> set (entries (net_Ethernets (cfg_Network c)))
    \<or> (k, None) \<in> set (entries (net_Vlans (cfg_Network c)))
    \<or> (k, None) \<in> set (entries (net_Bridges (cfg_Network c)))
    \<or> (k, None) \<in> set (entries (net_Bonds (cfg_Network c)))"
  shows "ValidateNDProxy c \<noteq> Inr ()"
  using assms by (auto simp: ValidateNDProxy_def Let_def rbind_unit_ok ndProxyDevices_def check_ndp_devs_ok)

theorem null_device_never_loads_witness:
  "ValidateNDProxy (zero_Config\<lparr>cfg_Network := zero_Network\<lparr>net_Ethernets := Some [(''eth0'', None)]\<rparr>\<rparr>) \<noteq> Inr ()
   \<and> ValidateNDProxy (zero_Config\<lparr>cfg_Network := zero_Network\<lparr>net_Ethernets := Some [(''eth0'', None)]\<rparr>\<rparr>)
      = Inl (Panic NilDeref)
   \<and> ValidateVPP (zero_Config\<lparr>cfg_Network := zero_Network\<lparr>net_Ethernets := Some [(''eth0'', None)]\<rparr>\<rparr>) = Inr ()"
proof (intro conjI)
  show "ValidateNDProxy (zero_Config\<lparr>cfg_Network := zero_Network\<lparr>net_Ethernets := Some [(''eth0'', None)]\<rparr>\<rparr>) \<noteq> Inr ()"
    by (rule null_device_never_loads[of "''eth0''"]) (simp add: zero_Config_def zero_Network_def)
qed (simp_all add: ValidateNDProxy_def ValidateVPP_def vpp_devs_def zero_Config_def zero_Network_def
    ndProxyDevices_def check_ndp_devs_def)


section \<open>Loading files in order\<close>

lemma move_vxlan_wf:
  "gomap_wf ts \<Longrightarrow> gomap_wf vs \<Longrightarrow>
    gomap_wf (fst (foldl move_vxlan (ts, vs) xs)) \<and> gomap_wf (snd (foldl move_vxlan (ts, vs) xs))"
proof (induction xs arbitrary: ts vs)
  case (Cons p xs)
  obtain k t where p: "p = (k, t)" by force
  have "gomap_wf (Some (alist_put k w (entries vs)))" for w
    using Cons.prems(2) by (simp add: gkeys_def)
  then show ?case
    using Cons by (simp add: p)
qed simp

lemma normalizeTunnelVxlans_wf:
  "gomap_wf ts \<Longrightarrow> gomap_wf vs \<Longrightarrow>
    gomap_wf (fst (normalizeTunnelVxlans ts vs)) \<and> gomap_wf (snd (normalizeTunnelVxlans ts vs))"
  using move_vxlan_wf by (cases ts) (simp_all add: normalizeTunnelVxlans_def)

lemma normalize_network_wf: "net_wf n \<Longrightarrow> net_wf (normalize_network n)"
  using normalizeTunnelVxlans_wf[of "net_Tunnels n" "net_Vxlans n"]
  by (cases "net_Netns n") (simp_all add: net_wf_def normalize_network_def Let_def comp_def case_prod_unfold)

lemma Normalize_wf:
  assumes "net_wf (cfg_Network c)" "gomap_wf (cfg_Netns c)"
  shows "net_wf (cfg_Network (Normalize c))"
proof -
  have "net_wf (cfg_Network (legacy_netns c))"
    using assms by (simp add: legacy_netns_def net_wf_def)
  then show ?thesis by (simp add: Normalize_def Let_def normalize_network_wf)
qed

lemma merge_netns_fold_Inr:
  "rfold merge_netns_entry (Some xs) ys = Inr m \<Longrightarrow> distinct (map fst xs) \<Longrightarrow>
    \<exists>zs. m = Some zs \<and> distinct (map fst zs)"
proof (induction ys arbitrary: xs)
  case (Cons p ys)
  obtain k v where p: "p = (k, v)" by force
  from Cons.prems(1) obtain m' where m': "merge_netns_entry (Some xs) p = Inr m'"
    "rfold merge_netns_entry m' ys = Inr m"
    by (cases "merge_netns_entry (Some xs) p") auto
  then obtain x where "m' = Some (alist_put k x xs)"
    by (auto simp: p rbind_eq_Inr split: option.splits)
  then show ?case
    using Cons.IH m'(2) Cons.prems(2) by simp
qed auto

lemma mergeConfig_Inr:
  assumes "mergeConfig dst src = Inr r" "maps_made (cfg_Network dst)"
    "net_wf (cfg_Network dst)" "net_wf (cfg_Network src)"
  shows "maps_made (cfg_Network r) \<and> net_wf (cfg_Network r)
    \<and> later_wins (cfg_Network dst) (cfg_Network src) (cfg_Network r)"
proof -
  let ?d = "cfg_Network dst" and ?s = "cfg_Network src"
  obtain xs where xs: "net_Netns ?d = Some xs" using assms(2) by (auto simp: maps_made_def)
  then have "distinct (map fst xs)" using assms(3) by (simp add: net_wf_def)
  note nns = merge_netns_fold_Inr[OF _ this]
  note wf = assms(3,4)[unfolded net_wf_def]
  have n: "net_Netns (merge_scalars ?d ?s) = Some xs" by (simp add: merge_scalars_def xs)
  have "mergeConfig dst src = Inl e"
    if "rfold merge_netns_entry (Some xs) (entries (net_Netns ?s)) = Inl e" for e
    unfolding mergeConfig_made[OF assms(2)] Let_def n that by simp
  then obtain nn where "rfold merge_netns_entry (Some xs) (entries (net_Netns ?s)) = Inr nn"
    using assms(1) by (metis sum.exhaust sum.distinct(1))
  with nns obtain zs where zs: "rfold merge_netns_entry (Some xs) (entries (net_Netns ?s)) = Inr (Some zs)"
    "distinct (map fst zs)"
    by blast
  have "case mergeConfig dst src of Inl _ \<Rightarrow> False | Inr r \<Rightarrow>
      maps_made (cfg_Network r) \<and> net_wf (cfg_Network r) \<and> later_wins ?d ?s (cfg_Network r)"
    unfolding mergeConfig_made[OF assms(2)] Let_def
    using wf zs
    by (simp add: merge_scalars_def xs maps_made_def net_wf_def later_wins_def fun_eq_iff later_mergeInto)
  then show ?thesis using assms(1) by simp
qed

text \<open>The decoder never yields a map with a repeated key.\<close>

definition decodes_maps :: "('d \<Rightarrow> Config option) \<Rightarrow> bool" where
  "decodes_maps unmarshal \<longleftrightarrow>
    (\<forall>d c. unmarshal d = Some c \<longrightarrow> net_wf (cfg_Network c) \<and> gomap_wf (cfg_Netns c))"

definition parsed :: "(string \<Rightarrow> 'd option) \<Rightarrow> ('d \<Rightarrow> Config option) \<Rightarrow> string \<Rightarrow> Config" where
  "parsed readFile unmarshal f = Normalize (the (unmarshal (the (readFile f))))"

lemma load_file_Inr:
  "load_file readFile unmarshal m f = Inr m' \<longleftrightarrow>
    (\<exists>d c. readFile f = Some d \<and> unmarshal d = Some c \<and> mergeConfig m (Normalize c) = Inr m')"
  by (auto simp: load_file_def split: option.splits)

lemma load_files_eth:
  assumes "decodes_maps unmarshal"
    "rfold (load_file readFile unmarshal) m fs = Inr m'"
    "maps_made (cfg_Network m)" "net_wf (cfg_Network m)"
  shows "gget (net_Ethernets (cfg_Network m')) k =
    foldl (\<lambda>acc f. case gget (net_Ethernets (cfg_Network (parsed readFile unmarshal f))) k of
             Some e \<Rightarrow> Some e | None \<Rightarrow> acc)
      (gget (net_Ethernets (cfg_Network m)) k) fs
    \<and> maps_made (cfg_Network m') \<and> net_wf (cfg_Network m')"
  using assms(2-)
proof (induction fs arbitrary: m)
  case (Cons f fs)
  from Cons.prems(1) obtain m1 where m1: "load_file readFile unmarshal m f = Inr m1"
    "rfold (load_file readFile unmarshal) m1 fs = Inr m'"
    by (cases "load_file readFile unmarshal m f") auto
  from m1(1) obtain d c where dc: "readFile f = Some d" "unmarshal d = Some c"
    "mergeConfig m (Normalize c) = Inr m1"
    by (auto simp: load_file_Inr)
  have "net_wf (cfg_Network (Normalize c))"
    using assms(1) dc(2) Normalize_wf by (auto simp: decodes_maps_def)
  from mergeConfig_Inr[OF dc(3) Cons.prems(2,3) this]
  have m1': "maps_made (cfg_Network m1)" "net_wf (cfg_Network m1)"
    "gget (net_Ethernets (cfg_Network m1)) k =
      later (net_Ethernets (cfg_Network m)) (net_Ethernets (cfg_Network (parsed readFile unmarshal f))) k"
    by (simp_all add: later_wins_def parsed_def dc)
  show ?case
    using Cons.IH[OF m1(2) m1'(1,2)] m1'(3) by (simp add: later_def)
qed simp

lemma empty_merged_ok: "maps_made (cfg_Network empty_merged)" "net_wf (cfg_Network empty_merged)"
  by (simp_all add: empty_merged_def zero_Config_def zero_Network_def maps_made_def net_wf_def)

text \<open>(C16) A configuration that loads has passed all three validators, and an ethernet of it
  is the one in the last file, by file name, that defines it.\<close>

theorem LoadConfig_valid_and_last_file_wins:
  assumes "decodes_maps unmarshal"
    and "LoadConfig glob readFile unmarshal dir = Inr c"
  shows "ValidateVPP c = Inr () \<and> ValidateSRv6 c = Inr () \<and> ValidateNDProxy c = Inr ()
    \<and> (\<exists>yaml yml. glob dir ''*.yaml'' = Some yaml \<and> glob dir ''*.yml'' = Some yml \<and> yaml @ yml \<noteq> []
      \<and> gget (net_Ethernets (cfg_Network c)) k =
        foldl (\<lambda>acc f. case gget (net_Ethernets (cfg_Network (parsed readFile unmarshal f))) k of
                 Some e \<Rightarrow> Some e | None \<Rightarrow> acc) None (sort (yaml @ yml)))"
proof -
  from assms(2) obtain yaml yml where
    g: "glob dir ''*.yaml'' = Some yaml" "glob dir ''*.yml'' = Some yml" "yaml @ yml \<noteq> []"
    and fold: "rfold (load_file readFile unmarshal) empty_merged (sort (yaml @ yml)) = Inr c"
    and valid: "ValidateVPP c = Inr ()" "ValidateSRv6 c = Inr ()" "ValidateNDProxy c = Inr ()"
    by (auto simp: LoadConfig_def rbind_eq_Inr split: option.splits if_splits)
  have "gget (net_Ethernets (cfg_Network empty_merged)) k = None"
    by (simp add: empty_merged_def zero_Config_def zero_Network_def)
  then show ?thesis
    using g valid load_files_eth[OF assms(1) fold empty_merged_ok, of k] by auto
qed

definition example_file :: Config where
  "example_file = zero_Config\<lparr>cfg_Network := zero_Network\<lparr>
     net_Ethernets := Some [(''eth0'', Some (zero_Ethernet\<lparr>eth_MTU := 9000\<rparr>))]\<rparr>\<rparr>"

lemma example_loads:
  "LoadConfig (\<lambda>_ p. Some (if p = ''*.yaml'' then [''a.yaml''] else [])) Some (\<lambda>_. Some example_file) ''d''
    = Inr (empty_merged\<lparr>cfg_Network := (cfg_Network empty_merged)\<lparr>net_Version := 2,
        net_Ethernets := Some [(''eth0'', Some (zero_Ethernet\<lparr>eth_MTU := 9000\<rparr>))]\<rparr>\<rparr>)"
  by (simp add: LoadConfig_def load_file_def mergeConfig_made empty_merged_ok Let_def example_file_def
      empty_merged_def zero_Config_def zero_Network_def zero_Ethernet_def merge_scalars_def mergeInto_def
      Normalize_def legacy_netns_def normalize_network_def normalizeTunnelVxlans_def maps_made_def
      ValidateVPP_def vpp_devs_def check_vpp_dev_def ValidateVPPDevice_def VPPManaged_def
      ValidateSRv6_def validateSRv6Config_def ValidateNDProxy_def ndProxyDevices_def check_ndp_devs_def
      validateNDProxyBlock_def)

theorem LoadConfig_valid_and_last_file_wins_witness:
  "\<exists>c. LoadConfig (\<lambda>_ p. Some (if p = ''*.yaml'' then [''a.yaml''] else [])) Some (\<lambda>_. Some example_file) ''d'' = Inr c
    \<and> ValidateVPP c = Inr ()
    \<and> gget (net_Ethernets (cfg_Network c)) ''eth0'' = Some (Some (zero_Ethernet\<lparr>eth_MTU := 9000\<rparr>))"
proof -
  have "decodes_maps (\<lambda>_. Some example_file)"
    by (simp add: decodes_maps_def net_wf_def example_file_def zero_Config_def zero_Network_def)
  from LoadConfig_valid_and_last_file_wins[OF this example_loads] show ?thesis
    unfolding example_loads
    by (simp add: empty_merged_def zero_Config_def zero_Network_def)
qed

section \<open>Determinism of startup.conf\<close>

text \<open>The generated \<open>startup.conf\<close> does not depend on the order in which the DPDK
  devices were collected from the device map, as long as no PCI address is listed twice.\<close>

theorem GenerateStartupConf_deterministic:
  assumes "mset devs = mset devs'" "distinct (map dpdkdev_PCI (startup_devs g devs))"
  shows "GenerateStartupConf g devs = GenerateStartupConf g devs'"
proof -
  have m: "mset (startup_devs g devs) = mset (startup_devs g devs')"
    using assms(1) by (simp add: startup_devs_def)
  then have s: "set (startup_devs g devs) = set (startup_devs g devs')"
    by (metis set_mset_mset)
  have d: "distinct (map dpdkdev_PCI (startup_devs g devs'))"
    using assms(2) m by (metis mset_eq_imp_distinct_iff mset_map)
  have srt: "distinct (map dpdkdev_PCI (sort_key dpdkdev_PCI xs)) = distinct (map dpdkdev_PCI xs)" for xs
    by (rule mset_eq_imp_distinct_iff) simp
  have "sort_key dpdkdev_PCI (startup_devs g devs) = sort_key dpdkdev_PCI (startup_devs g devs')"
    using assms(2) d s by (intro map_sorted_distinct_set_unique[where f = dpdkdev_PCI])
      (simp_all add: srt distinct_map)
  moreover have "startup_devs g devs = [] \<longleftrightarrow> startup_devs g devs' = []"
    using m by (metis mset_zero_iff)
  ultimately show ?thesis
    unfolding GenerateStartupConf_def Let_def by simp
qed

theorem GenerateStartupConf_deterministic_witness:
  "GenerateStartupConf None
      [\<lparr>dpdkdev_Name = ''b'', dpdkdev_PCI = ''0000:02''\<rparr>, \<lparr>dpdkdev_Name = ''a'', dpdkdev_PCI = ''0000:01''\<rparr>]
   = GenerateStartupConf None
      [\<lparr>dpdkdev_Name = ''a'', dpdkdev_PCI = ''0000:01''\<rparr>, \<lparr>dpdkdev_Name = ''b'', dpdkdev_PCI = ''0000:02''\<rparr>]"
  by (rule GenerateStartupConf_deterministic) (simp_all add: startup_devs_def startup_dpdk_def startup_of_def)

end
