(* ===== verification/Kernel.thy ===== *)
theory Kernel
  imports ConfigValid
begin

text \<open>
  The boundary between netcfg and the system, and the small command language the effectful
  code is written in.

  Everything netcfg asks of its surroundings (the netlink and netns packages, ethtool, wgctrl,
  the file system, external programs) is an \<open>event\<close>: the namespace of the handle the call is made
  on and the request. The surroundings are a parameter: a function from the events so far
  and the next event to a \<open>reply\<close>, about which nothing is assumed. A command is the code of a Go
  function that may return an error or panic: from a \<open>world\<close> (the environment and the trace of
  events) to an outcome and the extended trace. Logging and the closing of handles are left out.
\<close>

section \<open>Requests and replies\<close>

text \<open>The operational state of a link is given by the name the netlink package prints for it.\<close>

record link =
  l_Name :: string
  l_Index :: int
  l_Up :: bool
  l_HW :: string
  l_Type :: string
  l_Oper :: string
  l_MTU :: int
  l_Master :: int

datatype macvlan_mode = MACVLAN_PRIVATE | MACVLAN_VEPA | MACVLAN_PASSTHRU | MACVLAN_SOURCE | MACVLAN_BRIDGE
datatype ipvlan_mode = IPVLAN_L2 | IPVLAN_L3 | IPVLAN_L3S
datatype bond_mode = BALANCE_RR | ACTIVE_BACKUP | BALANCE_XOR | BROADCAST | LACP_802_3AD | BALANCE_TLB | BALANCE_ALB
datatype ad_select = AD_STABLE | AD_BANDWIDTH | AD_COUNT
datatype arp_validate = ARPV_NONE | ARPV_ACTIVE | ARPV_BACKUP | ARPV_ALL
datatype arp_all_targets = ARP_TARGETS_ANY | ARP_TARGETS_ALL
datatype fail_over_mac = FOM_NONE | FOM_ACTIVE | FOM_FOLLOW
datatype primary_reselect = PR_ALWAYS | PR_BETTER | PR_FAILURE
datatype route_scope = SCOPE_UNIVERSE | SCOPE_SITE | SCOPE_LINK | SCOPE_HOST | SCOPE_NOWHERE
datatype route_type = RTN_UNICAST | RTN_LOCAL | RTN_BROADCAST | RTN_ANYCAST | RTN_MULTICAST
  | RTN_BLACKHOLE | RTN_UNREACHABLE | RTN_PROHIBIT | RTN_THROW | RTN_NAT
datatype neigh_state = NUD_PERMANENT | NUD_NOARP | NUD_REACHABLE
datatype neigh_family = AF_BRIDGE | FAMILY_V4 | FAMILY_V6

text \<open>The attributes of a bond; \<open>None\<close> is the sentinel of \<open>NewLinkBond\<close> (not sent to the
  kernel). The LACP rate and the transmit hash policy are values of the library's own tables.\<close>

record bond_attrs =
  ba_Mode :: bond_mode
  ba_LacpRate :: "int option"
  ba_XmitHashPolicy :: "int option"
  ba_AdSelect :: "ad_select option"
  ba_ArpValidate :: "arp_validate option"
  ba_ArpAllTargets :: "arp_all_targets option"
  ba_FailOverMac :: "fail_over_mac option"
  ba_PrimaryReselect :: "primary_reselect option"
  ba_Miimon :: "int option"
  ba_MinLinks :: "int option"
  ba_ArpInterval :: "int option"
  ba_UpDelay :: "int option"
  ba_DownDelay :: "int option"
  ba_NumPeerNotif :: "int option"
  ba_PacketsPerSlave :: "int option"
  ba_ResendIgmp :: "int option"
  ba_LpInterval :: "int option"
  ba_AllSlavesActive :: "int option"
  ba_ArpIpTargets :: "byte list list"
  ba_Primary :: "int option"

record vxlan_attrs =
  va_VxlanId :: int
  va_SrcAddr :: "byte list option"
  va_Group :: "byte list option"
  va_Port :: int
  va_PortLow :: int
  va_PortHigh :: int
  va_TTL :: int
  va_TOS :: int
  va_Age :: int
  va_Limit :: int
  va_Learning :: bool
  va_Proxy :: bool
  va_RSC :: bool
  va_L2miss :: bool
  va_L3miss :: bool
  va_NoAge :: bool
  va_GBP :: bool
  va_FlowBased :: bool
  va_UDPCSum :: bool
  va_UDP6ZeroCSumTx :: bool
  va_UDP6ZeroCSumRx :: bool
  va_VtepDevIndex :: int

record tun_attrs =
  ta_ParentIndex :: int
  ta_Local :: "byte list option"
  ta_Remote :: "byte list option"
  ta_Ttl :: "8 word"
  ta_Tos :: "8 word"

datatype linkspec =
    LDummy
  | LVeth string
  | LMacvlan int macvlan_mode
  | LMacvtap int macvlan_mode
  | LIpvlan int ipvlan_mode
  | LBridge
  | LBond bond_attrs
  | LVlan int int
  | LVxlan vxlan_attrs
  | LVrf "32 word"
  | LGretap tun_attrs
  | LIptun tun_attrs
  | LIp6tnl tun_attrs
  | LSittun tun_attrs
  | LVti tun_attrs
  | LGeneric string int
  | LTun
  | LTap

datatype seg6_mode = SEG6_ENCAP | SEG6_INLINE

record seg6local =
  s6_Action :: string
  s6_Table :: "int option"
  s6_VrfTable :: "int option"
  s6_InAddr :: "byte list option"
  s6_In6Addr :: "byte list option"
  s6_Oif :: "int option"
  s6_Iif :: "int option"
  s6_Segments :: "byte list list option"

datatype route_encap = SEG6Encap seg6_mode "byte list list" | SEG6LocalEncap seg6local

record nlroute =
  rt_Dst :: "IPNet option"
  rt_Gw :: "byte list option"
  rt_LinkIndex :: int
  rt_Src :: "byte list option"
  rt_Priority :: int
  rt_Table :: int
  rt_Scope :: "route_scope option"
  rt_Type :: "route_type option"
  rt_OnLink :: bool
  rt_MTU :: int
  rt_Encap :: "route_encap option"

record nlrule =
  ru_Src :: "IPNet option"
  ru_Dst :: "IPNet option"
  ru_Table :: "int option"
  ru_Priority :: "int option"
  ru_Mark :: "32 word option"

record nlneigh =
  ng_LinkIndex :: int
  ng_Family :: neigh_family
  ng_IP :: "byte list option"
  ng_HW :: "byte list option"
  ng_State :: "neigh_state option"
  ng_Self :: bool
  ng_Proxy :: bool

text \<open>\<open>ParseAddr\<close> is the address parser of the netlink package: it replies with an opaque
  address.\<close>

type_synonym nladdr = string

text \<open>The device configuration of \<open>wgctrl\<close>; \<open>None\<close> is a nil pointer (leave unchanged). Keys and
  resolved endpoints are opaque replies of the library.\<close>

record wg_peer =
  wp_PublicKey :: string
  wp_Remove :: bool
  wp_PresharedKey :: "string option"
  wp_Endpoint :: "string option"
  wp_ReplaceAllowedIPs :: bool
  wp_AllowedIPs :: "IPNet list"
  wp_Keepalive :: "int option"

record wg_config =
  wc_PrivateKey :: "string option"
  wc_ListenPort :: "int option"
  wc_FirewallMark :: "int option"
  wc_ReplacePeers :: bool
  wc_Peers :: "wg_peer list"

record wg_peer_info =
  wi_PublicKey :: string
  wi_Endpoint :: "string option"
  wi_AllowedIPs :: "string list"
  wi_LastHandshake :: "string option"
  wi_ReceiveBytes :: int
  wi_TransmitBytes :: int
  wi_Keepalive :: int

record wg_device =
  wd_Name :: string
  wd_PublicKey :: string
  wd_ListenPort :: int
  wd_FirewallMark :: int
  wd_Peers :: "wg_peer_info list"

record nl_DHCPOverrides =
  do_UseDNS :: bool
  do_UseMTU :: bool
  do_UseRoutes :: bool
  do_RouteMetric :: int
  do_UseDomains :: bool

subsection \<open>The binary API of VPP\<close>

text \<open>The messages the applier of \<open>vpp/*.go\<close> sends, with the fields it varies; the others
  (queue counts, flood and learn flags, automatic instance numbers) are constants of the source.
  Addresses, prefixes and MAC addresses are parsed by the binding's own parsers: the parse
  is a request, the value is opaque except for its family. \<open>zero_vaddr\<close> is the Go zero value.\<close>

datatype vpp_parser = P_Address | P_IP4 | P_IP6 | P_Prefix | P_IP6Prefix | P_AddressWithPrefix | P_Mac

datatype vaddr = VAddr (va_ip6: bool) (va_text: string)

definition zero_vaddr :: vaddr where
  "zero_vaddr = VAddr False ''''"

datatype vpp_bond_mode = BOND_ROUND_ROBIN | BOND_ACTIVE_BACKUP | BOND_XOR | BOND_BROADCAST | BOND_LACP

datatype nat_flag = NAT_IS_TWICE_NAT | NAT_IS_OUTSIDE | NAT_IS_INSIDE | NAT_IS_ADDR_ONLY

type_synonym sw_if = "32 word"

record nat44_mapping =
  n44_Local :: vaddr
  n44_Protocol :: "8 word"
  n44_LocalPort :: "16 word"
  n44_ExternalPort :: "16 word"
  n44_ExternalSwIfIndex :: sw_if
  n44_ExternalIP :: vaddr
  n44_VrfID :: "32 word"
  n44_Flags :: "nat_flag list"

datatype (plugins only: code size) vpp_call =
    SwInterfaceDump
  | VParse vpp_parser string
  | DevAttach string string
  | DevCreatePortIf "32 word" string
  | SwInterfaceTagAdd sw_if string
  | AfPacketCreateV3 string
  | AfPacketDelete string
  | CreateLoopback
  | DeleteLoopback sw_if
  | SwInterfaceSetFlags sw_if bool
  | SwInterfaceSetMtu sw_if "32 word list"
  | SwInterfaceSetMacAddress sw_if vaddr
  | SwInterfaceAddAddress sw_if vaddr
  | IPRouteAdd "32 word" vaddr sw_if bool vaddr
  | BondCreate2 vpp_bond_mode
  | BondAddMember sw_if sw_if
  | BondDelete sw_if
  | CreateVlanSubif sw_if "32 word"
  | DeleteSubif sw_if
  | VxlanAddDelTunnelV3 bool vaddr vaddr "16 word" "32 word"
  | BridgeDomainAddDel bool "32 word"
  | SwInterfaceSetL2Bridge sw_if "32 word" bool
  | TapCreateV3 string
  | TapDeleteV2 sw_if
  | IP6ndProxyAddDel bool sw_if vaddr
  | Nat44EdPluginEnable "32 word" "32 word" "32 word"
  | Nat44InterfaceAddDelFeature bool nat_flag sw_if
  | Nat44EdAddDelOutputInterface bool sw_if
  | Nat44AddDelAddressRange bool vaddr vaddr "32 word" "nat_flag list"
  | Nat44AddDelStaticMapping bool nat44_mapping
  | Nat64PluginEnable
  | Nat64AddDelPrefix bool vaddr "32 word"
  | Nat64AddDelInterface bool nat_flag sw_if
  | Nat64AddDelPoolAddrRange bool vaddr vaddr "32 word"
  | Nat66PluginEnable
  | Nat66AddDelStaticMapping bool vaddr vaddr "32 word"

record vpp_if =
  vi_Index :: sw_if
  vi_Name :: string
  vi_Tag :: string

subsection \<open>The DHCP client library\<close>

text \<open>What the clients of \<open>netlink/purego\<close> ask of the DHCP library: opening a client (timeout and
  retries when they are set), the four-way exchange, and a message with its answer. An
  acknowledgement is the record of what the library's accessors return for it; durations are
  nanoseconds.\<close>

record offer4 =
  of_HW :: "byte list"
  of_YourIP :: "byte list"
  of_ServerIP :: "byte list"
  of_Netmask :: "byte list"
  of_Router :: "byte list"
  of_DNS :: "byte list list"

datatype dhcp4_option = SubnetMask | Router | DomainNameServer | DomainName | InterfaceMTU | ClasslessStaticRoute | NTPServers

datatype dhcp4_mod = WithHostName string | WithClientIdentifier "byte list" | WithOption4 string | WithRequested4 "dhcp4_option list"

datatype dhcp4_msg =
    RequestFromOffer offer4
  | MsgRelease "byte list" "byte list" "byte list"
  | MsgDecline "byte list" "byte list" "byte list"
  | MsgInform "byte list" "byte list" "dhcp4_option list"

record ack4 =
  ak_IsAck :: bool
  ak_YourIPAddr :: "byte list"
  ak_ServerIPAddr :: "byte list"
  ak_SubnetMask :: "byte list option"
  ak_Router :: "byte list list"
  ak_DNS :: "byte list list"
  ak_DomainName :: string
  ak_LeaseTime :: int
  ak_MTU :: "16 word option"
  ak_Routes :: "string list option"
  ak_NTP :: "byte list list option"
  ak_ServerID :: "byte list option"
  ak_T1 :: int
  ak_T2 :: int

datatype dhcp6_type = RENEW6 | REBIND6 | RELEASE6 | DECLINE6 | INFORMATION_REQUEST6

datatype dhcp6_option = DNSRecursiveNameServer | DomainSearchList | BootfileURL | SNTPServerList

datatype dhcp6_mod = WithRequested6 "dhcp6_option list" | WithIAPD "byte list" | WithOption6 string | WithRapidCommit

record dhcp6_msg =
  m6_Type :: dhcp6_type
  m6_ClientLL :: "byte list"
  m6_ServerID :: "string option"
  m6_IANA :: "(byte list \<times> byte list) list"
  m6_Requested :: "dhcp6_option list"

record iana6 =
  ia_IaId :: "byte list"
  ia_Addresses :: "(byte list \<times> int) list"

record reply6 =
  r6_IANA :: "iana6 list"
  r6_IAPD :: "IPNet list list"
  r6_DNS :: "byte list list"
  r6_Domains :: "string list option"
  r6_ServerID :: "string option"

datatype dhcp_call =
    Client4 string "int option" "int option"
  | Request4 "dhcp4_mod list"
  | SendAndRead4 "byte list option" dhcp4_msg
  | Client6 string "int option" "int option"
  | Solicit6 "dhcp6_mod list"
  | RapidSolicit6 "dhcp6_mod list"
  | Request6 "dhcp6_mod list"
  | SendAndRead6 dhcp6_msg

record iface =
  if_Index :: int
  if_MTU :: int
  if_HW :: "byte list"
  if_Addrs :: "IPNet list"

subsection \<open>Events\<close>

datatype (plugins only: code size) request =
    NewHandle
  | NsGetFromName string
  | NsNewNamed string
  | NsDeleteNamed string
  | NsGet
  | NsSetOrig
  | NsSet string
  | LinkByName string
  | LinkList
  | AddrList link
  | ParseAddr string
  | LookupLacpRate string
  | LookupXmitHashPolicy string
  | ReadFile string
  | Readlink string
  | StatFile string
  | LookPath string
  | Getenv string
  | EthFeatures string
  | WgNew
  | WgParseKey string
  | ResolveUDP string
  | LinkAdd string linkspec
  | LinkDel link
  | LinkSetUp link
  | LinkSetDown link
  | LinkSetMTU link int
  | LinkSetHardwareAddr link "byte list"
  | LinkSetNsFd link string
  | LinkSetName link string
  | LinkSetMaster link link
  | LinkSetToken link "byte list"
  | AddrAdd link nladdr string bool
  | AddrDel link nladdr
  | RouteAdd nlroute
  | RouteReplace nlroute
  | RouteDel nlroute
  | RuleAdd nlrule
  | RuleDel nlrule
  | NeighAdd nlneigh
  | NeighSet nlneigh
  | NeighDel nlneigh
  | Mkdir string
  | WriteFile string string
  | RemoveFile string
  | Kill int
  | Exec "string list"
  | EthChange string "(string \<times> bool) list"
  | EthWakeOnLan string
  | DevlinkSetEswitch string string
  | WgConfigure string wg_config
  | GoDHCPv4 string "string option" "string option" bool nl_DHCPOverrides
  | GoDHCPv6 string nl_DHCPOverrides
  | AddrListV4 link
  | AddrAddNet link IPNet
  | LinkSetAlias link string
  | LinkSetAllmulti link bool
  | NetInterface string
  | Hostname
  | ReadDir string
  | RouteListOif "int option"
  | WgDevice string
  | WgDevices
  | WgGenerate bool
  | WgPublicKey string
  | Now
  | Sleep int
  | Print string
  | StartProcess string "string list"
  | Dhcp dhcp_call
  | VppConnect string
  | Vpp vpp_call

datatype event = Ev (ev_ns: string) (ev_req: request)

datatype (plugins only: code size) reply =
    ROk
  | RFail string
  | RLink link
  | RLinks "link list"
  | RAddrs "string list"
  | RAddr nladdr
  | RStr string
  | RInt int
  | RFeatures "string list"
  | RStrs "string list"
  | RIface iface
  | RAck ack4
  | RReply6 reply6
  | RVppAddr vaddr
  | RSwIf sw_if
  | RDump "vpp_if list" "string option"
  | RDev int "32 word" string
  | RRoutes "(string option \<times> string option) list"
  | RWg wg_device
  | RDirs "(string \<times> bool) list"
  | RNotExist

section \<open>Commands\<close>

datatype nl_error = Sys string | Invalid string string | Missing string | Wrap string nl_error | CfgErr cfg_error

text \<open>Besides the environment and the trace a world holds the interface cache of the VPP applier
  (\<open>Applier.idx\<close>), the one piece of mutable memory that outlives an error return.\<close>

record world =
  w_env :: "event list \<Rightarrow> event \<Rightarrow> reply"
  w_trace :: "event list"
  w_idx :: "(string \<times> sw_if) list"

type_synonym outcome = "nl_error fault option"
type_synonym cmd = "world \<Rightarrow> outcome \<times> world"

definition nop :: cmd where
  "nop = (\<lambda>w. (None, w))"

definition failwith :: "nl_error \<Rightarrow> cmd" where
  "failwith e = (\<lambda>w. (Some (Err e), w))"

definition crash :: "go_panic \<Rightarrow> cmd" where
  "crash p = (\<lambda>w. (Some (Panic p), w))"

definition andthen :: "cmd \<Rightarrow> cmd \<Rightarrow> cmd" where
  "andthen a b = (\<lambda>w. case a w of (None, w') \<Rightarrow> b w' | (Some e, w') \<Rightarrow> (Some e, w'))"

text \<open>\<open>steps\<close> runs commands until one returns an error or panics; \<open>each\<close> is a loop that does.\<close>

fun steps :: "cmd list \<Rightarrow> cmd" where
  "steps [] = nop"
| "steps (c # cs) = andthen c (steps cs)"

definition each :: "'a list \<Rightarrow> ('a \<Rightarrow> cmd) \<Rightarrow> cmd" where
  "each xs f = steps (map f xs)"

definition only_if :: "bool \<Rightarrow> cmd \<Rightarrow> cmd" where
  "only_if b c = (if b then c else nop)"

text \<open>\<open>warn c\<close>: an error of \<open>c\<close> is logged and execution goes on; a panic is not caught.
  \<open>attempt c k h\<close> continues with \<open>k\<close> after success and with \<open>h\<close> after an error.\<close>

definition attempt :: "cmd \<Rightarrow> cmd \<Rightarrow> (nl_error \<Rightarrow> cmd) \<Rightarrow> cmd" where
  "attempt c k h = (\<lambda>w. case c w of
      (None, w') \<Rightarrow> k w'
    | (Some (Err e), w') \<Rightarrow> h e w'
    | (Some (Panic p), w') \<Rightarrow> (Some (Panic p), w'))"

definition warn :: "cmd \<Rightarrow> cmd" where
  "warn c = attempt c nop (\<lambda>_. nop)"

definition wrap :: "string \<Rightarrow> cmd \<Rightarrow> cmd" where
  "wrap s c = attempt c nop (\<lambda>e. failwith (Wrap s e))"

definition ask :: "event \<Rightarrow> (reply \<Rightarrow> cmd) \<Rightarrow> cmd" where
  "ask e k = (\<lambda>w. k (w_env w (w_trace w) e) (w\<lparr>w_trace := w_trace w @ [e]\<rparr>))"

definition call :: "event \<Rightarrow> cmd" where
  "call e = ask e (\<lambda>r. case r of RFail m \<Rightarrow> failwith (Sys m) | _ \<Rightarrow> nop)"

definition with_ptr :: "'a option \<Rightarrow> ('a \<Rightarrow> cmd) \<Rightarrow> cmd" where
  "with_ptr p k = (case p of None \<Rightarrow> crash NilDeref | Some x \<Rightarrow> k x)"

lemmas cmd_defs = nop_def failwith_def crash_def andthen_def only_if_def attempt_def warn_def wrap_def
  ask_def call_def with_ptr_def each_def

text \<open>The events of a run in an environment, from an empty trace, and its outcome.\<close>

definition run :: "(event list \<Rightarrow> event \<Rightarrow> reply) \<Rightarrow> cmd \<Rightarrow> outcome \<times> event list" where
  "run env c = (case c \<lparr>w_env = env, w_trace = [], w_idx = []\<rparr> of (r, w) \<Rightarrow> (r, w_trace w))"

section \<open>What a command may do\<close>

text \<open>\<open>behaves E nn P c\<close>: run in an environment that satisfies \<open>E\<close>, the command \<open>c\<close> only adds events
  that satisfy \<open>P\<close> to the trace and, if \<open>nn\<close>, does not panic. The rules for the combinators are
  in the collection \<open>behaves_intros\<close>.\<close>

named_theorems behaves_intros "rules for the behaviour of commands"

type_synonym environment = "event list \<Rightarrow> event \<Rightarrow> reply"

definition panics :: "outcome \<Rightarrow> bool" where
  "panics r = (case r of Some (Panic _) \<Rightarrow> True | _ \<Rightarrow> False)"

lemma panics_simps [simp]: "\<not> panics None" "\<not> panics (Some (Err e))" "panics (Some (Panic p))"
  by (simp_all add: panics_def)

definition behaves_at :: "bool \<Rightarrow> (event \<Rightarrow> bool) \<Rightarrow> world \<Rightarrow> outcome \<times> world \<Rightarrow> bool" where
  "behaves_at nn P w rw \<longleftrightarrow> w_env (snd rw) = w_env w \<and> (\<exists>es. w_trace (snd rw) = w_trace w @ es \<and> list_all P es)
     \<and> (nn \<longrightarrow> \<not> panics (fst rw))"

definition behaves :: "(environment \<Rightarrow> bool) \<Rightarrow> bool \<Rightarrow> (event \<Rightarrow> bool) \<Rightarrow> cmd \<Rightarrow> bool" where
  "behaves E nn P c \<longleftrightarrow> (\<forall>w. E (w_env w) \<longrightarrow> behaves_at nn P w (c w))"

definition replies :: "(environment \<Rightarrow> bool) \<Rightarrow> event \<Rightarrow> reply \<Rightarrow> bool" where
  "replies E e r \<longleftrightarrow> (\<exists>env tr. E env \<and> r = env tr e)"

lemma behaves_atD: "behaves E nn P c \<Longrightarrow> E (w_env w) \<Longrightarrow> behaves_at nn P w (c w)"
  by (simp add: behaves_def)

lemma behaves_at_trans:
  "behaves_at nn P w (r, w') \<Longrightarrow> behaves_at nn P w' rw \<Longrightarrow> behaves_at nn P w rw"
  by (auto simp: behaves_at_def)

lemma behaves_at_env: "behaves_at nn P w (r, w') \<Longrightarrow> w_env w' = w_env w"
  by (simp add: behaves_at_def)

lemma behaves_at_here [simp]: "behaves_at nn P w (r, w) \<longleftrightarrow> (nn \<longrightarrow> \<not> panics r)"
  by (simp add: behaves_at_def)

text \<open>Sequencing: what runs next may depend on the outcome, and a panic is passed on.\<close>

lemma behaves_seq:
  assumes "behaves E nn P a" "\<And>r. (nn \<Longrightarrow> \<not> panics r) \<Longrightarrow> behaves E nn P (k r)"
  shows "behaves E nn P (\<lambda>w. case a w of (r, w') \<Rightarrow> k r w')"
  unfolding behaves_def
proof (intro allI impI)
  fix w :: world assume E: "E (w_env w)"
  obtain r w' where a: "a w = (r, w')" by force
  with behaves_atD[OF assms(1) E] have 1: "behaves_at nn P w (r, w')" by simp
  then have "nn \<Longrightarrow> \<not> panics r" "E (w_env w')"
    using E by (auto simp: behaves_at_def)
  then have "behaves_at nn P w' (k r w')" by (intro behaves_atD[OF assms(2)])
  then show "behaves_at nn P w (case a w of (r, w') \<Rightarrow> k r w')"
    using behaves_at_trans[OF 1] a by simp
qed

lemma behaves_nop [behaves_intros, simp]: "behaves E nn P nop"
  by (simp add: behaves_def nop_def)

lemma behaves_fail [behaves_intros, simp]: "behaves E nn P (failwith e)"
  by (simp add: behaves_def failwith_def)

lemma behaves_crash [behaves_intros]: "\<not> nn \<Longrightarrow> behaves E nn P (crash p)"
  by (simp add: behaves_def crash_def)

lemma behaves_stop: "(nn \<Longrightarrow> \<not> panics r) \<Longrightarrow> behaves E nn P (\<lambda>w. (r, w))"
  by (auto simp: behaves_def)

lemma behaves_attempt [behaves_intros]:
  assumes "behaves E nn P c" "behaves E nn P k" "\<And>e. behaves E nn P (h e)"
  shows "behaves E nn P (attempt c k h)"
proof -
  let ?k = "\<lambda>r. case r of None \<Rightarrow> k | Some (Err e) \<Rightarrow> h e | Some (Panic p) \<Rightarrow> crash p"
  have "attempt c k h = (\<lambda>w. case c w of (r, w') \<Rightarrow> ?k r w')"
    by (auto simp: attempt_def crash_def fun_eq_iff split: prod.splits option.splits fault.splits)
  moreover have "behaves E nn P (?k r)" if "nn \<Longrightarrow> \<not> panics r" for r
    using that assms(2,3) by (auto simp: panics_def intro!: behaves_crash split: option.splits fault.splits)
  ultimately show ?thesis using behaves_seq[OF assms(1), of ?k] by simp
qed

lemma behaves_andthen [behaves_intros]: "behaves E nn P a \<Longrightarrow> behaves E nn P b \<Longrightarrow> behaves E nn P (andthen a b)"
proof -
  assume a: "behaves E nn P a" and b: "behaves E nn P b"
  have "andthen a b = attempt a b failwith"
    by (auto simp: andthen_def attempt_def failwith_def fun_eq_iff split: prod.splits option.splits fault.splits)
  then show ?thesis using a b by (simp add: behaves_attempt)
qed

lemma behaves_ask [behaves_intros]:
  assumes "P e" "\<And>r. replies E e r \<Longrightarrow> behaves E nn P (k r)"
  shows "behaves E nn P (ask e k)"
  unfolding behaves_def
proof (intro allI impI)
  fix w :: world assume E: "E (w_env w)"
  let ?w = "w\<lparr>w_trace := w_trace w @ [e]\<rparr>" and ?r = "w_env w (w_trace w) e"
  have "replies E e ?r" using E by (auto simp: replies_def)
  then have "behaves_at nn P ?w (k ?r ?w)" using E by (intro behaves_atD[OF assms(2)]) simp_all
  moreover have "behaves_at nn P w (None, ?w)" using assms(1) by (simp add: behaves_at_def)
  ultimately show "behaves_at nn P w (ask e k w)" by (simp add: ask_def behaves_at_trans)
qed

lemma behaves_call [behaves_intros]: "P e \<Longrightarrow> behaves E nn P (call e)"
  unfolding call_def by (rule behaves_ask) (simp_all split: reply.splits)

lemma behaves_warn [behaves_intros]: "behaves E nn P c \<Longrightarrow> behaves E nn P (warn c)"
  unfolding warn_def by (intro behaves_intros)

lemma behaves_wrap [behaves_intros]: "behaves E nn P c \<Longrightarrow> behaves E nn P (wrap s c)"
  unfolding wrap_def by (intro behaves_intros)

lemma behaves_only_if [behaves_intros]: "(b \<Longrightarrow> behaves E nn P c) \<Longrightarrow> behaves E nn P (only_if b c)"
  by (simp add: only_if_def)

lemma behaves_with_ptr [behaves_intros]:
  "(nn \<Longrightarrow> p \<noteq> None) \<Longrightarrow> (\<And>x. p = Some x \<Longrightarrow> behaves E nn P (k x)) \<Longrightarrow> behaves E nn P (with_ptr p k)"
  by (cases p) (auto simp: with_ptr_def intro: behaves_crash)

lemma behaves_steps_Nil [behaves_intros]: "behaves E nn P (steps [])"
  by simp

lemma behaves_steps_Cons [behaves_intros]:
  "behaves E nn P c \<Longrightarrow> behaves E nn P (steps cs) \<Longrightarrow> behaves E nn P (steps (c # cs))"
  by (simp add: behaves_andthen)

lemma behaves_each [behaves_intros]: "(\<And>x. x \<in> set xs \<Longrightarrow> behaves E nn P (f x)) \<Longrightarrow> behaves E nn P (each xs f)"
  unfolding each_def by (induction xs) (auto intro: behaves_intros)

lemma behaves_if [behaves_intros]:
  "(b \<Longrightarrow> behaves E nn P c) \<Longrightarrow> (\<not> b \<Longrightarrow> behaves E nn P d) \<Longrightarrow> behaves E nn P (if b then c else d)"
  by simp

lemma behaves_option [behaves_intros]:
  "(p = None \<Longrightarrow> behaves E nn P c) \<Longrightarrow> (\<And>x. p = Some x \<Longrightarrow> behaves E nn P (k x))
    \<Longrightarrow> behaves E nn P (case p of None \<Rightarrow> c | Some x \<Rightarrow> k x)"
  by (cases p) simp_all

text \<open>A branch on one kind of reply against all others gives two goals.\<close>

lemma behaves_reply_else [behaves_intros]:
  "(\<And>x. r = RFail x \<Longrightarrow> behaves E nn P (f1 x)) \<Longrightarrow> ((\<And>x. r \<noteq> RFail x) \<Longrightarrow> behaves E nn P b)
    \<Longrightarrow> behaves E nn P (case r of RFail x \<Rightarrow> f1 x | _ \<Rightarrow> b)"
  "(\<And>x. r = RLink x \<Longrightarrow> behaves E nn P (f2 x)) \<Longrightarrow> ((\<And>x. r \<noteq> RLink x) \<Longrightarrow> behaves E nn P b)
    \<Longrightarrow> behaves E nn P (case r of RLink x \<Rightarrow> f2 x | _ \<Rightarrow> b)"
  "(\<And>x. r = RLinks x \<Longrightarrow> behaves E nn P (f3 x)) \<Longrightarrow> ((\<And>x. r \<noteq> RLinks x) \<Longrightarrow> behaves E nn P b)
    \<Longrightarrow> behaves E nn P (case r of RLinks x \<Rightarrow> f3 x | _ \<Rightarrow> b)"
  "(\<And>x. r = RAddrs x \<Longrightarrow> behaves E nn P (f4 x)) \<Longrightarrow> ((\<And>x. r \<noteq> RAddrs x) \<Longrightarrow> behaves E nn P b)
    \<Longrightarrow> behaves E nn P (case r of RAddrs x \<Rightarrow> f4 x | _ \<Rightarrow> b)"
  "(\<And>x. r = RAddr x \<Longrightarrow> behaves E nn P (f5 x)) \<Longrightarrow> ((\<And>x. r \<noteq> RAddr x) \<Longrightarrow> behaves E nn P b)
    \<Longrightarrow> behaves E nn P (case r of RAddr x \<Rightarrow> f5 x | _ \<Rightarrow> b)"
  "(\<And>x. r = RStr x \<Longrightarrow> behaves E nn P (f6 x)) \<Longrightarrow> ((\<And>x. r \<noteq> RStr x) \<Longrightarrow> behaves E nn P b)
    \<Longrightarrow> behaves E nn P (case r of RStr x \<Rightarrow> f6 x | _ \<Rightarrow> b)"
  "(\<And>x. r = RInt x \<Longrightarrow> behaves E nn P (f7 x)) \<Longrightarrow> ((\<And>x. r \<noteq> RInt x) \<Longrightarrow> behaves E nn P b)
    \<Longrightarrow> behaves E nn P (case r of RInt x \<Rightarrow> f7 x | _ \<Rightarrow> b)"
  "(\<And>x. r = RVppAddr x \<Longrightarrow> behaves E nn P (f8 x)) \<Longrightarrow> ((\<And>x. r \<noteq> RVppAddr x) \<Longrightarrow> behaves E nn P b)
    \<Longrightarrow> behaves E nn P (case r of RVppAddr x \<Rightarrow> f8 x | _ \<Rightarrow> b)"
  "(\<And>x. r = RSwIf x \<Longrightarrow> behaves E nn P (f9 x)) \<Longrightarrow> ((\<And>x. r \<noteq> RSwIf x) \<Longrightarrow> behaves E nn P b)
    \<Longrightarrow> behaves E nn P (case r of RSwIf x \<Rightarrow> f9 x | _ \<Rightarrow> b)"
  "(\<And>x. r = RStrs x \<Longrightarrow> behaves E nn P (f10 x)) \<Longrightarrow> ((\<And>x. r \<noteq> RStrs x) \<Longrightarrow> behaves E nn P b)
    \<Longrightarrow> behaves E nn P (case r of RStrs x \<Rightarrow> f10 x | _ \<Rightarrow> b)"
  "(\<And>x. r = RIface x \<Longrightarrow> behaves E nn P (f11 x)) \<Longrightarrow> ((\<And>x. r \<noteq> RIface x) \<Longrightarrow> behaves E nn P b)
    \<Longrightarrow> behaves E nn P (case r of RIface x \<Rightarrow> f11 x | _ \<Rightarrow> b)"
  by (cases r; simp)+

lemma behaves_reply [behaves_intros]:
  assumes "r = ROk \<Longrightarrow> behaves E nn P (c0)" "\<And>x. r = RFail x \<Longrightarrow> behaves E nn P (c1 x)"
    "\<And>x. r = RLink x \<Longrightarrow> behaves E nn P (c2 x)" "\<And>x. r = RLinks x \<Longrightarrow> behaves E nn P (c3 x)"
    "\<And>x. r = RAddrs x \<Longrightarrow> behaves E nn P (c4 x)" "\<And>x. r = RAddr x \<Longrightarrow> behaves E nn P (c5 x)"
    "\<And>x. r = RStr x \<Longrightarrow> behaves E nn P (c6 x)" "\<And>x. r = RInt x \<Longrightarrow> behaves E nn P (c7 x)"
    "\<And>x. r = RFeatures x \<Longrightarrow> behaves E nn P (c8 x)" "\<And>x. r = RStrs x \<Longrightarrow> behaves E nn P (c9 x)"
    "\<And>x. r = RIface x \<Longrightarrow> behaves E nn P (c10 x)" "\<And>x. r = RAck x \<Longrightarrow> behaves E nn P (c11 x)"
    "\<And>x. r = RReply6 x \<Longrightarrow> behaves E nn P (c12 x)"
    "\<And>x. r = RVppAddr x \<Longrightarrow> behaves E nn P (c13 x)" "\<And>x. r = RSwIf x \<Longrightarrow> behaves E nn P (c14 x)"
    "\<And>x y. r = RDump x y \<Longrightarrow> behaves E nn P (c15 x y)"
    "\<And>x y z. r = RDev x y z \<Longrightarrow> behaves E nn P (c16 x y z)"
    "\<And>x. r = RRoutes x \<Longrightarrow> behaves E nn P (c17 x)" "\<And>x. r = RWg x \<Longrightarrow> behaves E nn P (c18 x)"
    "\<And>x. r = RDirs x \<Longrightarrow> behaves E nn P (c19 x)" "r = RNotExist \<Longrightarrow> behaves E nn P c20"
  shows "behaves E nn P (case r of ROk \<Rightarrow> c0 | RFail x \<Rightarrow> c1 x | RLink x \<Rightarrow> c2 x | RLinks x \<Rightarrow> c3 x
    | RAddrs x \<Rightarrow> c4 x | RAddr x \<Rightarrow> c5 x | RStr x \<Rightarrow> c6 x | RInt x \<Rightarrow> c7 x
    | RFeatures x \<Rightarrow> c8 x | RStrs x \<Rightarrow> c9 x | RIface x \<Rightarrow> c10 x | RAck x \<Rightarrow> c11 x
    | RReply6 x \<Rightarrow> c12 x | RVppAddr x \<Rightarrow> c13 x | RSwIf x \<Rightarrow> c14 x | RDump x y \<Rightarrow> c15 x y
    | RDev x y z \<Rightarrow> c16 x y z | RRoutes x \<Rightarrow> c17 x | RWg x \<Rightarrow> c18 x | RDirs x \<Rightarrow> c19 x | RNotExist \<Rightarrow> c20)"
  using assms by (cases r) simp_all

lemma behaves_sum [behaves_intros]:
  "(\<And>x. s = Inl x \<Longrightarrow> behaves E nn P (f x)) \<Longrightarrow> (\<And>y. s = Inr y \<Longrightarrow> behaves E nn P (g y))
    \<Longrightarrow> behaves E nn P (case s of Inl x \<Rightarrow> f x | Inr y \<Rightarrow> g y)"
  by (cases s) simp_all

lemma behaves_prod [behaves_intros]:
  "(\<And>x y. p = (x, y) \<Longrightarrow> behaves E nn P (f x y)) \<Longrightarrow> behaves E nn P (case p of (x, y) \<Rightarrow> f x y)"
  by (cases p) simp

lemma behaves_mono: "behaves E nn P c \<Longrightarrow> (\<And>e. P e \<Longrightarrow> Q e) \<Longrightarrow> behaves E nn Q c"
  unfolding behaves_def behaves_at_def by (metis list.pred_mono_strong)

lemma behaves_run:
  "behaves E nn P c \<Longrightarrow> E env \<Longrightarrow> list_all P (snd (run env c)) \<and> (nn \<longrightarrow> \<not> panics (fst (run env c)))"
  by (drule behaves_atD[where w = "\<lparr>w_env = env, w_trace = [], w_idx = []\<rparr>"])
    (auto simp: run_def behaves_at_def split: prod.splits)

text \<open>A command that never returns an error (it may still panic).\<close>

definition no_error :: "cmd \<Rightarrow> bool" where
  "no_error c \<longleftrightarrow> (\<forall>w. case fst (c w) of Some (Err _) \<Rightarrow> False | _ \<Rightarrow> True)"

lemma no_error_warn: "no_error (warn c)"
  by (auto simp: no_error_def warn_def attempt_def nop_def split: prod.splits option.splits fault.splits)

lemma no_error_nop: "no_error nop"
  by (simp add: no_error_def nop_def)

lemma no_error_andthen: "no_error a \<Longrightarrow> no_error b \<Longrightarrow> no_error (andthen a b)"
  unfolding no_error_def andthen_def
  by (auto split: prod.splits option.splits fault.splits) (metis fst_conv option.case(2) fault.case(1))+

lemma no_error_steps: "(\<And>c. c \<in> set cs \<Longrightarrow> no_error c) \<Longrightarrow> no_error (steps cs)"
  by (induction cs) (auto intro: no_error_andthen no_error_nop)

lemma no_error_ask: "(\<And>r. no_error (k r)) \<Longrightarrow> no_error (ask e k)"
  by (simp add: no_error_def ask_def)

end
