(* ===== verification/Sha256.thy ===== *)
theory Sha256
  imports GoStd
begin

text \<open>
  \<open>sha256.Sum256\<close> of the package \<open>crypto/sha256\<close> (FIPS 180-4), from which \<open>deriveStableSecret\<close> makes the key of the stable
  privacy addresses, and \<open>net.IP.String\<close>, which prints it.
\<close>

unbundle bit_operations_syntax

section \<open>Addresses as text\<close>

definition ip4_string :: "byte list \<Rightarrow> string" where
  "ip4_string b = join_with ''.'' (map (\<lambda>x. digits (unat x)) b)"

fun groups16 :: "byte list \<Rightarrow> nat list" where
  "groups16 (a # b # r) = (256 * unat a + unat b) # groups16 r"
| "groups16 _ = []"

definition zero_run :: "nat list \<Rightarrow> nat \<times> nat" where
  "zero_run g = foldl (\<lambda>(s, e) i.
     let l = length (takeWhile (\<lambda>x. x = 0) (drop i g)) in if 2 \<le> l \<and> e - s < l then (i, i + l) else (s, e))
     (255, 255) [0..<length g]"

definition ip6_string :: "byte list \<Rightarrow> string" where
  "ip6_string b = (let g = groups16 b in case zero_run g of (s, e) \<Rightarrow>
     if s = 255 then join_with '':'' (map hexs g)
     else join_with '':'' (map hexs (take s g)) @ ''::'' @ join_with '':'' (map hexs (drop e g)))"

text \<open>\<open>net.IP.String\<close> on nil, IPv4, IPv4-mapped and IPv6 addresses.\<close>

definition ip_string :: "byte list \<Rightarrow> string" where
  "ip_string ip = (if ip = [] then ''<nil>''
     else (case To4 ip of Some b \<Rightarrow> ip4_string b | None \<Rightarrow> ip6_string ip))"

section \<open>The hash\<close>

text \<open>The constants are the first 32 bits of the fractional parts of roots of primes. \<open>iroot e k r n\<close> finds the integer
  root of degree \<open>e\<close> bit by bit, from bit \<open>k - 1\<close> down.\<close>

fun iroot :: "nat \<Rightarrow> nat \<Rightarrow> nat \<Rightarrow> nat \<Rightarrow> nat" where
  "iroot e 0 r n = r"
| "iroot e (Suc k) r n = iroot e k (if (r + 2 ^ k) ^ e \<le> n then r + 2 ^ k else r) n"

definition frac_root :: "nat \<Rightarrow> nat \<Rightarrow> 32 word" where
  "frac_root e p = of_nat (iroot e 41 0 (p * 2 ^ (32 * e)))"

definition sha_primes :: "nat list" where
  "sha_primes = filter (\<lambda>p. \<forall>d\<in>set [2..<p]. p mod d \<noteq> 0) [2..<312]"

definition sha_K :: "32 word list" where
  "sha_K = map (frac_root 3) sha_primes"

type_synonym sha_state = "32 word \<times> 32 word \<times> 32 word \<times> 32 word \<times> 32 word \<times> 32 word \<times> 32 word \<times> 32 word"

definition sha_init :: sha_state where
  "sha_init = (frac_root 2 2, frac_root 2 3, frac_root 2 5, frac_root 2 7, frac_root 2 11, frac_root 2 13, frac_root 2 17, frac_root 2 19)"

text \<open>Big-endian bytes of a number.\<close>

fun be_bytes :: "nat \<Rightarrow> nat \<Rightarrow> byte list" where
  "be_bytes 0 n = []"
| "be_bytes (Suc k) n = be_bytes k (n div 256) @ [of_nat (n mod 256)]"

fun be_words :: "byte list \<Rightarrow> 32 word list" where
  "be_words (a # b # c # d # r) = of_nat (((unat a * 256 + unat b) * 256 + unat c) * 256 + unat d) # be_words r"
| "be_words _ = []"

definition sha_pad :: "byte list \<Rightarrow> byte list" where
  "sha_pad m = m @ [0x80] @ replicate ((119 - length m mod 64) mod 64) 0 @ be_bytes 8 (8 * length m)"

definition small_sigma0 :: "32 word \<Rightarrow> 32 word" where
  "small_sigma0 x = word_rotr 7 x XOR word_rotr 18 x XOR drop_bit 3 x"

definition small_sigma1 :: "32 word \<Rightarrow> 32 word" where
  "small_sigma1 x = word_rotr 17 x XOR word_rotr 19 x XOR drop_bit 10 x"

definition big_sigma0 :: "32 word \<Rightarrow> 32 word" where
  "big_sigma0 x = word_rotr 2 x XOR word_rotr 13 x XOR word_rotr 22 x"

definition big_sigma1 :: "32 word \<Rightarrow> 32 word" where
  "big_sigma1 x = word_rotr 6 x XOR word_rotr 11 x XOR word_rotr 25 x"

text \<open>The message schedule: \<open>n\<close> words are appended, each from the sixteen before it.\<close>

fun sha_schedule :: "nat \<Rightarrow> 32 word list \<Rightarrow> 32 word list" where
  "sha_schedule 0 w = w"
| "sha_schedule (Suc n) w = (let t = length w in
     sha_schedule n (w @ [small_sigma1 (w ! (t - 2)) + w ! (t - 7) + small_sigma0 (w ! (t - 15)) + w ! (t - 16)]))"

fun sha_round :: "sha_state \<Rightarrow> 32 word \<times> 32 word \<Rightarrow> sha_state" where
  "sha_round (a, b, c, d, e, f, g, h) (k, w) =
    (let t1 = h + big_sigma1 e + ((e AND f) XOR (NOT e AND g)) + k + w;
         t2 = big_sigma0 a + ((a AND b) XOR (a AND c) XOR (b AND c))
     in (t1 + t2, a, b, c, d + t1, e, f, g))"

fun sha_add :: "sha_state \<Rightarrow> sha_state \<Rightarrow> sha_state" where
  "sha_add (a, b, c, d, e, f, g, h) (a', b', c', d', e', f', g', h') =
    (a + a', b + b', c + c', d + d', e + e', f + f', g + g', h + h')"

function sha_blocks :: "sha_state \<Rightarrow> 32 word list \<Rightarrow> sha_state" where
  "sha_blocks h w = (if length w < 16 then h
     else sha_blocks (sha_add h (foldl sha_round h (zip sha_K (sha_schedule 48 (take 16 w))))) (drop 16 w))"
  by pat_completeness auto
termination
  by (relation "measure (\<lambda>(_, w). length w)") auto

declare sha_blocks.simps [simp del]

fun sha_bytes :: "sha_state \<Rightarrow> byte list" where
  "sha_bytes (a, b, c, d, e, f, g, h) = concat (map (\<lambda>x. be_bytes 4 (unat x)) [a, b, c, d, e, f, g, h])"

definition Sum256 :: "byte list \<Rightarrow> byte list" where
  "Sum256 m = sha_bytes (sha_blocks sha_init (be_words (sha_pad m)))"

section \<open>The stable secret\<close>

definition bytes_of :: "string \<Rightarrow> byte list" where
  "bytes_of s = map (\<lambda>c. of_nat (of_char c)) s"

text \<open>The secret of an interface, given the content of \<open>/etc/machine-id\<close>.\<close>

definition stable_secret :: "string \<Rightarrow> string \<Rightarrow> string" where
  "stable_secret mid ifaceName = ip_string (take 16 (Sum256 (bytes_of (trim_space mid @ ifaceName))))"

section \<open>Facts\<close>

lemma iroot_spec:
  "r ^ e \<le> n \<Longrightarrow> n < (r + 2 ^ k) ^ e \<Longrightarrow> iroot e k r n ^ e \<le> n \<and> n < (iroot e k r n + 1) ^ e"
  by (induction e k r n rule: iroot.induct) (auto simp: not_le ac_simps mult_2)

text \<open>The bits suffice for primes below \<open>2 ^ 9\<close>.\<close>

lemma iroot_enough: "0 < e \<Longrightarrow> p < 2 ^ 9 \<Longrightarrow> p * 2 ^ (32 * e) < (2 ^ 41 :: nat) ^ e"
proof -
  assume "0 < e" "p < 2 ^ 9"
  have "p * 2 ^ (32 * e) < 2 ^ 9 * 2 ^ (32 * e)" using \<open>p < 2 ^ 9\<close> by simp
  also have "\<dots> \<le> 2 ^ (9 * e) * 2 ^ (32 * e)" using \<open>0 < e\<close> by (intro mult_right_mono power_increasing) simp_all
  also have "\<dots> = 2 ^ (41 * e)" by (simp flip: power_add)
  also have "\<dots> = (2 ^ 41) ^ e" by (rule power_mult)
  finally show ?thesis .
qed

lemma frac_root_spec:
  assumes "0 < e" "p < 2 ^ 9"
  shows "\<exists>r. frac_root e p = of_nat r \<and> r ^ e \<le> p * 2 ^ (32 * e) \<and> p * 2 ^ (32 * e) < (r + 1) ^ e"
proof -
  have "0 ^ e \<le> p * 2 ^ (32 * e)" using assms(1) by (simp add: power_0_left)
  from iroot_spec[OF this] iroot_enough[OF assms] show ?thesis unfolding frac_root_def by (metis add_0)
qed

lemma be_bytes_length [simp]: "length (be_bytes k n) = k"
  by (induction k arbitrary: n) auto

text \<open>The padding fills the last block.\<close>

lemma sha_pad_length: "64 dvd length (sha_pad m)"
proof -
  define q r where qr: "q = length m div 64" "r = length m mod 64"
  have r: "r < 64" and m: "length m = 64 * q + r" by (simp_all add: qr)
  have "(119 - r) mod 64 = (if r \<le> 55 then 55 - r else 119 - r)"
    using r by (auto simp: mod_if)
  then have "length (sha_pad m) = 64 * (if r \<le> 55 then q + 1 else q + 2)"
    using r m by (simp add: sha_pad_def qr(2)[symmetric])
  then show ?thesis by (metis dvd_triv_left)
qed

lemma Sum256_length: "length (Sum256 m) = 32"
proof -
  have "length (sha_bytes s) = 32" for s by (induction s rule: sha_bytes.induct) simp
  then show ?thesis by (simp add: Sum256_def)
qed

end
