(* ===== verification/Netlink.thy ===== *)
theory Netlink
  imports Kernel Sha256
begin

text \<open>
  The manager of \<open>netlink/netlink.go\<close> (with \<open>netlink/srv6.go\<close>, \<open>netlink/ndproxy.go\<close>,
  \<open>netlink/ethtool.go\<close> and the sysctl and DNS helpers of \<open>netlink/dhcp.go\<close>): each operation
  turns its arguments into requests on the handle of one namespace, which is all that is left
  of a \<open>NetlinkManager\<close> here. Operations that return a value take a continuation.
\<close>

section \<open>Handles and namespaces\<close>

type_synonym mgr = string

definition sys_error :: "reply \<Rightarrow> nl_error" where
  "sys_error r = Sys (case r of RFail m \<Rightarrow> m | _ \<Rightarrow> ''unexpected reply'')"

definition New :: "(mgr \<Rightarrow> cmd) \<Rightarrow> cmd" where
  "New k = ask (Ev '''' NewHandle) (\<lambda>r. case r of
      RFail m \<Rightarrow> failwith (Wrap ''failed to create netlink handle'' (Sys m)) | _ \<Rightarrow> k '''')"

definition NewWithNetns :: "string \<Rightarrow> (mgr \<Rightarrow> cmd) \<Rightarrow> cmd" where
  "NewWithNetns ns k = ask (Ev '''' (NsGetFromName ns)) (\<lambda>r. case r of
      RFail m \<Rightarrow> failwith (Wrap (''failed to get netns '' @ ns) (Sys m))
    | _ \<Rightarrow> ask (Ev ns NewHandle) (\<lambda>r. case r of
        RFail m \<Rightarrow> failwith (Wrap (''failed to create netlink handle at netns '' @ ns) (Sys m))
      | _ \<Rightarrow> k ns))"

definition CreateNetns :: "string \<Rightarrow> cmd" where
  "CreateNetns name = steps
    [wrap ''failed to create netns dir'' (call (Ev '''' (Mkdir ''/var/run/netns''))),
     wrap ''failed to get current netns'' (call (Ev '''' NsGet)),
     wrap (''failed to create netns '' @ name) (call (Ev '''' (NsNewNamed name))),
     wrap (''failed to restore netns after creating '' @ name) (call (Ev '''' NsSetOrig))]"

definition DeleteNetns :: "string \<Rightarrow> cmd" where
  "DeleteNetns name = call (Ev '''' (NsDeleteNamed name))"

definition NetnsExists :: "string \<Rightarrow> (bool \<Rightarrow> cmd) \<Rightarrow> cmd" where
  "NetnsExists name k = ask (Ev '''' (NsGetFromName name)) (\<lambda>r. k (case r of RFail _ \<Rightarrow> False | _ \<Rightarrow> True))"

definition RunInNetns :: "string \<Rightarrow> cmd \<Rightarrow> cmd" where
  "RunInNetns ns body = steps
    [wrap ''failed to get current netns'' (call (Ev '''' NsGet)),
     wrap (''failed to get netns '' @ ns) (call (Ev '''' (NsGetFromName ns))),
     wrap (''failed to set netns '' @ ns) (call (Ev '''' (NsSet ns))),
     attempt body
       (wrap ''failed to restore netns'' (call (Ev '''' NsSetOrig)))
       (\<lambda>e. andthen (wrap ''failed to restore netns'' (call (Ev '''' NsSetOrig))) (failwith e))]"

section \<open>Links\<close>

definition GetLink :: "mgr \<Rightarrow> string \<Rightarrow> (link \<Rightarrow> cmd) \<Rightarrow> cmd" where
  "GetLink m name k = ask (Ev m (LinkByName name)) (\<lambda>r. case r of
      RLink l \<Rightarrow> k l | _ \<Rightarrow> failwith (Wrap (''failed to get link '' @ name) (sys_error r)))"

definition LinkExists :: "mgr \<Rightarrow> string \<Rightarrow> (bool \<Rightarrow> cmd) \<Rightarrow> cmd" where
  "LinkExists m name k = ask (Ev m (LinkByName name)) (\<lambda>r. k (case r of RLink _ \<Rightarrow> True | _ \<Rightarrow> False))"

text \<open>\<open>if parent, err := LinkByName(...); err == nil { ... }\<close>: the index, or \<open>None\<close>.\<close>

definition TryLink :: "mgr \<Rightarrow> string \<Rightarrow> (int option \<Rightarrow> cmd) \<Rightarrow> cmd" where
  "TryLink m name k = ask (Ev m (LinkByName name)) (\<lambda>r. k (case r of RLink l \<Rightarrow> Some (l_Index l) | _ \<Rightarrow> None))"

definition SetLinkUp :: "mgr \<Rightarrow> string \<Rightarrow> cmd" where
  "SetLinkUp m name = GetLink m name (\<lambda>l. call (Ev m (LinkSetUp l)))"

definition SetLinkDown :: "mgr \<Rightarrow> string \<Rightarrow> cmd" where
  "SetLinkDown m name = GetLink m name (\<lambda>l. call (Ev m (LinkSetDown l)))"

definition SetLinkMTU :: "mgr \<Rightarrow> string \<Rightarrow> int \<Rightarrow> cmd" where
  "SetLinkMTU m name mtu = GetLink m name (\<lambda>l. call (Ev m (LinkSetMTU l mtu)))"

definition SetLinkMacAddress :: "mgr \<Rightarrow> string \<Rightarrow> string \<Rightarrow> cmd" where
  "SetLinkMacAddress m name mac = GetLink m name (\<lambda>l.
     case ParseMAC mac of None \<Rightarrow> failwith (Invalid ''mac address'' mac)
     | Some hw \<Rightarrow> call (Ev m (LinkSetHardwareAddr l hw)))"

definition SetLinkNetns :: "mgr \<Rightarrow> string \<Rightarrow> string \<Rightarrow> cmd" where
  "SetLinkNetns m name ns = GetLink m name (\<lambda>l.
     andthen (wrap (''failed to get netns '' @ ns) (call (Ev '''' (NsGetFromName ns))))
       (call (Ev m (LinkSetNsFd l ns))))"

definition DeleteLink :: "mgr \<Rightarrow> string \<Rightarrow> cmd" where
  "DeleteLink m name = GetLink m name (\<lambda>l. call (Ev m (LinkDel l)))"

subsection \<open>Matching\<close>

text \<open>\<open>filepath.Match\<close> on single-byte characters: an ill-formed pattern matches nothing.\<close>

datatype gtok = GStar | GAny | GLit char | GSet bool "(char \<times> char) list"

fun glob_esc :: "string \<Rightarrow> (char \<times> string) option" where
  "glob_esc [] = None"
| "glob_esc (c # cs) =
    (if c = CHR ''-'' \<or> c = CHR '']'' then None
     else if c = CHR 0x5C then (case cs of [] \<Rightarrow> None | d # ds \<Rightarrow> if ds = [] then None else Some (d, ds))
     else if cs = [] then None else Some (c, cs))"

fun glob_ranges :: "nat \<Rightarrow> (char \<times> char) list \<Rightarrow> string \<Rightarrow> ((char \<times> char) list \<times> string) option" where
  "glob_ranges 0 acc s = None"
| "glob_ranges (Suc n) acc s =
    (case s of
       [] \<Rightarrow> None
     | c # cs \<Rightarrow>
        if c = CHR '']'' \<and> acc \<noteq> [] then Some (acc, cs)
        else (case glob_esc s of
           None \<Rightarrow> None
         | Some (lo, r) \<Rightarrow>
            if r \<noteq> [] \<and> hd r = CHR ''-'' then
              (case glob_esc (tl r) of None \<Rightarrow> None | Some (hi, r') \<Rightarrow> glob_ranges n (acc @ [(lo, hi)]) r')
            else glob_ranges n (acc @ [(lo, lo)]) r))"

fun glob_parse :: "nat \<Rightarrow> string \<Rightarrow> gtok list option" where
  "glob_parse 0 s = (if s = [] then Some [] else None)"
| "glob_parse (Suc n) s =
    (case s of
       [] \<Rightarrow> Some []
     | c # cs \<Rightarrow>
        if c = CHR ''*'' then map_option ((#) GStar) (glob_parse n cs)
        else if c = CHR ''?'' then map_option ((#) GAny) (glob_parse n cs)
        else if c = CHR ''['' then
          (let neg = (cs \<noteq> [] \<and> hd cs = CHR ''^'') in
           case glob_ranges (length s) [] (if neg then tl cs else cs) of
             None \<Rightarrow> None | Some (rs, r) \<Rightarrow> map_option ((#) (GSet neg rs)) (glob_parse n r))
        else if c = CHR 0x5C then
          (case cs of [] \<Rightarrow> None | d # ds \<Rightarrow> map_option ((#) (GLit d)) (glob_parse n ds))
        else map_option ((#) (GLit c)) (glob_parse n cs))"

fun glob_match :: "gtok list \<Rightarrow> string \<Rightarrow> bool" where
  "glob_match [] s = (s = [])"
| "glob_match (GStar # ts) [] = glob_match ts []"
| "glob_match (GStar # ts) (c # cs) = (glob_match ts (c # cs) \<or> (c \<noteq> CHR ''/'' \<and> glob_match (GStar # ts) cs))"
| "glob_match (GAny # ts) (c # cs) = (c \<noteq> CHR ''/'' \<and> glob_match ts cs)"
| "glob_match (GLit d # ts) (c # cs) = (c = d \<and> glob_match ts cs)"
| "glob_match (GSet neg rs # ts) (c # cs) =
    (list_ex (\<lambda>(lo, hi). lo \<le> c \<and> c \<le> hi) rs \<noteq> neg \<and> glob_match ts cs)"
| "glob_match (t # ts) [] = False"

definition filepath_Match :: "string \<Rightarrow> string \<Rightarrow> bool" where
  "filepath_Match pattern name =
    (case glob_parse (length pattern) pattern of None \<Rightarrow> False | Some ts \<Rightarrow> glob_match ts name)"

record MatchCriteria =
  mc_Name :: string
  mc_MacAddress :: string
  mc_Driver :: string

definition mc_IsEmpty :: "MatchCriteria \<Rightarrow> bool" where
  "mc_IsEmpty c \<longleftrightarrow> mc_Name c = '''' \<and> mc_MacAddress c = '''' \<and> mc_Driver c = ''''"

definition filepath_Base :: "string \<Rightarrow> string" where
  "filepath_Base p =
    (let q = rev (dropWhile (\<lambda>c. c = CHR ''/'') (rev p)) in
     if p = [] then ''.'' else if q = [] then ''/'' else last (split_on (CHR ''/'') q))"

definition linkDriver :: "string \<Rightarrow> (string \<Rightarrow> cmd) \<Rightarrow> cmd" where
  "linkDriver name k = ask (Ev '''' (Readlink (''/sys/class/net/'' @ name @ ''/device/driver'')))
     (\<lambda>r. k (case r of RStr t \<Rightarrow> filepath_Base t | _ \<Rightarrow> ''''))"

fun match_links :: "MatchCriteria \<Rightarrow> link list \<Rightarrow> string list \<Rightarrow> (string list \<Rightarrow> cmd) \<Rightarrow> cmd" where
  "match_links c [] acc k = k acc"
| "match_links c (l # ls) acc k =
    (if mc_Name c \<noteq> '''' \<and> \<not> filepath_Match (mc_Name c) (l_Name l) then match_links c ls acc k
     else if mc_MacAddress c \<noteq> '''' \<and> \<not> equal_fold (l_HW l) (mc_MacAddress c) then match_links c ls acc k
     else if mc_Driver c \<noteq> '''' then
       linkDriver (l_Name l) (\<lambda>drv.
         if filepath_Match (mc_Driver c) drv then match_links c ls (acc @ [l_Name l]) k
         else match_links c ls acc k)
     else match_links c ls (acc @ [l_Name l]) k)"

definition FindMatchingLink :: "mgr \<Rightarrow> MatchCriteria \<Rightarrow> (string \<Rightarrow> cmd) \<Rightarrow> cmd" where
  "FindMatchingLink m c k =
    (if mc_IsEmpty c then k ''''
     else ask (Ev m LinkList) (\<lambda>r. case r of
        RLinks ls \<Rightarrow> match_links c ls [] (\<lambda>matched. k (if matched = [] then '''' else hd (sort matched)))
      | _ \<Rightarrow> failwith (Wrap ''failed to list links'' (sys_error r))))"

definition RenameLink :: "mgr \<Rightarrow> string \<Rightarrow> string \<Rightarrow> cmd" where
  "RenameLink m old new =
    (if old = new then nop
     else GetLink m old (\<lambda>l. steps
       [wrap (''failed to set '' @ old @ '' down for rename'') (call (Ev m (LinkSetDown l))),
        wrap (''failed to rename '' @ old) (call (Ev m (LinkSetName l new))),
        only_if (l_Up l) (ask (Ev m (LinkByName new)) (\<lambda>r. case r of
            RLink l' \<Rightarrow> warn (call (Ev m (LinkSetUp l'))) | _ \<Rightarrow> nop))]))"

section \<open>Creating devices\<close>

definition AddDummyDevice :: "mgr \<Rightarrow> string \<Rightarrow> cmd" where
  "AddDummyDevice m name = call (Ev m (LinkAdd name LDummy))"

definition AddVethPair :: "mgr \<Rightarrow> string \<Rightarrow> string \<Rightarrow> cmd" where
  "AddVethPair m name peer = call (Ev m (LinkAdd name (LVeth peer)))"

definition parseMacvlanMode :: "string \<Rightarrow> macvlan_mode" where
  "parseMacvlanMode mode = (let s = to_lower mode in
     if s = ''private'' then MACVLAN_PRIVATE
     else if s = ''vepa'' then MACVLAN_VEPA
     else if s = ''passthru'' \<or> s = ''passthrough'' then MACVLAN_PASSTHRU
     else if s = ''source'' then MACVLAN_SOURCE
     else MACVLAN_BRIDGE)"

definition AddMacvlanDevice :: "mgr \<Rightarrow> string \<Rightarrow> string \<Rightarrow> string \<Rightarrow> cmd" where
  "AddMacvlanDevice m name parent mode = GetLink m parent (\<lambda>p.
     call (Ev m (LinkAdd name (LMacvlan (l_Index p) (parseMacvlanMode mode)))))"

definition AddMacvtapDevice :: "mgr \<Rightarrow> string \<Rightarrow> string \<Rightarrow> string \<Rightarrow> cmd" where
  "AddMacvtapDevice m name parent mode = GetLink m parent (\<lambda>p.
     call (Ev m (LinkAdd name (LMacvtap (l_Index p) (parseMacvlanMode mode)))))"

definition AddBridge :: "mgr \<Rightarrow> string \<Rightarrow> cmd" where
  "AddBridge m name = call (Ev m (LinkAdd name LBridge))"

definition SetMaster :: "mgr \<Rightarrow> string \<Rightarrow> string \<Rightarrow> cmd" where
  "SetMaster m linkName masterName = GetLink m linkName (\<lambda>l. GetLink m masterName (\<lambda>b.
     call (Ev m (LinkSetMaster l b))))"

definition SetBridgeMaster :: "mgr \<Rightarrow> string \<Rightarrow> string \<Rightarrow> cmd" where
  "SetBridgeMaster = SetMaster"

definition SetVrfMaster :: "mgr \<Rightarrow> string \<Rightarrow> string \<Rightarrow> cmd" where
  "SetVrfMaster = SetMaster"

record BondOptions =
  bo_Mode :: string
  bo_LacpRate :: string
  bo_MIIMonitorInterval :: int
  bo_MinLinks :: int
  bo_TransmitHashPolicy :: string
  bo_ADSelect :: string
  bo_AllSlavesActive :: bool
  bo_ARPInterval :: int
  bo_ARPIPTargets :: "string list"
  bo_ARPValidate :: string
  bo_ARPAllTargets :: string
  bo_UpDelay :: int
  bo_DownDelay :: int
  bo_FailOverMACPolicy :: string
  bo_GratuitousARP :: int
  bo_PacketsPerSlave :: int
  bo_PrimaryReselectPolicy :: string
  bo_ResendIGMP :: int
  bo_LearnPacketInterval :: int
  bo_Primary :: string

definition ParseBondMode :: "string \<Rightarrow> bond_mode" where
  "ParseBondMode mode = (let s = to_lower mode in
     if s \<in> set [''balance-rr'', ''0''] then BALANCE_RR
     else if s \<in> set [''active-backup'', ''1''] then ACTIVE_BACKUP
     else if s \<in> set [''balance-xor'', ''2''] then BALANCE_XOR
     else if s \<in> set [''broadcast'', ''3''] then BROADCAST
     else if s \<in> set [''802.3ad'', ''4''] then LACP_802_3AD
     else if s \<in> set [''balance-tlb'', ''5''] then BALANCE_TLB
     else if s \<in> set [''balance-alb'', ''6''] then BALANCE_ALB
     else BALANCE_RR)"

definition parseBondAdSelect :: "string \<Rightarrow> ad_select option" where
  "parseBondAdSelect s = map_of [(''stable'', AD_STABLE), (''bandwidth'', AD_BANDWIDTH), (''count'', AD_COUNT)] (to_lower s)"

definition parseBondArpValidate :: "string \<Rightarrow> arp_validate option" where
  "parseBondArpValidate s = map_of
    [(''none'', ARPV_NONE), (''active'', ARPV_ACTIVE), (''backup'', ARPV_BACKUP), (''all'', ARPV_ALL)] (to_lower s)"

definition parseBondArpAllTargets :: "string \<Rightarrow> arp_all_targets option" where
  "parseBondArpAllTargets s = map_of [(''any'', ARP_TARGETS_ANY), (''all'', ARP_TARGETS_ALL)] (to_lower s)"

definition parseBondFailOverMac :: "string \<Rightarrow> fail_over_mac option" where
  "parseBondFailOverMac s = map_of [(''none'', FOM_NONE), (''active'', FOM_ACTIVE), (''follow'', FOM_FOLLOW)] (to_lower s)"

definition parseBondPrimaryReselect :: "string \<Rightarrow> primary_reselect option" where
  "parseBondPrimaryReselect s = map_of [(''always'', PR_ALWAYS), (''better'', PR_BETTER), (''failure'', PR_FAILURE)] (to_lower s)"

text \<open>A string option of a bond: unset, looked up, or an error naming the option.\<close>

definition bond_enum :: "string \<Rightarrow> string \<Rightarrow> (string \<Rightarrow> 'v option) \<Rightarrow> ('v option \<Rightarrow> cmd) \<Rightarrow> cmd" where
  "bond_enum what val parse k =
    (if val = '''' then k None
     else (case parse val of None \<Rightarrow> failwith (Invalid what val) | Some v \<Rightarrow> k (Some v)))"

definition bond_table :: "string \<Rightarrow> string \<Rightarrow> (string \<Rightarrow> request) \<Rightarrow> (int option \<Rightarrow> cmd) \<Rightarrow> cmd" where
  "bond_table what val lookup k =
    (if val = '''' then k None
     else ask (Ev '''' (lookup (to_lower val))) (\<lambda>r. case r of RInt v \<Rightarrow> k (Some v) | _ \<Rightarrow> failwith (Invalid what val)))"

abbreviation nonzero :: "int \<Rightarrow> int option" where
  "nonzero i \<equiv> (if i \<noteq> 0 then Some i else None)"

definition parse_ips :: "string list \<Rightarrow> string + byte list list" where
  "parse_ips ss = (case filter (\<lambda>s. ParseIP s = None) ss of
      bad # _ \<Rightarrow> Inl bad | [] \<Rightarrow> Inr (map (\<lambda>s. the (ParseIP s)) ss))"

definition AddBond :: "mgr \<Rightarrow> string \<Rightarrow> BondOptions \<Rightarrow> cmd" where
  "AddBond m name o1 =
    bond_table ''lacp-rate'' (bo_LacpRate o1) LookupLacpRate (\<lambda>lacp.
    bond_table ''transmit-hash-policy'' (bo_TransmitHashPolicy o1) LookupXmitHashPolicy (\<lambda>xmit.
    bond_enum ''ad-select'' (bo_ADSelect o1) parseBondAdSelect (\<lambda>ads.
    bond_enum ''arp-validate'' (bo_ARPValidate o1) parseBondArpValidate (\<lambda>arpv.
    bond_enum ''arp-all-targets'' (bo_ARPAllTargets o1) parseBondArpAllTargets (\<lambda>arpt.
    bond_enum ''fail-over-mac-policy'' (bo_FailOverMACPolicy o1) parseBondFailOverMac (\<lambda>fom.
    bond_enum ''primary-reselect-policy'' (bo_PrimaryReselectPolicy o1) parseBondPrimaryReselect (\<lambda>prs.
      case parse_ips (bo_ARPIPTargets o1) of
        Inl bad \<Rightarrow> failwith (Invalid ''arp-ip-target'' bad)
      | Inr targets \<Rightarrow>
          (let add = (\<lambda>prim. call (Ev m (LinkAdd name (LBond \<lparr>
                 ba_Mode = ParseBondMode (bo_Mode o1), ba_LacpRate = lacp, ba_XmitHashPolicy = xmit,
                 ba_AdSelect = ads, ba_ArpValidate = arpv, ba_ArpAllTargets = arpt,
                 ba_FailOverMac = fom, ba_PrimaryReselect = prs,
                 ba_Miimon = nonzero (bo_MIIMonitorInterval o1),
                 ba_MinLinks = nonzero (bo_MinLinks o1),
                 ba_ArpInterval = nonzero (bo_ARPInterval o1),
                 ba_UpDelay = nonzero (bo_UpDelay o1),
                 ba_DownDelay = nonzero (bo_DownDelay o1),
                 ba_NumPeerNotif = nonzero (bo_GratuitousARP o1),
                 ba_PacketsPerSlave = nonzero (bo_PacketsPerSlave o1),
                 ba_ResendIgmp = nonzero (bo_ResendIGMP o1),
                 ba_LpInterval = nonzero (bo_LearnPacketInterval o1),
                 ba_AllSlavesActive = (if bo_AllSlavesActive o1 then Some 1 else None),
                 ba_ArpIpTargets = targets, ba_Primary = prim\<rparr>))))
           in if bo_Primary o1 \<noteq> '''' then TryLink m (bo_Primary o1) add else add None))))))))"

definition SetBondSlave :: "mgr \<Rightarrow> string \<Rightarrow> string \<Rightarrow> cmd" where
  "SetBondSlave m linkName bondName = GetLink m linkName (\<lambda>l. GetLink m bondName (\<lambda>b. steps
     [wrap (''failed to set '' @ linkName @ '' down before enslaving'') (call (Ev m (LinkSetDown l))),
      wrap (''failed to enslave '' @ linkName) (call (Ev m (LinkSetMaster l b))),
      warn (call (Ev m (LinkSetUp l)))]))"

definition AddVlan :: "mgr \<Rightarrow> string \<Rightarrow> string \<Rightarrow> int \<Rightarrow> cmd" where
  "AddVlan m name parent vlanID = GetLink m parent (\<lambda>p. call (Ev m (LinkAdd name (LVlan (l_Index p) vlanID))))"

record VxlanOptions =
  vo_Link :: string
  vo_Local :: string
  vo_Remote :: string
  vo_Group :: string
  vo_Port :: int
  vo_DestPort :: int
  vo_PortLow :: int
  vo_PortHigh :: int
  vo_TTL :: int
  vo_TOS :: int
  vo_Age :: int
  vo_Limit :: int
  vo_Learning :: "bool option"
  vo_Proxy :: "bool option"
  vo_RSC :: "bool option"
  vo_L2miss :: "bool option"
  vo_L3miss :: "bool option"
  vo_NoAge :: bool
  vo_GBP :: bool
  vo_FlowBased :: bool
  vo_UDPCSum :: bool
  vo_UDP6ZeroCSumTx :: bool
  vo_UDP6ZeroCSumRx :: bool

abbreviation pos_or0 :: "int \<Rightarrow> int" where
  "pos_or0 i \<equiv> (if i > 0 then i else 0)"

definition vxlan_attrs_of :: "int \<Rightarrow> VxlanOptions \<Rightarrow> vxlan_attrs" where
  "vxlan_attrs_of vni o1 = \<lparr>
     va_VxlanId = vni,
     va_SrcAddr = (if vo_Local o1 \<noteq> '''' then ParseIP (vo_Local o1) else None),
     va_Group = (if vo_Group o1 \<noteq> '''' then ParseIP (vo_Group o1)
                 else if vo_Remote o1 \<noteq> '''' then ParseIP (vo_Remote o1) else None),
     va_Port = (if vo_DestPort o1 > 0 then vo_DestPort o1 else pos_or0 (vo_Port o1)),
     va_PortLow = pos_or0 (vo_PortLow o1),
     va_PortHigh = pos_or0 (vo_PortHigh o1),
     va_TTL = pos_or0 (vo_TTL o1),
     va_TOS = pos_or0 (vo_TOS o1),
     va_Age = pos_or0 (vo_Age o1),
     va_Limit = pos_or0 (vo_Limit o1),
     va_Learning = (vo_Learning o1 = Some True),
     va_Proxy = (vo_Proxy o1 = Some True),
     va_RSC = (vo_RSC o1 = Some True),
     va_L2miss = (vo_L2miss o1 = Some True),
     va_L3miss = (vo_L3miss o1 = Some True),
     va_NoAge = vo_NoAge o1,
     va_GBP = vo_GBP o1,
     va_FlowBased = vo_FlowBased o1,
     va_UDPCSum = vo_UDPCSum o1,
     va_UDP6ZeroCSumTx = vo_UDP6ZeroCSumTx o1,
     va_UDP6ZeroCSumRx = vo_UDP6ZeroCSumRx o1,
     va_VtepDevIndex = 0\<rparr>"

definition AddVxlan :: "mgr \<Rightarrow> string \<Rightarrow> int \<Rightarrow> VxlanOptions \<Rightarrow> cmd" where
  "AddVxlan m name vni o1 =
    (let a = vxlan_attrs_of vni o1 in
     if vo_Link o1 \<noteq> '''' then
       TryLink m (vo_Link o1) (\<lambda>idx. call (Ev m (LinkAdd name (LVxlan
         (case idx of None \<Rightarrow> a | Some i \<Rightarrow> a\<lparr>va_VtepDevIndex := i\<rparr>)))))
     else call (Ev m (LinkAdd name (LVxlan a))))"

definition AddVrf :: "mgr \<Rightarrow> string \<Rightarrow> int \<Rightarrow> cmd" where
  "AddVrf m name tableID = call (Ev m (LinkAdd name (LVrf (word_of_int tableID))))"

record TunnelOptions =
  to_Mode :: string
  to_Local :: string
  to_Remote :: string
  to_TTL :: int
  to_TOS :: int
  to_Key :: string
  to_InputKey :: string
  to_OutputKey :: string
  to_Link :: string

definition tun_attrs_of :: "int \<Rightarrow> bool \<Rightarrow> bool \<Rightarrow> TunnelOptions \<Rightarrow> tun_attrs" where
  "tun_attrs_of parent ttl tos o1 = \<lparr>
     ta_ParentIndex = parent,
     ta_Local = (if to_Local o1 \<noteq> '''' then ParseIP (to_Local o1) else None),
     ta_Remote = (if to_Remote o1 \<noteq> '''' then ParseIP (to_Remote o1) else None),
     ta_Ttl = (if ttl \<and> to_TTL o1 > 0 then word_of_int (to_TTL o1) else 0),
     ta_Tos = (if tos \<and> to_TOS o1 > 0 then word_of_int (to_TOS o1) else 0)\<rparr>"

definition tunnel_link :: "TunnelOptions \<Rightarrow> int \<Rightarrow> linkspec option" where
  "tunnel_link o1 parent = (let s = to_lower (to_Mode o1) in
     if s \<in> set [''gre'', ''gretap''] then Some (LGretap (tun_attrs_of parent True True o1))
     else if s \<in> set [''ip6gre'', ''ip6gretap''] then Some (LGeneric ''ip6gre'' parent)
     else if s \<in> set [''ipip'', ''ipip4''] then Some (LIptun (tun_attrs_of parent True True o1))
     else if s \<in> set [''ip6ip6'', ''ipip6'', ''ip6tnl''] then Some (LIp6tnl (tun_attrs_of parent True False o1))
     else if s = ''sit'' then Some (LSittun (tun_attrs_of parent True False o1))
     else if s \<in> set [''vti'', ''vti6''] then Some (LVti (tun_attrs_of parent False False o1))
     else if s \<in> set [''wireguard'', ''wg''] then Some (LGeneric ''wireguard'' parent)
     else None)"

definition AddTunnel :: "mgr \<Rightarrow> string \<Rightarrow> TunnelOptions \<Rightarrow> cmd" where
  "AddTunnel m name o1 =
    (let add = (\<lambda>parent. case tunnel_link o1 parent of
           None \<Rightarrow> failwith (Invalid ''unsupported tunnel mode'' (to_Mode o1))
         | Some l \<Rightarrow> call (Ev m (LinkAdd name l)))
     in if to_Link o1 \<noteq> '''' then TryLink m (to_Link o1) (\<lambda>idx. add (case idx of None \<Rightarrow> 0 | Some i \<Rightarrow> i))
        else add 0)"

definition AddWireguard :: "mgr \<Rightarrow> string \<Rightarrow> cmd" where
  "AddWireguard m name = call (Ev m (LinkAdd name (LGeneric ''wireguard'' 0)))"

definition AddTap :: "mgr \<Rightarrow> string \<Rightarrow> cmd" where
  "AddTap m name = call (Ev m (LinkAdd name LTap))"

definition AddTun :: "mgr \<Rightarrow> string \<Rightarrow> cmd" where
  "AddTun m name = call (Ev m (LinkAdd name LTun))"

definition AddIpvlan :: "mgr \<Rightarrow> string \<Rightarrow> string \<Rightarrow> string \<Rightarrow> cmd" where
  "AddIpvlan m name parent mode = GetLink m parent (\<lambda>p.
     let s = to_lower mode;
         md = (if s = ''l3'' then IPVLAN_L3 else if s = ''l3s'' then IPVLAN_L3S else IPVLAN_L2)
     in call (Ev m (LinkAdd name (LIpvlan (l_Index p) md))))"

section \<open>Forwarding and neighbour entries\<close>

record nl_FDBEntry =
  fe_MAC :: string
  fe_Ifname :: string
  fe_Dst :: string
  fe_VNI :: int
  fe_State :: string

record nl_NeighEntry =
  ne_IP :: string
  ne_MAC :: string
  ne_Ifname :: string
  ne_State :: string

definition neigh_state_of :: "string \<Rightarrow> neigh_state" where
  "neigh_state_of s = (let t = to_lower s in
     if t = ''permanent'' then NUD_PERMANENT else if t = ''static'' then NUD_NOARP else NUD_REACHABLE)"

definition AddFDBEntry :: "mgr \<Rightarrow> nl_FDBEntry \<Rightarrow> cmd" where
  "AddFDBEntry m e = GetLink m (fe_Ifname e) (\<lambda>l.
     case ParseMAC (fe_MAC e) of None \<Rightarrow> failwith (Invalid ''MAC'' (fe_MAC e))
     | Some hw \<Rightarrow> call (Ev m (NeighAdd \<lparr>ng_LinkIndex = l_Index l, ng_Family = AF_BRIDGE,
          ng_IP = (if fe_Dst e \<noteq> '''' then ParseIP (fe_Dst e) else None), ng_HW = Some hw,
          ng_State = Some (neigh_state_of (fe_State e)), ng_Self = True, ng_Proxy = False\<rparr>)))"

definition DeleteFDBEntry :: "mgr \<Rightarrow> nl_FDBEntry \<Rightarrow> cmd" where
  "DeleteFDBEntry m e = GetLink m (fe_Ifname e) (\<lambda>l.
     case ParseMAC (fe_MAC e) of None \<Rightarrow> failwith (Invalid ''MAC'' (fe_MAC e))
     | Some hw \<Rightarrow> call (Ev m (NeighDel \<lparr>ng_LinkIndex = l_Index l, ng_Family = AF_BRIDGE,
          ng_IP = (if fe_Dst e \<noteq> '''' then ParseIP (fe_Dst e) else None), ng_HW = Some hw,
          ng_State = None, ng_Self = False, ng_Proxy = False\<rparr>)))"

definition ip_family :: "byte list \<Rightarrow> neigh_family" where
  "ip_family ip = (if To4 ip = None then FAMILY_V6 else FAMILY_V4)"

definition AddNeighEntry :: "mgr \<Rightarrow> nl_NeighEntry \<Rightarrow> cmd" where
  "AddNeighEntry m e = GetLink m (ne_Ifname e) (\<lambda>l.
     case ParseIP (ne_IP e) of None \<Rightarrow> failwith (Invalid ''IP'' (ne_IP e))
     | Some ip \<Rightarrow>
       (case ParseMAC (ne_MAC e) of None \<Rightarrow> failwith (Invalid ''MAC'' (ne_MAC e))
        | Some hw \<Rightarrow> call (Ev m (NeighAdd \<lparr>ng_LinkIndex = l_Index l, ng_Family = ip_family ip,
            ng_IP = Some ip, ng_HW = Some hw, ng_State = Some (neigh_state_of (ne_State e)),
            ng_Self = False, ng_Proxy = False\<rparr>))))"

definition DeleteNeighEntry :: "mgr \<Rightarrow> nl_NeighEntry \<Rightarrow> cmd" where
  "DeleteNeighEntry m e = GetLink m (ne_Ifname e) (\<lambda>l.
     case ParseIP (ne_IP e) of None \<Rightarrow> failwith (Invalid ''IP'' (ne_IP e))
     | Some ip \<Rightarrow> call (Ev m (NeighDel \<lparr>ng_LinkIndex = l_Index l, ng_Family = ip_family ip,
          ng_IP = Some ip, ng_HW = None, ng_State = None, ng_Self = False, ng_Proxy = False\<rparr>)))"

text \<open>An IPv6 NDP proxy entry; the continuation of \<open>proxyNDPNeigh\<close> gets the entry.\<close>

definition proxyNDPNeigh :: "mgr \<Rightarrow> string \<Rightarrow> string \<Rightarrow> (nlneigh \<Rightarrow> cmd) \<Rightarrow> cmd" where
  "proxyNDPNeigh m iface ipStr k = GetLink m iface (\<lambda>l.
     if isIPv6 ipStr then k \<lparr>ng_LinkIndex = l_Index l, ng_Family = FAMILY_V6, ng_IP = ParseIP ipStr,
       ng_HW = None, ng_State = None, ng_Self = False, ng_Proxy = True\<rparr>
     else failwith (Invalid ''nd-proxy address'' ipStr))"

definition AddProxyNDP :: "mgr \<Rightarrow> string \<Rightarrow> string \<Rightarrow> cmd" where
  "AddProxyNDP m iface ipStr = proxyNDPNeigh m iface ipStr (\<lambda>n. call (Ev m (NeighSet n)))"

definition DeleteProxyNDP :: "mgr \<Rightarrow> string \<Rightarrow> string \<Rightarrow> cmd" where
  "DeleteProxyNDP m iface ipStr =
    ask (Ev m (LinkByName iface)) (\<lambda>r. case r of
      RLink l \<Rightarrow>
        if isIPv6 ipStr then call (Ev m (NeighDel \<lparr>ng_LinkIndex = l_Index l, ng_Family = FAMILY_V6,
          ng_IP = ParseIP ipStr, ng_HW = None, ng_State = None, ng_Self = False, ng_Proxy = True\<rparr>))
        else LinkExists m iface (\<lambda>there.
          if there then failwith (Invalid ''nd-proxy address'' ipStr) else nop)
    | _ \<Rightarrow> LinkExists m iface (\<lambda>there. if there then failwith (sys_error r) else nop))"

section \<open>sysfs and sysctl\<close>

definition writeSysfs :: "string \<Rightarrow> string \<Rightarrow> cmd" where
  "writeSysfs path value = wrap (''write sysfs '' @ path) (call (Ev '''' (WriteFile path value)))"

definition writeSysfsInt :: "string \<Rightarrow> int \<Rightarrow> cmd" where
  "writeSysfsInt path v = writeSysfs path (itoa v)"

definition writeSysfsBool :: "string \<Rightarrow> bool \<Rightarrow> cmd" where
  "writeSysfsBool path b = writeSysfs path (if b then ''1'' else ''0'')"

definition sysnet :: "string \<Rightarrow> string \<Rightarrow> string" where
  "sysnet dev f = ''/sys/class/net/'' @ dev @ f"

definition SetBridgeVlanFiltering :: "string \<Rightarrow> bool \<Rightarrow> cmd" where
  "SetBridgeVlanFiltering name = writeSysfsBool (sysnet name ''/bridge/vlan_filtering'')"

definition SetLinkNeighSuppress :: "string \<Rightarrow> bool \<Rightarrow> cmd" where
  "SetLinkNeighSuppress name = writeSysfsBool (sysnet name ''/brport/neigh_suppress'')"

definition SetLinkLearning :: "string \<Rightarrow> bool \<Rightarrow> cmd" where
  "SetLinkLearning name = writeSysfsBool (sysnet name ''/brport/learning'')"

definition SetBridgePortHairpin :: "string \<Rightarrow> bool \<Rightarrow> cmd" where
  "SetBridgePortHairpin name = writeSysfsBool (sysnet name ''/brport/hairpin_mode'')"

definition SetBridgePortPathCost :: "string \<Rightarrow> int \<Rightarrow> cmd" where
  "SetBridgePortPathCost port = writeSysfsInt (sysnet port ''/brport/path_cost'')"

definition SetBridgePortPriority :: "string \<Rightarrow> int \<Rightarrow> cmd" where
  "SetBridgePortPriority port = writeSysfsInt (sysnet port ''/brport/priority'')"

record BridgeOptions =
  bro_STP :: "bool option"
  bro_ForwardDelay :: int
  bro_HelloTime :: int
  bro_MaxAge :: int
  bro_AgeingTime :: int
  bro_Priority :: int

text \<open>\<open>errors.Join\<close>: every command runs; the first error, if any, is returned at the end.\<close>

fun join_all :: "cmd list \<Rightarrow> cmd" where
  "join_all [] = nop"
| "join_all (c # cs) = attempt c (join_all cs) (\<lambda>e. attempt (join_all cs) (failwith e) (\<lambda>_. failwith e))"

definition SetBridgeParameters :: "string \<Rightarrow> BridgeOptions \<Rightarrow> cmd" where
  "SetBridgeParameters name o1 =
    (let base = sysnet name ''/bridge'' in join_all
      [(case bro_STP o1 of None \<Rightarrow> nop | Some b \<Rightarrow> writeSysfsBool (base @ ''/stp_state'') b),
       only_if (bro_ForwardDelay o1 \<noteq> 0) (writeSysfsInt (base @ ''/forward_delay'') (bro_ForwardDelay o1 * 100)),
       only_if (bro_HelloTime o1 \<noteq> 0) (writeSysfsInt (base @ ''/hello_time'') (bro_HelloTime o1 * 100)),
       only_if (bro_MaxAge o1 \<noteq> 0) (writeSysfsInt (base @ ''/max_age'') (bro_MaxAge o1 * 100)),
       only_if (bro_AgeingTime o1 \<noteq> 0) (writeSysfsInt (base @ ''/ageing_time'') (bro_AgeingTime o1 * 100)),
       only_if (bro_Priority o1 \<noteq> 0) (writeSysfsInt (base @ ''/priority'') (bro_Priority o1))])"

definition writeSysctl :: "string \<Rightarrow> string \<Rightarrow> string \<Rightarrow> cmd" where
  "writeSysctl iface key value = call (Ev '''' (WriteFile (''/proc/sys/net/ipv6/conf/'' @ iface @ ''/'' @ key) value))"

definition EnableSLAAC :: "string \<Rightarrow> cmd" where
  "EnableSLAAC iface = steps
    [warn (writeSysctl iface ''accept_ra'' ''2''), warn (writeSysctl iface ''autoconf'' ''1''),
     warn (writeSysctl iface ''use_tempaddr'' ''2'')]"

definition DisableSLAAC :: "string \<Rightarrow> cmd" where
  "DisableSLAAC iface = steps
    [warn (writeSysctl iface ''accept_ra'' ''0''), warn (writeSysctl iface ''autoconf'' ''0'')]"

definition SetIPv6Privacy :: "string \<Rightarrow> int \<Rightarrow> cmd" where
  "SetIPv6Privacy iface v = writeSysctl iface ''use_tempaddr'' (itoa v)"

definition SetIPv6MTU :: "string \<Rightarrow> int \<Rightarrow> cmd" where
  "SetIPv6MTU iface mtu = writeSysctl iface ''mtu'' (itoa mtu)"

definition SetLinkLocalIPv6 :: "string \<Rightarrow> bool \<Rightarrow> cmd" where
  "SetLinkLocalIPv6 iface enable = writeSysctl iface ''addr_gen_mode'' (if enable then ''0'' else ''1'')"

definition SetAcceptRA :: "string \<Rightarrow> int \<Rightarrow> cmd" where
  "SetAcceptRA iface v = writeSysctl iface ''accept_ra'' (itoa v)"

definition deriveStableSecret :: "string \<Rightarrow> (string option \<Rightarrow> cmd) \<Rightarrow> cmd" where
  "deriveStableSecret iface k = ask (Ev '''' (ReadFile ''/etc/machine-id'')) (\<lambda>r. case r of
      RStr mid \<Rightarrow> k (Some (stable_secret mid iface)) | _ \<Rightarrow> k None)"

definition SetIPv6AddrGenMode :: "string \<Rightarrow> string \<Rightarrow> cmd" where
  "SetIPv6AddrGenMode iface mode = (let s = to_lower mode in
     if s = ''eui64'' then writeSysctl iface ''addr_gen_mode'' ''0''
     else if s = ''stable-privacy'' \<or> s = ''stable_privacy'' then
       andthen (deriveStableSecret iface (\<lambda>s. case s of
            Some secret \<Rightarrow> warn (writeSysctl iface ''stable_secret'' secret) | None \<Rightarrow> nop))
         (writeSysctl iface ''addr_gen_mode'' ''2'')
     else failwith (Invalid ''unknown ipv6-address-generation'' mode))"

definition SetIPv6Token :: "string \<Rightarrow> string \<Rightarrow> cmd" where
  "SetIPv6Token iface tok =
    (case ParseIP tok of None \<Rightarrow> failwith (Invalid ''ipv6 token'' tok)
     | Some ip \<Rightarrow> GetLink '''' iface (\<lambda>l. wrap (''failed to set ipv6 token on '' @ iface) (call (Ev '''' (LinkSetToken l ip)))))"

definition EnableProxyNDP :: "string \<Rightarrow> cmd" where
  "EnableProxyNDP iface = writeSysctl iface ''proxy_ndp'' ''1''"

definition EnableSeg6 :: "string \<Rightarrow> cmd" where
  "EnableSeg6 iface = writeSysctl iface ''seg6_enabled'' ''1''"

definition EnableVRFStrictMode :: cmd where
  "EnableVRFStrictMode = call (Ev '''' (WriteFile ''/proc/sys/net/vrf/strict_mode'' ''1''))"

section \<open>Addresses\<close>

definition with_addr :: "mgr \<Rightarrow> string \<Rightarrow> (nladdr \<Rightarrow> cmd) \<Rightarrow> cmd" where
  "with_addr m cidr k = ask (Ev m (ParseAddr cidr)) (\<lambda>r. case r of
      RAddr a \<Rightarrow> k a | _ \<Rightarrow> failwith (Wrap (''invalid address '' @ cidr) (sys_error r)))"

definition AddAddressOpts :: "mgr \<Rightarrow> string \<Rightarrow> string \<Rightarrow> string \<Rightarrow> string \<Rightarrow> cmd" where
  "AddAddressOpts m linkName cidr label lifetime = GetLink m linkName (\<lambda>l. with_addr m cidr (\<lambda>a.
     let s = to_lower lifetime in
     if s = '''' \<or> s = ''forever'' then call (Ev m (AddrAdd l a label False))
     else if s = ''0'' then call (Ev m (AddrAdd l a label True))
     else failwith (Invalid ''address lifetime'' lifetime)))"

definition AddAddress :: "mgr \<Rightarrow> string \<Rightarrow> string \<Rightarrow> cmd" where
  "AddAddress m linkName cidr = AddAddressOpts m linkName cidr '''' ''''"

definition DeleteAddress :: "mgr \<Rightarrow> string \<Rightarrow> string \<Rightarrow> cmd" where
  "DeleteAddress m linkName cidr = GetLink m linkName (\<lambda>l. with_addr m cidr (\<lambda>a. call (Ev m (AddrDel l a))))"

definition HasAddress :: "mgr \<Rightarrow> string \<Rightarrow> string \<Rightarrow> (bool \<Rightarrow> cmd) \<Rightarrow> cmd" where
  "HasAddress m linkName cidr k = GetLink m linkName (\<lambda>l. ask (Ev m (AddrList l)) (\<lambda>r. case r of
      RAddrs as \<Rightarrow> k (cidr \<in> set as) | _ \<Rightarrow> failwith (sys_error r)))"

section \<open>Routes and rules\<close>

record SEG6EncapOpts =
  se_Mode :: string
  se_Segments :: "string list"

record RouteOptions =
  ro_Dst :: string
  ro_Gw :: string
  ro_Dev :: string
  ro_Src :: string
  ro_Metric :: int
  ro_Table :: int
  ro_Scope :: string
  ro_Type :: string
  ro_OnLink :: bool
  ro_MTU :: int
  ro_Encap :: "SEG6EncapOpts option"

definition parseRouteScope :: "string \<Rightarrow> route_scope option" where
  "parseRouteScope s = map_of
    [(''global'', SCOPE_UNIVERSE), (''universe'', SCOPE_UNIVERSE), (''site'', SCOPE_SITE), (''link'', SCOPE_LINK),
     (''host'', SCOPE_HOST), (''nowhere'', SCOPE_NOWHERE)] (to_lower s)"

definition parseRouteType :: "string \<Rightarrow> route_type option" where
  "parseRouteType s = map_of
    [(''unicast'', RTN_UNICAST), (''local'', RTN_LOCAL), (''broadcast'', RTN_BROADCAST), (''anycast'', RTN_ANYCAST),
     (''multicast'', RTN_MULTICAST), (''blackhole'', RTN_BLACKHOLE), (''unreachable'', RTN_UNREACHABLE),
     (''prohibit'', RTN_PROHIBIT), (''throw'', RTN_THROW), (''nat'', RTN_NAT)] (to_lower s)"

definition buildSEG6Encap :: "SEG6EncapOpts \<Rightarrow> nl_error + route_encap" where
  "buildSEG6Encap o1 =
    (if se_Segments o1 = [] then Inl (Missing ''seg6 segments'')
     else (case parse_ips (se_Segments o1) of Inl bad \<Rightarrow> Inl (Invalid ''seg6 segment'' bad)
       | Inr segs \<Rightarrow> Inr (SEG6Encap (if equal_fold (se_Mode o1) ''inline'' then SEG6_INLINE else SEG6_ENCAP) segs)))"

text \<open>The destination of a route: \<open>Some None\<close> is the default route.\<close>

definition route_dst :: "string \<Rightarrow> IPNet option option" where
  "route_dst dst =
    (if dst = ''default'' \<or> dst = ''0.0.0.0/0'' then Some None
     else (case ParseCIDR dst of None \<Rightarrow> None | Some (_, n) \<Rightarrow> Some (Some n)))"

definition opt_ip :: "string \<Rightarrow> string \<Rightarrow> (byte list option \<Rightarrow> cmd) \<Rightarrow> cmd" where
  "opt_ip what s k =
    (if s = '''' then k None
     else (case ParseIP s of None \<Rightarrow> failwith (Invalid what s) | Some ip \<Rightarrow> k (Some ip)))"

definition opt_enum :: "string \<Rightarrow> string \<Rightarrow> (string \<Rightarrow> 'v option) \<Rightarrow> ('v option \<Rightarrow> cmd) \<Rightarrow> cmd" where
  "opt_enum what s parse k =
    (if s = '''' then k None
     else (case parse s of None \<Rightarrow> failwith (Invalid what s) | Some v \<Rightarrow> k (Some v)))"

definition opt_index :: "mgr \<Rightarrow> string \<Rightarrow> (int \<Rightarrow> cmd) \<Rightarrow> cmd" where
  "opt_index m dev k = (if dev = '''' then k 0 else GetLink m dev (\<lambda>l. k (l_Index l)))"

definition AddRouteOpts :: "mgr \<Rightarrow> RouteOptions \<Rightarrow> cmd" where
  "AddRouteOpts m o1 =
    (case route_dst (ro_Dst o1) of
       None \<Rightarrow> failwith (Invalid ''destination'' (ro_Dst o1))
     | Some dst \<Rightarrow>
       opt_ip ''gateway'' (ro_Gw o1) (\<lambda>gw.
       opt_index m (ro_Dev o1) (\<lambda>idx.
       opt_ip ''source address'' (ro_Src o1) (\<lambda>src.
       opt_enum ''route scope'' (ro_Scope o1) parseRouteScope (\<lambda>sc.
       opt_enum ''route type'' (ro_Type o1) parseRouteType (\<lambda>ty.
         let route = \<lparr>rt_Dst = dst, rt_Gw = gw, rt_LinkIndex = idx, rt_Src = src,
               rt_Priority = pos_or0 (ro_Metric o1), rt_Table = pos_or0 (ro_Table o1),
               rt_Scope = sc, rt_Type = ty, rt_OnLink = ro_OnLink o1, rt_MTU = pos_or0 (ro_MTU o1),
               rt_Encap = None\<rparr>
         in (case ro_Encap o1 of
               None \<Rightarrow> call (Ev m (RouteAdd route))
             | Some e \<Rightarrow> (case buildSEG6Encap e of Inl err \<Rightarrow> failwith err
                 | Inr enc \<Rightarrow> call (Ev m (RouteReplace (route\<lparr>rt_Encap := Some enc\<rparr>)))))))))))"

definition AddRoute :: "mgr \<Rightarrow> string \<Rightarrow> string \<Rightarrow> string \<Rightarrow> int \<Rightarrow> int \<Rightarrow> cmd" where
  "AddRoute m dst gw dev metric table = AddRouteOpts m \<lparr>ro_Dst = dst, ro_Gw = gw, ro_Dev = dev, ro_Src = '''',
     ro_Metric = metric, ro_Table = table, ro_Scope = '''', ro_Type = '''', ro_OnLink = False, ro_MTU = 0, ro_Encap = None\<rparr>"

definition empty_route :: nlroute where
  "empty_route = \<lparr>rt_Dst = None, rt_Gw = None, rt_LinkIndex = 0, rt_Src = None, rt_Priority = 0, rt_Table = 0,
     rt_Scope = None, rt_Type = None, rt_OnLink = False, rt_MTU = 0, rt_Encap = None\<rparr>"

definition DeleteRoute :: "mgr \<Rightarrow> string \<Rightarrow> string \<Rightarrow> string \<Rightarrow> int \<Rightarrow> cmd" where
  "DeleteRoute m dst gw dev table =
    (case route_dst dst of
       None \<Rightarrow> failwith (Invalid ''destination'' dst)
     | Some d \<Rightarrow> opt_index m dev (\<lambda>idx.
         call (Ev m (RouteDel (empty_route\<lparr>rt_Dst := d,
           rt_Gw := (if gw \<noteq> '''' then ParseIP gw else None), rt_LinkIndex := idx, rt_Table := pos_or0 table\<rparr>)))))"

definition parseCIDROrIP :: "string \<Rightarrow> IPNet option" where
  "parseCIDROrIP s =
    (case ParseCIDR s of Some (_, n) \<Rightarrow> Some n
     | None \<Rightarrow> (case ParseIP s of None \<Rightarrow> None
        | Some ip \<Rightarrow> (let bits = (if To4 ip = None then 128 else 32) in Some \<lparr>ipnet_IP = ip, ipnet_Mask = cidr_mask bits bits\<rparr>)))"

definition AddRule :: "mgr \<Rightarrow> string \<Rightarrow> string \<Rightarrow> int \<Rightarrow> int \<Rightarrow> int \<Rightarrow> cmd" where
  "AddRule m from1 to1 table priority mark =
    opt_enum ''from'' from1 parseCIDROrIP (\<lambda>src.
    opt_enum ''to'' to1 parseCIDROrIP (\<lambda>dst.
      call (Ev m (RuleAdd \<lparr>ru_Src = src, ru_Dst = dst,
        ru_Table = (if table > 0 then Some table else None),
        ru_Priority = (if priority > 0 then Some priority else None),
        ru_Mark = (if mark > 0 then Some (word_of_int mark) else None)\<rparr>))))"

definition DeleteRule :: "mgr \<Rightarrow> string \<Rightarrow> string \<Rightarrow> int \<Rightarrow> int \<Rightarrow> cmd" where
  "DeleteRule m from1 to1 table priority =
    opt_enum ''from'' from1 (\<lambda>s. map_option snd (ParseCIDR s)) (\<lambda>src.
    opt_enum ''to'' to1 (\<lambda>s. map_option snd (ParseCIDR s)) (\<lambda>dst.
      call (Ev m (RuleDel \<lparr>ru_Src = src, ru_Dst = dst,
        ru_Table = (if table > 0 then Some table else None),
        ru_Priority = (if priority > 0 then Some priority else None), ru_Mark = None\<rparr>))))"

section \<open>SRv6 local SIDs\<close>

definition sidToIPNet :: "string \<Rightarrow> IPNet option" where
  "sidToIPNet sid =
    (let s = before (CHR ''/'') sid in
     if isIPv6 s then Some \<lparr>ipnet_IP = the (ParseIP s), ipnet_Mask = cidr_mask 128 128\<rparr> else None)"

record SRv6LocalSIDOpts =
  lo_SID :: string
  lo_Action :: string
  lo_Table :: int
  lo_VRFTable :: int
  lo_NH4 :: string
  lo_NH6 :: string
  lo_IIF :: string
  lo_OIF :: string
  lo_Segments :: "string list"

text \<open>The action codes are the netlink package's constants for the same eleven behaviours; the
  model keeps the name.\<close>

definition srv6ActionCode :: "string \<Rightarrow> bool" where
  "srv6ActionCode a \<longleftrightarrow> a \<in> set [''End'', ''End.X'', ''End.T'', ''End.DX2'', ''End.DX4'', ''End.DX6'',
     ''End.DT4'', ''End.DT6'', ''End.DT46'', ''End.B6'', ''End.B6.Encaps'']"

definition opt_link :: "mgr \<Rightarrow> string \<Rightarrow> (int option \<Rightarrow> cmd) \<Rightarrow> cmd" where
  "opt_link m name k = (if name = '''' then k None else GetLink m name (\<lambda>l. k (Some (l_Index l))))"

definition AddLocalSID :: "mgr \<Rightarrow> string \<Rightarrow> SRv6LocalSIDOpts \<Rightarrow> cmd" where
  "AddLocalSID m dev o1 =
    (if \<not> srv6ActionCode (lo_Action o1) then failwith (Invalid ''seg6local action'' (lo_Action o1))
     else (case sidToIPNet (lo_SID o1) of
        None \<Rightarrow> failwith (Invalid ''IPv6 SID'' (lo_SID o1))
      | Some dst \<Rightarrow>
        if lo_NH4 o1 \<noteq> '''' \<and> \<not> isIPv4 (lo_NH4 o1) then failwith (Invalid ''nh4'' (lo_NH4 o1))
        else opt_ip ''nh6'' (lo_NH6 o1) (\<lambda>nh6.
        opt_link m (lo_OIF o1) (\<lambda>oif.
        opt_link m (lo_IIF o1) (\<lambda>iif.
        case parse_ips (lo_Segments o1) of
          Inl bad \<Rightarrow> failwith (Invalid ''segment'' bad)
        | Inr segs \<Rightarrow>
          GetLink m dev (\<lambda>l. call (Ev m (RouteReplace (empty_route\<lparr>rt_Dst := Some dst, rt_LinkIndex := l_Index l,
            rt_Encap := Some (SEG6LocalEncap \<lparr>
              s6_Action = lo_Action o1,
              s6_Table = (if lo_Table o1 > 0 then Some (lo_Table o1) else None),
              s6_VrfTable = (if lo_VRFTable o1 > 0 then Some (lo_VRFTable o1) else None),
              s6_InAddr = (if lo_NH4 o1 \<noteq> '''' then To4 (the (ParseIP (lo_NH4 o1))) else None),
              s6_In6Addr = nh6, s6_Oif = oif, s6_Iif = iif,
              s6_Segments = (if segs = [] then None else Some segs)\<rparr>)\<rparr>)))))))))"

definition DeleteLocalSID :: "mgr \<Rightarrow> string \<Rightarrow> cmd" where
  "DeleteLocalSID m sid =
    (case sidToIPNet sid of None \<Rightarrow> failwith (Invalid ''IPv6 SID'' sid)
     | Some dst \<Rightarrow> call (Ev m (RouteDel (empty_route\<lparr>rt_Dst := Some dst\<rparr>))))"

section \<open>DNS, WireGuard, ethtool\<close>

definition resolv_text :: "string list \<Rightarrow> string list \<Rightarrow> string" where
  "resolv_text addresses search =
    ''# Generated by netcfg'' @ [CHR 0x0A]
    @ (if search \<noteq> [] then ''search '' @ join_with '' '' search @ [CHR 0x0A] else [])
    @ concat (map (\<lambda>a. ''nameserver '' @ a @ [CHR 0x0A]) addresses)"

definition writeResolvConf :: "string list \<Rightarrow> string list \<Rightarrow> cmd" where
  "writeResolvConf addresses search = call (Ev '''' (WriteFile ''/etc/resolv.conf'' (resolv_text addresses search)))"

definition applyDNSResolvectl :: "string \<Rightarrow> string list \<Rightarrow> string list \<Rightarrow> cmd" where
  "applyDNSResolvectl iface addresses search =
    ask (Ev '''' (LookPath ''resolvectl'')) (\<lambda>r. case r of
      RStr bin \<Rightarrow> steps
        [only_if (addresses \<noteq> []) (call (Ev '''' (Exec ([bin, ''dns'', iface] @ addresses)))),
         only_if (search \<noteq> []) (call (Ev '''' (Exec ([bin, ''domain'', iface] @ search))))]
    | _ \<Rightarrow> writeResolvConf addresses search)"

definition ApplyDNS :: "string \<Rightarrow> string list \<Rightarrow> string list \<Rightarrow> cmd" where
  "ApplyDNS iface addresses search =
    (if addresses = [] \<and> search = [] then nop
     else ask (Ev '''' (StatFile ''/run/systemd/resolve/stub-resolv.conf'')) (\<lambda>r. case r of
        RFail _ \<Rightarrow> writeResolvConf addresses search
      | _ \<Rightarrow> applyDNSResolvectl iface addresses search))"

definition SetWakeOnLanMagic :: "string \<Rightarrow> cmd" where
  "SetWakeOnLanMagic name = call (Ev '''' (EthWakeOnLan name))"

definition EthtoolChange :: "string \<Rightarrow> (string \<times> bool) list \<Rightarrow> cmd" where
  "EthtoolChange name want = call (Ev '''' (EthChange name want))"

definition SetEswitchMode :: "mgr \<Rightarrow> string \<Rightarrow> string \<Rightarrow> cmd" where
  "SetEswitchMode m pci mode = call (Ev m (DevlinkSetEswitch pci mode))"

section \<open>WireGuard (netlink/wireguard.go)\<close>

record WireGuardPeer =
  wgp_PublicKey :: string
  wgp_PresharedKey :: string
  wgp_Endpoint :: string
  wgp_AllowedIPs :: "string list"
  wgp_Keepalive :: int
  wgp_Remove :: bool

record WireGuardConfig =
  wgc_PrivateKey :: string
  wgc_ListenPort :: int
  wgc_FwMark :: int
  wgc_ReplacePeers :: bool
  wgc_Peers :: "WireGuardPeer list"

definition NewWireGuardManager :: "mgr \<Rightarrow> cmd" where
  "NewWireGuardManager m = wrap ''failed to create wgctrl client'' (call (Ev m WgNew))"

definition parseKey :: "mgr \<Rightarrow> string \<Rightarrow> string \<Rightarrow> (string \<Rightarrow> cmd) \<Rightarrow> cmd" where
  "parseKey m what s k = ask (Ev m (WgParseKey s)) (\<lambda>r. case r of
      RStr key \<Rightarrow> k key | _ \<Rightarrow> failwith (Wrap what (sys_error r)))"

text \<open>An optional string: absent, or turned into a value by the continuation-passing lookup.\<close>

definition opt_str :: "string \<Rightarrow> ((string \<Rightarrow> cmd) \<Rightarrow> cmd) \<Rightarrow> (string option \<Rightarrow> cmd) \<Rightarrow> cmd" where
  "opt_str s lookup k = (if s = '''' then k None else lookup (\<lambda>v. k (Some v)))"

definition resolve_udp :: "mgr \<Rightarrow> string \<Rightarrow> (string \<Rightarrow> cmd) \<Rightarrow> cmd" where
  "resolve_udp m s k = ask (Ev m (ResolveUDP s)) (\<lambda>r. case r of
      RStr a \<Rightarrow> k a | _ \<Rightarrow> failwith (Wrap (''invalid endpoint '' @ s) (sys_error r)))"

definition parse_cidrs :: "string list \<Rightarrow> string + IPNet list" where
  "parse_cidrs ss = (case filter (\<lambda>s. ParseCIDR s = None) ss of
      bad # _ \<Rightarrow> Inl bad | [] \<Rightarrow> Inr (map (\<lambda>s. snd (the (ParseCIDR s))) ss))"

definition buildPeerConfig :: "mgr \<Rightarrow> WireGuardPeer \<Rightarrow> (wg_peer \<Rightarrow> cmd) \<Rightarrow> cmd" where
  "buildPeerConfig m p k =
    (if wgp_PublicKey p = '''' then failwith (Missing ''public key'')
     else parseKey m ''invalid public key'' (wgp_PublicKey p) (\<lambda>pub.
       if wgp_Remove p then
         k \<lparr>wp_PublicKey = pub, wp_Remove = True, wp_PresharedKey = None, wp_Endpoint = None,
            wp_ReplaceAllowedIPs = False, wp_AllowedIPs = [], wp_Keepalive = None\<rparr>
       else
         opt_str (wgp_PresharedKey p) (parseKey m ''invalid preshared key'' (wgp_PresharedKey p)) (\<lambda>psk.
         opt_str (wgp_Endpoint p) (resolve_udp m (wgp_Endpoint p)) (\<lambda>ep.
         case parse_cidrs (wgp_AllowedIPs p) of
           Inl bad \<Rightarrow> failwith (Invalid ''allowed IP'' bad)
         | Inr nets \<Rightarrow> k \<lparr>wp_PublicKey = pub, wp_Remove = False, wp_PresharedKey = psk, wp_Endpoint = ep,
             wp_ReplaceAllowedIPs = (wgp_AllowedIPs p \<noteq> []), wp_AllowedIPs = nets,
             wp_Keepalive = (if wgp_Keepalive p > 0 then Some (wgp_Keepalive p) else None)\<rparr>))))"

fun build_peers :: "mgr \<Rightarrow> WireGuardPeer list \<Rightarrow> wg_peer list \<Rightarrow> (wg_peer list \<Rightarrow> cmd) \<Rightarrow> cmd" where
  "build_peers m [] acc k = k acc"
| "build_peers m (p # ps) acc k = buildPeerConfig m p (\<lambda>q. build_peers m ps (acc @ [q]) k)"

definition ConfigureDevice :: "mgr \<Rightarrow> string \<Rightarrow> WireGuardConfig \<Rightarrow> cmd" where
  "ConfigureDevice m name c =
    opt_str (wgc_PrivateKey c) (parseKey m ''invalid private key'' (wgc_PrivateKey c)) (\<lambda>key.
    build_peers m (wgc_Peers c) [] (\<lambda>peers.
      call (Ev m (WgConfigure name \<lparr>wc_PrivateKey = key,
        wc_ListenPort = (if wgc_ListenPort c > 0 then Some (wgc_ListenPort c) else None),
        wc_FirewallMark = (if wgc_FwMark c > 0 then Some (wgc_FwMark c) else None),
        wc_ReplacePeers = wgc_ReplacePeers c, wc_Peers = peers\<rparr>))))"

end
