(* ===== verification/Supplicant.thy ===== *)
theory Supplicant
  imports Netlink
begin

text \<open>
  Authentication and wireless: the \<open>wpa_supplicant\<close> configuration netcfg renders and the process
  it starts (\<open>cmd/dot1x.go\<close>, \<open>cmd/wifi.go\<close>).
\<close>

section \<open>Rendering\<close>

abbreviation eol :: string where
  "eol \<equiv> [CHR 0x0A]"

abbreviation tab :: string where
  "tab \<equiv> [CHR 0x09]"

abbreviation dq :: string where
  "dq \<equiv> [CHR 0x22]"

definition writeQuoted :: "string \<Rightarrow> string \<Rightarrow> string" where
  "writeQuoted key val = (if val \<noteq> '''' then tab @ key @ ''='' @ dq @ val @ dq @ eol else [])"

definition writeEAPFields :: "Auth \<Rightarrow> string" where
  "writeEAPFields a =
     (if auth_Method a \<noteq> '''' then tab @ ''eap='' @ to_upper (auth_Method a) @ eol else [])
   @ writeQuoted ''identity'' (auth_Identity a)
   @ writeQuoted ''anonymous_identity'' (auth_AnonymousIdentity a)
   @ writeQuoted ''password'' (auth_Password a)
   @ writeQuoted ''ca_cert'' (auth_CACertificate a)
   @ writeQuoted ''client_cert'' (auth_ClientCertificate a)
   @ writeQuoted ''private_key'' (auth_ClientKey a)
   @ writeQuoted ''private_key_passwd'' (auth_ClientKeyPassword a)
   @ (if auth_Phase2Auth a \<noteq> '''' then tab @ ''phase2='' @ dq @ ''auth='' @ auth_Phase2Auth a @ dq @ eol else [])"

definition buildWPASupplicantConf :: "string \<Rightarrow> Auth \<Rightarrow> string" where
  "buildWPASupplicantConf km a =
     ''# Generated by netcfg'' @ eol
   @ ''ctrl_interface=/run/wpa_supplicant'' @ eol
   @ ''eapol_version=1'' @ eol
   @ ''ap_scan=0'' @ eol
   @ ''network={'' @ eol
   @ (if km = ''802.1x'' then tab @ ''key_mgmt=IEEE8021X'' @ eol else tab @ ''key_mgmt=WPA-EAP'' @ eol)
   @ writeEAPFields a
   @ ''}'' @ eol"

definition apPassword :: "AccessPoint \<Rightarrow> string" where
  "apPassword ap = (if ap_Password ap \<noteq> '''' then ap_Password ap
     else (case ap_Auth ap of Some a \<Rightarrow> auth_Password a | None \<Rightarrow> ''''))"

definition ap_km :: "AccessPoint \<Rightarrow> string" where
  "ap_km ap =
    (case ap_Auth ap of
       Some a \<Rightarrow> if auth_KeyManagement a \<noteq> '''' then to_lower (auth_KeyManagement a)
                 else if ap_Password ap = '''' then ''none'' else ''psk''
     | None \<Rightarrow> if ap_Password ap = '''' then ''none'' else ''psk'')"

definition writeAPNetwork :: "string \<Rightarrow> AccessPoint \<Rightarrow> string" where
  "writeAPNetwork ssid ap =
     ''network={'' @ eol
   @ tab @ ''ssid='' @ dq @ ssid @ dq @ eol
   @ (if to_lower (ap_Mode ap) = ''adhoc'' then tab @ ''mode=1'' @ eol
      else if to_lower (ap_Mode ap) = ''ap'' then tab @ ''mode=2'' @ eol else [])
   @ (if ap_BSSID ap \<noteq> '''' then tab @ ''bssid='' @ ap_BSSID ap @ eol else [])
   @ (if ap_Hidden ap then tab @ ''scan_ssid=1'' @ eol else [])
   @ (let km = ap_km ap in
      if km = ''none'' then tab @ ''key_mgmt=NONE'' @ eol
      else if km = ''sae'' then tab @ ''key_mgmt=SAE'' @ eol
        @ (if apPassword ap \<noteq> '''' then tab @ ''sae_password='' @ dq @ apPassword ap @ dq @ eol else [])
      else if has_prefix km ''eap'' then tab @ ''key_mgmt=WPA-EAP'' @ eol
        @ (case ap_Auth ap of Some a \<Rightarrow> writeEAPFields a | None \<Rightarrow> [])
      else (if apPassword ap \<noteq> '''' then tab @ ''psk='' @ dq @ apPassword ap @ dq @ eol
            else tab @ ''key_mgmt=NONE'' @ eol))
   @ ''}'' @ eol"

definition buildWifiSupplicantConf :: "Wifi \<Rightarrow> (nl_error, string) result" where
  "buildWifiSupplicantConf w =
    rfold (\<lambda>b ssid. rbind (deref (case gget (wifi_AccessPoints w) ssid of Some p \<Rightarrow> p | None \<Rightarrow> None))
        (\<lambda>ap. Inr (b @ writeAPNetwork ssid ap)))
      (''# Generated by netcfg'' @ eol
       @ ''ctrl_interface=/run/wpa_supplicant'' @ eol
       @ (if wifi_RegulatoryDomain w \<noteq> '''' then ''country='' @ wifi_RegulatoryDomain w @ eol else []))
      (sortedKeys (wifi_AccessPoints w))"

section \<open>Starting the supplicant\<close>

definition supplicantPidFile :: "string \<Rightarrow> string" where
  "supplicantPidFile iface = ''/run/netcfg-wpa-'' @ iface @ ''.pid''"

definition stopSupplicant :: "string \<Rightarrow> cmd" where
  "stopSupplicant iface = ask (Ev '''' (ReadFile (supplicantPidFile iface))) (\<lambda>r. case r of
      RStr data \<Rightarrow> steps
        [(case atoi (trim_space data) of Some pid \<Rightarrow> warn (call (Ev '''' (Kill pid))) | None \<Rightarrow> nop),
         warn (call (Ev '''' (RemoveFile (supplicantPidFile iface))))]
    | _ \<Rightarrow> nop)"

definition runSupplicant :: "string \<Rightarrow> string \<Rightarrow> string \<Rightarrow> cmd" where
  "runSupplicant iface driver confPath = ask (Ev '''' (Getenv ''NETCFG_SUPPLICANT_EXTERNAL'')) (\<lambda>r.
     if (case r of RStr v \<Rightarrow> v \<noteq> '''' | _ \<Rightarrow> False) then nop
     else andthen (stopSupplicant iface)
       (ask (Ev '''' (LookPath ''wpa_supplicant'')) (\<lambda>r. case r of
          RStr bin \<Rightarrow> warn (call (Ev '''' (Exec [bin, ''-B'', ''-D'', driver, ''-i'', iface, ''-c'', confPath, ''-P'', supplicantPidFile iface])))
        | _ \<Rightarrow> nop)))"

text \<open>The shared tail of \<open>setup8021x\<close> and \<open>setupWifiSupplicant\<close>: write the configuration, and
  start the process only if that worked.\<close>

definition wpa_conf_path :: "string \<Rightarrow> string" where
  "wpa_conf_path name = ''/etc/netcfg/wpa-'' @ name @ ''.conf''"

definition write_and_run :: "string \<Rightarrow> string \<Rightarrow> string \<Rightarrow> cmd" where
  "write_and_run name driver conf =
    attempt (call (Ev '''' (Mkdir ''/etc/netcfg'')))
      (attempt (call (Ev '''' (WriteFile (wpa_conf_path name) conf)))
        (runSupplicant name driver (wpa_conf_path name)) (\<lambda>_. nop))
      (\<lambda>_. nop)"

definition setup8021x :: "string \<Rightarrow> Auth \<Rightarrow> cmd" where
  "setup8021x name a =
    (let km = to_lower (auth_KeyManagement a) in
     if km \<noteq> ''802.1x'' \<and> \<not> has_prefix km ''eap'' then nop
     else write_and_run name ''wired'' (buildWPASupplicantConf km a))"

definition setupWifiSupplicant :: "string \<Rightarrow> Wifi \<Rightarrow> cmd" where
  "setupWifiSupplicant name w =
    (if entries (wifi_AccessPoints w) = [] then nop
     else (case buildWifiSupplicantConf w of
        Inl (Panic p) \<Rightarrow> crash p | Inl (Err e) \<Rightarrow> failwith e
      | Inr conf \<Rightarrow> write_and_run name ''nl80211'' conf))"

end
