(* ===== verification/NetState.thy ===== *)
theory NetState
  imports GoStd
begin

text \<open>
  The persistent state of \<open>state/state.go\<close>: what the last run applied, per namespace and
  device, and the difference of two states that drives removals, the \<open>diff\<close> command and
  rollback. The mutex of \<open>State\<close> makes each operation atomic, so an operation is a function
  of the state. \<open>ComputeDiff\<close> dereferences the namespace and device pointers, so it is a
  partial function: a null in the state file makes it panic.
\<close>

section \<open>Data\<close>

record DeviceState =
  ds_Type :: string
  ds_Addresses :: "string list"
  ds_Routes :: "string list"
  ds_Master :: string
  ds_NDProxy :: "string list"
  ds_CreatedBy :: string

record NsState =
  nss_Devices :: "DeviceState option gomap"
  nss_SRv6SIDs :: "string list"

record State =
  st_Version :: int
  st_AppliedAt :: int
  st_ConfigHash :: string
  st_Namespaces :: "NsState option gomap"

record Diff =
  DevicesToRemove :: "string list alist"
  AddressesToRemove :: "string list alist alist"
  RoutesToRemove :: "string list alist alist"
  NsToRemove :: "string list"
  DevicesToAdd :: "string list alist"
  AddressesToAdd :: "string list alist alist"
  RoutesToAdd :: "string list alist alist"
  NsToAdd :: "string list"

datatype state_error = StateReadFailed | StateMkdirFailed | StateWriteFailed

section \<open>Operations\<close>

definition NewState :: State where
  "NewState = \<lparr>st_Version = 1, st_AppliedAt = 0, st_ConfigHash = '''', st_Namespaces = gmake\<rparr>"

text \<open>The outcome of reading the state file: missing, unreadable, or its contents; the JSON
  decoder is a parameter.\<close>

datatype 'd read_result = NotExist | ReadErr | ReadOk 'd

definition Load :: "('d \<Rightarrow> State option) \<Rightarrow> 'd read_result \<Rightarrow> (state_error, State) result" where
  "Load unmarshal r =
    (case r of NotExist \<Rightarrow> Inr NewState
     | ReadErr \<Rightarrow> Inl (Err StateReadFailed)
     | ReadOk data \<Rightarrow>
       (case unmarshal data of None \<Rightarrow> Inr NewState
        | Some s \<Rightarrow> Inr (if st_Namespaces s = None then s\<lparr>st_Namespaces := gmake\<rparr> else s)))"

definition Save :: "(State \<Rightarrow> 'd) \<Rightarrow> bool \<Rightarrow> bool \<Rightarrow> int \<Rightarrow> State \<Rightarrow> (state_error, State \<times> 'd) result" where
  "Save marshal mkdir_ok write_ok now s =
    (if \<not> mkdir_ok then Inl (Err StateMkdirFailed)
     else (let s' = s\<lparr>st_AppliedAt := now\<rparr> in
       if \<not> write_ok then Inl (Err StateWriteFailed) else Inr (s', marshal s')))"

definition GetNamespace :: "State \<Rightarrow> string \<Rightarrow> NsState option" where
  "GetNamespace s ns = (case gget (st_Namespaces s) ns of Some p \<Rightarrow> p | None \<Rightarrow> None)"

definition SetNamespace :: "string \<Rightarrow> NsState option \<Rightarrow> State \<Rightarrow> (state_error, State) result" where
  "SetNamespace ns nsState s =
    rbind (gput ns nsState (st_Namespaces s)) (\<lambda>m. Inr (s\<lparr>st_Namespaces := m\<rparr>))"

definition GetDevice :: "State \<Rightarrow> string \<Rightarrow> string \<Rightarrow> (state_error, DeviceState option) result" where
  "GetDevice s ns name =
    (case gget (st_Namespaces s) ns of None \<Rightarrow> Inr None
     | Some p \<Rightarrow> rbind (deref p) (\<lambda>n.
         Inr (case gget (nss_Devices n) name of Some d \<Rightarrow> d | None \<Rightarrow> None)))"

definition SetDevice :: "string \<Rightarrow> string \<Rightarrow> DeviceState option \<Rightarrow> State \<Rightarrow> (state_error, State) result" where
  "SetDevice ns name dev s =
    rbind (if gget (st_Namespaces s) ns = None
           then gput ns (Some \<lparr>nss_Devices = gmake, nss_SRv6SIDs = []\<rparr>) (st_Namespaces s)
           else Inr (st_Namespaces s)) (\<lambda>m.
      case gget m ns of None \<Rightarrow> Inl (Panic NilDeref)
      | Some p \<Rightarrow> rbind (deref p) (\<lambda>n.
          rbind (gput name dev (nss_Devices n)) (\<lambda>devs.
          rbind (gput ns (Some (n\<lparr>nss_Devices := devs\<rparr>)) m) (\<lambda>m'.
            Inr (s\<lparr>st_Namespaces := m'\<rparr>)))))"

definition RemoveDevice :: "string \<Rightarrow> string \<Rightarrow> State \<Rightarrow> (state_error, State) result" where
  "RemoveDevice ns name s =
    (case gget (st_Namespaces s) ns of None \<Rightarrow> Inr s
     | Some p \<Rightarrow> rbind (deref p) (\<lambda>n.
         rbind (gput ns (Some (n\<lparr>nss_Devices := gdelete name (nss_Devices n)\<rparr>)) (st_Namespaces s)) (\<lambda>m.
           Inr (s\<lparr>st_Namespaces := m\<rparr>))))"

definition ListDevices :: "State \<Rightarrow> string \<Rightarrow> (state_error, string list) result" where
  "ListDevices s ns =
    (case gget (st_Namespaces s) ns of None \<Rightarrow> Inr []
     | Some p \<Rightarrow> rbind (deref p) (\<lambda>n. Inr (gkeys (nss_Devices n))))"

definition ListNamespaces :: "State \<Rightarrow> string list" where
  "ListNamespaces s = gkeys (st_Namespaces s)"

definition NewDiff :: Diff where
  "NewDiff = \<lparr>DevicesToRemove = [], AddressesToRemove = [], RoutesToRemove = [], NsToRemove = [],
     DevicesToAdd = [], AddressesToAdd = [], RoutesToAdd = [], NsToAdd = []\<rparr>"

record stringDiff =
  sd_added :: "string list"
  sd_removed :: "string list"

definition diffStrings :: "string list \<Rightarrow> string list \<Rightarrow> stringDiff" where
  "diffStrings old new =
    (let oldSet = remdups old; newSet = remdups new in
     \<lparr>sd_added = filter (\<lambda>s. s \<notin> set oldSet) newSet,
      sd_removed = filter (\<lambda>s. s \<notin> set newSet) oldSet\<rparr>)"

text \<open>\<open>m[ns] = append(m[ns], dev)\<close>, and the update of a two-level map that allocates the inner
  map on first use.\<close>

definition bucket :: "string list alist \<Rightarrow> string \<Rightarrow> string list" where
  "bucket m ns = (case map_of m ns of Some l \<Rightarrow> l | None \<Rightarrow> [])"

definition push_dev :: "string \<Rightarrow> string \<Rightarrow> string list alist \<Rightarrow> string list alist" where
  "push_dev ns dev m = alist_put ns (bucket m ns @ [dev]) m"

definition lookup2 :: "'v alist alist \<Rightarrow> string \<times> string \<Rightarrow> 'v option" where
  "lookup2 m k = (case map_of m (fst k) of None \<Rightarrow> None | Some inner \<Rightarrow> map_of inner (snd k))"

definition put2 :: "string \<times> string \<Rightarrow> 'v \<Rightarrow> 'v alist alist \<Rightarrow> 'v alist alist" where
  "put2 k v m =
    alist_put (fst k) (alist_put (snd k) v (case map_of m (fst k) of None \<Rightarrow> [] | Some inner \<Rightarrow> inner)) m"

definition put2_nonempty :: "string \<times> string \<Rightarrow> string list \<Rightarrow> string list alist alist \<Rightarrow> string list alist alist" where
  "put2_nonempty k v m = (if v = [] then m else put2 k v m)"

definition diff_common_dev :: "string \<Rightarrow> string \<Rightarrow> DeviceState \<Rightarrow> DeviceState \<Rightarrow> Diff \<Rightarrow> Diff" where
  "diff_common_dev ns dev od nd d =
    (let a = diffStrings (ds_Addresses od) (ds_Addresses nd);
         r = diffStrings (ds_Routes od) (ds_Routes nd)
     in d\<lparr>AddressesToRemove := put2_nonempty (ns, dev) (sd_removed a) (AddressesToRemove d),
          AddressesToAdd := put2_nonempty (ns, dev) (sd_added a) (AddressesToAdd d),
          RoutesToRemove := put2_nonempty (ns, dev) (sd_removed r) (RoutesToRemove d),
          RoutesToAdd := put2_nonempty (ns, dev) (sd_added r) (RoutesToAdd d)\<rparr>)"

text \<open>One device of a namespace of the old state; \<open>newNs\<close> is the entry of that namespace in
  the new state, if any.\<close>

definition diff_old_dev :: "string \<Rightarrow> NsState option option \<Rightarrow> Diff \<Rightarrow> string \<times> DeviceState option \<Rightarrow> (state_error, Diff) result" where
  "diff_old_dev ns newNs d entry =
    (case newNs of
       None \<Rightarrow> Inr (d\<lparr>DevicesToRemove := push_dev ns (fst entry) (DevicesToRemove d)\<rparr>)
     | Some p \<Rightarrow> rbind (deref p) (\<lambda>n.
        case gget (nss_Devices n) (fst entry) of
          None \<Rightarrow> rbind (deref (snd entry)) (\<lambda>od.
            Inr (if ds_CreatedBy od = ''netcfg''
                 then d\<lparr>DevicesToRemove := push_dev ns (fst entry) (DevicesToRemove d)\<rparr> else d))
        | Some q \<Rightarrow> rbind (deref (snd entry)) (\<lambda>od. rbind (deref q) (\<lambda>nd.
            Inr (diff_common_dev ns (fst entry) od nd d)))))"

definition diff_old_ns :: "State \<Rightarrow> Diff \<Rightarrow> string \<times> NsState option \<Rightarrow> (state_error, Diff) result" where
  "diff_old_ns newState d e =
    rbind (deref (snd e)) (\<lambda>oldNs.
      rfold (diff_old_dev (fst e) (gget (st_Namespaces newState) (fst e))) d (entries (nss_Devices oldNs)))"

text \<open>One device of a namespace of the new state: \<open>!nsExists || oldNs.Devices[dev] == nil\<close>.\<close>

definition diff_new_dev :: "string \<Rightarrow> NsState option option \<Rightarrow> Diff \<Rightarrow> string \<Rightarrow> (state_error, Diff) result" where
  "diff_new_dev ns oldNs d dev =
    (case oldNs of
       None \<Rightarrow> Inr (d\<lparr>DevicesToAdd := push_dev ns dev (DevicesToAdd d)\<rparr>)
     | Some p \<Rightarrow> rbind (deref p) (\<lambda>n.
         Inr (if gget (nss_Devices n) dev = None \<or> gget (nss_Devices n) dev = Some None
              then d\<lparr>DevicesToAdd := push_dev ns dev (DevicesToAdd d)\<rparr> else d)))"

definition diff_new_ns :: "State \<Rightarrow> Diff \<Rightarrow> string \<times> NsState option \<Rightarrow> (state_error, Diff) result" where
  "diff_new_ns oldState d e =
    rbind (deref (snd e)) (\<lambda>newNs.
      rfold (diff_new_dev (fst e) (gget (st_Namespaces oldState) (fst e))) d (gkeys (nss_Devices newNs)))"

definition ComputeDiff :: "State \<Rightarrow> State \<Rightarrow> (state_error, Diff) result" where
  "ComputeDiff oldState newState =
    (let d0 = NewDiff\<lparr>
        NsToRemove := filter (\<lambda>ns. gget (st_Namespaces newState) ns = None) (gkeys (st_Namespaces oldState)),
        NsToAdd := filter (\<lambda>ns. gget (st_Namespaces oldState) ns = None) (gkeys (st_Namespaces newState))\<rparr>
     in rbind (rfold (diff_old_ns newState) d0 (entries (st_Namespaces oldState))) (\<lambda>d1.
          rfold (diff_new_ns oldState) d1 (entries (st_Namespaces newState))))"

definition IsEmpty :: "Diff \<Rightarrow> bool" where
  "IsEmpty d \<longleftrightarrow>
     DevicesToRemove d = [] \<and> AddressesToRemove d = [] \<and> RoutesToRemove d = [] \<and> NsToRemove d = [] \<and>
     DevicesToAdd d = [] \<and> AddressesToAdd d = [] \<and> RoutesToAdd d = [] \<and> NsToAdd d = []"

definition join :: "string list \<Rightarrow> string" where
  "join s = join_with '', '' s"

definition nsLabel :: "string \<Rightarrow> string" where
  "nsLabel ns = (if ns = '''' then ''default'' else ns)"

definition Summary :: "Diff \<Rightarrow> string" where
  "Summary d = (let eol = [CHR 0x0A] in
     (if NsToRemove d \<noteq> [] then ''Namespaces to remove: '' @ join (NsToRemove d) @ eol else [])
   @ (if NsToAdd d \<noteq> [] then ''Namespaces to add: '' @ join (NsToAdd d) @ eol else [])
   @ concat (map (\<lambda>(ns, devs). ''Devices to remove in '' @ nsLabel ns @ '': '' @ join devs @ eol) (DevicesToRemove d))
   @ concat (map (\<lambda>(ns, devs). ''Devices to add in '' @ nsLabel ns @ '': '' @ join devs @ eol) (DevicesToAdd d))
   @ concat (map (\<lambda>(ns, da). concat (map (\<lambda>(dev, xs).
        ''Addresses to remove from '' @ dev @ '' in '' @ nsLabel ns @ '': '' @ join xs @ eol) da)) (AddressesToRemove d))
   @ concat (map (\<lambda>(ns, dr). concat (map (\<lambda>(dev, xs).
        ''Routes to remove from '' @ dev @ '' in '' @ nsLabel ns @ '': '' @ join xs @ eol) dr)) (RoutesToRemove d)))"

section \<open>Reading a state\<close>

definition dev_of :: "State \<Rightarrow> string \<Rightarrow> string \<Rightarrow> DeviceState option" where
  "dev_of s ns dev = (case gget (st_Namespaces s) ns of
      Some (Some n) \<Rightarrow> (case gget (nss_Devices n) dev of Some q \<Rightarrow> q | None \<Rightarrow> None)
    | _ \<Rightarrow> None)"

definition has_ns :: "State \<Rightarrow> string \<Rightarrow> bool" where
  "has_ns s ns \<longleftrightarrow> gget (st_Namespaces s) ns \<noteq> None"

definition ns_ok :: "NsState \<Rightarrow> bool" where
  "ns_ok n \<longleftrightarrow> nss_Devices n \<noteq> None \<and> gomap_wf (nss_Devices n) \<and> (\<forall>p\<in>set (entries (nss_Devices n)). snd p \<noteq> None)"

text \<open>The well-formedness invariant: every map is allocated, has distinct keys and no nil
  pointer.\<close>

definition state_ok :: "State \<Rightarrow> bool" where
  "state_ok s \<longleftrightarrow> st_Namespaces s \<noteq> None \<and> gomap_wf (st_Namespaces s)
    \<and> (\<forall>p\<in>set (entries (st_Namespaces s)). \<exists>n. snd p = Some n \<and> ns_ok n)"

type_synonym visit = "string \<times> string \<times> DeviceState"

definition ns_visits :: "string \<times> NsState option \<Rightarrow> visit list" where
  "ns_visits e = map (\<lambda>p. (fst e, fst p, the (snd p))) (entries (nss_Devices (the (snd e))))"

definition visits :: "State \<Rightarrow> visit list" where
  "visits s = concat (map ns_visits (entries (st_Namespaces s)))"

abbreviation visit_key :: "visit \<Rightarrow> string \<times> string" where
  "visit_key v \<equiv> (fst v, fst (snd v))"

lemma state_okD:
  assumes "state_ok s" "gget (st_Namespaces s) ns = Some p"
  obtains n where "p = Some n" "ns_ok n"
  using assms by (cases "st_Namespaces s") (auto simp: state_ok_def dest: map_of_SomeD)

lemma ns_okD:
  assumes "ns_ok n" "gget (nss_Devices n) dev = Some q"
  obtains d where "q = Some d"
  using assms by (cases "nss_Devices n") (auto simp: ns_ok_def dest: map_of_SomeD)

lemma visits_iff:
  assumes "state_ok s"
  shows "(ns, dev, od) \<in> set (visits s) \<longleftrightarrow> dev_of s ns dev = Some od"
proof
  assume "(ns, dev, od) \<in> set (visits s)"
  then obtain p q where e: "(ns, p) \<in> set (entries (st_Namespaces s))"
    "(dev, q) \<in> set (entries (nss_Devices (the p)))" "od = the q"
    by (auto simp: visits_def ns_visits_def)
  then obtain n where n: "p = Some n" "ns_ok n" using assms by (fastforce simp: state_ok_def)
  moreover from n e have "q \<noteq> None" by (fastforce simp: ns_ok_def)
  ultimately show "dev_of s ns dev = Some od"
    using e assms gget_entries[of "st_Namespaces s" ns p] gget_entries[of "nss_Devices n" dev q]
    by (auto simp: dev_of_def state_ok_def ns_ok_def)
next
  assume "dev_of s ns dev = Some od"
  then obtain n where n: "gget (st_Namespaces s) ns = Some (Some n)" "gget (nss_Devices n) dev = Some (Some od)"
    by (auto simp: dev_of_def split: option.splits)
  then have "(ns, Some n) \<in> set (entries (st_Namespaces s))" "(dev, Some od) \<in> set (entries (nss_Devices n))"
    by (auto simp: gget_def dest: map_of_SomeD)
  then show "(ns, dev, od) \<in> set (visits s)"
    unfolding visits_def ns_visits_def by force
qed

lemma visits_ball:
  assumes "state_ok s"
  shows "(\<forall>v\<in>set (visits s). P v) \<longleftrightarrow> (\<forall>ns dev od. dev_of s ns dev = Some od \<longrightarrow> P (ns, dev, od))"
  by (metis visits_iff[OF assms] prod_cases3)

lemma visits_bex:
  assumes "state_ok s"
  shows "(\<exists>v\<in>set (visits s). P v) \<longleftrightarrow> (\<exists>ns dev od. dev_of s ns dev = Some od \<and> P (ns, dev, od))"
  using visits_ball[OF assms, of "\<lambda>v. \<not> P v"] by blast

lemma visits_distinct:
  assumes "state_ok s"
  shows "distinct (map visit_key (visits s))"
proof -
  have ok: "distinct (map fst xs) \<Longrightarrow> \<forall>p\<in>set xs. \<exists>n. snd p = Some n \<and> ns_ok n \<Longrightarrow>
      distinct (map visit_key (concat (map ns_visits xs)))" for xs
  proof (induction xs)
    case (Cons e xs)
    then obtain n where n: "snd e = Some n" "ns_ok n" by auto
    have "distinct (map visit_key (ns_visits e))"
      using n(2) by (simp add: ns_visits_def n(1) comp_def distinct_map ns_ok_def gkeys_def inj_on_def)
    moreover have "fst v = fst e" if "v \<in> set (ns_visits e)" for v
      using that by (auto simp: ns_visits_def)
    moreover have "fst v \<in> fst ` set xs" if "v \<in> set (concat (map ns_visits xs))" for v
      using that by (force simp: ns_visits_def)
    ultimately show ?case
      using Cons by (fastforce simp: comp_def)
  qed simp
  show ?thesis
    unfolding visits_def using assms by (intro ok) (auto simp: state_ok_def gkeys_def)
qed

section \<open>Two-level tables\<close>

interpretation nested: kv_table lookup2 put2 "\<lambda>_. True"
  by unfold_locales (auto simp: lookup2_def put2_def map_of_alist_put split: option.splits)

lemma put2_nonempty_fold:
  "foldl (\<lambda>m v. put2_nonempty (key v) (val v) m) m vs =
    nested.puts (map (\<lambda>v. (key v, val v)) (filter (\<lambda>v. val v \<noteq> []) vs)) m"
  by (induction vs arbitrary: m) (auto simp: put2_nonempty_def)

definition strings_at :: "string list alist alist \<Rightarrow> string \<Rightarrow> string \<Rightarrow> string set" where
  "strings_at m ns dev = (case lookup2 m (ns, dev) of None \<Rightarrow> {} | Some l \<Rightarrow> set l)"

lemma map_of_keyed:
  assumes "distinct (map key vs)" "v \<in> set vs"
  shows "map_of (map (\<lambda>v. (key v, val v)) (filter P vs)) (key v) = (if P v then Some (val v) else None)"
  using assms by (induction vs) (auto simp: map_of_eq_None_iff image_iff)

lemma map_of_keyed_None:
  assumes "k \<notin> key ` set vs"
  shows "map_of (map (\<lambda>v. (key v, val v)) (filter P vs)) k = None"
  using assms by (auto simp: map_of_eq_None_iff image_iff)

lemma distinct_keyed_filter:
  "distinct (map key vs) \<Longrightarrow> distinct (map fst (map (\<lambda>v. (key v, val v)) (filter P vs)))"
  by (simp add: comp_def distinct_map_filter)

lemma bucket_push: "bucket (push_dev ns dev m) ns' = (if ns' = ns then bucket m ns @ [dev] else bucket m ns')"
  by (simp add: bucket_def push_dev_def map_of_alist_put)

lemma bucket_fold:
  "dev \<in> set (bucket (foldl (\<lambda>m v. if P v then push_dev (f v) (g v) m else m) m vs) ns) \<longleftrightarrow>
    dev \<in> set (bucket m ns) \<or> (\<exists>v\<in>set vs. P v \<and> f v = ns \<and> g v = dev)"
  by (induction vs arbitrary: m) (auto simp: bucket_push)

section \<open>The difference of two states\<close>

definition delta :: "(DeviceState \<Rightarrow> DeviceState \<Rightarrow> string list) \<Rightarrow> State \<Rightarrow> visit \<Rightarrow> string list" where
  "delta f t v = (case dev_of t (fst v) (fst (snd v)) of None \<Rightarrow> [] | Some nd \<Rightarrow> f (snd (snd v)) nd)"

abbreviation addr_gone :: "DeviceState \<Rightarrow> DeviceState \<Rightarrow> string list" where
  "addr_gone od nd \<equiv> sd_removed (diffStrings (ds_Addresses od) (ds_Addresses nd))"
abbreviation addr_new :: "DeviceState \<Rightarrow> DeviceState \<Rightarrow> string list" where
  "addr_new od nd \<equiv> sd_added (diffStrings (ds_Addresses od) (ds_Addresses nd))"
abbreviation route_gone :: "DeviceState \<Rightarrow> DeviceState \<Rightarrow> string list" where
  "route_gone od nd \<equiv> sd_removed (diffStrings (ds_Routes od) (ds_Routes nd))"
abbreviation route_new :: "DeviceState \<Rightarrow> DeviceState \<Rightarrow> string list" where
  "route_new od nd \<equiv> sd_added (diffStrings (ds_Routes od) (ds_Routes nd))"

definition dev_gone :: "State \<Rightarrow> visit \<Rightarrow> bool" where
  "dev_gone t v \<longleftrightarrow> \<not> has_ns t (fst v)
    \<or> (dev_of t (fst v) (fst (snd v)) = None \<and> ds_CreatedBy (snd (snd v)) = ''netcfg'')"

definition old_step :: "State \<Rightarrow> Diff \<Rightarrow> visit \<Rightarrow> Diff" where
  "old_step t d v =
    (if dev_gone t v then d\<lparr>DevicesToRemove := push_dev (fst v) (fst (snd v)) (DevicesToRemove d)\<rparr>
     else (case dev_of t (fst v) (fst (snd v)) of None \<Rightarrow> d
           | Some nd \<Rightarrow> diff_common_dev (fst v) (fst (snd v)) (snd (snd v)) nd d))"

definition new_step :: "State \<Rightarrow> Diff \<Rightarrow> visit \<Rightarrow> Diff" where
  "new_step s d v =
    (if dev_of s (fst v) (fst (snd v)) = None
     then d\<lparr>DevicesToAdd := push_dev (fst v) (fst (snd v)) (DevicesToAdd d)\<rparr> else d)"

lemma diff_old_dev_step:
  assumes "state_ok t" "snd e = Some od"
  shows "diff_old_dev ns (gget (st_Namespaces t) ns) d e = Inr (old_step t d (ns, fst e, od))"
proof (cases "gget (st_Namespaces t) ns")
  case None
  then show ?thesis by (simp add: diff_old_dev_def old_step_def dev_gone_def has_ns_def)
next
  case (Some p)
  then obtain n where n: "p = Some n" "ns_ok n" using state_okD[OF assms(1)] by blast
  show ?thesis
  proof (cases "gget (nss_Devices n) (fst e)")
    case None
    then show ?thesis
      using assms(2) by (simp add: diff_old_dev_def Some n old_step_def dev_gone_def has_ns_def dev_of_def)
  next
    case (Some q)
    then obtain nd where "q = Some nd" using ns_okD[OF n(2)] by blast
    then show ?thesis
      using assms(2) Some \<open>gget (st_Namespaces t) ns = Some p\<close> n(1)
      by (simp add: diff_old_dev_def old_step_def dev_gone_def has_ns_def dev_of_def)
  qed
qed

lemma diff_new_dev_step:
  assumes "state_ok s"
  shows "diff_new_dev ns (gget (st_Namespaces s) ns) d dev = Inr (new_step s d (ns, dev, x))"
proof (cases "gget (st_Namespaces s) ns")
  case None
  then show ?thesis by (simp add: diff_new_dev_def new_step_def dev_of_def)
next
  case (Some p)
  then obtain n where "p = Some n" using state_okD[OF assms] by blast
  then show ?thesis using Some
    by (auto simp: diff_new_dev_def new_step_def dev_of_def split: option.splits)
qed

lemma rfold_visits:
  assumes ok: "state_ok s"
    and dev: "\<And>ns n d e od. (ns, Some n) \<in> set (entries (st_Namespaces s)) \<Longrightarrow>
      e \<in> set (entries (nss_Devices n)) \<Longrightarrow> snd e = Some od \<Longrightarrow> g ns d e = Inr (step d (ns, fst e, od))"
  shows "rfold (\<lambda>d e. rbind (deref (snd e)) (\<lambda>n. rfold (g (fst e)) d (entries (nss_Devices n)))) d0
      (entries (st_Namespaces s)) = Inr (foldl step d0 (visits s))"
proof -
  have "rbind (deref (snd e)) (\<lambda>n. rfold (g (fst e)) d (entries (nss_Devices n))) = Inr (foldl step d (ns_visits e))"
    if e: "e \<in> set (entries (st_Namespaces s))" for d e
  proof -
    obtain n where n: "snd e = Some n" "ns_ok n" using ok e by (auto simp: state_ok_def)
    have "rfold (g (fst e)) d (entries (nss_Devices n))
        = Inr (foldl (\<lambda>d p. step d (fst e, fst p, the (snd p))) d (entries (nss_Devices n)))"
    proof (rule rfold_pure)
      fix d p assume p: "p \<in> set (entries (nss_Devices n))"
      then obtain od where "snd p = Some od" using n(2) by (auto simp: ns_ok_def)
      then show "g (fst e) d p = Inr (step d (fst e, fst p, the (snd p)))"
        using dev[OF _ p, of "fst e" od d] e n(1) by (metis option.sel prod.collapse)
    qed
    then show ?thesis
      by (simp add: n(1) ns_visits_def foldl_map)
  qed
  then show ?thesis
    unfolding visits_def foldl_concat_map by (rule rfold_pure)
qed

definition diff_start :: "State \<Rightarrow> State \<Rightarrow> Diff" where
  "diff_start s t = NewDiff\<lparr>
     NsToRemove := filter (\<lambda>ns. \<not> has_ns t ns) (gkeys (st_Namespaces s)),
     NsToAdd := filter (\<lambda>ns. \<not> has_ns s ns) (gkeys (st_Namespaces t))\<rparr>"

lemma rfold_map: "rfold f s (map g xs) = rfold (\<lambda>s x. f s (g x)) s xs"
  by (induction xs arbitrary: s) (auto split: sum.splits)

text \<open>On well-formed states the computation never panics and visits every device of either
  state once.\<close>

lemma ComputeDiff_folds:
  assumes "state_ok s" "state_ok t"
  shows "ComputeDiff s t = Inr (foldl (new_step s) (foldl (old_step t) (diff_start s t) (visits s)) (visits t))"
proof -
  have old: "rfold (diff_old_ns t) d (entries (st_Namespaces s)) = Inr (foldl (old_step t) d (visits s))" for d
    unfolding diff_old_ns_def
    by (rule rfold_visits[OF assms(1)]) (rule diff_old_dev_step[OF assms(2)])
  have new: "rfold (diff_new_ns s) d (entries (st_Namespaces t)) = Inr (foldl (new_step s) d (visits t))" for d
    unfolding diff_new_ns_def gkeys_def rfold_map
    by (rule rfold_visits[OF assms(2)]) (rule diff_new_dev_step[OF assms(1)])
  show ?thesis
    by (simp add: ComputeDiff_def old new diff_start_def has_ns_def)
qed

lemma old_step_fields:
  "NsToRemove (old_step t d v) = NsToRemove d" "NsToAdd (old_step t d v) = NsToAdd d"
  "DevicesToAdd (old_step t d v) = DevicesToAdd d"
  "DevicesToRemove (old_step t d v) =
    (if dev_gone t v then push_dev (fst v) (fst (snd v)) (DevicesToRemove d) else DevicesToRemove d)"
  by (simp_all add: old_step_def diff_common_dev_def Let_def split: option.splits)

lemma old_step_tables:
  "AddressesToRemove (old_step t d v) = put2_nonempty (visit_key v) (delta addr_gone t v) (AddressesToRemove d)"
  "AddressesToAdd (old_step t d v) = put2_nonempty (visit_key v) (delta addr_new t v) (AddressesToAdd d)"
  "RoutesToRemove (old_step t d v) = put2_nonempty (visit_key v) (delta route_gone t v) (RoutesToRemove d)"
  "RoutesToAdd (old_step t d v) = put2_nonempty (visit_key v) (delta route_new t v) (RoutesToAdd d)"
  by (auto simp: old_step_def dev_gone_def has_ns_def dev_of_def delta_def diff_common_dev_def Let_def
      put2_nonempty_def split: option.splits)

lemma new_step_fields:
  "NsToRemove (new_step s d v) = NsToRemove d" "NsToAdd (new_step s d v) = NsToAdd d"
  "DevicesToRemove (new_step s d v) = DevicesToRemove d"
  "AddressesToRemove (new_step s d v) = AddressesToRemove d"
  "AddressesToAdd (new_step s d v) = AddressesToAdd d"
  "RoutesToRemove (new_step s d v) = RoutesToRemove d"
  "RoutesToAdd (new_step s d v) = RoutesToAdd d"
  "DevicesToAdd (new_step s d v) =
    (if dev_of s (fst v) (fst (snd v)) = None then push_dev (fst v) (fst (snd v)) (DevicesToAdd d) else DevicesToAdd d)"
  by (simp_all add: new_step_def)

lemma old_fold:
  "NsToRemove (foldl (old_step t) d vs) = NsToRemove d"
  "NsToAdd (foldl (old_step t) d vs) = NsToAdd d"
  "DevicesToAdd (foldl (old_step t) d vs) = DevicesToAdd d"
  "DevicesToRemove (foldl (old_step t) d vs) = foldl (\<lambda>m v. if dev_gone t v then push_dev (fst v) (fst (snd v)) m else m) (DevicesToRemove d) vs"
  "AddressesToRemove (foldl (old_step t) d vs) = foldl (\<lambda>m v. put2_nonempty (visit_key v) (delta addr_gone t v) m) (AddressesToRemove d) vs"
  "AddressesToAdd (foldl (old_step t) d vs) = foldl (\<lambda>m v. put2_nonempty (visit_key v) (delta addr_new t v) m) (AddressesToAdd d) vs"
  "RoutesToRemove (foldl (old_step t) d vs) = foldl (\<lambda>m v. put2_nonempty (visit_key v) (delta route_gone t v) m) (RoutesToRemove d) vs"
  "RoutesToAdd (foldl (old_step t) d vs) = foldl (\<lambda>m v. put2_nonempty (visit_key v) (delta route_new t v) m) (RoutesToAdd d) vs"
  by (induction vs arbitrary: d) (simp_all add: old_step_fields old_step_tables)

lemma new_fold:
  "NsToRemove (foldl (new_step s) d vs) = NsToRemove d"
  "NsToAdd (foldl (new_step s) d vs) = NsToAdd d"
  "DevicesToAdd (foldl (new_step s) d vs) = foldl (\<lambda>m v. if dev_of s (fst v) (fst (snd v)) = None then push_dev (fst v) (fst (snd v)) m else m) (DevicesToAdd d) vs"
  "DevicesToRemove (foldl (new_step s) d vs) = DevicesToRemove d"
  "AddressesToRemove (foldl (new_step s) d vs) = AddressesToRemove d"
  "AddressesToAdd (foldl (new_step s) d vs) = AddressesToAdd d"
  "RoutesToRemove (foldl (new_step s) d vs) = RoutesToRemove d"
  "RoutesToAdd (foldl (new_step s) d vs) = RoutesToAdd d"
  by (induction vs arbitrary: d) (simp_all add: new_step_fields)

lemma ComputeDiff_fields:
  assumes "state_ok s" "state_ok t" "ComputeDiff s t = Inr d"
  shows "NsToRemove d = filter (\<lambda>ns. \<not> has_ns t ns) (gkeys (st_Namespaces s))"
    and "NsToAdd d = filter (\<lambda>ns. \<not> has_ns s ns) (gkeys (st_Namespaces t))"
    and "DevicesToRemove d =
      foldl (\<lambda>m v. if dev_gone t v then push_dev (fst v) (fst (snd v)) m else m) [] (visits s)"
    and "DevicesToAdd d =
      foldl (\<lambda>m v. if dev_of s (fst v) (fst (snd v)) = None then push_dev (fst v) (fst (snd v)) m else m) [] (visits t)"
    and "AddressesToRemove d = foldl (\<lambda>m v. put2_nonempty (visit_key v) (delta addr_gone t v) m) [] (visits s)"
    and "AddressesToAdd d = foldl (\<lambda>m v. put2_nonempty (visit_key v) (delta addr_new t v) m) [] (visits s)"
    and "RoutesToRemove d = foldl (\<lambda>m v. put2_nonempty (visit_key v) (delta route_gone t v) m) [] (visits s)"
    and "RoutesToAdd d = foldl (\<lambda>m v. put2_nonempty (visit_key v) (delta route_new t v) m) [] (visits s)"
proof -
  have d: "d = foldl (new_step s) (foldl (old_step t) (diff_start s t) (visits s)) (visits t)"
    using ComputeDiff_folds[OF assms(1,2)] assms(3) by simp
  show "NsToRemove d = filter (\<lambda>ns. \<not> has_ns t ns) (gkeys (st_Namespaces s))"
    and "NsToAdd d = filter (\<lambda>ns. \<not> has_ns s ns) (gkeys (st_Namespaces t))"
    and "DevicesToRemove d = foldl (\<lambda>m v. if dev_gone t v then push_dev (fst v) (fst (snd v)) m else m) [] (visits s)"
    and "DevicesToAdd d = foldl (\<lambda>m v. if dev_of s (fst v) (fst (snd v)) = None then push_dev (fst v) (fst (snd v)) m else m) [] (visits t)"
    and "AddressesToRemove d = foldl (\<lambda>m v. put2_nonempty (visit_key v) (delta addr_gone t v) m) [] (visits s)"
    and "AddressesToAdd d = foldl (\<lambda>m v. put2_nonempty (visit_key v) (delta addr_new t v) m) [] (visits s)"
    and "RoutesToRemove d = foldl (\<lambda>m v. put2_nonempty (visit_key v) (delta route_gone t v) m) [] (visits s)"
    and "RoutesToAdd d = foldl (\<lambda>m v. put2_nonempty (visit_key v) (delta route_new t v) m) [] (visits s)"
    by (simp_all add: d old_fold new_fold diff_start_def NewDiff_def)
qed

lemma lookup2_Nil: "lookup2 [] k = None"
  by (simp add: lookup2_def)

lemma strings_at_fold:
  assumes "state_ok s"
  shows "strings_at (foldl (\<lambda>m v. put2_nonempty (visit_key v) (delta f t v) m) [] (visits s)) ns dev =
    (case (dev_of s ns dev, dev_of t ns dev) of (Some od, Some nd) \<Rightarrow> set (f od nd) | _ \<Rightarrow> {})"
proof -
  note dist = visits_distinct[OF assms]
  have look: "lookup2 (foldl (\<lambda>m v. put2_nonempty (visit_key v) (delta f t v) m) [] (visits s)) (ns, dev)
      = map_of (map (\<lambda>v. (visit_key v, delta f t v)) (filter (\<lambda>v. delta f t v \<noteq> []) (visits s))) (ns, dev)"
    unfolding put2_nonempty_fold nested.lookup_puts_distinct[OF TrueI distinct_keyed_filter[OF dist]]
    by (simp add: lookup2_Nil split: option.splits)
  show ?thesis
  proof (cases "dev_of s ns dev")
    case None
    then have "(ns, dev) \<notin> visit_key ` set (visits s)"
      using visits_iff[OF assms] by force
    then show ?thesis
      by (simp add: strings_at_def look map_of_keyed_None None)
  next
    case (Some od)
    then have "(ns, dev, od) \<in> set (visits s)" using visits_iff[OF assms] by blast
    from map_of_keyed[OF dist this, of "delta f t" "\<lambda>v. delta f t v \<noteq> []"]
    show ?thesis
      by (simp add: strings_at_def look Some) (auto simp: delta_def split: option.splits)
  qed
qed

lemma diffStrings_sets:
  "set (sd_removed (diffStrings old new)) = set old - set new"
  "set (sd_added (diffStrings old new)) = set new - set old"
  by (auto simp: diffStrings_def Let_def)

text \<open>(C13) On well-formed states \<open>ComputeDiff\<close> succeeds; its namespace lists are the two set
  differences; a device is to be added exactly when only the new state has it; and a device of
  the old state is to be removed exactly when its whole namespace is gone, or when only the
  device is gone and netcfg created it.\<close>

theorem ComputeDiff_devices:
  assumes "state_ok s" "state_ok t"
  shows "case ComputeDiff s t of Inl _ \<Rightarrow> False | Inr d \<Rightarrow>
      set (NsToRemove d) = {ns. has_ns s ns \<and> \<not> has_ns t ns}
    \<and> set (NsToAdd d) = {ns. has_ns t ns \<and> \<not> has_ns s ns}
    \<and> (\<forall>ns dev. dev \<in> set (bucket (DevicesToAdd d) ns) \<longleftrightarrow> dev_of t ns dev \<noteq> None \<and> dev_of s ns dev = None)
    \<and> (\<forall>ns dev. dev \<in> set (bucket (DevicesToRemove d) ns) \<longleftrightarrow>
        (\<exists>od. dev_of s ns dev = Some od
          \<and> (\<not> has_ns t ns \<or> (dev_of t ns dev = None \<and> ds_CreatedBy od = ''netcfg''))))"
proof -
  obtain d where d: "ComputeDiff s t = Inr d" using ComputeDiff_folds[OF assms] by simp
  note f = ComputeDiff_fields[OF assms d]
  have b: "bucket [] ns = []" for ns by (simp add: bucket_def)
  have "dev \<in> set (bucket (DevicesToAdd d) ns) \<longleftrightarrow> dev_of t ns dev \<noteq> None \<and> dev_of s ns dev = None" for ns dev
    unfolding f bucket_fold b visits_bex[OF assms(2)] by auto
  moreover have "dev \<in> set (bucket (DevicesToRemove d) ns) \<longleftrightarrow>
      (\<exists>od. dev_of s ns dev = Some od
        \<and> (\<not> has_ns t ns \<or> (dev_of t ns dev = None \<and> ds_CreatedBy od = ''netcfg'')))" for ns dev
    unfolding f bucket_fold b visits_bex[OF assms(1)] by (auto simp: dev_gone_def)
  ultimately show ?thesis
    unfolding d by (auto simp: f has_ns_def gget_None_iff)
qed

text \<open>(C14) For a device both states have, the addresses and routes to remove and to add are
  the two set differences; no other device has any.\<close>

theorem ComputeDiff_addresses_routes:
  assumes "state_ok s" "state_ok t"
  shows "case ComputeDiff s t of Inl _ \<Rightarrow> False | Inr d \<Rightarrow>
     (case (dev_of s ns dev, dev_of t ns dev) of
        (Some od, Some nd) \<Rightarrow>
          strings_at (AddressesToRemove d) ns dev = set (ds_Addresses od) - set (ds_Addresses nd)
        \<and> strings_at (AddressesToAdd d) ns dev = set (ds_Addresses nd) - set (ds_Addresses od)
        \<and> strings_at (RoutesToRemove d) ns dev = set (ds_Routes od) - set (ds_Routes nd)
        \<and> strings_at (RoutesToAdd d) ns dev = set (ds_Routes nd) - set (ds_Routes od)
      | _ \<Rightarrow>
          strings_at (AddressesToRemove d) ns dev = {} \<and> strings_at (AddressesToAdd d) ns dev = {}
        \<and> strings_at (RoutesToRemove d) ns dev = {} \<and> strings_at (RoutesToAdd d) ns dev = {})"
proof -
  obtain d where d: "ComputeDiff s t = Inr d" using ComputeDiff_folds[OF assms] by simp
  show ?thesis
    unfolding d ComputeDiff_fields[OF assms d] sum.case strings_at_fold[OF assms(1)]
    by (simp add: diffStrings_sets split: option.splits)
qed

lemma push_dev_ne [simp]: "push_dev ns dev m \<noteq> []"
  by (simp add: push_dev_def)

lemma push_fold_empty:
  "foldl (\<lambda>m v. if P v then push_dev (f v) (g v) m else m) m vs = [] \<longleftrightarrow> m = [] \<and> (\<forall>v\<in>set vs. \<not> P v)"
  by (induction vs arbitrary: m) auto

lemma put2_fold_empty:
  "foldl (\<lambda>m v. put2_nonempty (key v) (val v) m) m vs = [] \<longleftrightarrow> m = [] \<and> (\<forall>v\<in>set vs. val v = [])"
  by (induction vs arbitrary: m) (auto simp: put2_nonempty_def put2_def)

lemma delta_empty_iff:
  assumes "state_ok s"
  shows "(\<forall>v\<in>set (visits s). delta f t v = []) \<longleftrightarrow>
    (\<forall>ns dev od nd. dev_of s ns dev = Some od \<longrightarrow> dev_of t ns dev = Some nd \<longrightarrow> set (f od nd) = {})"
  unfolding visits_ball[OF assms] by (auto simp: delta_def split: option.splits)

text \<open>(C20) What \<open>netcfg diff\<close> regards as no change: the same namespaces, no new device, no
  netcfg-created device gone, and equal address and route sets on every common device. Nothing
  else of a device (its type, its NDP proxies) and no SRv6 SID counts.\<close>

theorem ComputeDiff_empty_iff:
  assumes "state_ok s" "state_ok t" "ComputeDiff s t = Inr d"
  shows "IsEmpty d \<longleftrightarrow>
     (\<forall>ns. has_ns s ns \<longleftrightarrow> has_ns t ns)
   \<and> (\<forall>ns dev. dev_of t ns dev \<noteq> None \<longrightarrow> dev_of s ns dev \<noteq> None)
   \<and> (\<forall>ns dev od. dev_of s ns dev = Some od \<longrightarrow>
        (case dev_of t ns dev of None \<Rightarrow> ds_CreatedBy od \<noteq> ''netcfg''
         | Some nd \<Rightarrow> set (ds_Addresses od) = set (ds_Addresses nd) \<and> set (ds_Routes od) = set (ds_Routes nd)))"
proof -
  note f = ComputeDiff_fields[OF assms]
  have ns: "NsToRemove d = [] \<and> NsToAdd d = [] \<longleftrightarrow> (\<forall>ns. has_ns s ns \<longleftrightarrow> has_ns t ns)"
    by (auto simp: f filter_empty_conv has_ns_def gget_None_iff)
  have add: "DevicesToAdd d = [] \<longleftrightarrow> (\<forall>ns dev. dev_of t ns dev \<noteq> None \<longrightarrow> dev_of s ns dev \<noteq> None)"
    unfolding f push_fold_empty visits_ball[OF assms(2)] by auto
  have rem: "DevicesToRemove d = [] \<longleftrightarrow>
      (\<forall>ns dev od. dev_of s ns dev = Some od \<longrightarrow>
        has_ns t ns \<and> (dev_of t ns dev = None \<longrightarrow> ds_CreatedBy od \<noteq> ''netcfg''))"
    unfolding f push_fold_empty visits_ball[OF assms(1)] by (auto simp: dev_gone_def) (metis option.distinct(1))
  have tabs: "AddressesToRemove d = [] \<and> AddressesToAdd d = [] \<and> RoutesToRemove d = [] \<and> RoutesToAdd d = [] \<longleftrightarrow>
      (\<forall>ns dev od nd. dev_of s ns dev = Some od \<longrightarrow> dev_of t ns dev = Some nd \<longrightarrow>
        set (ds_Addresses od) = set (ds_Addresses nd) \<and> set (ds_Routes od) = set (ds_Routes nd))"
    unfolding f put2_fold_empty delta_empty_iff[OF assms(1)] diffStrings_sets by blast
  have has: "dev_of s ns dev = Some od \<Longrightarrow> has_ns s ns" for ns dev od
    by (auto simp: dev_of_def has_ns_def split: option.splits)
  have cases: "(\<forall>ns dev od. dev_of s ns dev = Some od \<longrightarrow>
        (case dev_of t ns dev of None \<Rightarrow> ds_CreatedBy od \<noteq> ''netcfg''
         | Some nd \<Rightarrow> set (ds_Addresses od) = set (ds_Addresses nd) \<and> set (ds_Routes od) = set (ds_Routes nd)))
    \<longleftrightarrow> (\<forall>ns dev od. dev_of s ns dev = Some od \<longrightarrow> dev_of t ns dev = None \<longrightarrow> ds_CreatedBy od \<noteq> ''netcfg'')
      \<and> (\<forall>ns dev od nd. dev_of s ns dev = Some od \<longrightarrow> dev_of t ns dev = Some nd \<longrightarrow>
          set (ds_Addresses od) = set (ds_Addresses nd) \<and> set (ds_Routes od) = set (ds_Routes nd))"
    by (auto split: option.splits)
  have "IsEmpty d \<longleftrightarrow> (NsToRemove d = [] \<and> NsToAdd d = []) \<and> DevicesToAdd d = [] \<and> DevicesToRemove d = []
      \<and> (AddressesToRemove d = [] \<and> AddressesToAdd d = [] \<and> RoutesToRemove d = [] \<and> RoutesToAdd d = [])"
    unfolding IsEmpty_def by blast
  then show ?thesis
    unfolding ns add rem tabs cases using has by blast
qed

section \<open>The device table\<close>

lemma ns_ok_put: "ns_ok n \<Longrightarrow> nss_Devices n = Some ds \<Longrightarrow> ns_ok (n\<lparr>nss_Devices := Some (alist_put name (Some d) ds)\<rparr>)"
  using alist_put_set[of name "Some d" ds] by (auto simp: ns_ok_def)

lemma ns_ok_del: "ns_ok n \<Longrightarrow> nss_Devices n = Some ds \<Longrightarrow> ns_ok (n\<lparr>nss_Devices := Some (alist_del name ds)\<rparr>)"
  by (simp add: ns_ok_def distinct_alist_del) (auto simp: alist_del_def)

lemma state_ok_put:
  assumes "state_ok s" "st_Namespaces s = Some xs" "ns_ok n"
  shows "state_ok (s\<lparr>st_Namespaces := Some (alist_put ns (Some n) xs)\<rparr>)"
  using assms alist_put_set[of ns "Some n" xs] by (auto simp: state_ok_def)

lemma GetDevice_dev_of: "state_ok s \<Longrightarrow> GetDevice s ns name = Inr (dev_of s ns name)"
  by (auto simp: GetDevice_def dev_of_def split: option.splits elim: state_okD)

lemma alist_put_twice [simp]: "alist_put k v (alist_put k w xs) = alist_put k v xs"
  by (induction xs) auto

lemma SetDevice_eq:
  assumes "state_ok s" "st_Namespaces s = Some xs"
  shows "\<exists>n ds. SetDevice ns name (Some d) s
      = Inr (s\<lparr>st_Namespaces := Some (alist_put ns (Some (n\<lparr>nss_Devices := Some (alist_put name (Some d) ds)\<rparr>)) xs)\<rparr>)
    \<and> ns_ok n \<and> nss_Devices n = Some ds
    \<and> (case map_of xs ns of None \<Rightarrow> ds = [] | Some p \<Rightarrow> p = Some n)"
proof (cases "map_of xs ns")
  case None
  then show ?thesis
    using assms(2) by (intro exI[of _ "\<lparr>nss_Devices = gmake, nss_SRv6SIDs = []\<rparr>"] exI[of _ "[]"])
      (simp add: SetDevice_def ns_ok_def map_of_alist_put)
next
  case (Some p)
  then obtain n where n: "p = Some n" "ns_ok n" using state_okD[OF assms(1), of ns p] assms(2) by auto
  then obtain ds where "nss_Devices n = Some ds" by (auto simp: ns_ok_def)
  then show ?thesis
    using Some n assms(2) by (auto simp: SetDevice_def)
qed

definition dev_put :: "string \<times> string \<Rightarrow> DeviceState \<Rightarrow> State \<Rightarrow> State" where
  "dev_put k d s = (case SetDevice (fst k) (snd k) (Some d) s of Inr s' \<Rightarrow> s' | Inl _ \<Rightarrow> s)"

definition dev_del :: "string \<times> string \<Rightarrow> State \<Rightarrow> State" where
  "dev_del k s = (case RemoveDevice (fst k) (snd k) s of Inr s' \<Rightarrow> s' | Inl _ \<Rightarrow> s)"

lemma SetDevice_put:
  assumes "state_ok s"
  shows "SetDevice ns name (Some d) s = Inr (dev_put (ns, name) d s)" "state_ok (dev_put (ns, name) d s)"
    "dev_of (dev_put (ns, name) d s) ns' name' = (if ns' = ns \<and> name' = name then Some d else dev_of s ns' name')"
proof -
  obtain xs where xs: "st_Namespaces s = Some xs" using assms by (auto simp: state_ok_def)
  from SetDevice_eq[OF assms xs, of ns name d] obtain n ds where
    eq: "SetDevice ns name (Some d) s
      = Inr (s\<lparr>st_Namespaces := Some (alist_put ns (Some (n\<lparr>nss_Devices := Some (alist_put name (Some d) ds)\<rparr>)) xs)\<rparr>)"
    and n: "ns_ok n" "nss_Devices n = Some ds" "case map_of xs ns of None \<Rightarrow> ds = [] | Some p \<Rightarrow> p = Some n"
    by blast
  show "SetDevice ns name (Some d) s = Inr (dev_put (ns, name) d s)"
    by (simp add: dev_put_def eq)
  show "state_ok (dev_put (ns, name) d s)"
    using state_ok_put[OF assms xs ns_ok_put[OF n(1,2)]] by (simp add: dev_put_def eq)
  show "dev_of (dev_put (ns, name) d s) ns' name' = (if ns' = ns \<and> name' = name then Some d else dev_of s ns' name')"
    using n(2,3) by (auto simp: dev_put_def eq dev_of_def xs map_of_alist_put split: option.splits)
qed

lemma RemoveDevice_del:
  assumes "state_ok s"
  shows "RemoveDevice ns name s = Inr (dev_del (ns, name) s)" "state_ok (dev_del (ns, name) s)"
    "dev_of (dev_del (ns, name) s) ns' name' = (if ns' = ns \<and> name' = name then None else dev_of s ns' name')"
proof -
  obtain xs where xs: "st_Namespaces s = Some xs" using assms by (auto simp: state_ok_def)
  have "RemoveDevice ns name s = Inr (dev_del (ns, name) s) \<and> state_ok (dev_del (ns, name) s)
    \<and> dev_of (dev_del (ns, name) s) ns' name' = (if ns' = ns \<and> name' = name then None else dev_of s ns' name')"
  proof (cases "map_of xs ns")
    case None
    then show ?thesis
      using assms by (simp add: dev_del_def RemoveDevice_def xs dev_of_def)
  next
    case (Some p)
    then obtain n where n: "p = Some n" "ns_ok n" using state_okD[OF assms, of ns p] xs by auto
    then obtain ds where ds: "nss_Devices n = Some ds" by (auto simp: ns_ok_def)
    have eq: "RemoveDevice ns name s
        = Inr (s\<lparr>st_Namespaces := Some (alist_put ns (Some (n\<lparr>nss_Devices := Some (alist_del name ds)\<rparr>)) xs)\<rparr>)"
      using Some n ds by (simp add: RemoveDevice_def xs gdelete_def)
    show ?thesis
      using state_ok_put[OF assms xs ns_ok_del[OF n(2) ds]] Some n(1) ds
      by (auto simp: dev_del_def eq dev_of_def xs map_of_alist_put map_of_alist_del)
  qed
  then show "RemoveDevice ns name s = Inr (dev_del (ns, name) s)" "state_ok (dev_del (ns, name) s)"
    "dev_of (dev_del (ns, name) s) ns' name' = (if ns' = ns \<and> name' = name then None else dev_of s ns' name')"
    by auto
qed

interpretation devices: kv_store "\<lambda>s k. dev_of s (fst k) (snd k)" dev_put state_ok dev_del
  by unfold_locales (auto simp: SetDevice_put RemoveDevice_del prod_eq_iff)

text \<open>(C21) \<open>SetDevice\<close>, \<open>GetDevice\<close> and \<open>RemoveDevice\<close> implement a table keyed by namespace
  and device: on a well-formed state none of them panics, the state stays well-formed, a device
  just set is read back, removing it after setting an absent one restores every lookup, and no
  operation touches another device.\<close>

theorem device_table_laws:
  assumes "state_ok s"
  shows "\<exists>s1 s2. SetDevice ns name (Some d) s = Inr s1 \<and> state_ok s1
    \<and> GetDevice s1 ns name = Inr (Some d)
    \<and> (\<forall>ns' name'. (ns', name') \<noteq> (ns, name) \<longrightarrow> GetDevice s1 ns' name' = GetDevice s ns' name')
    \<and> RemoveDevice ns name s1 = Inr s2 \<and> state_ok s2
    \<and> (GetDevice s ns name = Inr None \<longrightarrow> (\<forall>ns' name'. GetDevice s2 ns' name' = GetDevice s ns' name'))"
proof (intro exI conjI)
  let ?s1 = "dev_put (ns, name) d s" and ?s2 = "dev_del (ns, name) (dev_put (ns, name) d s)"
  have ok: "state_ok ?s1" "state_ok ?s2"
    using assms devices.invar_put devices.invar_del by auto
  show "SetDevice ns name (Some d) s = Inr ?s1" "RemoveDevice ns name ?s1 = Inr ?s2"
    using SetDevice_put(1)[OF assms] RemoveDevice_del(1)[OF ok(1)] by auto
  show "GetDevice s ns name = Inr None \<longrightarrow> (\<forall>ns' name'. GetDevice ?s2 ns' name' = GetDevice s ns' name')"
    using devices.del_put_same[OF assms, of "(ns, name)" d] assms ok
    by (auto simp: GetDevice_dev_of fun_eq_iff)
qed (use assms in \<open>auto simp: GetDevice_dev_of SetDevice_put RemoveDevice_del\<close>)

section \<open>Instances\<close>

definition example_dev :: "string \<Rightarrow> string list \<Rightarrow> DeviceState" where
  "example_dev by addrs = \<lparr>ds_Type = ''ethernet'', ds_Addresses = addrs, ds_Routes = [], ds_Master = '''',
     ds_NDProxy = [], ds_CreatedBy = by\<rparr>"

definition example_state :: "(string \<times> DeviceState) list \<Rightarrow> State" where
  "example_state ds = NewState\<lparr>st_Namespaces := Some [('''',
     Some \<lparr>nss_Devices = Some (map (\<lambda>(k, d). (k, Some d)) ds), nss_SRv6SIDs = []\<rparr>)]\<rparr>"

lemma example_state_ok: "distinct (map fst ds) \<Longrightarrow> state_ok (example_state ds)"
  by (auto simp: example_state_def state_ok_def ns_ok_def comp_def case_prod_unfold)

lemma NewState_ok: "state_ok NewState"
  by (simp add: NewState_def state_ok_def)

lemma example_dev_of:
  "dev_of (example_state ds) ns dev = (if ns = '''' then map_of ds dev else None)"
  "has_ns (example_state ds) ns \<longleftrightarrow> ns = ''''"
proof -
  have "map_of (map (\<lambda>(k, d). (k, Some d)) ds) dev = map_option Some (map_of ds dev)"
    by (induction ds) auto
  then show "dev_of (example_state ds) ns dev = (if ns = '''' then map_of ds dev else None)"
    by (auto simp: dev_of_def example_state_def split: option.splits)
qed (simp add: has_ns_def example_state_def)

theorem ComputeDiff_devices_witness:
  "case ComputeDiff (example_state [(''eth0'', example_dev ''system'' []), (''br0'', example_dev ''netcfg'' [])])
      (example_state [(''eth1'', example_dev ''system'' [])]) of
     Inl _ \<Rightarrow> False
   | Inr d \<Rightarrow> ''br0'' \<in> set (bucket (DevicesToRemove d) '''') \<and> ''eth0'' \<notin> set (bucket (DevicesToRemove d) '''')
       \<and> ''eth1'' \<in> set (bucket (DevicesToAdd d) '''')"
  using ComputeDiff_devices[OF example_state_ok example_state_ok,
      of "[(''eth0'', example_dev ''system'' []), (''br0'', example_dev ''netcfg'' [])]"
         "[(''eth1'', example_dev ''system'' [])]"]
  by (auto simp: example_dev_of example_dev_def split: sum.splits)

theorem ComputeDiff_addresses_routes_witness:
  "case ComputeDiff (example_state [(''eth0'', example_dev ''system'' [''10.0.0.1/24'', ''10.0.0.2/24''])])
      (example_state [(''eth0'', example_dev ''system'' [''10.0.0.2/24'', ''10.0.0.3/24''])]) of
     Inl _ \<Rightarrow> False
   | Inr d \<Rightarrow> strings_at (AddressesToRemove d) '''' ''eth0'' = {''10.0.0.1/24''}
       \<and> strings_at (AddressesToAdd d) '''' ''eth0'' = {''10.0.0.3/24''}"
  using ComputeDiff_addresses_routes[OF example_state_ok example_state_ok,
      of "[(''eth0'', example_dev ''system'' [''10.0.0.1/24'', ''10.0.0.2/24''])]"
         "[(''eth0'', example_dev ''system'' [''10.0.0.2/24'', ''10.0.0.3/24''])]" "''''" "''eth0''"]
  by (simp add: example_dev_of example_dev_def insert_Diff_if split: sum.splits)

lemma example_diff:
  "\<exists>d. ComputeDiff (example_state [(''eth0'', example_dev ''system'' [''10.0.0.1/24''])])
      (example_state [(''eth0'', (example_dev ''system'' [''10.0.0.1/24''])\<lparr>ds_NDProxy := [''fd00::1'']\<rparr>)]) = Inr d"
  by (simp add: ComputeDiff_folds example_state_ok)

theorem ComputeDiff_empty_iff_witness:
  "\<exists>d. ComputeDiff (example_state [(''eth0'', example_dev ''system'' [''10.0.0.1/24''])])
      (example_state [(''eth0'', (example_dev ''system'' [''10.0.0.1/24''])\<lparr>ds_NDProxy := [''fd00::1'']\<rparr>)]) = Inr d
    \<and> IsEmpty d"
proof -
  obtain d where d: "ComputeDiff (example_state [(''eth0'', example_dev ''system'' [''10.0.0.1/24''])])
      (example_state [(''eth0'', (example_dev ''system'' [''10.0.0.1/24''])\<lparr>ds_NDProxy := [''fd00::1'']\<rparr>)]) = Inr d"
    using example_diff by blast
  have "IsEmpty d"
    unfolding ComputeDiff_empty_iff[OF example_state_ok example_state_ok d, simplified]
    by (simp add: example_dev_of example_dev_def)
  then show ?thesis using d by blast
qed

theorem device_table_laws_witness:
  "\<exists>s1. SetDevice ''blue'' ''dummy0'' (Some (example_dev ''netcfg'' [])) NewState = Inr s1
    \<and> GetDevice s1 ''blue'' ''dummy0'' = Inr (Some (example_dev ''netcfg'' []))"
  using device_table_laws[OF NewState_ok, of "''blue''" "''dummy0''" "example_dev ''netcfg'' []"] by blast

text \<open>When a whole namespace entry disappears from the new state, every device of it is
  scheduled for removal, also one the system owns (a physical interface): the creator is only
  consulted while the namespace survives.\<close>

theorem system_devices_removed_with_namespace:
  assumes "state_ok s" "state_ok t" "dev_of s ns dev = Some od" "ds_CreatedBy od = ''system''" "\<not> has_ns t ns"
  shows "case ComputeDiff s t of Inl _ \<Rightarrow> False | Inr d \<Rightarrow> dev \<in> set (bucket (DevicesToRemove d) ns)"
proof -
  obtain d where d: "ComputeDiff s t = Inr d" using ComputeDiff_folds[OF assms(1,2)] by simp
  have "dev \<in> set (bucket (DevicesToRemove d) ns)"
    unfolding ComputeDiff_fields(3)[OF assms(1,2) d] bucket_fold visits_bex[OF assms(1)]
    using assms(3,5) by (auto simp: dev_gone_def)
  then show ?thesis by (simp add: d)
qed

theorem system_devices_removed_with_namespace_witness:
  "case ComputeDiff (example_state [(''eth0'', example_dev ''system'' [])]) NewState of
     Inl _ \<Rightarrow> False | Inr d \<Rightarrow> ''eth0'' \<in> set (bucket (DevicesToRemove d) '''')"
  by (rule system_devices_removed_with_namespace[where od = "example_dev ''system'' []"])
    (simp_all add: example_state_ok NewState_ok example_dev_of example_dev_def, simp add: has_ns_def NewState_def)

end
