(* ===== verification/BuildState.thy ===== *)
theory BuildState
  imports ConfigValid NetState
begin

text \<open>
  The state that \<open>cmd/apply.go\<close> derives from a configuration (\<open>buildStateFromConfig\<close>), with
  the textual form of routes it stores and parses back. A null device or route in the
  configuration makes the derivation panic.
\<close>

section \<open>Operations\<close>

definition addrStrings :: "Address list \<Rightarrow> string list" where
  "addrStrings addrs = map addr_CIDR addrs"

definition ndProxyAddrs :: "NDProxy option \<Rightarrow> string list" where
  "ndProxyAddrs p = (case p of None \<Rightarrow> [] | Some n \<Rightarrow> ndp_Addresses n)"

definition route_string :: "Route \<Rightarrow> string" where
  "route_string r =
    route_To r
    @ (if route_Via r \<noteq> '''' then '' via '' @ route_Via r else [])
    @ (if route_Table r > 0 then '' table '' @ itoa (route_Table r) else [])"

fun routesToStrings :: "Route option list \<Rightarrow> (state_error, string list) result" where
  "routesToStrings [] = Inr []"
| "routesToStrings (p # ps) =
    rbind (deref p) (\<lambda>r. rbind (routesToStrings ps) (\<lambda>ss. Inr (route_string r # ss)))"

fun route_tokens :: "string list \<Rightarrow> string \<times> int \<Rightarrow> string \<times> int" where
  "route_tokens (p # q # rest) (gw, table) =
    route_tokens (q # rest)
      (if p = ''via'' then q else gw,
       if p = ''table'' then (case sscanf_d q of Some v \<Rightarrow> v | None \<Rightarrow> table) else table)"
| "route_tokens _ acc = acc"

definition parseRouteString :: "string \<Rightarrow> string \<times> string \<times> int" where
  "parseRouteString s =
    (let parts = Fields s;
         dst = (case parts of [] \<Rightarrow> '''' | p # _ \<Rightarrow> p)
     in (dst, route_tokens parts ('''', 0)))"

definition mk_dev :: "string \<Rightarrow> string \<Rightarrow> Address list \<Rightarrow> Route option list \<Rightarrow> NDProxy option \<Rightarrow> (state_error, DeviceState) result" where
  "mk_dev ty by addrs routes ndp =
    rbind (routesToStrings routes) (\<lambda>rs.
      Inr \<lparr>ds_Type = ty, ds_Addresses = addrStrings addrs, ds_Routes = rs, ds_Master = '''',
           ds_NDProxy = ndProxyAddrs ndp, ds_CreatedBy = by\<rparr>)"

text \<open>One loop of \<open>buildNsState\<close>: an entry of the device map per configured device.\<close>

definition add_devs :: "('c \<Rightarrow> (state_error, DeviceState) result) \<Rightarrow> 'c option gomap
    \<Rightarrow> DeviceState option alist \<Rightarrow> (state_error, DeviceState option alist) result" where
  "add_devs mk m devs =
    rfold (\<lambda>ds (name, p). rbind (deref p) (\<lambda>c. rbind (mk c) (\<lambda>d. Inr (alist_put name (Some d) ds)))) devs (entries m)"

fun sids_of :: "SRv6LocalSID option list \<Rightarrow> (state_error, string list) result" where
  "sids_of [] = Inr []"
| "sids_of (p # ps) = rbind (deref p) (\<lambda>s. rbind (sids_of ps) (\<lambda>ss. Inr (sid_SID s # ss)))"

definition ns_devices :: "Namespace \<Rightarrow> (state_error, DeviceState option alist) result" where
  "ns_devices ns =
    rbind (add_devs (\<lambda>c. mk_dev ''ethernet'' ''system'' (eth_Addresses c) (eth_Routes c) (eth_NDProxy c)) (ns_Ethernets ns) []) (\<lambda>d.
    rbind (add_devs (\<lambda>c. mk_dev ''dummy'' ''netcfg'' (eth_Addresses c) (eth_Routes c) None) (ns_DummyDevices ns) d) (\<lambda>d.
    rbind (add_devs (\<lambda>c. mk_dev ''bridge'' ''netcfg'' (br_Addresses c) (br_Routes c) (br_NDProxy c)) (ns_Bridges ns) d) (\<lambda>d.
    rbind (add_devs (\<lambda>c. mk_dev ''bond'' ''netcfg'' (bond_Addresses c) (bond_Routes c) (bond_NDProxy c)) (ns_Bonds ns) d) (\<lambda>d.
    rbind (add_devs (\<lambda>c. mk_dev ''vlan'' ''netcfg'' (vlan_Addresses c) (vlan_Routes c) (vlan_NDProxy c)) (ns_Vlans ns) d) (\<lambda>d.
    rbind (add_devs (\<lambda>c. mk_dev ''vxlan'' ''netcfg'' (vxlan_Addresses c) (vxlan_Routes c) None) (ns_Vxlans ns) d) (\<lambda>d.
    rbind (add_devs (\<lambda>c. mk_dev ''vrf'' ''netcfg'' [] (vrf_Routes c) None) (ns_Vrfs ns) d) (\<lambda>d.
    rbind (add_devs (\<lambda>c. mk_dev ''tunnel'' ''netcfg'' (tun_Addresses c) (tun_Routes c) None) (ns_Tunnels ns) d) (\<lambda>d.
    rbind (add_devs (\<lambda>c. mk_dev ''wifi'' ''system'' (wifi_Addresses c) (wifi_Routes c) None) (ns_Wifis ns) d) (\<lambda>d.
    rbind (add_devs (\<lambda>c. mk_dev ''veth'' ''netcfg'' (veth_Addresses c) (veth_Routes c) None) (ns_VethDevices ns) d) (\<lambda>d.
    rbind (add_devs (\<lambda>c. mk_dev ''veth'' ''netcfg'' (virt_Addresses c) (virt_Routes c) None) (ns_VirtualEthernets ns) d) (\<lambda>d.
    rbind (add_devs (\<lambda>c. mk_dev ''macvlan'' ''netcfg'' (macvlan_Addresses c) (macvlan_Routes c) None) (ns_MacvlanDevices ns) d) (\<lambda>d.
    rbind (add_devs (\<lambda>c. mk_dev ''ipvlan'' ''netcfg'' (ipvlan_Addresses c) (ipvlan_Routes c) None) (ns_IpvlanDevices ns) d) (\<lambda>d.
    rbind (add_devs (\<lambda>c. mk_dev ''tun'' ''netcfg'' (tuntap_Addresses c) (tuntap_Routes c) None) (ns_TunDevices ns) d) (\<lambda>d.
    add_devs (\<lambda>c. mk_dev ''tap'' ''netcfg'' (tuntap_Addresses c) (tuntap_Routes c) None) (ns_TapDevices ns) d))))))))))))))"

definition buildNsState :: "Namespace option \<Rightarrow> (state_error, NsState) result" where
  "buildNsState p =
    rbind (deref p) (\<lambda>ns.
    rbind (ns_devices ns) (\<lambda>d.
    rbind (case ns_SRv6 ns of None \<Rightarrow> Inr [] | Some c \<Rightarrow> sids_of (srv6_LocalSIDs c)) (\<lambda>sids.
      Inr \<lparr>nss_Devices = Some d, nss_SRv6SIDs = sids\<rparr>)))"

definition buildStateFromConfig :: "Config \<Rightarrow> (state_error, State) result" where
  "buildStateFromConfig cfg =
    rbind (if HasDefaultNamespaceConfig cfg
           then rbind (buildNsState (Some (ToNamespace (cfg_Network cfg)))) (\<lambda>n. SetNamespace '''' (Some n) NewState)
           else Inr NewState) (\<lambda>s.
      rfold (\<lambda>s (name, p). rbind (buildNsState p) (\<lambda>n. SetNamespace name (Some n) s)) s
        (entries (net_Netns (cfg_Network cfg))))"

section \<open>Routes as text\<close>

lemma token_words: "token ''via''" "token ''table''"
  by (rule token_ascii; simp)+

lemma route_words:
  "'' via '' @ x = CHR '' '' # ''via'' @ CHR '' '' # x" "'' table '' @ x = CHR '' '' # ''table'' @ CHR '' '' # x"
  by simp_all

lemma Fields_route_tail:
  "token w \<Longrightarrow> Fields (w @ (if t > 0 then '' table '' @ itoa t else [])) = w # (if t > 0 then [''table'', itoa t] else [])"
  by (simp add: route_words Fields_token Fields_token_space token_words token_digits itoa_def del: append_Cons)

text \<open>(C18) The text a route is stored as can be parsed back: for a destination and a gateway
  that are single words other than the keyword \<open>via\<close>, and a table that fits 64 bits,
  \<open>parseRouteString\<close> recovers destination, gateway and table.\<close>

theorem route_string_round_trip:
  assumes "token (route_To r)" "route_To r \<noteq> ''via''"
    and "route_Via r = '''' \<or> token (route_Via r) \<and> route_Via r \<noteq> ''via''"
    and "route_Table r < 2 ^ 63"
  shows "parseRouteString (route_string r) =
    (route_To r, route_Via r, if route_Table r > 0 then route_Table r else 0)"
proof -
  have kw: "sscanf_d ''via'' = None" "sscanf_d ''table'' = None"
    by (simp_all add: sscanf_d_def digit_val_def)
  have num: "0 < route_Table r \<Longrightarrow> sscanf_d (itoa (route_Table r)) = Some (route_Table r)"
    using assms(4) by (intro sscanf_d_itoa) simp_all
  show ?thesis
  proof (cases "route_Via r = ''''")
    case True
    then have "Fields (route_string r) = route_To r # (if route_Table r > 0 then [''table'', itoa (route_Table r)] else [])"
      using Fields_route_tail[OF assms(1)] by (simp add: route_string_def)
    then show ?thesis
      using True assms(2) num kw by (simp add: parseRouteString_def)
  next
    case False
    have "route_string r = route_To r @ CHR '' '' # ''via'' @ CHR '' ''
        # (route_Via r @ (if route_Table r > 0 then '' table '' @ itoa (route_Table r) else []))"
      using False by (simp add: route_string_def)
    then have "Fields (route_string r) = [route_To r, ''via'', route_Via r]
        @ (if route_Table r > 0 then [''table'', itoa (route_Table r)] else [])"
      using Fields_route_tail[of "route_Via r" "route_Table r"] assms(3) False
      by (simp add: Fields_token_space assms(1) token_words del: append_Cons)
    then show ?thesis
      using False assms(2,3) num kw by (simp add: parseRouteString_def)
  qed
qed

theorem route_string_round_trip_witness:
  "parseRouteString (route_string (zero_Route\<lparr>route_To := ''10.0.0.0/8'', route_Via := ''192.168.1.1'', route_Table := 100\<rparr>))
    = (''10.0.0.0/8'', ''192.168.1.1'', 100)"
proof -
  have "token ''10.0.0.0/8''" "token ''192.168.1.1''"
    by (rule token_ascii; simp)+
  then show ?thesis
    using route_string_round_trip[of "zero_Route\<lparr>route_To := ''10.0.0.0/8'', route_Via := ''192.168.1.1'', route_Table := 100\<rparr>"]
    by (simp add: zero_Route_def)
qed

section \<open>The derived state\<close>

definition devs_ok :: "DeviceState option alist \<Rightarrow> bool" where
  "devs_ok ds \<longleftrightarrow> distinct (map fst ds) \<and> (\<forall>p\<in>set ds. snd p \<noteq> None)"

lemma devs_ok_put: "devs_ok ds \<Longrightarrow> devs_ok (alist_put k (Some d) ds)"
  using alist_put_set[of k "Some d" ds] by (auto simp: devs_ok_def)

lemma add_devs_step:
  assumes "add_devs mk m ds = Inr ds'" "devs_ok ds"
  shows "devs_ok ds' \<and> fst ` set ds' = fst ` set ds \<union> set (gkeys m)"
proof -
  have "rfold (\<lambda>ds (name, p). rbind (deref p) (\<lambda>c. rbind (mk c) (\<lambda>d. Inr (alist_put name (Some d) ds)))) ds xs = Inr ds'
      \<Longrightarrow> devs_ok ds \<Longrightarrow> devs_ok ds' \<and> fst ` set ds' = fst ` set ds \<union> fst ` set xs" for xs
  proof (induction xs arbitrary: ds)
    case (Cons x xs)
    obtain name p where x: "x = (name, p)" by force
    from Cons.prems(1) obtain d where
      "rfold (\<lambda>ds (name, p). rbind (deref p) (\<lambda>c. rbind (mk c) (\<lambda>d. Inr (alist_put name (Some d) ds))))
        (alist_put name (Some d) ds) xs = Inr ds'"
      by (auto simp: x rbind_eq_Inr rbind_def split: sum.splits option.splits)
    from Cons.IH[OF this devs_ok_put[OF Cons.prems(2)]] show ?case by (auto simp: x)
  qed simp
  then show ?thesis using assms by (auto simp: add_devs_def gkeys_def)
qed

definition tracked_names :: "Namespace \<Rightarrow> string set" where
  "tracked_names ns =
     set (gkeys (ns_Ethernets ns)) \<union> set (gkeys (ns_DummyDevices ns)) \<union> set (gkeys (ns_Bridges ns))
   \<union> set (gkeys (ns_Bonds ns)) \<union> set (gkeys (ns_Vlans ns)) \<union> set (gkeys (ns_Vxlans ns))
   \<union> set (gkeys (ns_Vrfs ns)) \<union> set (gkeys (ns_Tunnels ns)) \<union> set (gkeys (ns_Wifis ns))
   \<union> set (gkeys (ns_VethDevices ns)) \<union> set (gkeys (ns_VirtualEthernets ns))
   \<union> set (gkeys (ns_MacvlanDevices ns)) \<union> set (gkeys (ns_IpvlanDevices ns))
   \<union> set (gkeys (ns_TunDevices ns)) \<union> set (gkeys (ns_TapDevices ns))"

lemma ns_devices_names:
  assumes "ns_devices ns = Inr ds"
  shows "devs_ok ds" "fst ` set ds = tracked_names ns"
proof -
  have nil: "devs_ok []" by (simp add: devs_ok_def)
  have "devs_ok ds \<and> fst ` set ds = tracked_names ns"
    using assms unfolding ns_devices_def rbind_eq_Inr
    by (elim exE conjE) (insert nil, (drule (1) add_devs_step, elim conjE)+, simp add: tracked_names_def)
  then show "devs_ok ds" "fst ` set ds = tracked_names ns" by blast+
qed

lemma buildNsState_ok:
  assumes "buildNsState p = Inr n"
  shows "ns_ok n"
proof -
  from assms obtain ns ds where "ns_devices ns = Inr ds" "nss_Devices n = Some ds"
    by (auto simp: buildNsState_def rbind_eq_Inr)
  then show ?thesis using ns_devices_names(1) by (simp add: ns_ok_def devs_ok_def)
qed

lemma SetNamespace_ok:
  assumes "state_ok s" "ns_ok n" "SetNamespace ns (Some n) s = Inr s'"
  shows "state_ok s'"
  using assms state_ok_put[OF assms(1) _ assms(2)] by (auto simp: SetNamespace_def rbind_eq_Inr gput_eq_Inr)

lemma built_state_ok:
  assumes "buildStateFromConfig cfg = Inr s"
  shows "state_ok s"
proof -
  from assms obtain s0 where
    s0: "s0 = NewState \<or> (\<exists>n. buildNsState (Some (ToNamespace (cfg_Network cfg))) = Inr n \<and> SetNamespace '''' (Some n) NewState = Inr s0)"
    and fold: "rfold (\<lambda>s (name, p). rbind (buildNsState p) (\<lambda>n. SetNamespace name (Some n) s)) s0
        (entries (net_Netns (cfg_Network cfg))) = Inr s"
    by (auto simp: buildStateFromConfig_def rbind_eq_Inr split: if_splits)
  have "state_ok s0"
    using s0 NewState_ok SetNamespace_ok[OF NewState_ok buildNsState_ok] by blast
  show ?thesis
  proof (rule rfold_invariant[where P = state_ok, OF fold \<open>state_ok s0\<close>])
    fix s x s' assume "state_ok s" and step: "(case x of (name, p) \<Rightarrow> rbind (buildNsState p) (\<lambda>n. SetNamespace name (Some n) s)) = Inr s'"
    then obtain n where "buildNsState (snd x) = Inr n" "SetNamespace (fst x) (Some n) s = Inr s'"
      by (cases x) (auto simp: rbind_eq_Inr)
    then show "state_ok s'" using SetNamespace_ok[OF \<open>state_ok s\<close> buildNsState_ok] by blast
  qed
qed

text \<open>(C17) The state derived from any configuration is well-formed: every map allocated, keys
  distinct and no nil pointer; computing its difference with another well-formed state
  in either direction cannot panic.\<close>

theorem buildStateFromConfig_ok:
  assumes "buildStateFromConfig cfg = Inr s" "state_ok t"
  shows "state_ok s \<and> (\<exists>d. ComputeDiff t s = Inr d) \<and> (\<exists>d. ComputeDiff s t = Inr d)"
  using built_state_ok[OF assms(1)] ComputeDiff_folds assms(2) by blast


lemma sample_build:
  "buildStateFromConfig (zero_Config\<lparr>cfg_Network := zero_Network\<lparr>
      net_Bridges := Some [(''br0'', Some (zero_Bridge\<lparr>br_Addresses := [\<lparr>addr_CIDR = ''10.0.0.1/24'', addr_Lifetime = '''', addr_Label = ''''\<rparr>]\<rparr>))]\<rparr>\<rparr>)
    = Inr (example_state [(''br0'', (example_dev ''netcfg'' [''10.0.0.1/24''])\<lparr>ds_Type := ''bridge''\<rparr>)])"
  by (simp add: buildStateFromConfig_def HasDefaultNamespaceConfig_def buildNsState_def ns_devices_def add_devs_def
      mk_dev_def addrStrings_def ndProxyAddrs_def ToNamespace_def zero_Namespace_def zero_Config_def zero_Network_def zero_Bridge_def
      SetNamespace_def NewState_def example_state_def example_dev_def)

theorem buildStateFromConfig_ok_witness:
  "state_ok (example_state [(''br0'', (example_dev ''netcfg'' [''10.0.0.1/24''])\<lparr>ds_Type := ''bridge''\<rparr>)])"
  using buildStateFromConfig_ok[OF sample_build NewState_ok] by blast


end
