(* ===== verification/SetupDevice.thy ===== *)
theory SetupDevice
  imports Supplicant BuildState
begin

text \<open>
  The configuration of one device (\<open>cmd/apply.go\<close> from \<open>applyNameservers\<close> to \<open>applyNDProxy\<close>,
  with \<open>cmd/offload.go\<close> and \<open>cmd/sriov.go\<close>): link attributes, addresses, routes, policy rules,
  DNS, DHCP, offloads. A DHCP exchange runs in a goroutine of its own; the command records
  its start with the parameters the goroutine closes over.
\<close>

section \<open>Routes and rules\<close>

definition lift_result :: "(cfg_error, unit) result \<Rightarrow> cmd" where
  "lift_result r = (case r of Inr _ \<Rightarrow> nop | Inl (Err e) \<Rightarrow> failwith (CfgErr e) | Inl (Panic p) \<Rightarrow> crash p)"

definition addRoutingPolicy :: "mgr \<Rightarrow> RoutingPolicy option \<Rightarrow> cmd" where
  "addRoutingPolicy m p = with_ptr p (\<lambda>p. AddRule m (rp_From p) (rp_To p) (rp_Table p) (rp_Priority p) (rp_Mark p))"

definition route_to :: "Route \<Rightarrow> string" where
  "route_to r = (let to = (if route_To r = ''default'' then ''0.0.0.0/0'' else route_To r) in
     if CHR ''/'' \<notin> set to \<and> to \<noteq> ''0.0.0.0/0'' then to @ ''/32'' else to)"

definition route_options :: "string \<Rightarrow> Route \<Rightarrow> RouteOptions" where
  "route_options dev r = \<lparr>ro_Dst = route_to r, ro_Gw = route_Via r, ro_Dev = dev, ro_Src = route_From r,
     ro_Metric = route_Metric r, ro_Table = route_Table r, ro_Scope = route_Scope r, ro_Type = route_Type r,
     ro_OnLink = (case route_OnLink r of Some b \<Rightarrow> b | None \<Rightarrow> False), ro_MTU = route_MTU r,
     ro_Encap = (case route_Encap r of None \<Rightarrow> None
       | Some e \<Rightarrow> Some \<lparr>se_Mode = encap_Mode e, se_Segments = encap_Segments e\<rparr>)\<rparr>"

definition addRoute :: "mgr \<Rightarrow> string \<Rightarrow> Route option \<Rightarrow> cmd" where
  "addRoute m dev r = with_ptr r (\<lambda>r.
     andthen (case route_Encap r of None \<Rightarrow> nop | Some e \<Rightarrow> lift_result (ValidateRouteEncap (Some e)))
       (AddRouteOpts m (route_options dev r)))"

section \<open>Name servers, NDP proxying\<close>

definition applyNameservers :: "mgr \<Rightarrow> string \<Rightarrow> Nameservers option \<Rightarrow> cmd" where
  "applyNameservers m name ns = (case ns of None \<Rightarrow> nop
     | Some d \<Rightarrow> only_if (dns_Addresses d \<noteq> [] \<or> dns_Search d \<noteq> [])
         (warn (ApplyDNS name (dns_Addresses d) (dns_Search d))))"

definition applyNDProxy :: "mgr \<Rightarrow> string \<Rightarrow> NDProxy option \<Rightarrow> cmd" where
  "applyNDProxy m name ndp = (case ndp of None \<Rightarrow> nop
     | Some n \<Rightarrow> only_if (ndp_Addresses n \<noteq> [])
         (andthen (warn (EnableProxyNDP name))
           (each (ndp_Addresses n) (\<lambda>ip. warn (AddProxyNDP m name ip)))))"

section \<open>DHCP parameters\<close>

definition parseUseDomains :: "yval \<Rightarrow> bool" where
  "parseUseDomains v = (case v of YBool b \<Rightarrow> b | YStr s \<Rightarrow> equal_fold s ''true'' | _ \<Rightarrow> False)"

definition dhcpOverridesToNl :: "DHCPOverrides option \<Rightarrow> nl_DHCPOverrides" where
  "dhcpOverridesToNl p = (case p of
     None \<Rightarrow> \<lparr>do_UseDNS = True, do_UseMTU = True, do_UseRoutes = True, do_RouteMetric = 0, do_UseDomains = False\<rparr>
   | Some d \<Rightarrow> \<lparr>do_UseDNS = (case dhcpo_UseDNS d of None \<Rightarrow> True | Some b \<Rightarrow> b),
       do_UseMTU = (case dhcpo_UseMTU d of None \<Rightarrow> True | Some b \<Rightarrow> b),
       do_UseRoutes = (case dhcpo_UseRoutes d of None \<Rightarrow> True | Some b \<Rightarrow> b),
       do_RouteMetric = dhcpo_RouteMetric d, do_UseDomains = parseUseDomains (dhcpo_UseDomains d)\<rparr>)"

text \<open>\<open>SetHostname\<close> and \<open>SetSendHostname\<close> on a fresh manager (which sends the host name).\<close>

definition dhcp4_hostname :: "DHCPOverrides option \<Rightarrow> string option" where
  "dhcp4_hostname p = (case p of None \<Rightarrow> None
     | Some d \<Rightarrow> if dhcpo_Hostname d \<noteq> '''' then Some (dhcpo_Hostname d) else None)"

definition dhcp4_send_hostname :: "DHCPOverrides option \<Rightarrow> bool" where
  "dhcp4_send_hostname p = (case p of None \<Rightarrow> True | Some d \<Rightarrow> dhcpo_SendHostname d \<noteq> Some False)"

section \<open>Devices\<close>

definition add_addresses :: "mgr \<Rightarrow> string \<Rightarrow> Address list \<Rightarrow> cmd" where
  "add_addresses m name addrs = each addrs (\<lambda>a.
     warn (HasAddress m name (addr_CIDR a) (\<lambda>has.
       only_if (\<not> has) (AddAddressOpts m name (addr_CIDR a) (addr_Label a) (addr_Lifetime a)))))"

definition add_routes :: "mgr \<Rightarrow> string \<Rightarrow> Route option list \<Rightarrow> cmd" where
  "add_routes m name routes = each routes (\<lambda>r. warn (addRoute m name r))"

definition setupDevice :: "mgr \<Rightarrow> string \<Rightarrow> Address list \<Rightarrow> Route option list \<Rightarrow> int \<Rightarrow> string \<Rightarrow> cmd" where
  "setupDevice m name addresses routes mtu mac = steps
    [only_if (mtu > 0) (warn (SetLinkMTU m name mtu)),
     only_if (mac \<noteq> '''') (warn (SetLinkMacAddress m name mac)),
     wrap (''failed to set '' @ name @ '' up'') (SetLinkUp m name),
     add_addresses m name addresses,
     add_routes m name routes]"

definition when_some :: "'a option \<Rightarrow> ('a \<Rightarrow> cmd) \<Rightarrow> cmd" where
  "when_some p k = (case p of None \<Rightarrow> nop | Some x \<Rightarrow> k x)"

definition setupDeviceWithDHCP :: "mgr \<Rightarrow> string \<Rightarrow> Ethernet \<Rightarrow> cmd" where
  "setupDeviceWithDHCP m name c = steps
    [only_if (eth_MTU c > 0) (warn (SetLinkMTU m name (eth_MTU c))),
     only_if (eth_IPv6MTU c > 0) (warn (SetIPv6MTU name (eth_IPv6MTU c))),
     only_if (eth_MacAddress c \<noteq> '''') (warn (SetLinkMacAddress m name (eth_MacAddress c))),
     (let mode = to_lower (eth_ActivationMode c) in
      if mode = ''off'' then warn (SetLinkDown m name)
      else if mode = ''manual'' then nop
      else wrap (''failed to set '' @ name @ '' up'') (SetLinkUp m name)),
     when_some (eth_AcceptRA c) (\<lambda>b. if b then warn (EnableSLAAC name) else warn (DisableSLAAC name)),
     when_some (eth_IPv6Privacy c) (\<lambda>b. warn (SetIPv6Privacy name (if b then 2 else 0))),
     when_some (eth_LinkLocal c) (\<lambda>fs. warn (SetLinkLocalIPv6 name (\<exists>f\<in>set fs. to_lower f = ''ipv6''))),
     (if eth_IPv6AddrToken c \<noteq> '''' then warn (SetIPv6Token name (eth_IPv6AddrToken c))
      else only_if (eth_IPv6AddrGen c \<noteq> '''') (warn (SetIPv6AddrGenMode name (eth_IPv6AddrGen c)))),
     only_if (eth_DHCP4 c) (warn (call (Ev '''' (GoDHCPv4 name
       (if eth_DHCPIdentifier c \<noteq> '''' then Some (eth_DHCPIdentifier c) else None)
       (dhcp4_hostname (eth_DHCP4Overrides c)) (dhcp4_send_hostname (eth_DHCP4Overrides c))
       (dhcpOverridesToNl (eth_DHCP4Overrides c)))))),
     only_if (eth_DHCP6 c) (warn (call (Ev '''' (GoDHCPv6 name (dhcpOverridesToNl (eth_DHCP6Overrides c)))))),
     add_addresses m name (eth_Addresses c),
     only_if (eth_Gateway4 c \<noteq> '''') (warn (AddRoute m ''0.0.0.0/0'' (eth_Gateway4 c) name 0 0)),
     only_if (eth_Gateway6 c \<noteq> '''') (warn (AddRoute m ''::/0'' (eth_Gateway6 c) name 0 0)),
     add_routes m name (eth_Routes c),
     each (eth_RoutingPolicy c) (\<lambda>p. warn (addRoutingPolicy m p)),
     applyNameservers m name (eth_Nameservers c)]"

section \<open>Offloads and SR-IOV\<close>

definition eqFeat :: "string \<Rightarrow> string \<Rightarrow> bool" where
  "eqFeat s f \<longleftrightarrow> f = s"

definition prefixFeat :: "string \<Rightarrow> string \<Rightarrow> bool" where
  "prefixFeat p f \<longleftrightarrow> has_prefix f p"

definition inFeat :: "string list \<Rightarrow> string \<Rightarrow> bool" where
  "inFeat names f \<longleftrightarrow> f \<in> set names"

definition offload_rules :: "Ethernet \<Rightarrow> (bool option \<times> (string \<Rightarrow> bool)) list" where
  "offload_rules c =
    [(eth_ReceiveChecksumOffload c, eqFeat ''rx-checksum''),
     (eth_TransmitChecksumOffload c, prefixFeat ''tx-checksum-''),
     (eth_TCPSegmentationOffload c, inFeat [''tx-tcp-segmentation'', ''tx-tcp-ecn-segmentation'', ''tx-tcp-mangleid-segmentation'']),
     (eth_TCP6SegmentationOffload c, eqFeat ''tx-tcp6-segmentation''),
     (eth_GenericSegmentationOffload c, eqFeat ''tx-generic-segmentation''),
     (eth_GenericReceiveOffload c, eqFeat ''rx-gro''),
     (eth_LargeReceiveOffload c, eqFeat ''rx-lro'')]"

fun offload_want :: "(bool option \<times> (string \<Rightarrow> bool)) list \<Rightarrow> string list \<Rightarrow> bool alist \<Rightarrow> bool alist" where
  "offload_want [] cur want = want"
| "offload_want ((None, p) # rs) cur want = offload_want rs cur want"
| "offload_want ((Some b, p) # rs) cur want =
    offload_want rs cur (foldl (\<lambda>w f. alist_put f b w) want (filter p cur))"

definition applyOffload :: "mgr \<Rightarrow> string \<Rightarrow> Ethernet \<Rightarrow> cmd" where
  "applyOffload m name c =
    (if list_all (\<lambda>(v, _). v = None) (offload_rules c) then nop
     else ask (Ev '''' (EthFeatures name)) (\<lambda>r. case r of
        RFeatures cur \<Rightarrow>
          (let want = offload_want (offload_rules c) cur [] in
           only_if (want \<noteq> []) (warn (EthtoolChange name want)))
      | _ \<Rightarrow> nop))"

definition applyInfinibandMode :: "string \<Rightarrow> string \<Rightarrow> cmd" where
  "applyInfinibandMode name mode = warn (call (Ev '''' (WriteFile (''/sys/class/net/'' @ name @ ''/mode'') mode)))"

definition applyEthernetExtras :: "mgr \<Rightarrow> string \<Rightarrow> Ethernet \<Rightarrow> cmd" where
  "applyEthernetExtras m name c = steps
    [only_if (eth_Wakeonlan c) (warn (SetWakeOnLanMagic name)),
     only_if (eth_InfinibandMode c \<noteq> '''') (applyInfinibandMode name (eth_InfinibandMode c))]"

definition sriov_numvfs :: "string \<Rightarrow> string" where
  "sriov_numvfs pf = ''/sys/class/net/'' @ pf @ ''/device/sriov_numvfs''"

definition setNumVFs :: "string \<Rightarrow> int \<Rightarrow> cmd" where
  "setNumVFs pf n = ask (Ev '''' (ReadFile (sriov_numvfs pf))) (\<lambda>r. andthen
     (case r of
        RStr cur \<Rightarrow> only_if (trim_space cur \<noteq> ''0'' \<and> trim_space cur \<noteq> itoa n)
          (warn (call (Ev '''' (WriteFile (sriov_numvfs pf) ''0''))))
      | _ \<Rightarrow> nop)
     (warn (call (Ev '''' (WriteFile (sriov_numvfs pf) (itoa n))))))"

definition setEswitchMode :: "string \<Rightarrow> string \<Rightarrow> cmd" where
  "setEswitchMode pf mode = ask (Ev '''' (Readlink (''/sys/class/net/'' @ pf @ ''/device''))) (\<lambda>r. case r of
      RStr target \<Rightarrow> warn (New (\<lambda>m. SetEswitchMode m (filepath_Base target) mode))
    | _ \<Rightarrow> nop)"

definition applySRIOV :: "string \<Rightarrow> Ethernet \<Rightarrow> cmd" where
  "applySRIOV pf c = steps
    [only_if (eth_VirtualFunctionCount c > 0) (setNumVFs pf (eth_VirtualFunctionCount c)),
     only_if (eth_EmbeddedSwitchMode c \<noteq> '''') (setEswitchMode pf (eth_EmbeddedSwitchMode c))]"

end
