(* ===== verification/Setup.thy ===== *)
theory Setup
  imports SetupDevice
begin

text \<open>
  The configuration of one namespace (\<open>cmd/apply.go\<close>, \<open>setupLoopback\<close> to \<open>setupTunTapDevices\<close>
  and \<open>applyNamespaceConfig\<close>; \<open>cmd/wifi.go\<close> \<open>setupWifis\<close>): for each kind of device, in sorted order,
  create what is missing and configure it. A null entry of the configuration is a nil pointer, and
  the commands panic where the code first dereferences it.
\<close>

section \<open>Devices of one kind\<close>

definition entry :: "'v option gomap \<Rightarrow> string \<Rightarrow> 'v option" where
  "entry m name = (case gget m name of Some p \<Rightarrow> p | None \<Rightarrow> None)"

definition each_key :: "'v gomap \<Rightarrow> (string \<Rightarrow> cmd) \<Rightarrow> cmd" where
  "each_key m f = each (sortedKeys m) f"

text \<open>\<open>if !mgr.LinkExists(name) { create }\<close>\<close>

definition create_missing :: "mgr \<Rightarrow> string \<Rightarrow> cmd \<Rightarrow> cmd" where
  "create_missing m name create = LinkExists m name (\<lambda>there. only_if (\<not> there) create)"

definition setupLoopback :: "mgr \<Rightarrow> Ethernet option \<Rightarrow> cmd" where
  "setupLoopback m cfg = andthen (warn (SetLinkUp m ''lo''))
     (when_some cfg (\<lambda>c. setupDevice m ''lo'' (eth_Addresses c) (eth_Routes c) 0 ''''))"

definition criteria_of :: "Match \<Rightarrow> MatchCriteria" where
  "criteria_of k = \<lparr>mc_Name = match_Name k, mc_MacAddress = match_MacAddress k, mc_Driver = match_Driver k\<rparr>"

definition resolveEthernetName :: "mgr \<Rightarrow> string \<Rightarrow> Ethernet \<Rightarrow> (string \<Rightarrow> cmd) \<Rightarrow> cmd" where
  "resolveEthernetName m key c k =
    (if eth_Match c = None \<or> mc_IsEmpty (criteria_of (the (eth_Match c))) then
       (if eth_SetName c \<noteq> '''' \<and> eth_SetName c \<noteq> key then
          LinkExists m key (\<lambda>there.
            if there then andthen (RenameLink m key (eth_SetName c)) (k (eth_SetName c)) else k key)
        else k key)
     else FindMatchingLink m (criteria_of (the (eth_Match c))) (\<lambda>matched.
       if matched = '''' then k ''''
       else (let target = (if eth_SetName c \<noteq> '''' then eth_SetName c else key) in
         if matched \<noteq> target then andthen (RenameLink m matched target) (k target) else k target)))"

text \<open>The part of an ethernet's loop body after its name is known; an empty name (nothing
  matched) and a missing device skip it.\<close>

definition move_into_netns :: "mgr \<Rightarrow> string \<Rightarrow> string \<Rightarrow> cmd" where
  "move_into_netns m nsName name =
    only_if (nsName \<noteq> '''') (create_missing m name
      (New (\<lambda>d. LinkExists d name (\<lambda>there. only_if there
        (wrap (''failed to move '' @ name) (SetLinkNetns d name nsName))))))"

definition configure_ethernet :: "mgr \<Rightarrow> string \<Rightarrow> string \<Rightarrow> Ethernet \<Rightarrow> cmd" where
  "configure_ethernet m nsName name c =
    (if name = '''' then nop
     else andthen (move_into_netns m nsName name)
       (LinkExists m name (\<lambda>there. only_if there (steps
         [warn (setupDeviceWithDHCP m name c),
          applyOffload m name c,
          applyEthernetExtras m name c,
          applyNDProxy m name (eth_NDProxy c),
          when_some (eth_Auth c) (setup8021x name)]))))"

text \<open>\<open>try_value v body h\<close> for \<open>x, err := v(); if err != nil { h }; body(x)\<close>: an error raised by
  \<open>body\<close> is not seen by \<open>h\<close>. The value is handed over in the outcome of the computation \<open>v\<close>.\<close>

definition try_value :: "(('a \<Rightarrow> cmd) \<Rightarrow> cmd) \<Rightarrow> ('a \<Rightarrow> cmd) \<Rightarrow> (nl_error \<Rightarrow> cmd) \<Rightarrow> cmd" where
  "try_value v body h = (\<lambda>w.
     case v (\<lambda>_. nop) w of
       (Some (Err e), w') \<Rightarrow> h e w'
     | _ \<Rightarrow> v body w)"

definition needs_sriov :: "Ethernet \<Rightarrow> bool" where
  "needs_sriov c \<longleftrightarrow> eth_VirtualFunctionCount c > 0 \<or> eth_EmbeddedSwitchMode c \<noteq> '''' \<or> eth_DelayVFRebind c \<noteq> None"

definition setupEthernets :: "mgr \<Rightarrow> string \<Rightarrow> Ethernet option gomap \<Rightarrow> cmd" where
  "setupEthernets m nsName devices = andthen
    (each_key devices (\<lambda>key. with_ptr (entry devices key) (\<lambda>c.
       only_if (needs_sriov c) (LinkExists m key (\<lambda>there. only_if there (applySRIOV key c))))))
    (each_key devices (\<lambda>key. with_ptr (entry devices key) (\<lambda>c.
       try_value (resolveEthernetName m key c) (\<lambda>name. configure_ethernet m nsName name c) (\<lambda>_. nop))))"

definition wifiToEthernet :: "Wifi \<Rightarrow> Ethernet" where
  "wifiToEthernet w = zero_Ethernet\<lparr>
     eth_Addresses := wifi_Addresses w, eth_DHCP4 := wifi_DHCP4 w, eth_DHCP6 := wifi_DHCP6 w,
     eth_Gateway4 := wifi_Gateway4 w, eth_Gateway6 := wifi_Gateway6 w, eth_MTU := wifi_MTU w,
     eth_Routes := wifi_Routes w, eth_Nameservers := wifi_Nameservers w, eth_AcceptRA := wifi_AcceptRA w,
     eth_LinkLocal := wifi_LinkLocal w\<rparr>"

definition setupWifis :: "mgr \<Rightarrow> string \<Rightarrow> Wifi option gomap \<Rightarrow> cmd" where
  "setupWifis m nsName devices = each_key devices (\<lambda>name.
     LinkExists m name (\<lambda>there. only_if there (with_ptr (entry devices name) (\<lambda>c. steps
       [only_if (wifi_RegulatoryDomain c \<noteq> '''') (ask (Ev '''' (LookPath ''iw'')) (\<lambda>r. case r of
           RFail _ \<Rightarrow> nop
         | _ \<Rightarrow> warn (call (Ev '''' (Exec [''iw'', ''reg'', ''set'', wifi_RegulatoryDomain c]))))),
        setupWifiSupplicant name c,
        warn (setupDeviceWithDHCP m name (wifiToEthernet c))]))))"

definition setupDummyDevices :: "mgr \<Rightarrow> string \<Rightarrow> Ethernet option gomap \<Rightarrow> cmd" where
  "setupDummyDevices m nsName devices = each_key devices (\<lambda>name. andthen
     (create_missing m name (wrap (''failed to create dummy '' @ name) (AddDummyDevice m name)))
     (with_ptr (entry devices name) (\<lambda>c. andthen
       (wrap (''failed to setup dummy '' @ name)
         (setupDevice m name (eth_Addresses c) (eth_Routes c) (eth_MTU c) (eth_MacAddress c)))
       (applyNameservers m name (eth_Nameservers c)))))"

text \<open>Devices with a parent are created where the parent is (the default namespace) and then moved.\<close>

definition create_and_move :: "mgr \<Rightarrow> string \<Rightarrow> string \<Rightarrow> (mgr \<Rightarrow> cmd) \<Rightarrow> cmd" where
  "create_and_move m nsName name create =
    (if nsName \<noteq> '''' then New (\<lambda>d. steps
       [wrap (''failed to create '' @ name) (create d),
        wrap (''failed to move '' @ name) (SetLinkNetns d name nsName)])
     else wrap (''failed to create '' @ name) (create m))"

definition setupMacvlanDevices :: "mgr \<Rightarrow> string \<Rightarrow> MacvlanDevice option gomap \<Rightarrow> bool \<Rightarrow> cmd" where
  "setupMacvlanDevices m nsName devices isMacvtap = each_key devices (\<lambda>name.
     with_ptr (entry devices name) (\<lambda>c. steps
       [create_missing m name (create_and_move m nsName name (\<lambda>d.
          if isMacvtap then AddMacvtapDevice d name (macvlan_Link c) (macvlan_Mode c)
          else AddMacvlanDevice d name (macvlan_Link c) (macvlan_Mode c))),
        wrap (''failed to setup '' @ name)
          (setupDevice m name (macvlan_Addresses c) (macvlan_Routes c) (macvlan_MTU c) (macvlan_MacAddress c)),
        applyNameservers m name (macvlan_Nameservers c)]))"

definition setupIpvlanDevices :: "mgr \<Rightarrow> string \<Rightarrow> IpvlanDevice option gomap \<Rightarrow> cmd" where
  "setupIpvlanDevices m nsName devices = each_key devices (\<lambda>name.
     with_ptr (entry devices name) (\<lambda>c. steps
       [create_missing m name (create_and_move m nsName name (\<lambda>d. AddIpvlan d name (ipvlan_Link c) (ipvlan_Mode c))),
        wrap (''failed to setup ipvlan '' @ name)
          (setupDevice m name (ipvlan_Addresses c) (ipvlan_Routes c) (ipvlan_MTU c) ''''),
        applyNameservers m name (ipvlan_Nameservers c)]))"

definition setupVlans :: "mgr \<Rightarrow> string \<Rightarrow> Vlan option gomap \<Rightarrow> cmd" where
  "setupVlans m nsName devices = each_key devices (\<lambda>name. with_ptr (entry devices name) (\<lambda>c.
     attempt (create_missing m name (AddVlan m name (vlan_Link c) (vlan_ID c)))
       (attempt (setupDevice m name (vlan_Addresses c) (vlan_Routes c) (vlan_MTU c) (vlan_MacAddress c))
          (andthen (applyNameservers m name (vlan_Nameservers c)) (applyNDProxy m name (vlan_NDProxy c)))
          (\<lambda>_. nop))
       (\<lambda>_. nop)))"

definition add_fdb :: "mgr \<Rightarrow> string \<Rightarrow> bool \<Rightarrow> FDBEntry option \<Rightarrow> cmd" where
  "add_fdb m name with_vni p = with_ptr p (\<lambda>f. warn (AddFDBEntry m
     \<lparr>fe_MAC = fdb_MAC f, fe_Ifname = name, fe_Dst = fdb_Dst f, fe_VNI = (if with_vni then fdb_VNI f else 0),
      fe_State = fdb_State f\<rparr>))"

definition add_neigh :: "mgr \<Rightarrow> string \<Rightarrow> NeighEntry option \<Rightarrow> cmd" where
  "add_neigh m name p = with_ptr p (\<lambda>n. warn (AddNeighEntry m
     \<lparr>ne_IP = neigh_IP n, ne_MAC = neigh_MAC n, ne_Ifname = name, ne_State = neigh_State n\<rparr>))"

definition vxlan_options :: "Vxlan \<Rightarrow> VxlanOptions" where
  "vxlan_options c = \<lparr>vo_Link = vxlan_Link c, vo_Local = vxlan_Local c, vo_Remote = vxlan_Remote c,
     vo_Group = vxlan_Group c, vo_Port = vxlan_Port c, vo_DestPort = vxlan_DestPort c,
     vo_PortLow = (if length (vxlan_PortRange c) = 2 then vxlan_PortRange c ! 0 else 0),
     vo_PortHigh = (if length (vxlan_PortRange c) = 2 then vxlan_PortRange c ! 1 else 0),
     vo_TTL = vxlan_TTL c, vo_TOS = vxlan_TOS c, vo_Age = vxlan_Ageing c, vo_Limit = vxlan_Limit c,
     vo_Learning = vxlan_Learning c, vo_Proxy = vxlan_ARPProxy c, vo_RSC = vxlan_RSC c,
     vo_L2miss = vxlan_L2miss c, vo_L3miss = vxlan_L3miss c, vo_NoAge = vxlan_NoAge c, vo_GBP = vxlan_GBP c,
     vo_FlowBased = vxlan_External c, vo_UDPCSum = vxlan_UDPChecksum c,
     vo_UDP6ZeroCSumTx = vxlan_UDP6ZeroCSumTx c, vo_UDP6ZeroCSumRx = vxlan_UDP6ZeroCSumRx c\<rparr>"

definition setupOneVxlan :: "mgr \<Rightarrow> string \<Rightarrow> string \<Rightarrow> Vxlan option \<Rightarrow> cmd" where
  "setupOneVxlan m nsName name cfg = with_ptr cfg (\<lambda>c. steps
     [create_missing m name (wrap (''failed to create vxlan '' @ name) (AddVxlan m name (vxlan_ID c) (vxlan_options c))),
      wrap (''failed to setup vxlan '' @ name)
        (setupDevice m name (vxlan_Addresses c) (vxlan_Routes c) (vxlan_MTU c) (vxlan_MacAddress c)),
      each (vxlan_FDB c) (add_fdb m name True),
      each (vxlan_Neighbors c) (add_neigh m name)])"

definition setupVxlans :: "mgr \<Rightarrow> string \<Rightarrow> Vxlan option gomap \<Rightarrow> cmd" where
  "setupVxlans m nsName devices = each_key devices (\<lambda>name. setupOneVxlan m nsName name (entry devices name))"

definition applyVxlanNeighSuppress :: "Vxlan option gomap \<Rightarrow> cmd" where
  "applyVxlanNeighSuppress vxlans = each_key vxlans (\<lambda>name. with_ptr (entry vxlans name) (\<lambda>c.
     only_if (vxlan_NeighSuppress c = Some True) (warn (SetLinkNeighSuppress name True))))"

definition applyBridgePortAttrs :: "Ethernet option gomap \<Rightarrow> cmd" where
  "applyBridgePortAttrs devices = each_key devices (\<lambda>name. when_some (entry devices name) (\<lambda>c. steps
     [when_some (eth_NeighSuppress c) (\<lambda>b. warn (SetLinkNeighSuppress name b)),
      when_some (eth_Hairpin c) (\<lambda>b. warn (SetBridgePortHairpin name b)),
      when_some (eth_PortMacLearning c) (\<lambda>b. warn (SetLinkLearning name b))]))"

section \<open>Bonds, bridges, VRFs\<close>

definition zero_BondOptions :: BondOptions where
  "zero_BondOptions = \<lparr>bo_Mode = '''', bo_LacpRate = '''', bo_MIIMonitorInterval = 0, bo_MinLinks = 0,
     bo_TransmitHashPolicy = '''', bo_ADSelect = '''', bo_AllSlavesActive = False, bo_ARPInterval = 0,
     bo_ARPIPTargets = [], bo_ARPValidate = '''', bo_ARPAllTargets = '''', bo_UpDelay = 0, bo_DownDelay = 0,
     bo_FailOverMACPolicy = '''', bo_GratuitousARP = 0, bo_PacketsPerSlave = 0, bo_PrimaryReselectPolicy = '''',
     bo_ResendIGMP = 0, bo_LearnPacketInterval = 0, bo_Primary = ''''\<rparr>"

definition bondOptionsFromConfig :: "BondParameters option \<Rightarrow> BondOptions" where
  "bondOptionsFromConfig q = (case q of None \<Rightarrow> zero_BondOptions
     | Some p \<Rightarrow> \<lparr>bo_Mode = bondp_Mode p, bo_LacpRate = bondp_LACPRate p,
        bo_MIIMonitorInterval = bondp_MIIMonitorInterval p, bo_MinLinks = bondp_MinLinks p,
        bo_TransmitHashPolicy = bondp_TransmitHashPolicy p, bo_ADSelect = bondp_ADSelect p,
        bo_AllSlavesActive = bondp_AllSlavesActive p, bo_ARPInterval = bondp_ARPInterval p,
        bo_ARPIPTargets = bondp_ARPIPTargets p, bo_ARPValidate = bondp_ARPValidate p,
        bo_ARPAllTargets = bondp_ARPAllTargets p, bo_UpDelay = bondp_UpDelay p, bo_DownDelay = bondp_DownDelay p,
        bo_FailOverMACPolicy = bondp_FailOverMACPolicy p, bo_GratuitousARP = bondp_GratuitousARP p,
        bo_PacketsPerSlave = bondp_PacketsPerSlave p, bo_PrimaryReselectPolicy = bondp_PrimaryReselectPolicy p,
        bo_ResendIGMP = bondp_ResendIGMP p, bo_LearnPacketInterval = bondp_LearnPacketInterval p,
        bo_Primary = bondp_Primary p\<rparr>)"

definition bridgeOptionsFromConfig :: "BridgeParameters option \<Rightarrow> BridgeOptions" where
  "bridgeOptionsFromConfig q = (case q of
     None \<Rightarrow> \<lparr>bro_STP = None, bro_ForwardDelay = 0, bro_HelloTime = 0, bro_MaxAge = 0, bro_AgeingTime = 0, bro_Priority = 0\<rparr>
   | Some p \<Rightarrow> \<lparr>bro_STP = brp_STP p, bro_ForwardDelay = brp_ForwardDelay p, bro_HelloTime = brp_HelloTime p,
       bro_MaxAge = brp_MaxAge p, bro_AgeingTime = brp_AgeingTime p, bro_Priority = brp_Priority p\<rparr>)"

definition setupBonds :: "mgr \<Rightarrow> string \<Rightarrow> Bond option gomap \<Rightarrow> cmd" where
  "setupBonds m nsName devices = each_key devices (\<lambda>name. LinkExists m name (\<lambda>there.
     with_ptr (entry devices name) (\<lambda>c. steps
       [only_if (\<not> there) (wrap (''failed to create bond '' @ name)
          (AddBond m name (bondOptionsFromConfig (bond_Parameters c)))),
        each (bond_Interfaces c) (\<lambda>iface. warn (SetBondSlave m iface name)),
        wrap (''failed to setup bond '' @ name)
          (setupDevice m name (bond_Addresses c) (bond_Routes c) (bond_MTU c) (bond_MacAddress c)),
        applyNameservers m name (bond_Nameservers c),
        applyNDProxy m name (bond_NDProxy c)])))"

definition setupBridges :: "mgr \<Rightarrow> string \<Rightarrow> Bridge option gomap \<Rightarrow> cmd" where
  "setupBridges m nsName devices = each_key devices (\<lambda>name. andthen
     (create_missing m name (wrap (''failed to create bridge '' @ name) (AddBridge m name)))
     (with_ptr (entry devices name) (\<lambda>c. steps
       [when_some (br_VlanFiltering c) (\<lambda>b. warn (SetBridgeVlanFiltering name b)),
        when_some (br_Parameters c) (\<lambda>p. warn (SetBridgeParameters name (bridgeOptionsFromConfig (Some p)))),
        each (br_Interfaces c) (\<lambda>iface. warn (SetBridgeMaster m iface name)),
        when_some (br_Parameters c) (\<lambda>p. andthen
          (each (entries (brp_PathCost p)) (\<lambda>(port, cost). warn (SetBridgePortPathCost port cost)))
          (each (entries (brp_PortPriority p)) (\<lambda>(port, prio). warn (SetBridgePortPriority port prio)))),
        wrap (''failed to setup bridge '' @ name)
          (setupDevice m name (br_Addresses c) (br_Routes c) (br_MTU c) (br_MacAddress c)),
        applyNameservers m name (br_Nameservers c),
        applyNDProxy m name (br_NDProxy c),
        each (br_FDB c) (add_fdb m name False),
        each (br_Neighbors c) (add_neigh m name)])))"

definition setupVrfs :: "mgr \<Rightarrow> string \<Rightarrow> Vrf option gomap \<Rightarrow> cmd" where
  "setupVrfs m nsName devices = each_key devices (\<lambda>name. with_ptr (entry devices name) (\<lambda>c. steps
     [create_missing m name (wrap (''failed to create vrf '' @ name) (AddVrf m name (vrf_Table c))),
      wrap (''failed to set vrf up '' @ name) (SetLinkUp m name),
      each (vrf_Interfaces c) (\<lambda>iface. warn (SetVrfMaster m iface name)),
      add_routes m name (vrf_Routes c),
      each (vrf_RoutingPolicy c) (\<lambda>p. warn (addRoutingPolicy m p))]))"

section \<open>Virtual Ethernet pairs\<close>

text \<open>\<open>done\<close> is the set of endpoints already handled.\<close>

fun virtual_ethernets :: "mgr \<Rightarrow> VirtualEthernet option gomap \<Rightarrow> string list \<Rightarrow> string list \<Rightarrow> cmd" where
  "virtual_ethernets m devices handled [] = nop"
| "virtual_ethernets m devices handled (name # names) =
    (if name \<in> set handled then virtual_ethernets m devices handled names
     else with_ptr (entry devices name) (\<lambda>c.
       if virt_Peer c = '''' then failwith (Missing (''virtual-ethernet peer of '' @ name))
       else steps
         [create_missing m name (wrap (''failed to create virtual-ethernet '' @ name) (AddVethPair m name (virt_Peer c))),
          wrap (''failed to setup virtual-ethernet '' @ name)
            (setupDevice m name (virt_Addresses c) (virt_Routes c) (virt_MTU c) (virt_MacAddress c)),
          applyNameservers m name (virt_Nameservers c),
          (case gget devices (virt_Peer c) of
             Some q \<Rightarrow> with_ptr q (\<lambda>pc. andthen
               (warn (setupDevice m (virt_Peer c) (virt_Addresses pc) (virt_Routes pc) (virt_MTU pc) (virt_MacAddress pc)))
               (applyNameservers m (virt_Peer c) (virt_Nameservers pc)))
           | None \<Rightarrow> warn (SetLinkUp m (virt_Peer c))),
          virtual_ethernets m devices (virt_Peer c # name # handled) names]))"

definition setupVirtualEthernets :: "mgr \<Rightarrow> string \<Rightarrow> VirtualEthernet option gomap \<Rightarrow> cmd" where
  "setupVirtualEthernets m nsName devices = virtual_ethernets m devices [] (sortedKeys devices)"

definition create_veth :: "string \<Rightarrow> string \<Rightarrow> VethPeer \<Rightarrow> cmd" where
  "create_veth nsName name p = New (\<lambda>d. steps
     [LinkExists d name (\<lambda>a. if a then nop else LinkExists d (peer_Name p) (\<lambda>b. only_if (\<not> b)
        (wrap (''failed to create veth pair '' @ name) (AddVethPair d name (peer_Name p))))),
      only_if (nsName \<noteq> '''') (wrap (''failed to move '' @ name) (SetLinkNetns d name nsName)),
      only_if (peer_Netns p \<noteq> '''') (steps
        [NetnsExists (peer_Netns p) (\<lambda>there. only_if (\<not> there)
           (wrap (''failed to create netns '' @ peer_Netns p) (CreateNetns (peer_Netns p)))),
         wrap (''failed to move '' @ peer_Name p) (SetLinkNetns d (peer_Name p) (peer_Netns p))])])"

definition setup_veth_peer :: "mgr \<Rightarrow> VethPeer \<Rightarrow> cmd" where
  "setup_veth_peer m p = wrap (''failed to setup veth peer '' @ peer_Name p)
     (setupDevice m (peer_Name p) (peer_Addresses p) (peer_Routes p) (peer_MTU p) (peer_MacAddress p))"

definition setupVethDevices :: "mgr \<Rightarrow> string \<Rightarrow> VethDevice option gomap \<Rightarrow> cmd" where
  "setupVethDevices m nsName devices = each_key devices (\<lambda>name. with_ptr (entry devices name) (\<lambda>c.
     case veth_Peer c of
       None \<Rightarrow> failwith (Missing (''veth peer of '' @ name))
     | Some p \<Rightarrow> steps
        [create_missing m name (create_veth nsName name p),
         wrap (''failed to setup veth '' @ name)
           (setupDevice m name (veth_Addresses c) (veth_Routes c) (veth_MTU c) (veth_MacAddress c)),
         applyNameservers m name (veth_Nameservers c),
         (if peer_Netns p \<noteq> '''' then NewWithNetns (peer_Netns p) (\<lambda>pm. setup_veth_peer pm p)
          else if nsName = '''' then setup_veth_peer m p
          else New (\<lambda>d. setup_veth_peer d p))]))"

section \<open>Tunnels, tun and tap\<close>

fun wg_peers_of :: "TunnelWireguardPeer option list \<Rightarrow> WireGuardPeer list \<Rightarrow> (WireGuardPeer list \<Rightarrow> cmd) \<Rightarrow> cmd" where
  "wg_peers_of [] acc k = k acc"
| "wg_peers_of (q # qs) acc k = with_ptr q (\<lambda>p. wg_peers_of qs (acc @ [\<lparr>
     wgp_PublicKey = (case wgpeer_Keys p of Some ks \<Rightarrow> wgkeys_Public ks | None \<Rightarrow> ''''),
     wgp_PresharedKey = (case wgpeer_Keys p of Some ks \<Rightarrow> wgkeys_Shared ks | None \<Rightarrow> ''''),
     wgp_Endpoint = wgpeer_Endpoint p, wgp_AllowedIPs = wgpeer_AllowedIPs p,
     wgp_Keepalive = wgpeer_Keepalive p, wgp_Remove = False\<rparr>]) k)"

definition configureTunnelWireguard :: "string \<Rightarrow> string \<Rightarrow> Tunnel \<Rightarrow> cmd" where
  "configureTunnelWireguard name nsName c =
    (let body = andthen (wrap ''failed to create wireguard manager'' (NewWireGuardManager nsName))
       (wg_peers_of (tun_Peers c) [] (\<lambda>peers. ConfigureDevice nsName name
         \<lparr>wgc_PrivateKey = tun_Key c, wgc_ListenPort = tun_Port c, wgc_FwMark = tun_Mark c,
          wgc_ReplacePeers = True, wgc_Peers = peers\<rparr>))
     in if nsName \<noteq> '''' then RunInNetns nsName body else body)"

definition tunnel_options :: "Tunnel \<Rightarrow> TunnelOptions" where
  "tunnel_options c = \<lparr>to_Mode = tun_Mode c, to_Local = tun_Local c, to_Remote = tun_Remote c,
     to_TTL = tun_TTL c, to_TOS = tun_TOS c, to_Key = tun_Key c, to_InputKey = tun_InputKey c,
     to_OutputKey = tun_OutputKey c, to_Link = ''''\<rparr>"

definition setupTunnels :: "mgr \<Rightarrow> string \<Rightarrow> Tunnel option gomap \<Rightarrow> cmd" where
  "setupTunnels m nsName devices = each_key devices (\<lambda>name. with_ptr (entry devices name) (\<lambda>c. steps
     [create_missing m name (wrap (''failed to create tunnel '' @ name) (AddTunnel m name (tunnel_options c))),
      only_if (equal_fold (tun_Mode c) ''wireguard'' \<and> (tun_Key c \<noteq> '''' \<or> tun_Peers c \<noteq> []))
        (wrap (''failed to configure wireguard tunnel '' @ name) (configureTunnelWireguard name nsName c)),
      wrap (''failed to setup tunnel '' @ name)
        (setupDevice m name (tun_Addresses c) (tun_Routes c) (tun_MTU c) '''')]))"

definition setupTunTapDevices :: "mgr \<Rightarrow> string \<Rightarrow> TunTapDevice option gomap \<Rightarrow> bool \<Rightarrow> cmd" where
  "setupTunTapDevices m nsName devices isTap = each_key devices (\<lambda>name. andthen
     (create_missing m name (wrap (''failed to create '' @ name) (if isTap then AddTap m name else AddTun m name)))
     (with_ptr (entry devices name) (\<lambda>c. andthen
       (wrap (''failed to setup '' @ name) (setupDevice m name (tuntap_Addresses c) (tuntap_Routes c) (tuntap_MTU c) ''''))
       (applyNameservers m name (tuntap_Nameservers c)))))"

section \<open>SRv6\<close>

definition ensureSRv6Dummy :: "mgr \<Rightarrow> string \<Rightarrow> cmd" where
  "ensureSRv6Dummy m name = andthen (create_missing m name (AddDummyDevice m name)) (SetLinkUp m name)"

text \<open>The search for a SID with a VRF table stops at the first one.\<close>

fun need_strict :: "SRv6LocalSID option list \<Rightarrow> (bool \<Rightarrow> cmd) \<Rightarrow> cmd" where
  "need_strict [] k = k False"
| "need_strict (p # ps) k = with_ptr p (\<lambda>s. if sid_VRFTable s > 0 then k True else need_strict ps k)"

definition sid_opts :: "SRv6LocalSID \<Rightarrow> SRv6LocalSIDOpts" where
  "sid_opts s = \<lparr>lo_SID = sid_SID s, lo_Action = sid_Action s, lo_Table = sid_Table s, lo_VRFTable = sid_VRFTable s,
     lo_NH4 = sid_NH4 s, lo_NH6 = sid_NH6 s, lo_IIF = sid_IIF s, lo_OIF = sid_OIF s, lo_Segments = sid_Segments s\<rparr>"

fun add_sids :: "mgr \<Rightarrow> string \<Rightarrow> bool \<Rightarrow> SRv6LocalSID option list \<Rightarrow> cmd" where
  "add_sids m device autoDevReady [] = nop"
| "add_sids m device autoDevReady (p # ps) = with_ptr p (\<lambda>s.
     let d = (if sid_Dev s = '''' then device else sid_Dev s);
         auto = (d = '''');
         dev = (if auto then ''srv6'' else d)
     in steps
       [only_if (auto \<and> \<not> autoDevReady) (wrap ''ensure srv6 anchor device'' (ensureSRv6Dummy m ''srv6'')),
        warn (AddLocalSID m dev (sid_opts s)),
        add_sids m device (autoDevReady \<or> auto) ps])"

definition setupSRv6 :: "mgr \<Rightarrow> string \<Rightarrow> SRv6Config option \<Rightarrow> cmd" where
  "setupSRv6 m nsName cfg = when_some cfg (\<lambda>c. steps
     [only_if (srv6_Enabled c = Some True) (warn (EnableSeg6 ''all'')),
      each (srv6_Interfaces c) (\<lambda>iface. warn (EnableSeg6 iface)),
      need_strict (srv6_LocalSIDs c) (\<lambda>b. only_if b (warn EnableVRFStrictMode)),
      add_sids m (srv6_Device c) False (srv6_LocalSIDs c)])"

section \<open>A namespace\<close>

definition runPostScript :: "string \<Rightarrow> string \<Rightarrow> cmd" where
  "runPostScript nsName script = call (Ev '''' (Exec [''ip'', ''netns'', ''exec'', nsName, ''/bin/bash'', ''-c'', script]))"

definition setup_all :: "mgr \<Rightarrow> string \<Rightarrow> Namespace \<Rightarrow> cmd" where
  "setup_all m nsName c = steps
    [only_if (nsName \<noteq> '''') (wrap ''failed to setup loopback'' (setupLoopback m (ns_Loopback c))),
     wrap ''failed to setup ethernets'' (setupEthernets m nsName (ns_Ethernets c)),
     wrap ''failed to setup wifis'' (setupWifis m nsName (ns_Wifis c)),
     wrap ''failed to setup dummy devices'' (setupDummyDevices m nsName (ns_DummyDevices c)),
     wrap ''failed to setup virtual-ethernets'' (setupVirtualEthernets m nsName (ns_VirtualEthernets c)),
     wrap ''failed to setup macvlan devices'' (setupMacvlanDevices m nsName (ns_MacvlanDevices c) False),
     wrap ''failed to setup macvtap devices'' (setupMacvlanDevices m nsName (ns_MacvtapDevices c) True),
     wrap ''failed to setup ipvlan devices'' (setupIpvlanDevices m nsName (ns_IpvlanDevices c)),
     wrap ''failed to setup vlans'' (setupVlans m nsName (ns_Vlans c)),
     wrap ''failed to setup vxlans'' (setupVxlans m nsName (ns_Vxlans c)),
     wrap ''failed to setup bonds'' (setupBonds m nsName (ns_Bonds c)),
     wrap ''failed to setup bridges'' (setupBridges m nsName (ns_Bridges c)),
     applyVxlanNeighSuppress (ns_Vxlans c),
     applyBridgePortAttrs (ns_Ethernets c),
     wrap ''failed to setup vrfs'' (setupVrfs m nsName (ns_Vrfs c)),
     wrap ''failed to setup tunnels'' (setupTunnels m nsName (ns_Tunnels c)),
     wrap ''failed to setup tun devices'' (setupTunTapDevices m nsName (ns_TunDevices c) False),
     wrap ''failed to setup tap devices'' (setupTunTapDevices m nsName (ns_TapDevices c) True),
     wrap ''failed to setup veth devices'' (setupVethDevices m nsName (ns_VethDevices c)),
     wrap ''failed to setup srv6'' (setupSRv6 m nsName (ns_SRv6 c)),
     only_if (nsName \<noteq> '''' \<and> ns_PostScript c \<noteq> '''')
       (wrap ''failed to run post-script'' (runPostScript nsName (ns_PostScript c)))]"

definition applyNamespaceConfig :: "string \<Rightarrow> Namespace option \<Rightarrow> cmd" where
  "applyNamespaceConfig nsName cfg = when_some cfg (\<lambda>c.
     (if nsName = '''' then New else NewWithNetns nsName) (\<lambda>m. setup_all m nsName c))"

end
