(* ===== verification/VppApply.thy ===== *)
theory VppApply
  imports Netlink
begin

text \<open>
  The VPP applier (\<open>vpp/apply.go\<close>, \<open>vpp/nat.go\<close>, \<open>vpp/ndproxy.go\<close>, \<open>vpp/ndptap.go\<close>,
  \<open>vpp/state.go\<close>, \<open>vpp/client.go\<close>): commands over the binary API. An interface is found again by
  its tag, the name netcfg gave it, and its index is cached for the rest of the apply. A Go
  result \<open>(value, err)\<close> is passed on as \<open>nl_error + 'a\<close>; a lookup \<open>(idx, ok, err)\<close> as
  \<open>nl_error + sw_if option\<close>.
\<close>

unbundle bit_operations_syntax

section \<open>Names and identifiers\<close>

definition fnv32a :: "string \<Rightarrow> 32 word" where
  "fnv32a s = foldl (\<lambda>h c. (h XOR word_of_nat (of_char c)) * 16777619) 2166136261 s"

definition AutoBdID :: "string \<Rightarrow> 32 word" where
  "AutoBdID name = fnv32a name mod 16000000 + 1"

definition hex8 :: "32 word \<Rightarrow> string" where
  "hex8 w = map (\<lambda>i. hex_digit ((unat w div 16 ^ i) mod 16)) [7, 6, 5, 4, 3, 2, 1, 0]"

definition NDPTapName :: "string \<Rightarrow> string" where
  "NDPTapName bridge = ''ncndp'' @ hex8 (fnv32a bridge)"

section \<open>The VPP state\<close>

record DevInfo =
  di_Type :: string
  di_HostIf :: string
  di_BdID :: "32 word"
  di_Vni :: "32 word"
  di_Local :: string
  di_Remote :: string
  di_Port :: int

definition dev_info :: "string \<Rightarrow> DevInfo" where
  "dev_info t = \<lparr>di_Type = t, di_HostIf = '''', di_BdID = 0, di_Vni = 0, di_Local = '''', di_Remote = '''', di_Port = 0\<rparr>"

record NatItem =
  ni_Kind :: string
  ni_Iface :: string
  ni_Role :: string
  ni_Proto :: string
  ni_Local :: string
  ni_LocalPort :: int
  ni_External :: string
  ni_ExternalIf :: string
  ni_ExternalPort :: int
  ni_Start :: string
  ni_End :: string
  ni_Prefix :: string
  ni_VRF :: int
  ni_TwiceNat :: bool

definition nat_item :: "string \<Rightarrow> NatItem" where
  "nat_item kind = \<lparr>ni_Kind = kind, ni_Iface = '''', ni_Role = '''', ni_Proto = '''', ni_Local = '''', ni_LocalPort = 0,
     ni_External = '''', ni_ExternalIf = '''', ni_ExternalPort = 0, ni_Start = '''', ni_End = '''', ni_Prefix = '''',
     ni_VRF = 0, ni_TwiceNat = False\<rparr>"

definition nat_Key :: "NatItem \<Rightarrow> string" where
  "nat_Key i = join_with ''|'' [ni_Kind i, ni_Iface i, ni_Role i, ni_Proto i, ni_Local i, itoa (ni_LocalPort i),
     ni_External i, ni_ExternalIf i, itoa (ni_ExternalPort i), ni_Start i, ni_End i, itoa (ni_VRF i),
     if ni_TwiceNat i then ''true'' else ''false'']"

record NDProxyItem =
  nd_Iface :: string
  nd_IP :: string

definition nd_Key :: "NDProxyItem \<Rightarrow> string" where
  "nd_Key i = nd_Iface i @ ''|'' @ nd_IP i"

record VppState =
  vs_Devices :: "DevInfo alist"
  vs_Nat :: "NatItem list"
  vs_NDProxy :: "NDProxyItem list"

definition NewVppState :: VppState where
  "NewVppState = \<lparr>vs_Devices = [], vs_Nat = [], vs_NDProxy = []\<rparr>"

definition vpp_stateFile :: string where
  "vpp_stateFile = ''/var/lib/netcfg/vpp-state.json''"

text \<open>The JSON codec is a parameter; \<open>vunmarshal\<close> fills in a given state, as far as the data can be
  read.\<close>

definition vpp_LoadState :: "(string \<Rightarrow> VppState \<Rightarrow> VppState) \<Rightarrow> string option \<Rightarrow> VppState" where
  "vpp_LoadState vunmarshal data = (case data of None \<Rightarrow> NewVppState | Some s \<Rightarrow> vunmarshal s NewVppState)"

definition vpp_Save :: "(VppState \<Rightarrow> string) \<Rightarrow> VppState \<Rightarrow> cmd" where
  "vpp_Save vmarshal s = andthen (call (Ev '''' (Mkdir ''/var/lib/netcfg'')))
     (call (Ev '''' (WriteFile vpp_stateFile (vmarshal s))))"

section \<open>Calls\<close>

definition Connect :: "string \<Rightarrow> cmd" where
  "Connect sock = (let s = (if sock = '''' then ''/run/vpp/api.sock'' else sock) in
     wrap (''connect VPP at '' @ s) (call (Ev '''' (VppConnect s))))"

definition NewApplier :: cmd where
  "NewApplier = (\<lambda>w. (None, w\<lparr>w_idx := []\<rparr>))"

definition vcall :: "vpp_call \<Rightarrow> cmd" where
  "vcall c = call (Ev '''' (Vpp c))"

definition vparse :: "vpp_parser \<Rightarrow> string \<Rightarrow> (nl_error + vaddr \<Rightarrow> cmd) \<Rightarrow> cmd" where
  "vparse p s k = ask (Ev '''' (Vpp (VParse p s))) (\<lambda>r. k (case r of RVppAddr a \<Rightarrow> Inr a | _ \<Rightarrow> Inl (sys_error r)))"

text \<open>A call that answers with the index of the interface it made.\<close>

definition vcreate :: "string \<Rightarrow> vpp_call \<Rightarrow> (nl_error + sw_if \<Rightarrow> cmd) \<Rightarrow> cmd" where
  "vcreate what c k = ask (Ev '''' (Vpp c)) (\<lambda>r. k (case r of RSwIf i \<Rightarrow> Inr i | _ \<Rightarrow> Inl (Wrap what (sys_error r))))"

fun err_text :: "nl_error \<Rightarrow> string" where
  "err_text (Sys m) = m"
| "err_text (Invalid what v) = what @ '' '' @ v"
| "err_text (Missing what) = what"
| "err_text (Wrap s e) = s @ '': '' @ err_text e"
| "err_text (CfgErr e) = ''''"

definition tolerate :: "string list \<Rightarrow> cmd \<Rightarrow> cmd" where
  "tolerate subs c = attempt c nop (\<lambda>e. if list_ex (\<lambda>s. contains_sub (err_text e) s) subs then nop else failwith e)"

section \<open>Finding interfaces\<close>

text \<open>The interfaces received before the stream ends or fails; the first match wins.\<close>

definition dump_find :: "(vpp_if \<Rightarrow> bool) \<Rightarrow> (nl_error + sw_if option \<Rightarrow> cmd) \<Rightarrow> cmd" where
  "dump_find p k = ask (Ev '''' (Vpp SwInterfaceDump)) (\<lambda>r. k (case r of
      RDump ds broken \<Rightarrow> (case List.find p ds of
          Some d \<Rightarrow> Inr (Some (vi_Index d))
        | None \<Rightarrow> (case broken of None \<Rightarrow> Inr None | Some m \<Rightarrow> Inl (Sys m)))
    | _ \<Rightarrow> Inl (sys_error r)))"

definition findByName :: "string \<Rightarrow> (nl_error + sw_if option \<Rightarrow> cmd) \<Rightarrow> cmd" where
  "findByName name = dump_find (\<lambda>d. vi_Name d = name)"

definition findByTag :: "string \<Rightarrow> (nl_error + sw_if option \<Rightarrow> cmd) \<Rightarrow> cmd" where
  "findByTag tag = dump_find (\<lambda>d. vi_Tag d = tag)"

definition cached :: "string \<Rightarrow> (sw_if option \<Rightarrow> cmd) \<Rightarrow> cmd" where
  "cached name k = (\<lambda>w. k (map_of (w_idx w) name) w)"

definition remember :: "string \<Rightarrow> sw_if \<Rightarrow> cmd" where
  "remember name i = (\<lambda>w. (None, w\<lparr>w_idx := alist_put name i (w_idx w)\<rparr>))"

definition resolve :: "string \<Rightarrow> (nl_error + sw_if option \<Rightarrow> cmd) \<Rightarrow> cmd" where
  "resolve name k = cached name (\<lambda>c. case c of
      Some i \<Rightarrow> k (Inr (Some i))
    | None \<Rightarrow> findByTag name (\<lambda>r. case r of
        Inl e \<Rightarrow> k (Inl e)
      | Inr p \<Rightarrow> (case p of None \<Rightarrow> k (Inr None) | Some i \<Rightarrow> andthen (remember name i) (k (Inr (Some i))))))"

definition tagInterface :: "sw_if \<Rightarrow> string \<Rightarrow> cmd" where
  "tagInterface i tag = vcall (SwInterfaceTagAdd i tag)"

text \<open>The common shape of the \<open>ensure\<close> functions: reuse what the name resolves to, or create,
  tag (a failure is logged) and cache.\<close>

definition ensure :: "string \<Rightarrow> ((nl_error + sw_if \<Rightarrow> cmd) \<Rightarrow> cmd) \<Rightarrow> (nl_error + sw_if \<Rightarrow> cmd) \<Rightarrow> cmd" where
  "ensure name create k = resolve name (\<lambda>r. case r of
      Inl e \<Rightarrow> k (Inl e)
    | Inr p \<Rightarrow> (case p of
        Some i \<Rightarrow> k (Inr i)
      | None \<Rightarrow> create (\<lambda>r. case r of
          Inl e \<Rightarrow> k (Inl e)
        | Inr i \<Rightarrow> steps [warn (tagInterface i name), remember name i, k (Inr i)])))"

definition ensureAvf :: "string \<Rightarrow> string \<Rightarrow> (nl_error + sw_if \<Rightarrow> cmd) \<Rightarrow> cmd" where
  "ensureAvf name pci = ensure name (\<lambda>k.
     ask (Ev '''' (Vpp (DevAttach (''pci/'' @ pci) ''iavf''))) (\<lambda>r. case r of
       RDev retval dev msg \<Rightarrow>
         if retval \<noteq> 0 then k (Inl (Wrap (''dev attach '' @ name) (Sys msg)))
         else ask (Ev '''' (Vpp (DevCreatePortIf dev name))) (\<lambda>r. k (case r of
           RDev retval i msg \<Rightarrow> if retval \<noteq> 0 then Inl (Wrap (''dev create port-if '' @ name) (Sys msg)) else Inr i
         | _ \<Rightarrow> Inl (Wrap (''dev create port-if '' @ name) (sys_error r))))
     | _ \<Rightarrow> k (Inl (Wrap (''dev attach '' @ name) (sys_error r)))))"

definition ensureDpdk :: "string \<Rightarrow> (nl_error + sw_if \<Rightarrow> cmd) \<Rightarrow> cmd" where
  "ensureDpdk name = ensure name (\<lambda>k. findByName name (\<lambda>r. k (case r of
     Inl e \<Rightarrow> Inl e
   | Inr p \<Rightarrow> (case p of None \<Rightarrow> Inl (Missing (''dpdk interface '' @ name)) | Some i \<Rightarrow> Inr i))))"

definition ensureAfPacket :: "string \<Rightarrow> string \<Rightarrow> (nl_error + sw_if \<Rightarrow> cmd) \<Rightarrow> cmd" where
  "ensureAfPacket name hostIf = ensure name (vcreate (''af_packet create '' @ name) (AfPacketCreateV3 hostIf))"

definition ensureLoopback :: "string \<Rightarrow> (nl_error + sw_if \<Rightarrow> cmd) \<Rightarrow> cmd" where
  "ensureLoopback name = ensure name (vcreate (''create loopback '' @ name) CreateLoopback)"

section \<open>Interface settings\<close>

definition setUp :: "sw_if \<Rightarrow> bool \<Rightarrow> cmd" where
  "setUp i up = vcall (SwInterfaceSetFlags i up)"

definition setMTU :: "sw_if \<Rightarrow> int \<Rightarrow> cmd" where
  "setMTU i mtu = vcall (SwInterfaceSetMtu i [word_of_int mtu, 0, 0, 0])"

definition setMAC :: "sw_if \<Rightarrow> string \<Rightarrow> cmd" where
  "setMAC i mac = vparse P_Mac mac (\<lambda>r. case r of
     Inl e \<Rightarrow> failwith (Wrap (''parse mac '' @ mac) e) | Inr m \<Rightarrow> vcall (SwInterfaceSetMacAddress i m))"

definition vpp_addAddress :: "sw_if \<Rightarrow> string \<Rightarrow> cmd" where
  "vpp_addAddress i cidr = vparse P_AddressWithPrefix cidr (\<lambda>r. case r of
     Inl e \<Rightarrow> failwith (Wrap (''parse address '' @ cidr) e)
   | Inr p \<Rightarrow> tolerate [''Address in use''] (vcall (SwInterfaceAddAddress i p)))"

definition vpp_addRoute :: "string \<Rightarrow> string \<Rightarrow> sw_if \<Rightarrow> 32 word \<Rightarrow> cmd" where
  "vpp_addRoute dst via i table = vparse P_Address via (\<lambda>r. case r of
     Inl e \<Rightarrow> failwith (Wrap (''parse nexthop '' @ via) e)
   | Inr nh \<Rightarrow>
      (let to1 = (if equal_fold dst ''default'' then (if va_ip6 nh then ''::/0'' else ''0.0.0.0/0'') else dst) in
       vparse P_Prefix to1 (\<lambda>r. case r of
         Inl e \<Rightarrow> failwith (Wrap (''parse route dst '' @ to1) e)
       | Inr pfx \<Rightarrow> vcall (IPRouteAdd table pfx i (va_ip6 nh) nh))))"

definition vpp_addRoutes :: "sw_if \<Rightarrow> Route option list \<Rightarrow> cmd" where
  "vpp_addRoutes i routes = each routes (\<lambda>p. case p of None \<Rightarrow> nop
     | Some r \<Rightarrow> only_if (route_To r \<noteq> '''' \<and> route_Via r \<noteq> '''')
         (warn (vpp_addRoute (route_To r) (route_Via r) i (word_of_int (route_Table r)))))"

definition configureL3 :: "sw_if \<Rightarrow> int \<Rightarrow> string \<Rightarrow> bool \<Rightarrow> Address list \<Rightarrow> Route option list \<Rightarrow> cmd" where
  "configureL3 i mtu mac up addrs routes = steps
    [only_if (mtu > 0) (warn (setMTU i mtu)),
     only_if (mac \<noteq> '''') (warn (setMAC i mac)),
     warn (setUp i up),
     each addrs (\<lambda>a. warn (vpp_addAddress i (addr_CIDR a))),
     vpp_addRoutes i routes]"

section \<open>Devices\<close>

definition vppPCI :: "Ethernet \<Rightarrow> string" where
  "vppPCI e = (case eth_VPP e of None \<Rightarrow> '''' | Some v \<Rightarrow> vpp_PCI v)"

definition eth_mode :: "Ethernet \<Rightarrow> string" where
  "eth_mode e = (case eth_VPP e of None \<Rightarrow> ''af-packet''
     | Some v \<Rightarrow> if vpp_Mode v \<noteq> '''' then to_lower (vpp_Mode v) else ''af-packet'')"

definition eth_hostif :: "string \<Rightarrow> Ethernet \<Rightarrow> string" where
  "eth_hostif name e = (case eth_VPP e of None \<Rightarrow> name | Some v \<Rightarrow> if vpp_HostIf v \<noteq> '''' then vpp_HostIf v else name)"

definition ApplyEthernet :: "string \<Rightarrow> Ethernet \<Rightarrow> cmd" where
  "ApplyEthernet name e =
    (let mode = eth_mode e;
         finish = (\<lambda>r. case r of
             Inl err \<Rightarrow> failwith err
           | Inr i \<Rightarrow> steps
              [configureL3 i (eth_MTU e) (eth_MacAddress e)
                 (to_lower (eth_ActivationMode e) \<notin> set [''off'', ''manual'']) (eth_Addresses e) (eth_Routes e),
               only_if (eth_Gateway4 e \<noteq> '''') (warn (vpp_addRoute ''0.0.0.0/0'' (eth_Gateway4 e) i 0)),
               only_if (eth_Gateway6 e \<noteq> '''') (warn (vpp_addRoute ''::/0'' (eth_Gateway6 e) i 0))])
     in if mode = ''af-packet'' then ensureAfPacket name (eth_hostif name e) finish
        else if mode = ''loopback'' then ensureLoopback name finish
        else if mode = ''avf'' then ensureAvf name (vppPCI e) finish
        else if mode = ''dpdk'' then ensureDpdk name finish
        else if mode \<in> set [''rdma'', ''memif'', ''tap''] then nop
        else failwith (Invalid (''vpp device '' @ name) mode))"

definition bondModeFromConfig :: "string \<Rightarrow> vpp_bond_mode" where
  "bondModeFromConfig mode =
    (let m = to_lower mode in
     if m \<in> set [''802.3ad'', ''lacp''] then BOND_LACP
     else if m = ''active-backup'' then BOND_ACTIVE_BACKUP
     else if m = ''balance-xor'' then BOND_XOR
     else if m = ''broadcast'' then BOND_BROADCAST
     else BOND_ROUND_ROBIN)"

text \<open>The members of a bond or a bridge that VPP knows; the others are skipped with a warning.\<close>

definition each_member :: "string list \<Rightarrow> (sw_if \<Rightarrow> cmd) \<Rightarrow> cmd" where
  "each_member members f = each members (\<lambda>m. resolve m (\<lambda>r. case r of
     Inl e \<Rightarrow> nop | Inr p \<Rightarrow> (case p of None \<Rightarrow> nop | Some i \<Rightarrow> warn (f i))))"

definition ApplyBond :: "string \<Rightarrow> Bond \<Rightarrow> cmd" where
  "ApplyBond name b = ensure name
     (vcreate (''bond create '' @ name) (BondCreate2 (bondModeFromConfig
        (case bond_Parameters b of None \<Rightarrow> '''' | Some p \<Rightarrow> bondp_Mode p))))
     (\<lambda>r. case r of
        Inl e \<Rightarrow> failwith e
      | Inr i \<Rightarrow> andthen
          (each_member (bond_Interfaces b) (\<lambda>m. tolerate [''already exists''] (vcall (BondAddMember m i))))
          (configureL3 i (bond_MTU b) (bond_MacAddress b) True (bond_Addresses b) (bond_Routes b)))"

definition ApplyVlan :: "string \<Rightarrow> Vlan \<Rightarrow> cmd" where
  "ApplyVlan name vl = ensure name
     (\<lambda>k. resolve (vlan_Link vl) (\<lambda>r. case r of
        Inl e \<Rightarrow> k (Inl e)
      | Inr p \<Rightarrow> (case p of
          None \<Rightarrow> k (Inl (Missing (''vlan '' @ name @ '': parent '' @ vlan_Link vl)))
        | Some parent \<Rightarrow> vcreate (''create vlan subif '' @ name) (CreateVlanSubif parent (word_of_int (vlan_ID vl))) k)))
     (\<lambda>r. case r of
        Inl e \<Rightarrow> failwith e
      | Inr i \<Rightarrow> configureL3 i (vlan_MTU vl) (vlan_MacAddress vl) True (vlan_Addresses vl) (vlan_Routes vl))"

definition vxlan_dstPort :: "Vxlan \<Rightarrow> 16 word" where
  "vxlan_dstPort vx = (if vxlan_DestPort vx > 0 then word_of_int (vxlan_DestPort vx)
     else if vxlan_Port vx > 0 then word_of_int (vxlan_Port vx) else 4789)"

definition ApplyVxlan :: "string \<Rightarrow> Vxlan \<Rightarrow> cmd" where
  "ApplyVxlan name vx = ensure name
     (\<lambda>k. vparse P_Address (vxlan_Local vx) (\<lambda>r. case r of
        Inl e \<Rightarrow> k (Inl (Wrap (''vxlan '' @ name @ '': parse local '' @ vxlan_Local vx) e))
      | Inr src \<Rightarrow> vparse P_Address (vxlan_Remote vx) (\<lambda>r. case r of
          Inl e \<Rightarrow> k (Inl (Wrap (''vxlan '' @ name @ '': parse remote '' @ vxlan_Remote vx) e))
        | Inr dst \<Rightarrow> vcreate (''vxlan create '' @ name)
            (VxlanAddDelTunnelV3 True src dst (vxlan_dstPort vx) (word_of_int (vxlan_ID vx))) k)))
     (\<lambda>r. case r of Inl e \<Rightarrow> failwith e | Inr i \<Rightarrow> warn (setUp i True))"

definition bridge_bdID :: "string \<Rightarrow> Bridge \<Rightarrow> 32 word" where
  "bridge_bdID name b = (case br_VPP b of
      Some v \<Rightarrow> if vpp_BdID v > 0 then word_of_int (vpp_BdID v) else AutoBdID name
    | None \<Rightarrow> AutoBdID name)"

definition ApplyBridge :: "string \<Rightarrow> Bridge \<Rightarrow> cmd" where
  "ApplyBridge name b =
    (let bd = bridge_bdID name b in steps
     [wrap (''bridge domain '' @ name) (tolerate [''already exists''] (vcall (BridgeDomainAddDel True bd))),
      each_member (br_Interfaces b) (\<lambda>m. vcall (SwInterfaceSetL2Bridge m bd False)),
      only_if (br_Addresses b \<noteq> []) (ensureLoopback (name @ ''-bvi'') (\<lambda>r. case r of
         Inl e \<Rightarrow> failwith (Wrap (''bridge '' @ name @ '' BVI'') e)
       | Inr bvi \<Rightarrow> andthen (warn (vcall (SwInterfaceSetL2Bridge bvi bd True)))
           (configureL3 bvi (br_MTU b) (br_MacAddress b) True (br_Addresses b) (br_Routes b))))])"

section \<open>NDP taps and proxy entries\<close>

definition DeleteNDPTap :: "string \<Rightarrow> cmd" where
  "DeleteNDPTap hostIf = findByTag hostIf (\<lambda>r. case r of
     Inl e \<Rightarrow> failwith e | Inr p \<Rightarrow> (case p of None \<Rightarrow> nop | Some i \<Rightarrow> vcall (TapDeleteV2 i)))"

definition EnsureNDPTap :: "string \<Rightarrow> 32 word \<Rightarrow> cmd" where
  "EnsureNDPTap bridge bd =
    (let hostIf = NDPTapName bridge;
         join = (\<lambda>r. case r of
             Inl e \<Rightarrow> failwith e
           | Inr i \<Rightarrow> andthen
               (wrap (''ndp-tap '' @ hostIf @ '' join bd'') (vcall (SwInterfaceSetL2Bridge i bd False)))
               (warn (setUp i True)))
     in findByTag hostIf (\<lambda>r. case r of
          Inl e \<Rightarrow> failwith e
        | Inr p \<Rightarrow> (case p of
            Some i \<Rightarrow> join (Inr i)
          | None \<Rightarrow> vcreate (''ndp-tap create '' @ hostIf) (TapCreateV3 hostIf) join)))"

definition exists_texts :: "string list" where
  "exists_texts = [''exists'', ''already'', ''in use'', ''VALUE_EXIST'']"

definition swallowExists :: "cmd \<Rightarrow> cmd" where
  "swallowExists c = tolerate exists_texts c"

definition ApplyNDProxy :: "string \<Rightarrow> string list \<Rightarrow> cmd" where
  "ApplyNDProxy iface addrs = only_if (addrs \<noteq> []) (resolve iface (\<lambda>r. case r of
      Inl e \<Rightarrow> failwith e
    | Inr p \<Rightarrow> (case p of
        None \<Rightarrow> failwith (Missing (''nd-proxy: interface '' @ iface))
      | Some i \<Rightarrow> each addrs (\<lambda>s. vparse P_IP6 s (\<lambda>r. case r of
          Inl e \<Rightarrow> failwith (Wrap (''nd-proxy: invalid IPv6 '' @ s) e)
        | Inr ip \<Rightarrow> wrap (''nd-proxy add '' @ s @ '' on '' @ iface) (swallowExists (vcall (IP6ndProxyAddDel True i ip))))))))"

definition DeleteNDProxy :: "NDProxyItem \<Rightarrow> cmd" where
  "DeleteNDProxy it = resolve (nd_Iface it) (\<lambda>r. case r of
      Inl e \<Rightarrow> failwith e
    | Inr p \<Rightarrow> (case p of
        None \<Rightarrow> nop
      | Some i \<Rightarrow> vparse P_IP6 (nd_IP it) (\<lambda>r. case r of
          Inl e \<Rightarrow> failwith (Wrap (''nd-proxy del: invalid IPv6 '' @ nd_IP it) e)
        | Inr ip \<Rightarrow> vcall (IP6ndProxyAddDel False i ip))))"

section \<open>Deleting devices\<close>

text \<open>A parser result whose error is dropped: the zero value.\<close>

definition vparse_or_zero :: "vpp_parser \<Rightarrow> string \<Rightarrow> (vaddr \<Rightarrow> cmd) \<Rightarrow> cmd" where
  "vparse_or_zero p s k = vparse p s (\<lambda>r. k (case r of Inl _ \<Rightarrow> zero_vaddr | Inr a \<Rightarrow> a))"

definition delete_tagged :: "string \<Rightarrow> (sw_if \<Rightarrow> vpp_call) \<Rightarrow> cmd" where
  "delete_tagged name f = findByTag name (\<lambda>r. case r of
     Inl e \<Rightarrow> failwith e | Inr p \<Rightarrow> (case p of None \<Rightarrow> nop | Some i \<Rightarrow> vcall (f i)))"

definition vpp_Delete :: "string \<Rightarrow> DevInfo \<Rightarrow> cmd" where
  "vpp_Delete name info =
    (let t = di_Type info in
     if t = ''af-packet'' then only_if (di_HostIf info \<noteq> '''') (vcall (AfPacketDelete (di_HostIf info)))
     else if t = ''loopback'' then delete_tagged name DeleteLoopback
     else if t = ''bond'' then delete_tagged name BondDelete
     else if t = ''vlan'' then delete_tagged name DeleteSubif
     else if t = ''vxlan'' then vparse_or_zero P_Address (di_Local info) (\<lambda>src. vparse_or_zero P_Address (di_Remote info) (\<lambda>dst.
       vcall (VxlanAddDelTunnelV3 False src dst (if di_Port info > 0 then word_of_int (di_Port info) else 4789) (di_Vni info))))
     else if t = ''bridge'' then vcall (BridgeDomainAddDel False (di_BdID info))
     else if t = ''ndp-tap'' then DeleteNDPTap name
     else nop)"

section \<open>NAT\<close>

definition natProto :: "string \<Rightarrow> 8 word" where
  "natProto p = (let q = to_lower p in
     if q = ''tcp'' then 6 else if q = ''udp'' then 17 else if q = ''icmp'' then 1 else 0)"

abbreviation twice_flag :: "bool \<Rightarrow> nat_flag list" where
  "twice_flag b \<equiv> (if b then [NAT_IS_TWICE_NAT] else [])"

text \<open>An interface that cannot be resolved is skipped with a warning.\<close>

definition if_resolved :: "string \<Rightarrow> (sw_if \<Rightarrow> cmd) \<Rightarrow> cmd" where
  "if_resolved name f = resolve name (\<lambda>r. case r of
     Inl e \<Rightarrow> nop | Inr p \<Rightarrow> (case p of None \<Rightarrow> nop | Some i \<Rightarrow> f i))"

definition nat44_interface :: "NatInterface option \<Rightarrow> cmd" where
  "nat44_interface q = with_ptr q (\<lambda>x. if_resolved (nif_Name x) (\<lambda>i.
     let role = to_lower (nif_Role x) in
     if role = ''inside'' then warn (swallowExists (vcall (Nat44InterfaceAddDelFeature True NAT_IS_INSIDE i)))
     else if role = ''outside'' then warn (swallowExists (vcall (Nat44InterfaceAddDelFeature True NAT_IS_OUTSIDE i)))
     else if role = ''output'' then warn (swallowExists (vcall (Nat44EdAddDelOutputInterface True i)))
     else nop))"

definition nat44_pool :: "NatPool option \<Rightarrow> cmd" where
  "nat44_pool q = with_ptr q (\<lambda>x. vparse P_IP4 (pool_Start x) (\<lambda>r. case r of
     Inl e \<Rightarrow> nop
   | Inr first \<Rightarrow>
      (let add = (\<lambda>fin. warn (swallowExists (vcall (Nat44AddDelAddressRange True first fin (word_of_int (pool_VRF x))
             (twice_flag (pool_TwiceNat x = Some True))))))
       in if pool_End x = '''' then add first
          else vparse P_IP4 (pool_End x) (\<lambda>r. case r of Inl e \<Rightarrow> nop | Inr fin \<Rightarrow> add fin))))"

abbreviation no_sw_if :: sw_if where
  "no_sw_if \<equiv> - 1"

definition nat44_mapping_of :: "vaddr \<Rightarrow> string \<Rightarrow> int \<Rightarrow> int \<Rightarrow> int \<Rightarrow> bool \<Rightarrow> nat44_mapping" where
  "nat44_mapping_of local proto lport eport vrf twice =
    \<lparr>n44_Local = local, n44_Protocol = natProto proto, n44_LocalPort = word_of_int lport,
     n44_ExternalPort = word_of_int eport, n44_ExternalSwIfIndex = no_sw_if, n44_ExternalIP = zero_vaddr,
     n44_VrfID = word_of_int vrf,
     n44_Flags = (if proto = '''' then [NAT_IS_ADDR_ONLY] else []) @ twice_flag twice\<rparr>"

definition applyNat44Static :: "NatStatic option \<Rightarrow> cmd" where
  "applyNat44Static q = with_ptr q (\<lambda>s. vparse P_IP4 (nstat_Local s) (\<lambda>r. case r of
     Inl e \<Rightarrow> nop
   | Inr local \<Rightarrow>
      (let m = nat44_mapping_of local (nstat_Proto s) (nstat_LocalPort s) (nstat_ExternalPort s) (nstat_VRF s)
                 (nstat_TwiceNat s = Some True);
           add = (\<lambda>m. warn (swallowExists (vcall (Nat44AddDelStaticMapping True m))))
       in if nstat_ExternalInterface s \<noteq> '''' then
            if_resolved (nstat_ExternalInterface s) (\<lambda>i. add (m\<lparr>n44_ExternalSwIfIndex := i\<rparr>))
          else if nstat_External s \<noteq> '''' then
            vparse P_IP4 (nstat_External s) (\<lambda>r. case r of Inl e \<Rightarrow> nop | Inr ext \<Rightarrow> add (m\<lparr>n44_ExternalIP := ext\<rparr>))
          else nop)))"

definition applyNat44 :: "Nat44 \<Rightarrow> cmd" where
  "applyNat44 n = only_if (nat44_Enable n \<noteq> Some False)
    (attempt (swallowExists (vcall (Nat44EdPluginEnable (word_of_int (nat44_Sessions n)) (word_of_int (nat44_InsideVRF n))
        (word_of_int (nat44_OutsideVRF n)))))
      (steps [each (nat44_Interfaces n) nat44_interface, each (nat44_Pools n) nat44_pool, each (nat44_Static n) applyNat44Static])
      (\<lambda>_. nop))"

definition nat64_interface :: "NatInterface option \<Rightarrow> cmd" where
  "nat64_interface q = with_ptr q (\<lambda>x. if_resolved (nif_Name x) (\<lambda>i. warn (swallowExists (vcall
     (Nat64AddDelInterface True (if equal_fold (nif_Role x) ''inside'' then NAT_IS_INSIDE else NAT_IS_OUTSIDE) i)))))"

definition nat64_pool :: "NatPool option \<Rightarrow> cmd" where
  "nat64_pool q = with_ptr q (\<lambda>x. vparse P_IP4 (pool_Start x) (\<lambda>r. case r of
     Inl e \<Rightarrow> nop
   | Inr start \<Rightarrow>
      (let add = (\<lambda>fin. warn (swallowExists (vcall (Nat64AddDelPoolAddrRange True start fin (word_of_int (pool_VRF x))))))
       in if pool_End x = '''' then add start else vparse_or_zero P_IP4 (pool_End x) add)))"

definition applyNat64 :: "Nat64 \<Rightarrow> cmd" where
  "applyNat64 n = only_if (nat64_Enable n \<noteq> Some False)
    (attempt (swallowExists (vcall Nat64PluginEnable))
      (steps
        [only_if (nat64_Prefix n \<noteq> '''') (vparse P_IP6Prefix (nat64_Prefix n) (\<lambda>r. case r of
           Inl e \<Rightarrow> nop | Inr pfx \<Rightarrow> warn (swallowExists (vcall (Nat64AddDelPrefix True pfx 0))))),
         each (nat64_Interfaces n) nat64_interface,
         each (nat64_Pools n) nat64_pool])
      (\<lambda>_. nop))"

definition nat66_static :: "Nat66Static option \<Rightarrow> cmd" where
  "nat66_static q = with_ptr q (\<lambda>s. vparse P_IP6 (n66s_Local s) (\<lambda>r. case r of
     Inl e \<Rightarrow> nop
   | Inr local \<Rightarrow> vparse P_IP6 (n66s_External s) (\<lambda>r. case r of
       Inl e \<Rightarrow> nop
     | Inr ext \<Rightarrow> warn (swallowExists (vcall (Nat66AddDelStaticMapping True local ext (word_of_int (n66s_VRF s))))))))"

definition applyNat66 :: "Nat66 \<Rightarrow> cmd" where
  "applyNat66 n = attempt (swallowExists (vcall Nat66PluginEnable)) (each (nat66_Static n) nat66_static) (\<lambda>_. nop)"

definition when_set :: "'a option \<Rightarrow> ('a \<Rightarrow> cmd) \<Rightarrow> cmd" where
  "when_set p f = (case p of None \<Rightarrow> nop | Some x \<Rightarrow> f x)"

definition ApplyNat :: "VPPNat \<Rightarrow> cmd" where
  "ApplyNat n = steps [when_set (nat_Nat44 n) applyNat44, when_set (nat_Nat64 n) applyNat64, when_set (nat_Nat66 n) applyNat66]"

subsection \<open>Removing a rule\<close>

text \<open>The interface of a rule to be removed: a lookup error is returned, an unknown interface
  means there is nothing to do.\<close>

definition on_resolved :: "string \<Rightarrow> (sw_if \<Rightarrow> cmd) \<Rightarrow> cmd" where
  "on_resolved name f = resolve name (\<lambda>r. case r of
     Inl e \<Rightarrow> failwith e | Inr p \<Rightarrow> (case p of None \<Rightarrow> nop | Some i \<Rightarrow> f i))"

definition on_parsed :: "vpp_parser \<Rightarrow> string \<Rightarrow> (vaddr \<Rightarrow> cmd) \<Rightarrow> cmd" where
  "on_parsed p s f = vparse p s (\<lambda>r. case r of Inl e \<Rightarrow> failwith e | Inr a \<Rightarrow> f a)"

definition range_end :: "NatItem \<Rightarrow> vaddr \<Rightarrow> (vaddr \<Rightarrow> cmd) \<Rightarrow> cmd" where
  "range_end it first f = (if ni_End it = '''' then f first else vparse_or_zero P_IP4 (ni_End it) f)"

definition delete_nat44_if :: "NatItem \<Rightarrow> cmd" where
  "delete_nat44_if it = on_resolved (ni_Iface it) (\<lambda>i.
     let role = to_lower (ni_Role it) in
     if role = ''output'' then vcall (Nat44EdAddDelOutputInterface False i)
     else if role = ''inside'' then vcall (Nat44InterfaceAddDelFeature False NAT_IS_INSIDE i)
     else vcall (Nat44InterfaceAddDelFeature False NAT_IS_OUTSIDE i))"

definition delete_nat44_pool :: "NatItem \<Rightarrow> cmd" where
  "delete_nat44_pool it = on_parsed P_IP4 (ni_Start it) (\<lambda>first. range_end it first (\<lambda>fin.
     vcall (Nat44AddDelAddressRange False first fin (word_of_int (ni_VRF it)) (twice_flag (ni_TwiceNat it)))))"

definition delete_nat44_static :: "NatItem \<Rightarrow> cmd" where
  "delete_nat44_static it = on_parsed P_IP4 (ni_Local it) (\<lambda>local.
     let m = nat44_mapping_of local (ni_Proto it) (ni_LocalPort it) (ni_ExternalPort it) (ni_VRF it) (ni_TwiceNat it);
         del = (\<lambda>m. vcall (Nat44AddDelStaticMapping False m))
     in if ni_ExternalIf it \<noteq> '''' then on_resolved (ni_ExternalIf it) (\<lambda>i. del (m\<lparr>n44_ExternalSwIfIndex := i\<rparr>))
        else if ni_External it \<noteq> '''' then on_parsed P_IP4 (ni_External it) (\<lambda>ext. del (m\<lparr>n44_ExternalIP := ext\<rparr>))
        else del m)"

definition DeleteNat :: "NatItem \<Rightarrow> cmd" where
  "DeleteNat it =
    (let kind = ni_Kind it in
     if kind = ''nat44-if'' then delete_nat44_if it
     else if kind = ''nat44-pool'' then delete_nat44_pool it
     else if kind = ''nat44-static'' then delete_nat44_static it
     else if kind = ''nat64-if'' then on_resolved (ni_Iface it) (\<lambda>i. vcall (Nat64AddDelInterface False
       (if equal_fold (ni_Role it) ''inside'' then NAT_IS_INSIDE else NAT_IS_OUTSIDE) i))
     else if kind = ''nat64-prefix'' then on_parsed P_IP6Prefix (ni_Prefix it) (\<lambda>pfx.
       vcall (Nat64AddDelPrefix False pfx (word_of_int (ni_VRF it))))
     else if kind = ''nat64-pool'' then on_parsed P_IP4 (ni_Start it) (\<lambda>start. range_end it start (\<lambda>fin.
       vcall (Nat64AddDelPoolAddrRange False start fin (word_of_int (ni_VRF it)))))
     else if kind = ''nat66-static'' then on_parsed P_IP6 (ni_Local it) (\<lambda>local. on_parsed P_IP6 (ni_External it) (\<lambda>ext.
       vcall (Nat66AddDelStaticMapping False local ext (word_of_int (ni_VRF it)))))
     else nop)"

end
