(* ===== verification/VppPlan.thy ===== *)
theory VppPlan
  imports VppApply
begin

text \<open>
  The VPP side of an apply (\<open>cmd/vpp.go\<close>): which devices VPP owns, the state netcfg wants
  there, the order in which devices are applied, and the reaping of what an earlier apply left
  behind.
\<close>

section \<open>Splitting a namespace\<close>

record vppSet =
  vset_ethernets :: "Ethernet alist"
  vset_bridges :: "Bridge alist"
  vset_bonds :: "Bond alist"
  vset_vlans :: "Vlan alist"
  vset_vxlans :: "Vxlan alist"
  vset_tunnels :: "Tunnel alist"

definition vset_empty :: "vppSet \<Rightarrow> bool" where
  "vset_empty v \<longleftrightarrow> vset_ethernets v = [] \<and> vset_bridges v = [] \<and> vset_bonds v = [] \<and> vset_vlans v = []
     \<and> vset_vxlans v = [] \<and> vset_tunnels v = []"

text \<open>\<open>dev != nil && VPPManaged(dev.VPP, dev.Renderer, globalRenderer)\<close> and the two maps it makes.\<close>

definition owned :: "('c \<Rightarrow> VPPDevice option) \<Rightarrow> ('c \<Rightarrow> string) \<Rightarrow> string \<Rightarrow> string \<times> 'c option \<Rightarrow> bool" where
  "owned vpp rend g kv = (case snd kv of None \<Rightarrow> False | Some d \<Rightarrow> VPPManaged (vpp d) (rend d) g)"

definition taken :: "('c \<Rightarrow> VPPDevice option) \<Rightarrow> ('c \<Rightarrow> string) \<Rightarrow> string \<Rightarrow> 'c option gomap \<Rightarrow> 'c alist" where
  "taken vpp rend g m = map (\<lambda>kv. (fst kv, the (snd kv))) (filter (owned vpp rend g) (entries m))"

definition left :: "('c \<Rightarrow> VPPDevice option) \<Rightarrow> ('c \<Rightarrow> string) \<Rightarrow> string \<Rightarrow> 'c option gomap \<Rightarrow> 'c option gomap" where
  "left vpp rend g m = Some (filter (\<lambda>kv. \<not> owned vpp rend g kv) (entries m))"

definition splitVPPDevices :: "Namespace \<Rightarrow> string \<Rightarrow> Namespace \<times> vppSet" where
  "splitVPPDevices ns g =
    (ns\<lparr>ns_Ethernets := left eth_VPP eth_Renderer g (ns_Ethernets ns),
        ns_Bridges := left br_VPP br_Renderer g (ns_Bridges ns),
        ns_Bonds := left bond_VPP bond_Renderer g (ns_Bonds ns),
        ns_Vlans := left vlan_VPP vlan_Renderer g (ns_Vlans ns),
        ns_Tunnels := left tun_VPP tun_Renderer g (ns_Tunnels ns),
        ns_Vxlans := left vxlan_VPP (\<lambda>_. '''') g (ns_Vxlans ns)\<rparr>,
     \<lparr>vset_ethernets = taken eth_VPP eth_Renderer g (ns_Ethernets ns),
      vset_bridges = taken br_VPP br_Renderer g (ns_Bridges ns),
      vset_bonds = taken bond_VPP bond_Renderer g (ns_Bonds ns),
      vset_vlans = taken vlan_VPP vlan_Renderer g (ns_Vlans ns),
      vset_vxlans = taken vxlan_VPP (\<lambda>_. '''') g (ns_Vxlans ns),
      vset_tunnels = taken tun_VPP tun_Renderer g (ns_Tunnels ns)\<rparr>)"

section \<open>What VPP should have\<close>

text \<open>A nil rule is dereferenced, so the rules of a null entry panic.\<close>

fun tap_rules :: "NDProxyRule option list \<Rightarrow> (nl_error, NDProxyRule list \<times> nat) result" where
  "tap_rules [] = Inr ([], 0)"
| "tap_rules (p # ps) = rbind (deref p) (\<lambda>r. rbind (tap_rules ps) (\<lambda>(ok, skipped).
     if rule_Neighbor r = '''' \<or> equal_fold (rule_Mode r) ''auto'' then Inr (ok, Suc skipped)
     else Inr (r # ok, skipped)))"

definition vppNDPTapRules :: "NDProxy option \<Rightarrow> (nl_error, NDProxyRule list \<times> nat) result" where
  "vppNDPTapRules n = (case n of None \<Rightarrow> Inr ([], 0) | Some d \<Rightarrow> tap_rules (ndp_Rules d))"

definition ndpTapBdID :: "string \<Rightarrow> Bridge \<Rightarrow> 32 word" where
  "ndpTapBdID name b = (case br_VPP b of
      Some v \<Rightarrow> if vpp_BdID v > 0 then word_of_int (vpp_BdID v) else AutoBdID name
    | None \<Rightarrow> AutoBdID name)"

definition nd_dev :: "('c \<Rightarrow> NDProxy option) \<Rightarrow> 'c alist \<Rightarrow> string list alist" where
  "nd_dev nd devs = concat (map (\<lambda>(k, d).
     case nd d of None \<Rightarrow> [] | Some n \<Rightarrow> if ndp_Addresses n \<noteq> [] then [(k, ndp_Addresses n)] else []) devs)"

definition nd_bridges :: "Bridge alist \<Rightarrow> string list alist" where
  "nd_bridges devs = concat (map (\<lambda>(k, b).
     case br_NDProxy b of None \<Rightarrow> [] | Some n \<Rightarrow>
       if ndp_Addresses n \<noteq> [] \<and> br_Addresses b \<noteq> [] then [(k @ ''-bvi'', ndp_Addresses n)] else []) devs)"

definition ndProxyFromSet :: "vppSet \<Rightarrow> string list alist" where
  "ndProxyFromSet v = foldl (\<lambda>m (k, x). alist_put k x m) []
     (nd_dev eth_NDProxy (vset_ethernets v) @ nd_dev bond_NDProxy (vset_bonds v)
      @ nd_dev vlan_NDProxy (vset_vlans v) @ nd_bridges (vset_bridges v))"

definition ndProxyItems :: "string list alist \<Rightarrow> NDProxyItem list" where
  "ndProxyItems ndp = concat (map (\<lambda>iface. map (\<lambda>ip. \<lparr>nd_Iface = iface, nd_IP = ip\<rparr>)
     (case map_of ndp iface of Some ips \<Rightarrow> ips | None \<Rightarrow> [])) (sort (map fst ndp)))"

abbreviation flag :: "bool option \<Rightarrow> bool" where
  "flag p \<equiv> (p = Some True)"

abbreviation nat_enabled :: "bool option \<Rightarrow> bool" where
  "nat_enabled p \<equiv> (p \<noteq> Some False)"

definition each_ptr :: "('a \<Rightarrow> 'b) \<Rightarrow> 'a option list \<Rightarrow> (nl_error, 'b list) result" where
  "each_ptr f ps = rfold (\<lambda>acc p. rbind (deref p) (\<lambda>x. Inr (acc @ [f x]))) [] ps"

definition if_item :: "string \<Rightarrow> NatInterface \<Rightarrow> NatItem" where
  "if_item kind i = (nat_item kind)\<lparr>ni_Iface := nif_Name i, ni_Role := to_lower (nif_Role i)\<rparr>"

definition pool_item :: "string \<Rightarrow> bool \<Rightarrow> NatPool \<Rightarrow> NatItem" where
  "pool_item kind twice p = (nat_item kind)\<lparr>ni_Start := pool_Start p, ni_End := pool_End p, ni_VRF := pool_VRF p,
     ni_TwiceNat := (twice \<and> flag (pool_TwiceNat p))\<rparr>"

definition static_item :: "NatStatic \<Rightarrow> NatItem" where
  "static_item s = (nat_item ''nat44-static'')\<lparr>ni_Proto := to_lower (nstat_Proto s), ni_Local := nstat_Local s,
     ni_LocalPort := nstat_LocalPort s, ni_External := nstat_External s, ni_ExternalIf := nstat_ExternalInterface s,
     ni_ExternalPort := nstat_ExternalPort s, ni_VRF := nstat_VRF s, ni_TwiceNat := flag (nstat_TwiceNat s)\<rparr>"

definition nat44_items :: "Nat44 option \<Rightarrow> (nl_error, NatItem list) result" where
  "nat44_items q = (case q of None \<Rightarrow> Inr [] | Some n \<Rightarrow>
     if \<not> nat_enabled (nat44_Enable n) then Inr []
     else rbind (each_ptr (if_item ''nat44-if'') (nat44_Interfaces n)) (\<lambda>a.
       rbind (each_ptr (pool_item ''nat44-pool'' True) (nat44_Pools n)) (\<lambda>b.
       rbind (each_ptr static_item (nat44_Static n)) (\<lambda>c. Inr (a @ b @ c)))))"

definition nat64_items :: "Nat64 option \<Rightarrow> (nl_error, NatItem list) result" where
  "nat64_items q = (case q of None \<Rightarrow> Inr [] | Some n \<Rightarrow>
     if \<not> nat_enabled (nat64_Enable n) then Inr []
     else rbind (each_ptr (if_item ''nat64-if'') (nat64_Interfaces n)) (\<lambda>a.
       rbind (each_ptr (pool_item ''nat64-pool'' False) (nat64_Pools n)) (\<lambda>b.
       Inr ((if nat64_Prefix n \<noteq> '''' then [(nat_item ''nat64-prefix'')\<lparr>ni_Prefix := nat64_Prefix n\<rparr>] else []) @ a @ b))))"

definition nat66_items :: "Nat66 option \<Rightarrow> (nl_error, NatItem list) result" where
  "nat66_items q = (case q of None \<Rightarrow> Inr [] | Some n \<Rightarrow>
     each_ptr (\<lambda>s. (nat_item ''nat66-static'')\<lparr>ni_Local := n66s_Local s, ni_External := n66s_External s,
       ni_VRF := n66s_VRF s\<rparr>) (nat66_Static n))"

definition natItemsFromConfig :: "VPPNat \<Rightarrow> (nl_error, NatItem list) result" where
  "natItemsFromConfig n = rbind (nat44_items (nat_Nat44 n)) (\<lambda>a. rbind (nat64_items (nat_Nat64 n)) (\<lambda>b.
     rbind (nat66_items (nat_Nat66 n)) (\<lambda>c. Inr (a @ b @ c))))"

definition eth_info :: "string \<Rightarrow> Ethernet \<Rightarrow> DevInfo" where
  "eth_info name e =
    (if eth_mode e = ''af-packet'' then (dev_info (eth_mode e))\<lparr>di_HostIf := eth_hostif name e\<rparr> else dev_info (eth_mode e))"

definition vxlan_info :: "Vxlan \<Rightarrow> DevInfo" where
  "vxlan_info x = (dev_info ''vxlan'')\<lparr>di_Vni := word_of_int (vxlan_ID x), di_Local := vxlan_Local x,
     di_Remote := vxlan_Remote x, di_Port := (if vxlan_DestPort x = 0 then vxlan_Port x else vxlan_DestPort x)\<rparr>"

definition bridge_infos :: "string \<times> Bridge \<Rightarrow> (nl_error, DevInfo alist) result" where
  "bridge_infos kb = (case kb of (name, b) \<Rightarrow>
     rbind (vppNDPTapRules (br_NDProxy b)) (\<lambda>(rules, _). Inr (
       (name, (dev_info ''bridge'')\<lparr>di_BdID := ndpTapBdID name b\<rparr>)
       # (if br_Addresses b \<noteq> [] then [(name @ ''-bvi'', dev_info ''loopback'')] else [])
       @ (if rules \<noteq> [] then [(NDPTapName name, (dev_info ''ndp-tap'')\<lparr>di_HostIf := NDPTapName name\<rparr>)] else []))))"

definition put_devs :: "DevInfo alist \<Rightarrow> DevInfo alist \<Rightarrow> DevInfo alist" where
  "put_devs kvs m = foldl (\<lambda>m (k, i). alist_put k i m) m kvs"

definition buildDesiredVPPState :: "vppSet \<Rightarrow> (nl_error, VppState) result" where
  "buildDesiredVPPState v =
    rbind (rfold (\<lambda>m kb. rbind (bridge_infos kb) (\<lambda>is. Inr (put_devs is m)))
      (put_devs (map (\<lambda>(k, x). (k, vxlan_info x)) (vset_vxlans v))
        (put_devs (map (\<lambda>(k, _). (k, dev_info ''vlan'')) (vset_vlans v))
          (put_devs (map (\<lambda>(k, _). (k, dev_info ''bond'')) (vset_bonds v))
            (put_devs (map (\<lambda>(k, e). (k, eth_info k e)) (vset_ethernets v)) []))))
      (vset_bridges v))
    (\<lambda>devs. Inr (NewVppState\<lparr>vs_Devices := devs\<rparr>))"

section \<open>Applying and reaping\<close>

definition generateStartupConf :: "VPPGlobal option \<Rightarrow> vppSet \<Rightarrow> cmd" where
  "generateStartupConf g v =
    (let eths = map (\<lambda>k. (k, the (map_of (vset_ethernets v) k))) (sort (map fst (vset_ethernets v)));
         dpdk = concat (map (\<lambda>(k, e). case eth_VPP e of None \<Rightarrow> []
           | Some d \<Rightarrow> if equal_fold (vpp_Mode d) ''dpdk'' \<and> vpp_PCI d \<noteq> ''''
               then [\<lparr>dpdkdev_Name = k, dpdkdev_PCI = vpp_PCI d\<rparr>] else []) eths);
         hasStartup = (case g of None \<Rightarrow> False | Some x \<Rightarrow> vppg_Startup x \<noteq> None)
     in if dpdk = [] \<and> \<not> hasStartup then nop
        else warn (call (Ev '''' (WriteFile ''/etc/vpp/startup.conf'' (GenerateStartupConf g dpdk)))))"

definition SetAlias :: "mgr \<Rightarrow> string \<Rightarrow> string \<Rightarrow> cmd" where
  "SetAlias m iface al = GetLink m iface (\<lambda>l. call (Ev m (LinkSetAlias l al)))"

text \<open>The alias contains an em dash, three bytes in UTF-8.\<close>

definition setNDPTapAlias :: "string \<Rightarrow> string \<Rightarrow> cmd" where
  "setNDPTapAlias hostIf bridge = warn (New (\<lambda>m. SetAlias m hostIf
     (''netcfg NDP proxy for '' @ bridge @ '' '' @ [CHR 0xE2, CHR 0x80, CHR 0x94] @ '' managed, do not delete'')))"

definition lift_nl :: "(nl_error, 'a) result \<Rightarrow> ('a \<Rightarrow> cmd) \<Rightarrow> cmd" where
  "lift_nl r k = (case r of Inl (Err e) \<Rightarrow> failwith e | Inl (Panic p) \<Rightarrow> crash p | Inr x \<Rightarrow> k x)"

definition provisionNDPTaps :: "vppSet \<Rightarrow> cmd" where
  "provisionNDPTaps v = each (sort (map fst (vset_bridges v))) (\<lambda>name.
     let b = the (map_of (vset_bridges v) name) in
     lift_nl (vppNDPTapRules (br_NDProxy b)) (\<lambda>(rules, _). only_if (rules \<noteq> [])
       (attempt (EnsureNDPTap name (ndpTapBdID name b)) (setNDPTapAlias (NDPTapName name) name) (\<lambda>_. nop))))"

definition nd_orphans :: "NDProxyItem list \<Rightarrow> NDProxyItem list \<Rightarrow> NDProxyItem list" where
  "nd_orphans prev desired = filter (\<lambda>it. nd_Key it \<notin> set (map nd_Key desired)) prev"

definition nat_orphans :: "NatItem list \<Rightarrow> NatItem list \<Rightarrow> NatItem list" where
  "nat_orphans prev desired = filter (\<lambda>it. nat_Key it \<notin> set (map nat_Key desired)) prev"

definition reap_order :: "string list" where
  "reap_order = [''vxlan'', ''vlan'', ''bond'', ''loopback'', ''af-packet'', ''dpdk'', ''avf'', ''ndp-tap'', ''bridge'']"

definition dev_orphans :: "DevInfo alist \<Rightarrow> DevInfo alist \<Rightarrow> DevInfo alist" where
  "dev_orphans prev desired = concat (map (\<lambda>typ.
     filter (\<lambda>(k, i). k \<notin> set (map fst desired) \<and> di_Type i = typ) prev) reap_order)"

definition reapVPPNDProxyOrphans :: "VppState \<Rightarrow> VppState \<Rightarrow> cmd" where
  "reapVPPNDProxyOrphans prev desired = each (nd_orphans (vs_NDProxy prev) (vs_NDProxy desired))
     (\<lambda>it. warn (DeleteNDProxy it))"

definition reapNatOrphans :: "VppState \<Rightarrow> VppState \<Rightarrow> cmd" where
  "reapNatOrphans prev desired = each (nat_orphans (vs_Nat prev) (vs_Nat desired)) (\<lambda>it. warn (DeleteNat it))"

definition reapVPPOrphans :: "VppState \<Rightarrow> VppState \<Rightarrow> cmd" where
  "reapVPPOrphans prev desired = each (dev_orphans (vs_Devices prev) (vs_Devices desired)) (\<lambda>(k, i). warn (vpp_Delete k i))"

text \<open>\<open>for _, name := range sortedKeys(devs)\<close>: an error of one device is logged.\<close>

definition apply_kind :: "(string \<Rightarrow> 'c \<Rightarrow> cmd) \<Rightarrow> 'c alist \<Rightarrow> cmd" where
  "apply_kind f devs = each (sort (map fst devs)) (\<lambda>name.
     case map_of devs name of None \<Rightarrow> nop | Some d \<Rightarrow> warn (f name d))"

definition desired_vpp :: "VPPGlobal option \<Rightarrow> vppSet \<Rightarrow> (nl_error, VppState) result" where
  "desired_vpp g v = rbind (buildDesiredVPPState v) (\<lambda>d.
     rbind (case g of None \<Rightarrow> Inr [] | Some x \<Rightarrow> (case vppg_NAT x of None \<Rightarrow> Inr [] | Some n \<Rightarrow> natItemsFromConfig n)) (\<lambda>items.
     Inr (d\<lparr>vs_Nat := items, vs_NDProxy := ndProxyItems (ndProxyFromSet v)\<rparr>)))"

definition setupVPP :: "(VppState \<Rightarrow> string) \<Rightarrow> VPPGlobal option \<Rightarrow> vppSet \<Rightarrow> VppState \<Rightarrow> cmd" where
  "setupVPP vmarshal g v prev = steps
    [generateStartupConf g v,
     Connect (case g of None \<Rightarrow> '''' | Some x \<Rightarrow> vppg_APISocket x),
     NewApplier,
     apply_kind ApplyEthernet (vset_ethernets v),
     apply_kind ApplyBond (vset_bonds v),
     apply_kind ApplyVlan (vset_vlans v),
     apply_kind ApplyVxlan (vset_vxlans v),
     apply_kind ApplyBridge (vset_bridges v),
     when_set g (\<lambda>x. when_set (vppg_NAT x) ApplyNat),
     apply_kind ApplyNDProxy (ndProxyFromSet v),
     provisionNDPTaps v,
     lift_nl (desired_vpp g v) (\<lambda>desired. steps
       [reapVPPNDProxyOrphans prev desired,
        reapVPPOrphans prev desired,
        reapNatOrphans prev desired,
        warn (vpp_Save vmarshal desired)])]"

end
