(* ===== verification/Apply.thy ===== *)
theory Apply
  imports Setup VppPlan
begin

text \<open>
  The apply transaction (\<open>cmd/apply.go\<close>, \<open>Apply\<close> and its helpers) and the rollback of a trial
  apply (\<open>cmd/try.go\<close>): remove what the diff says is gone, reap orphaned SIDs and proxy entries,
  create the namespaces, configure the default namespace and each named one, save the state.
  The outcome of \<open>state.Load\<close>, the state VPP left behind, the JSON encoders and the
  clock are parameters.
\<close>

section \<open>Removals\<close>

definition lift_state :: "(state_error, 'a) result \<Rightarrow> ('a \<Rightarrow> cmd) \<Rightarrow> cmd" where
  "lift_state r k = (case r of Inr x \<Rightarrow> k x | Inl (Panic p) \<Rightarrow> crash p | Inl (Err e) \<Rightarrow> failwith (Sys ''state''))"

text \<open>The handle of a namespace, or nothing when the namespace is gone or cannot be opened.\<close>

definition with_ns_mgr :: "string \<Rightarrow> (mgr \<Rightarrow> cmd) \<Rightarrow> cmd" where
  "with_ns_mgr ns body =
    (if ns = '''' then warn (New body)
     else NetnsExists ns (\<lambda>there. only_if there (warn (NewWithNetns ns body))))"

definition remove_addresses :: "string \<times> string list alist \<Rightarrow> cmd" where
  "remove_addresses nd = with_ns_mgr (fst nd) (\<lambda>m. each (snd nd) (\<lambda>(dev, addrs).
     LinkExists m dev (\<lambda>there. only_if there (each addrs (\<lambda>a. warn (DeleteAddress m dev a))))))"

definition remove_routes :: "string \<times> string list alist \<Rightarrow> cmd" where
  "remove_routes nd = with_ns_mgr (fst nd) (\<lambda>m. each (snd nd) (\<lambda>(dev, routes). each routes (\<lambda>r.
     case parseRouteString r of (dst, gw, table) \<Rightarrow> warn (DeleteRoute m dst gw dev table))))"

definition remove_devices :: "string \<times> string list \<Rightarrow> cmd" where
  "remove_devices nd = with_ns_mgr (fst nd) (\<lambda>m. each (snd nd) (\<lambda>dev.
     LinkExists m dev (\<lambda>there. only_if there (warn (DeleteLink m dev)))))"

definition remove_ns :: "string \<Rightarrow> cmd" where
  "remove_ns ns = only_if (ns \<noteq> '''') (NetnsExists ns (\<lambda>there. only_if there (warn (DeleteNetns ns))))"

definition applyRemovals :: "Diff \<Rightarrow> cmd" where
  "applyRemovals d = steps
    [each (AddressesToRemove d) remove_addresses,
     each (RoutesToRemove d) remove_routes,
     each (DevicesToRemove d) remove_devices,
     each (NsToRemove d) remove_ns]"

section \<open>Orphans\<close>

definition ns_sids :: "State \<Rightarrow> string \<Rightarrow> string list" where
  "ns_sids s ns = (case GetNamespace s ns of None \<Rightarrow> [] | Some n \<Rightarrow> nss_SRv6SIDs n)"

definition sid_orphans :: "string list \<Rightarrow> string list \<Rightarrow> string list" where
  "sid_orphans old new = filter (\<lambda>sid. sid \<notin> set new) old"

definition reapSRv6Orphans :: "State \<Rightarrow> State \<Rightarrow> cmd" where
  "reapSRv6Orphans old new = each (entries (st_Namespaces old)) (\<lambda>(ns, p).
     case p of None \<Rightarrow> nop | Some n \<Rightarrow>
       (let removed = sid_orphans (nss_SRv6SIDs n) (ns_sids new ns) in
        only_if (removed \<noteq> []) (with_ns_mgr ns (\<lambda>m. each removed (\<lambda>sid. warn (DeleteLocalSID m sid))))))"

text \<open>The proxied addresses of a namespace by device; a null device is dereferenced.\<close>

fun proxied :: "DeviceState option alist \<Rightarrow> (state_error, (string \<times> string) list) result" where
  "proxied [] = Inr []"
| "proxied ((dev, p) # ds) = rbind (deref p) (\<lambda>d. rbind (proxied ds) (\<lambda>r.
     Inr (map (\<lambda>ip. (dev, ip)) (ds_NDProxy d) @ r)))"

abbreviation bar_key :: "string \<times> string \<Rightarrow> string" where
  "bar_key di \<equiv> fst di @ ''|'' @ snd di"

definition proxy_orphans :: "(string \<times> string) list \<Rightarrow> (string \<times> string) list \<Rightarrow> (string \<times> string) list" where
  "proxy_orphans old new = filter (\<lambda>di. bar_key di \<notin> set (map bar_key new)) old"

definition reapNDProxyOrphans :: "State \<Rightarrow> State \<Rightarrow> cmd" where
  "reapNDProxyOrphans old new = each (entries (st_Namespaces old)) (\<lambda>(ns, p).
     case p of None \<Rightarrow> nop | Some n \<Rightarrow>
       lift_state (case GetNamespace new ns of None \<Rightarrow> Inr [] | Some n' \<Rightarrow> proxied (entries (nss_Devices n'))) (\<lambda>keep.
       lift_state (proxied (entries (nss_Devices n))) (\<lambda>have1.
         let removed = proxy_orphans have1 keep in
         only_if (removed \<noteq> []) (with_ns_mgr ns (\<lambda>m.
           each removed (\<lambda>(dev, ip). warn (DeleteProxyNDP m dev ip)))))))"

section \<open>Applying a configuration\<close>

definition stateDir :: string where
  "stateDir = ''/var/lib/netcfg''"

definition state_path :: string where
  "state_path = ''/var/lib/netcfg/state.json''"

definition save_state :: "(State \<Rightarrow> string) \<Rightarrow> int \<Rightarrow> State \<Rightarrow> cmd" where
  "save_state marshal now s = andthen (call (Ev '''' (Mkdir stateDir)))
     (call (Ev '''' (WriteFile state_path (marshal (s\<lparr>st_AppliedAt := now\<rparr>)))))"

definition create_netns :: "Config \<Rightarrow> cmd" where
  "create_netns cfg = each (gkeys (net_Netns (cfg_Network cfg))) (\<lambda>ns.
     NetnsExists ns (\<lambda>there. only_if (\<not> there) (wrap (''failed to create netns '' @ ns) (CreateNetns ns))))"

definition apply_default :: "(VppState \<Rightarrow> string) \<Rightarrow> VppState \<Rightarrow> Config \<Rightarrow> cmd" where
  "apply_default vmarshal vprev cfg = only_if (HasDefaultNamespaceConfig cfg)
    (case splitVPPDevices (ToNamespace (cfg_Network cfg)) (net_Renderer (cfg_Network cfg)) of (kernelNS, vppDevs) \<Rightarrow>
      andthen
       (only_if (\<not> vset_empty vppDevs \<or> net_VPP (cfg_Network cfg) \<noteq> None)
         (wrap ''failed to configure VPP devices'' (setupVPP vmarshal (net_VPP (cfg_Network cfg)) vppDevs vprev)))
       (wrap ''failed to configure default namespace'' (applyNamespaceConfig '''' (Some kernelNS))))"

definition apply_netns :: "Config \<Rightarrow> cmd" where
  "apply_netns cfg = each (GetNetnsNames cfg) (\<lambda>ns.
     wrap (''failed to configure netns '' @ ns) (applyNamespaceConfig ns (entry (net_Netns (cfg_Network cfg)) ns)))"

definition Apply :: "(state_error, State) result \<Rightarrow> (VppState \<Rightarrow> string) \<Rightarrow> VppState \<Rightarrow> (State \<Rightarrow> string) \<Rightarrow> int \<Rightarrow> Config \<Rightarrow> cmd" where
  "Apply loaded vmarshal vprev marshal now cfg =
    (let oldState = (case loaded of Inr s \<Rightarrow> s | Inl _ \<Rightarrow> NewState) in
     lift_state (buildStateFromConfig cfg) (\<lambda>newState.
     lift_state (ComputeDiff oldState newState) (\<lambda>d. steps
       [warn (applyRemovals d),
        reapSRv6Orphans oldState newState,
        reapNDProxyOrphans oldState newState,
        create_netns cfg,
        apply_default vmarshal vprev cfg,
        apply_netns cfg,
        warn (save_state marshal now newState)])))"

section \<open>Trial and rollback (cmd/try.go)\<close>

definition rollback_remove_addresses :: "string \<times> string list alist \<Rightarrow> cmd" where
  "rollback_remove_addresses = remove_addresses"

definition applyRollbackRemovals :: "Diff \<Rightarrow> cmd" where
  "applyRollbackRemovals d = steps
    [each (AddressesToAdd d) rollback_remove_addresses,
     each (DevicesToAdd d) remove_devices,
     each (NsToAdd d) remove_ns]"

definition restore_addresses :: "string \<times> string list alist \<Rightarrow> cmd" where
  "restore_addresses nd = with_ns_mgr (fst nd) (\<lambda>m. each (snd nd) (\<lambda>(dev, addrs).
     LinkExists m dev (\<lambda>there. only_if there (each addrs (\<lambda>a. warn (AddAddress m dev a))))))"

definition applyRollbackAdditions :: "Diff \<Rightarrow> cmd" where
  "applyRollbackAdditions d = each (AddressesToRemove d) restore_addresses"

definition rollback :: "State option \<Rightarrow> (state_error, State) result \<Rightarrow> (State \<Rightarrow> string) \<Rightarrow> int \<Rightarrow> cmd" where
  "rollback saved loaded marshal now = (case saved of None \<Rightarrow> nop
     | Some rollbackState \<Rightarrow>
       (case loaded of
          Inl (Panic p) \<Rightarrow> crash p
        | Inl (Err e) \<Rightarrow> failwith (Sys ''failed to load current state'')
        | Inr currentState \<Rightarrow>
          lift_state (ComputeDiff currentState rollbackState) (\<lambda>d. steps
            [warn (applyRollbackRemovals d),
             warn (applyRollbackAdditions d),
             warn (save_state marshal now rollbackState)])))"

text \<open>The answer of the confirmation prompt: the lines read (without the line feed) before the
  timeout; \<open>None\<close> is the timeout. A read at the end of input gives an empty line.\<close>

fun confirmation :: "string list \<Rightarrow> bool option" where
  "confirmation [] = None"
| "confirmation (l # ls) =
    (let input = trim_space (to_lower l) in
     if input \<in> set ['''', ''y'', ''yes''] then Some True
     else if input \<in> set [''n'', ''no'', ''revert''] then Some False
     else confirmation ls)"

definition after_try :: "string list \<Rightarrow> cmd \<Rightarrow> cmd" where
  "after_try answers roll = (case confirmation answers of Some True \<Rightarrow> nop | _ \<Rightarrow> roll)"

definition runTry :: "(state_error, State) result \<Rightarrow> (state_error, State) result \<Rightarrow> (VppState \<Rightarrow> string) \<Rightarrow> VppState \<Rightarrow> (State \<Rightarrow> string) \<Rightarrow> int
    \<Rightarrow> string list \<Rightarrow> Config \<Rightarrow> cmd" where
  "runTry loaded reloaded vmarshal vprev marshal now answers cfg =
    (let rollbackState = (case loaded of Inr s \<Rightarrow> s | Inl _ \<Rightarrow> NewState) in
     andthen (wrap ''failed to apply config'' (Apply loaded vmarshal vprev marshal now cfg))
       (after_try answers (rollback (Some rollbackState) reloaded marshal now)))"

end
