(* ===== verification/VppSafe.thy ===== *)
theory VppSafe
  imports VppPlan
begin

text \<open>
  What the VPP side may do. The locale \<open>vpp_policy\<close> is the contract between a predicate on events
  and the applier: calls that neither make nor remove anything satisfy it, calls that make an
  interface do if \<open>mk\<close>, calls that remove something do if \<open>rm\<close>, and the dump of the interfaces shows
  every name that is \<open>known\<close>. Its interpretations give the behaviour of a repeated apply.
\<close>

section \<open>Classes of calls\<close>

definition vpp_makes :: "vpp_call \<Rightarrow> bool" where
  "vpp_makes c = (case c of DevAttach _ _ \<Rightarrow> True | DevCreatePortIf _ _ \<Rightarrow> True | AfPacketCreateV3 _ \<Rightarrow> True
     | CreateLoopback \<Rightarrow> True | BondCreate2 _ \<Rightarrow> True | CreateVlanSubif _ _ \<Rightarrow> True
     | VxlanAddDelTunnelV3 add _ _ _ _ \<Rightarrow> add | TapCreateV3 _ \<Rightarrow> True | _ \<Rightarrow> False)"

definition vpp_removes :: "vpp_call \<Rightarrow> bool" where
  "vpp_removes c = (case c of AfPacketDelete _ \<Rightarrow> True | DeleteLoopback _ \<Rightarrow> True | BondDelete _ \<Rightarrow> True
     | DeleteSubif _ \<Rightarrow> True | VxlanAddDelTunnelV3 add _ _ _ _ \<Rightarrow> \<not> add | BridgeDomainAddDel add _ \<Rightarrow> \<not> add
     | TapDeleteV2 _ \<Rightarrow> True | IP6ndProxyAddDel add _ _ \<Rightarrow> \<not> add | Nat44InterfaceAddDelFeature add _ _ \<Rightarrow> \<not> add
     | Nat44EdAddDelOutputInterface add _ \<Rightarrow> \<not> add | Nat44AddDelAddressRange add _ _ _ _ \<Rightarrow> \<not> add
     | Nat44AddDelStaticMapping add _ \<Rightarrow> \<not> add | Nat64AddDelPrefix add _ _ \<Rightarrow> \<not> add | Nat64AddDelInterface add _ _ \<Rightarrow> \<not> add
     | Nat64AddDelPoolAddrRange add _ _ _ \<Rightarrow> \<not> add | Nat66AddDelStaticMapping add _ _ _ \<Rightarrow> \<not> add | _ \<Rightarrow> False)"

lemmas vpp_class = vpp_makes_def vpp_removes_def

definition vpp_routine :: "request \<Rightarrow> bool" where
  "vpp_routine r = (case r of WriteFile _ _ \<Rightarrow> True | Mkdir _ \<Rightarrow> True | VppConnect _ \<Rightarrow> True | NewHandle \<Rightarrow> True
     | LinkByName _ \<Rightarrow> True | LinkSetAlias _ _ \<Rightarrow> True | _ \<Rightarrow> False)"

text \<open>A reply to the dump that shows an interface with a given tag.\<close>

definition shows_tag :: "reply \<Rightarrow> string \<Rightarrow> bool" where
  "shows_tag r n = (case r of RDump ds _ \<Rightarrow> list_ex (\<lambda>d. vi_Tag d = n) ds | _ \<Rightarrow> False)"

section \<open>Rules for the applier's own steps\<close>

lemma behaves_cached [behaves_intros]: "(\<And>c. behaves E nn P (k c)) \<Longrightarrow> behaves E nn P (cached name k)"
  by (simp add: behaves_def cached_def)

lemma behaves_remember [behaves_intros]: "behaves E nn P (remember name i)"
  by (simp add: behaves_def remember_def behaves_at_def)

lemma behaves_NewApplier [behaves_intros]: "behaves E nn P NewApplier"
  by (simp add: behaves_def NewApplier_def behaves_at_def)

lemma behaves_tolerate [behaves_intros]: "behaves E nn P c \<Longrightarrow> behaves E nn P (tolerate subs c)"
  unfolding tolerate_def by (intro behaves_intros)

lemma behaves_when_set [behaves_intros]: "(\<And>x. p = Some x \<Longrightarrow> behaves E nn P (f x)) \<Longrightarrow> behaves E nn P (when_set p f)"
  by (cases p) (simp_all add: when_set_def)

lemma behaves_apply_kind [behaves_intros]:
  "(\<And>name d. map_of devs name = Some d \<Longrightarrow> behaves E nn P (f name d)) \<Longrightarrow> behaves E nn P (apply_kind f devs)"
  unfolding apply_kind_def by (intro behaves_intros)

lemma behaves_lift_nl [behaves_intros]:
  "(\<And>p. nn \<Longrightarrow> r \<noteq> Inl (Panic p)) \<Longrightarrow> (\<And>x. r = Inr x \<Longrightarrow> behaves E nn P (k x)) \<Longrightarrow> behaves E nn P (lift_nl r k)"
  by (auto simp: lift_nl_def intro: behaves_crash split: sum.splits fault.splits)

lemma find_tag: "shows_tag (RDump ds b) n \<Longrightarrow> \<exists>d. List.find (\<lambda>d. vi_Tag d = n) ds = Some d"
  by (induction ds) (auto simp: shows_tag_def)

section \<open>Configurations without null entries\<close>

abbreviation nat_full :: "VPPNat \<Rightarrow> bool" where
  "nat_full n \<equiv>
     (case nat_Nat44 n of None \<Rightarrow> True | Some x \<Rightarrow> None \<notin> set (nat44_Interfaces x) \<and> None \<notin> set (nat44_Pools x) \<and> None \<notin> set (nat44_Static x))
   \<and> (case nat_Nat64 n of None \<Rightarrow> True | Some x \<Rightarrow> None \<notin> set (nat64_Interfaces x) \<and> None \<notin> set (nat64_Pools x))
   \<and> (case nat_Nat66 n of None \<Rightarrow> True | Some x \<Rightarrow> None \<notin> set (nat66_Static x))"

abbreviation rules_full :: "Bridge \<Rightarrow> bool" where
  "rules_full b \<equiv> (case br_NDProxy b of None \<Rightarrow> True | Some n \<Rightarrow> None \<notin> set (ndp_Rules n))"

lemma tap_rules_total: "None \<notin> set ps \<Longrightarrow> \<exists>r. tap_rules ps = Inr r"
proof (induction ps)
  case (Cons p ps)
  then obtain x r n where "p = Some x" "tap_rules ps = Inr (r, n)" by (cases p) auto
  then show ?case by simp
qed simp

lemma vppNDPTapRules_total: "rules_full b \<Longrightarrow> vppNDPTapRules (br_NDProxy b) \<noteq> Inl e"
  using tap_rules_total by (auto simp: vppNDPTapRules_def split: option.splits) force

lemma not_nil: "x \<in> set ps \<Longrightarrow> None \<notin> set ps \<Longrightarrow> \<exists>y. x = Some y"
  by (cases x) auto

lemma map_of_key: "map_of xs n = Some a \<Longrightarrow> n \<in> fst ` set xs"
  by (force dest: map_of_SomeD)

text \<open>The names under which VPP may have to find an interface.\<close>

definition vset_names :: "vppSet \<Rightarrow> string list" where
  "vset_names v = map fst (vset_ethernets v) @ map fst (vset_bonds v) @ map fst (vset_vlans v) @ map fst (vset_vxlans v)
     @ concat (map (\<lambda>(n, b). [n @ ''-bvi'', NDPTapName n]) (vset_bridges v))"

section \<open>The contract\<close>

locale vpp_policy =
  fixes E :: "environment \<Rightarrow> bool" and nn :: bool and P :: "event \<Rightarrow> bool" and known :: "string \<Rightarrow> bool" and mk :: bool and rm :: bool
  assumes vpp_ok: "(vpp_makes c \<Longrightarrow> mk) \<Longrightarrow> (vpp_removes c \<Longrightarrow> rm) \<Longrightarrow> P (Ev '''' (Vpp c))"
    and routine_ok: "vpp_routine r \<Longrightarrow> P (Ev '''' r)"
    and dump_known: "known n \<Longrightarrow> replies E (Ev '''' (Vpp SwInterfaceDump)) rep \<Longrightarrow> shows_tag rep n"
begin

abbreviation vok :: "cmd \<Rightarrow> bool" where
  "vok \<equiv> behaves E nn P"

lemma vok_vcall [behaves_intros]: "(vpp_makes c \<Longrightarrow> mk) \<Longrightarrow> (vpp_removes c \<Longrightarrow> rm) \<Longrightarrow> vok (vcall c)"
  unfolding vcall_def by (intro behaves_intros vpp_ok)

lemma vok_vparse [behaves_intros]: "(\<And>r. vok (k r)) \<Longrightarrow> vok (vparse p s k)"
  unfolding vparse_def by (intro behaves_intros vpp_ok) (simp_all add: vpp_class)

lemma vok_vparse_or_zero [behaves_intros]: "(\<And>r. vok (k r)) \<Longrightarrow> vok (vparse_or_zero p s k)"
  unfolding vparse_or_zero_def by (intro behaves_intros)

lemma vok_vcreate [behaves_intros]:
  "mk \<Longrightarrow> \<not> vpp_removes c \<Longrightarrow> (\<And>r. vok (k r)) \<Longrightarrow> vok (vcreate what c k)"
  unfolding vcreate_def by (intro behaves_intros vpp_ok) simp_all

lemma vok_dump_find [behaves_intros]: "(\<And>r. vok (k r)) \<Longrightarrow> vok (dump_find p k)"
  unfolding dump_find_def by (intro behaves_intros vpp_ok) (simp_all add: vpp_class)

lemma vok_findByTag_known:
  assumes "known tag" "\<And>i. vok (k (Inr (Some i)))"
  shows "vok (findByTag tag k)"
proof -
  have "vok (k (case r of RDump ds broken \<Rightarrow> (case List.find (\<lambda>d. vi_Tag d = tag) ds of
          Some d \<Rightarrow> Inr (Some (vi_Index d)) | None \<Rightarrow> (case broken of None \<Rightarrow> Inr None | Some m \<Rightarrow> Inl (Sys m)))
      | _ \<Rightarrow> Inl (sys_error r)))" if r: "replies E (Ev '''' (Vpp SwInterfaceDump)) r" for r
  proof -
    obtain ds b where ds: "r = RDump ds b"
      using dump_known[OF assms(1) r] by (auto simp: shows_tag_def split: reply.splits)
    with dump_known[OF assms(1) r] find_tag[of ds b tag] assms(2) show ?thesis by auto
  qed
  then show ?thesis
    unfolding findByTag_def dump_find_def by (intro behaves_ask vpp_ok) (simp_all add: vpp_class)
qed

lemma vok_findByTag [behaves_intros]: "(\<And>r. vok (k r)) \<Longrightarrow> vok (findByTag tag k)"
  unfolding findByTag_def by (rule vok_dump_find)

lemma vok_resolve [behaves_intros]: "(\<And>r. vok (k r)) \<Longrightarrow> vok (resolve name k)"
  unfolding resolve_def by (intro behaves_intros)

lemma vok_resolve_known: "known name \<Longrightarrow> (\<And>i. vok (k (Inr (Some i)))) \<Longrightarrow> vok (resolve name k)"
  unfolding resolve_def by (intro behaves_cached behaves_option vok_findByTag_known) (simp_all add: behaves_intros)

text \<open>The heart of idempotence: a known name is reused, so what \<open>create\<close> would do is irrelevant.\<close>

lemma vok_ensure:
  assumes "mk \<or> known name" "mk \<Longrightarrow> (\<And>k'. (\<And>r. vok (k' r)) \<Longrightarrow> vok (create k'))" "\<And>r. vok (k r)"
  shows "vok (ensure name create k)"
proof (cases "known name")
  case True
  then show ?thesis
    unfolding ensure_def using assms(3) by (intro vok_resolve_known) simp_all
next
  case False
  then have mk using assms(1) by simp
  then show ?thesis
    unfolding ensure_def tagInterface_def using assms(3)
    by (intro behaves_intros assms(2)) (simp_all add: vpp_class)
qed

lemma vok_ensures [behaves_intros]:
  assumes "mk \<or> known name" "\<And>r. vok (k r)"
  shows "vok (ensureAvf name pci k)" "vok (ensureDpdk name k)" "vok (ensureAfPacket name h k)" "vok (ensureLoopback name k)"
  using assms unfolding ensureAvf_def ensureDpdk_def ensureAfPacket_def ensureLoopback_def findByName_def
  by (intro vok_ensure behaves_intros vpp_ok; simp add: vpp_class)+

lemma vok_settings [behaves_intros]:
  "vok (setUp i b)" "vok (setMTU i mtu)" "vok (setMAC i mac)" "vok (vpp_addAddress i a)" "vok (vpp_addRoute d v i t)"
  unfolding setUp_def setMTU_def setMAC_def vpp_addAddress_def vpp_addRoute_def Let_def
  by (intro behaves_intros; simp add: vpp_class)+

lemma vok_configureL3 [behaves_intros]: "vok (configureL3 i mtu mac up addrs routes)"
  unfolding configureL3_def vpp_addRoutes_def by (intro behaves_intros)

lemma vok_each_member [behaves_intros]: "(\<And>i. vok (f i)) \<Longrightarrow> vok (each_member ms f)"
  unfolding each_member_def by (intro behaves_intros)

lemma vok_ApplyEthernet [behaves_intros]: "mk \<or> known name \<Longrightarrow> vok (ApplyEthernet name e)"
  unfolding ApplyEthernet_def Let_def by (intro behaves_intros)

lemma vok_ApplyBond [behaves_intros]: "mk \<or> known name \<Longrightarrow> vok (ApplyBond name b)"
  unfolding ApplyBond_def by (intro vok_ensure behaves_intros) (simp_all add: vpp_class)

lemma vok_ApplyVlan [behaves_intros]: "mk \<or> known name \<Longrightarrow> vok (ApplyVlan name x)"
  unfolding ApplyVlan_def by (intro vok_ensure behaves_intros) (simp_all add: vpp_class)

lemma vok_ApplyVxlan [behaves_intros]: "mk \<or> known name \<Longrightarrow> vok (ApplyVxlan name x)"
  unfolding ApplyVxlan_def by (intro vok_ensure behaves_intros) (simp_all add: vpp_class)

lemma vok_ApplyBridge [behaves_intros]:
  "(br_Addresses b \<noteq> [] \<Longrightarrow> mk \<or> known (name @ ''-bvi'')) \<Longrightarrow> vok (ApplyBridge name b)"
  unfolding ApplyBridge_def Let_def by (intro behaves_intros) (simp_all add: vpp_class)

lemma vok_EnsureNDPTap [behaves_intros]:
  assumes "mk \<or> known (NDPTapName bridge)"
  shows "vok (EnsureNDPTap bridge bd)"
proof (cases "known (NDPTapName bridge)")
  case True
  then show ?thesis
    unfolding EnsureNDPTap_def Let_def
    by (intro vok_findByTag_known; (simp only: sum.case option.case, intro behaves_intros)?) (simp_all add: vpp_class)
next
  case False
  then show ?thesis
    unfolding EnsureNDPTap_def Let_def using assms by (intro behaves_intros) (simp_all add: vpp_class)
qed

lemma vok_ApplyNDProxy [behaves_intros]: "vok (ApplyNDProxy iface addrs)"
  unfolding ApplyNDProxy_def swallowExists_def by (intro behaves_intros) (simp_all add: vpp_class)

lemma vok_if_resolved [behaves_intros]: "(\<And>i. vok (f i)) \<Longrightarrow> vok (if_resolved name f)"
  unfolding if_resolved_def by (intro behaves_intros)

lemma vok_nat_parts [behaves_intros]:
  "(nn \<Longrightarrow> q1 \<noteq> None) \<Longrightarrow> vok (nat44_interface q1)"
  "(nn \<Longrightarrow> q2 \<noteq> None) \<Longrightarrow> vok (nat44_pool q2)"
  "(nn \<Longrightarrow> q3 \<noteq> None) \<Longrightarrow> vok (applyNat44Static q3)"
  "(nn \<Longrightarrow> q4 \<noteq> None) \<Longrightarrow> vok (nat64_interface q4)"
  "(nn \<Longrightarrow> q5 \<noteq> None) \<Longrightarrow> vok (nat64_pool q5)"
  "(nn \<Longrightarrow> q6 \<noteq> None) \<Longrightarrow> vok (nat66_static q6)"
  unfolding nat44_interface_def nat44_pool_def applyNat44Static_def nat64_interface_def nat64_pool_def nat66_static_def
    swallowExists_def Let_def
  by (intro behaves_intros; simp add: vpp_class)+

lemma vok_ApplyNat [behaves_intros]:
  assumes "nn \<Longrightarrow> nat_full n"
  shows "vok (ApplyNat n)"
proof -
  have "vok (applyNat44 x)" if "nat_Nat44 n = Some x" for x
    unfolding applyNat44_def swallowExists_def using assms that by (intro behaves_intros) (auto simp: vpp_class dest: not_nil)
  moreover have "vok (applyNat64 x)" if "nat_Nat64 n = Some x" for x
    unfolding applyNat64_def swallowExists_def using assms that by (intro behaves_intros) (auto simp: vpp_class dest: not_nil)
  moreover have "vok (applyNat66 x)" if "nat_Nat66 n = Some x" for x
    unfolding applyNat66_def swallowExists_def using assms that by (intro behaves_intros) (auto simp: vpp_class dest: not_nil)
  ultimately show ?thesis unfolding ApplyNat_def by (intro behaves_intros) simp_all
qed

lemma vok_removals [behaves_intros]:
  assumes rm
  shows "vok (DeleteNDProxy nd)" "vok (vpp_Delete name info)" "vok (DeleteNat it)"
  using assms unfolding DeleteNDProxy_def vpp_Delete_def DeleteNDPTap_def delete_tagged_def DeleteNat_def delete_nat44_if_def
    delete_nat44_pool_def delete_nat44_static_def on_resolved_def on_parsed_def range_end_def Let_def
  by (intro behaves_intros; simp add: vpp_class)+

lemma vok_provisionNDPTaps [behaves_intros]:
  assumes "\<And>name b. map_of (vset_bridges v) name = Some b \<Longrightarrow> mk \<or> known (NDPTapName name)"
    "\<And>name b. nn \<Longrightarrow> map_of (vset_bridges v) name = Some b \<Longrightarrow> rules_full b"
  shows "vok (provisionNDPTaps v)"
proof -
  have "\<exists>b. map_of (vset_bridges v) name = Some b" if "name \<in> set (sort (map fst (vset_bridges v)))" for name
    using that by (metis (full_types) image_set map_of_eq_None_iff not_None_eq set_sort)
  then show ?thesis
    unfolding provisionNDPTaps_def setNDPTapAlias_def SetAlias_def New_def GetLink_def Let_def using assms vppNDPTapRules_total
    by (intro behaves_intros routine_ok) (force simp: vpp_routine_def)+
qed

lemma vok_reaps [behaves_intros]:
  "(nd_orphans (vs_NDProxy prev) (vs_NDProxy desired) \<noteq> [] \<Longrightarrow> rm) \<Longrightarrow> vok (reapVPPNDProxyOrphans prev desired)"
  "(nat_orphans (vs_Nat prev) (vs_Nat desired) \<noteq> [] \<Longrightarrow> rm) \<Longrightarrow> vok (reapNatOrphans prev desired)"
  "(dev_orphans (vs_Devices prev) (vs_Devices desired) \<noteq> [] \<Longrightarrow> rm) \<Longrightarrow> vok (reapVPPOrphans prev desired)"
  unfolding reapVPPNDProxyOrphans_def reapNatOrphans_def reapVPPOrphans_def by (intro behaves_intros; force)+

lemma vok_setupVPP:
  assumes names: "\<And>n. n \<in> set (vset_names v) \<Longrightarrow> mk \<or> known n"
    and full: "\<And>x n. nn \<Longrightarrow> g = Some x \<Longrightarrow> vppg_NAT x = Some n \<Longrightarrow> nat_full n" "\<And>p. nn \<Longrightarrow> desired_vpp g v \<noteq> Inl (Panic p)"
      "\<And>name b. nn \<Longrightarrow> map_of (vset_bridges v) name = Some b \<Longrightarrow> rules_full b"
    and orphans: "\<And>d. desired_vpp g v = Inr d \<Longrightarrow> \<not> rm \<Longrightarrow> nd_orphans (vs_NDProxy prev) (vs_NDProxy d) = []
      \<and> nat_orphans (vs_Nat prev) (vs_Nat d) = [] \<and> dev_orphans (vs_Devices prev) (vs_Devices d) = []"
  shows "vok (setupVPP vmarshal g v prev)"
proof -
  have known: "mk \<or> known n" if "map_of (vset_ethernets v) n = Some a" for n a
    using map_of_key[OF that] by (intro names) (simp add: vset_names_def)
  have known2: "mk \<or> known n" if "map_of (vset_bonds v) n = Some a" for n a
    using map_of_key[OF that] by (intro names) (simp add: vset_names_def)
  have known3: "mk \<or> known n" if "map_of (vset_vlans v) n = Some a" for n a
    using map_of_key[OF that] by (intro names) (simp add: vset_names_def)
  have known4: "mk \<or> known n" if "map_of (vset_vxlans v) n = Some a" for n a
    using map_of_key[OF that] by (intro names) (simp add: vset_names_def)
  have br: "mk \<or> known (n @ ''-bvi'')" "mk \<or> known (NDPTapName n)" if "map_of (vset_bridges v) n = Some b" for n b
    using map_of_SomeD[OF that] by (intro names, force simp: vset_names_def)+
  show ?thesis
    unfolding setupVPP_def generateStartupConf_def Connect_def vpp_Save_def Let_def
    by (intro behaves_intros routine_ok) (use known known2 known3 known4 br full orphans in \<open>auto simp: vpp_routine_def\<close>)
qed

end

section \<open>Applying the same configuration again\<close>

definition lists_tags :: "string list \<Rightarrow> environment \<Rightarrow> bool" where
  "lists_tags names env \<longleftrightarrow> (\<forall>tr. list_all (shows_tag (env tr (Ev '''' (Vpp SwInterfaceDump)))) names)"

definition leaves_vpp_alone :: "event \<Rightarrow> bool" where
  "leaves_vpp_alone e = (case ev_req e of Vpp c \<Rightarrow> \<not> vpp_makes c \<and> \<not> vpp_removes c | _ \<Rightarrow> True)"

interpretation again: vpp_policy "lists_tags N" False leaves_vpp_alone "\<lambda>n. n \<in> set N" False False for N
  by unfold_locales
    (auto simp: leaves_vpp_alone_def vpp_routine_def lists_tags_def replies_def list_all_iff split: request.splits)

lemma no_orphans_same: "nd_orphans x x = []" "nat_orphans y y = []" "dev_orphans z z = []"
  by (auto simp: nd_orphans_def nat_orphans_def dev_orphans_def filter_empty_conv image_iff)

text \<open>(C33) Applying the VPP part of a configuration a second time, when the interface dump of
  VPP shows the tag of every device and the saved VPP state is the one the configuration asks for,
  makes no interface and removes nothing.\<close>

theorem setupVPP_again_quiet:
  assumes "lists_tags (vset_names v) env" "desired_vpp g v = Inr prev"
  shows "list_all leaves_vpp_alone (snd (run env (setupVPP vmarshal g v prev)))"
proof -
  have "behaves (lists_tags (vset_names v)) False leaves_vpp_alone (setupVPP vmarshal g v prev)"
    by (rule again.vok_setupVPP) (simp_all add: assms(2) no_orphans_same)
  from behaves_run[OF this assms(1)] show ?thesis by simp
qed

definition example_vset :: vppSet where
  "example_vset = \<lparr>vset_ethernets = [(''eth0'', zero_Ethernet)], vset_bridges = [], vset_bonds = [], vset_vlans = [],
     vset_vxlans = [], vset_tunnels = []\<rparr>"

definition tagged_env :: environment where
  "tagged_env tr e = (case ev_req e of
     Vpp SwInterfaceDump \<Rightarrow> RDump [\<lparr>vi_Index = 1, vi_Name = ''host-eth0'', vi_Tag = ''eth0''\<rparr>] None | _ \<Rightarrow> ROk)"

theorem setupVPP_again_quiet_witness:
  "lists_tags (vset_names example_vset) tagged_env \<and> (\<exists>prev. desired_vpp None example_vset = Inr prev
     \<and> list_all leaves_vpp_alone (snd (run tagged_env (setupVPP (\<lambda>_. ''{}'') None example_vset prev))))"
proof -
  have l: "lists_tags (vset_names example_vset) tagged_env"
    by (simp add: lists_tags_def vset_names_def example_vset_def tagged_env_def shows_tag_def)
  have "is_ok (desired_vpp None example_vset)" by code_simp
  then obtain prev where p: "desired_vpp None example_vset = Inr prev" by (cases "desired_vpp None example_vset") auto
  from setupVPP_again_quiet[OF l p] l p show ?thesis by blast
qed

section \<open>Reaping\<close>

lemma dev_orphans_set:
  "set (dev_orphans prev desired) = {(k, i) \<in> set prev. k \<notin> set (map fst desired) \<and> di_Type i \<in> set reap_order}"
  by (auto simp: dev_orphans_def)


text \<open>The key that identifies a NAT rule leaves out its prefix: when the NAT64 prefix of the
  configuration changes, the old prefix is not an orphan and stays in VPP.\<close>

theorem nat64_prefix_not_reaped:
  "nat_orphans [(nat_item ''nat64-prefix'')\<lparr>ni_Prefix := old\<rparr>] [(nat_item ''nat64-prefix'')\<lparr>ni_Prefix := new\<rparr>] = []"
  by (simp add: nat_orphans_def nat_Key_def nat_item_def)

section \<open>Names and identifiers\<close>

lemma hex8_length: "length (hex8 w) = 8"
  by (simp add: hex8_def)

text \<open>The bridge domain identifier derived from a name is between 1 and 16,000,000, the name of
  an NDP tap has 13 characters (it fits an interface name), and the applier, the state and the
  tap provisioning agree on the bridge domain of a bridge.\<close>

theorem derived_identifiers:
  "1 \<le> unat (AutoBdID name) \<and> unat (AutoBdID name) \<le> 16000000 \<and> length (NDPTapName name) = 13
   \<and> ndpTapBdID name b = bridge_bdID name b"
proof -
  have m: "unat (fnv32a name mod 16000000) < 16000000"
    by (simp add: unat_mod)
  then have "unat (AutoBdID name) = unat (fnv32a name mod 16000000) + 1"
    unfolding AutoBdID_def by (subst unat_add_lem[THEN iffD1]) simp_all
  then show ?thesis using m by (simp add: NDPTapName_def hex8_length ndpTapBdID_def bridge_bdID_def)
qed

section \<open>Splitting a namespace\<close>

definition splits :: "'c option gomap \<Rightarrow> 'c option gomap \<Rightarrow> 'c alist \<Rightarrow> bool" where
  "splits m k v \<longleftrightarrow> set (entries m) = set (entries k) \<union> (\<lambda>(n, d). (n, Some d)) ` set v
     \<and> set (entries k) \<inter> (\<lambda>(n, d). (n, Some d)) ` set v = {}"

lemma splits_left_taken: "splits m (left vpp rend g m) (taken vpp rend g m)"
proof -
  have "(\<lambda>(n, d). (n, Some d)) ` set (taken vpp rend g m) = set (filter (owned vpp rend g) (entries m))"
    by (force simp: taken_def owned_def split: option.splits)
  then show ?thesis unfolding splits_def by (auto simp: left_def)
qed

text \<open>Splitting a namespace sends every device of the six classes VPP can own to exactly one
  side, changed in nothing.\<close>

theorem splitVPPDevices_partition:
  "case splitVPPDevices ns g of (k, v) \<Rightarrow>
     splits (ns_Ethernets ns) (ns_Ethernets k) (vset_ethernets v) \<and> splits (ns_Bridges ns) (ns_Bridges k) (vset_bridges v)
   \<and> splits (ns_Bonds ns) (ns_Bonds k) (vset_bonds v) \<and> splits (ns_Vlans ns) (ns_Vlans k) (vset_vlans v)
   \<and> splits (ns_Vxlans ns) (ns_Vxlans k) (vset_vxlans v) \<and> splits (ns_Tunnels ns) (ns_Tunnels k) (vset_tunnels v)"
  by (simp add: splitVPPDevices_def splits_left_taken)

end
