(* ===== verification/Policy.thy ===== *)
theory Policy
  imports Apply VppSafe
begin

text \<open>
  What the configuration commands may do. The locale \<open>setup_policy\<close> is the contract between a
  predicate \<open>P\<close> on events and the code: routine requests on an allowed namespace
  satisfy \<open>P\<close>, and so do requests that create a link or a namespace, except in environments
  where everything is known to exist (\<open>ex\<close>). Inside it every configuration command is shown to
  keep to \<open>P\<close> and, if \<open>nn\<close>, not to panic on a configuration without null entries. It is
  interpreted in the theory \<open>ApplySafe\<close>.
\<close>

section \<open>Further rules for commands\<close>

lemma behaves_when_some [behaves_intros]:
  "(\<And>x. p = Some x \<Longrightarrow> behaves E nn P (k x)) \<Longrightarrow> behaves E nn P (when_some p k)"
  by (cases p) (simp_all add: when_some_def)

lemma behaves_each_key [behaves_intros]:
  "(\<And>n. n \<in> set (gkeys m) \<Longrightarrow> behaves E nn P (f n)) \<Longrightarrow> behaves E nn P (each_key m f)"
  unfolding each_key_def by (rule behaves_each) simp

lemma behaves_join_all: "(\<And>c. c \<in> set cs \<Longrightarrow> behaves E nn P c) \<Longrightarrow> behaves E nn P (join_all cs)"
  by (induction cs) (auto intro!: behaves_intros)

lemma behaves_try_value [behaves_intros]:
  assumes "\<And>k. (\<And>x. behaves E nn P (k x)) \<Longrightarrow> behaves E nn P (v k)" "\<And>x. behaves E nn P (body x)"
    "\<And>e. behaves E nn P (h e)"
  shows "behaves E nn P (try_value v body h)"
  unfolding behaves_def
proof (intro allI impI)
  fix w :: world assume E: "E (w_env w)"
  have "behaves E nn P (v (\<lambda>_. nop))" by (rule assms(1)) (rule behaves_nop)
  then have "behaves E nn P (attempt (v (\<lambda>_. nop)) nop h)" by (rule behaves_attempt[OF _ behaves_nop assms(3)])
  moreover have "behaves E nn P (v body)" by (rule assms(1)[OF assms(2)])
  ultimately have "behaves_at nn P w (attempt (v (\<lambda>_. nop)) nop h w)" "behaves_at nn P w (v body w)"
    using E by (auto intro: behaves_atD)
  moreover have "try_value v body h w = attempt (v (\<lambda>_. nop)) nop h w \<or> try_value v body h w = v body w"
    by (auto simp: try_value_def attempt_def split: prod.splits option.splits fault.splits)
  ultimately show "behaves_at nn P w (try_value v body h w)" by auto
qed

lemma behaves_lift_state [behaves_intros]:
  "(\<And>p. nn \<Longrightarrow> r \<noteq> Inl (Panic p)) \<Longrightarrow> (\<And>x. r = Inr x \<Longrightarrow> behaves E nn P (k x)) \<Longrightarrow> behaves E nn P (lift_state r k)"
  by (auto simp: lift_state_def intro: behaves_crash split: sum.splits fault.splits)

lemma behaves_opt_str [behaves_intros]:
  "(\<And>k'. (\<And>x. behaves E nn P (k' x)) \<Longrightarrow> behaves E nn P (lk k')) \<Longrightarrow> (\<And>x. behaves E nn P (k x))
    \<Longrightarrow> behaves E nn P (opt_str s lk k)"
  unfolding opt_str_def by (intro behaves_intros) simp_all

lemma behaves_lookups [behaves_intros]:
  "(\<And>x. behaves E nn P (k1 x)) \<Longrightarrow> behaves E nn P (bond_enum s v p1 k1)"
  "(\<And>x. behaves E nn P (k2 x)) \<Longrightarrow> behaves E nn P (opt_ip s v k2)"
  "(\<And>x. behaves E nn P (k3 x)) \<Longrightarrow> behaves E nn P (opt_enum s v p3 k3)"
  unfolding bond_enum_def opt_ip_def opt_enum_def by (intro behaves_intros; assumption)+

lemma rall_no_panic: "(\<And>x. x \<in> set xs \<Longrightarrow> f x \<noteq> Inl (Panic p)) \<Longrightarrow> rall f xs \<noteq> Inl (Panic p)"
  by (induction xs) (auto simp: rbind_def split: sum.splits)

lemma behaves_encap [behaves_intros]: "behaves E nn P (lift_result (ValidateRouteEncap e))"
  using rall_no_panic[of _ "\<lambda>s. if isIPv6 s then Inr () else Inl (Err (EncapBadSegment s))"]
  by (auto simp: lift_result_def ValidateRouteEncap_def intro: behaves_crash split: sum.splits fault.splits option.splits)

section \<open>Requests\<close>

text \<open>Requests that take a kernel object away, and requests that bring a link or a namespace
  into being.\<close>

definition destructive :: "request \<Rightarrow> bool" where
  "destructive r = (case r of NsDeleteNamed _ \<Rightarrow> True | LinkDel _ \<Rightarrow> True | AddrDel _ _ \<Rightarrow> True | RouteDel _ \<Rightarrow> True
     | RuleDel _ \<Rightarrow> True | NeighDel _ \<Rightarrow> True | _ \<Rightarrow> False)"

definition creates :: "request \<Rightarrow> bool" where
  "creates r = (case r of LinkAdd _ _ \<Rightarrow> True | NsNewNamed _ \<Rightarrow> True | _ \<Rightarrow> False)"

definition found :: "event \<Rightarrow> reply \<Rightarrow> bool" where
  "found e r = (case ev_req e of LinkByName _ \<Rightarrow> (case r of RLink _ \<Rightarrow> True | _ \<Rightarrow> False)
     | NsGetFromName _ \<Rightarrow> (case r of RFail _ \<Rightarrow> False | _ \<Rightarrow> True) | _ \<Rightarrow> True)"

lemmas request_defs = destructive_def creates_def

section \<open>Configurations without null entries\<close>

definition full :: "('c \<Rightarrow> bool) \<Rightarrow> 'c option gomap \<Rightarrow> bool" where
  "full f m = list_all (\<lambda>kv. case snd kv of None \<Rightarrow> False | Some c \<Rightarrow> f c) (entries m)"

abbreviation no_nil :: "'a option list \<Rightarrow> bool" where
  "no_nil ps \<equiv> None \<notin> set ps"

definition eth_full :: "Ethernet \<Rightarrow> bool" where
  "eth_full c \<longleftrightarrow> no_nil (eth_Routes c) \<and> no_nil (eth_RoutingPolicy c)"

definition ns_full :: "Namespace \<Rightarrow> bool" where
  "ns_full c \<longleftrightarrow>
     (case ns_Loopback c of None \<Rightarrow> True | Some e \<Rightarrow> eth_full e)
   \<and> full eth_full (ns_Ethernets c)
   \<and> full (\<lambda>w. no_nil (wifi_Routes w) \<and> full (\<lambda>_. True) (wifi_AccessPoints w)) (ns_Wifis c)
   \<and> full eth_full (ns_DummyDevices c)
   \<and> full (\<lambda>v. no_nil (virt_Routes v)) (ns_VirtualEthernets c)
   \<and> full (\<lambda>v. no_nil (macvlan_Routes v)) (ns_MacvlanDevices c)
   \<and> full (\<lambda>v. no_nil (macvlan_Routes v)) (ns_MacvtapDevices c)
   \<and> full (\<lambda>v. no_nil (ipvlan_Routes v)) (ns_IpvlanDevices c)
   \<and> full (\<lambda>v. no_nil (vlan_Routes v)) (ns_Vlans c)
   \<and> full (\<lambda>v. no_nil (vxlan_Routes v) \<and> no_nil (vxlan_FDB v) \<and> no_nil (vxlan_Neighbors v)) (ns_Vxlans c)
   \<and> full (\<lambda>v. no_nil (bond_Routes v)) (ns_Bonds c)
   \<and> full (\<lambda>v. no_nil (br_Routes v) \<and> no_nil (br_FDB v) \<and> no_nil (br_Neighbors v)) (ns_Bridges c)
   \<and> full (\<lambda>v. no_nil (vrf_Routes v) \<and> no_nil (vrf_RoutingPolicy v)) (ns_Vrfs c)
   \<and> full (\<lambda>v. no_nil (tun_Routes v) \<and> no_nil (tun_Peers v)) (ns_Tunnels c)
   \<and> full (\<lambda>v. no_nil (tuntap_Routes v)) (ns_TunDevices c)
   \<and> full (\<lambda>v. no_nil (tuntap_Routes v)) (ns_TapDevices c)
   \<and> full (\<lambda>v. no_nil (veth_Routes v) \<and> (case veth_Peer v of None \<Rightarrow> True | Some p \<Rightarrow> no_nil (peer_Routes p))) (ns_VethDevices c)
   \<and> (case ns_SRv6 c of None \<Rightarrow> True | Some s \<Rightarrow> no_nil (srv6_LocalSIDs s))"

lemma full_entry: "full f m \<Longrightarrow> n \<in> set (gkeys m) \<Longrightarrow> \<exists>c. entry m n = Some c \<and> f c"
  by (force simp: full_def entry_def gget_def gkeys_def list_all_iff split: option.splits dest: map_of_SomeD
      simp: map_of_eq_None_iff)

lemma full_gget: "full f m \<Longrightarrow> gget m n = Some q \<Longrightarrow> \<exists>c. q = Some c \<and> f c"
  by (force simp: full_def gget_def list_all_iff split: option.splits dest: map_of_SomeD)

lemma behaves_entry:
  assumes "nn \<Longrightarrow> full f m" "n \<in> set (gkeys m)" "\<And>c. entry m n = Some c \<Longrightarrow> (nn \<Longrightarrow> f c) \<Longrightarrow> behaves E nn P (k c)"
  shows "behaves E nn P (with_ptr (entry m n) k)"
proof (intro behaves_intros)
  show "entry m n \<noteq> None" if nn using full_entry[OF assms(1)[OF that] assms(2)] by auto
  show "behaves E nn P (k c)" if "entry m n = Some c" for c
    using that full_entry[OF assms(1) assms(2)] by (intro assms(3)) auto
qed

lemma None_neq_iff: "None \<noteq> p \<longleftrightarrow> (\<exists>y. p = Some y)"
  by (cases p) auto

lemma no_nil_Some: "x \<in> set ps \<Longrightarrow> no_nil ps \<Longrightarrow> \<exists>y. x = Some y"
  by (cases x) auto

section \<open>The contract\<close>

locale setup_policy =
  fixes E :: "environment \<Rightarrow> bool" and nn :: bool and ex :: bool and P :: "event \<Rightarrow> bool" and allow :: "string \<Rightarrow> bool"
  assumes default_allowed [simp]: "allow ''''"
    and request_ok [behaves_intros]: "allow ns \<Longrightarrow> \<not> destructive r \<Longrightarrow> (creates r \<Longrightarrow> \<not> ex) \<Longrightarrow> P (Ev ns r)"
    and all_found: "ex \<Longrightarrow> replies E e rep \<Longrightarrow> found e rep"
begin

abbreviation ok :: "cmd \<Rightarrow> bool" where
  "ok \<equiv> behaves E nn P"

lemma ok_links [behaves_intros]:
  "allow m \<Longrightarrow> (\<And>l. ok (k1 l)) \<Longrightarrow> ok (GetLink m name k1)"
  "allow m \<Longrightarrow> (\<And>l. ok (k2 l)) \<Longrightarrow> ok (TryLink m name k2)"
  "(\<And>m. m = '''' \<Longrightarrow> ok (k3 m)) \<Longrightarrow> ok (New k3)"
  "allow ns \<Longrightarrow> ok (k4 ns) \<Longrightarrow> ok (NewWithNetns ns k4)"
  "(\<And>x. ok (k5 x)) \<Longrightarrow> ok (linkDriver name k5)"
  unfolding GetLink_def TryLink_def New_def NewWithNetns_def linkDriver_def
  by (intro behaves_intros; simp add: request_defs)+

lemma ok_LinkExists [behaves_intros]:
  "allow m \<Longrightarrow> (\<And>b. (ex \<Longrightarrow> b) \<Longrightarrow> ok (k b)) \<Longrightarrow> ok (LinkExists m name k)"
  unfolding LinkExists_def using all_found[of "Ev m (LinkByName name)"]
  by (intro behaves_intros) (auto simp: request_defs found_def)

lemma ok_NetnsExists [behaves_intros]: "(\<And>b. (ex \<Longrightarrow> b) \<Longrightarrow> ok (k b)) \<Longrightarrow> ok (NetnsExists name k)"
  unfolding NetnsExists_def using all_found[of "Ev '''' (NsGetFromName name)"]
  by (intro behaves_intros) (auto simp: request_defs found_def split: reply.splits)

lemma ok_link_state [behaves_intros]:
  assumes "allow m"
  shows "ok (SetLinkUp m n)" "ok (SetLinkDown m n)" "ok (SetLinkMTU m n mtu)" "ok (SetLinkMacAddress m n mac)"
    "ok (SetLinkNetns m n ns)" "ok (RenameLink m n n')" "ok (SetMaster m n n')" "ok (SetBridgeMaster m n n')"
    "ok (SetVrfMaster m n n')" "ok (SetBondSlave m n n')" "ok (SetEswitchMode m n md)"
  using assms unfolding SetLinkUp_def SetLinkDown_def SetLinkMTU_def SetLinkMacAddress_def SetLinkNetns_def RenameLink_def
    SetMaster_def SetBridgeMaster_def SetVrfMaster_def SetBondSlave_def SetEswitchMode_def
  by (intro behaves_intros; simp add: request_defs)+

lemma ok_match_links: "(\<And>x. ok (k x)) \<Longrightarrow> ok (match_links c ls acc k)"
  by (induction ls arbitrary: acc) (auto intro!: behaves_intros)

lemma ok_FindMatchingLink [behaves_intros]: "allow m \<Longrightarrow> (\<And>x. ok (k x)) \<Longrightarrow> ok (FindMatchingLink m c k)"
  unfolding FindMatchingLink_def by (intro behaves_intros ok_match_links) (simp_all add: request_defs)

lemma ok_bond_table [behaves_intros]:
  "(\<And>s. \<not> destructive (lk s) \<and> \<not> creates (lk s)) \<Longrightarrow> (\<And>x. ok (k x)) \<Longrightarrow> ok (bond_table s v lk k)"
  unfolding bond_table_def by (intro behaves_intros) auto

lemma ok_create [behaves_intros]:
  assumes "\<not> ex" "allow m"
  shows "ok (AddDummyDevice m n)" "ok (AddVethPair m n p)" "ok (AddMacvlanDevice m n p md)" "ok (AddMacvtapDevice m n p md)"
    "ok (AddBridge m n)" "ok (AddBond m n bo)" "ok (AddVlan m n p i)" "ok (AddVxlan m n i vo)" "ok (AddVrf m n i)"
    "ok (AddTunnel m n to)" "ok (AddTap m n)" "ok (AddTun m n)" "ok (AddIpvlan m n p md)"
  using assms unfolding AddDummyDevice_def AddVethPair_def AddMacvlanDevice_def AddMacvtapDevice_def AddBridge_def
    AddBond_def AddVlan_def AddVxlan_def AddVrf_def AddTunnel_def AddTap_def AddTun_def AddIpvlan_def Let_def
  by (intro behaves_intros; simp add: request_defs)+

lemma ok_CreateNetns [behaves_intros]: "\<not> ex \<Longrightarrow> ok (CreateNetns n)"
  unfolding CreateNetns_def by (intro behaves_intros) (simp_all add: request_defs)

lemma ok_RunInNetns [behaves_intros]: "ok body \<Longrightarrow> ok (RunInNetns ns body)"
  unfolding RunInNetns_def by (intro behaves_intros) (simp_all add: request_defs)

lemma ok_neighbours [behaves_intros]:
  assumes "allow m"
  shows "ok (AddFDBEntry m f)" "ok (AddNeighEntry m e)" "ok (AddProxyNDP m i s)"
  using assms unfolding AddFDBEntry_def AddNeighEntry_def AddProxyNDP_def proxyNDPNeigh_def
  by (intro behaves_intros; simp add: request_defs)+

lemma ok_files [behaves_intros]:
  "ok (writeSysfs p v)" "ok (writeSysctl i k v)" "ok EnableVRFStrictMode" "ok (SetWakeOnLanMagic n)"
  "ok (EthtoolChange n ws)" "ok (ApplyDNS i as ss)" "ok (SetIPv6Token i t)"
  unfolding writeSysfs_def writeSysctl_def EnableVRFStrictMode_def SetWakeOnLanMagic_def EthtoolChange_def
    ApplyDNS_def applyDNSResolvectl_def writeResolvConf_def SetIPv6Token_def
  by (intro behaves_intros; simp add: request_defs)+

lemma ok_sysfs [behaves_intros]:
  "ok (SetBridgeVlanFiltering n b)" "ok (SetLinkNeighSuppress n b)" "ok (SetLinkLearning n b)"
  "ok (SetBridgePortHairpin n b)" "ok (SetBridgePortPathCost n i)" "ok (SetBridgePortPriority n i)"
  unfolding SetBridgeVlanFiltering_def SetLinkNeighSuppress_def SetLinkLearning_def SetBridgePortHairpin_def
    SetBridgePortPathCost_def SetBridgePortPriority_def writeSysfsBool_def writeSysfsInt_def
  by (intro behaves_intros)+

lemma ok_SetBridgeParameters [behaves_intros]: "ok (SetBridgeParameters n bo)"
  unfolding SetBridgeParameters_def Let_def writeSysfsBool_def writeSysfsInt_def
  by (rule behaves_join_all) (auto intro!: behaves_intros)

lemma ok_sysctls [behaves_intros]:
  "ok (EnableSLAAC i)" "ok (DisableSLAAC i)" "ok (SetIPv6Privacy i v)" "ok (SetIPv6MTU i v)"
  "ok (SetLinkLocalIPv6 i b)" "ok (EnableProxyNDP i)" "ok (EnableSeg6 i)"
  unfolding EnableSLAAC_def DisableSLAAC_def SetIPv6Privacy_def SetIPv6MTU_def SetLinkLocalIPv6_def
    EnableProxyNDP_def EnableSeg6_def by (intro behaves_intros)+

lemma ok_SetIPv6AddrGenMode [behaves_intros]: "ok (SetIPv6AddrGenMode i md)"
  unfolding SetIPv6AddrGenMode_def deriveStableSecret_def Let_def by (intro behaves_intros) (simp_all add: request_defs)

lemma ok_addresses [behaves_intros]:
  "allow m \<Longrightarrow> (\<And>x. ok (k1 x)) \<Longrightarrow> ok (with_addr m s k1)"
  "allow m \<Longrightarrow> (\<And>x. ok (k2 x)) \<Longrightarrow> ok (HasAddress m n c k2)"
  "allow m \<Longrightarrow> (\<And>x. ok (k3 x)) \<Longrightarrow> ok (opt_index m d k3)"
  "allow m \<Longrightarrow> (\<And>x. ok (k4 x)) \<Longrightarrow> ok (opt_link m d k4)"
  "allow m \<Longrightarrow> (\<And>x. ok (k5 x)) \<Longrightarrow> ok (parseKey m w s k5)"
  "allow m \<Longrightarrow> (\<And>x. ok (k6 x)) \<Longrightarrow> ok (resolve_udp m s k6)"
  unfolding with_addr_def HasAddress_def opt_index_def opt_link_def parseKey_def resolve_udp_def
  by (intro behaves_intros; simp add: request_defs)+

lemma ok_routes [behaves_intros]:
  assumes "allow m"
  shows "ok (AddAddressOpts m n c l t)" "ok (AddAddress m n c)" "ok (AddRouteOpts m ro)" "ok (AddRoute m d g i j tb)"
    "ok (AddRule m s d tb pr mk)" "ok (AddLocalSID m n so)" "ok (NewWireGuardManager m)"
  using assms unfolding AddAddressOpts_def AddAddress_def AddRouteOpts_def AddRoute_def AddRule_def AddLocalSID_def
    NewWireGuardManager_def Let_def
  by (intro behaves_intros; simp add: request_defs)+

lemma ok_buildPeerConfig [behaves_intros]: "allow m \<Longrightarrow> (\<And>x. ok (k x)) \<Longrightarrow> ok (buildPeerConfig m p k)"
  unfolding buildPeerConfig_def by (intro behaves_intros) simp_all

lemma ok_build_peers: "allow m \<Longrightarrow> (\<And>x. ok (k x)) \<Longrightarrow> ok (build_peers m ps acc k)"
  by (induction ps arbitrary: acc) (auto intro!: behaves_intros)

lemma ok_ConfigureDevice [behaves_intros]: "allow m \<Longrightarrow> ok (ConfigureDevice m n c)"
  unfolding ConfigureDevice_def by (intro behaves_intros ok_build_peers) (simp_all add: request_defs)

end

section \<open>Devices\<close>

lemma wifi_conf_no_panic:
  assumes "full (\<lambda>_. True) (wifi_AccessPoints w)"
  shows "buildWifiSupplicantConf w \<noteq> Inl (Panic p)"
proof -
  have "rfold (\<lambda>b ssid. rbind (deref (case gget m ssid of Some p \<Rightarrow> p | None \<Rightarrow> None)) (\<lambda>ap. Inr (b @ writeAPNetwork ssid ap))) b ks
      \<noteq> (Inl (Panic p) :: (nl_error, string) result)"
    if "full (\<lambda>_. True) m" "set ks \<subseteq> set (gkeys m)" for m b ks
    using that
  proof (induction ks arbitrary: b)
    case (Cons k ks)
    from full_entry[OF Cons.prems(1), of k] Cons.prems(2) obtain c where "entry m k = Some c" by auto
    then have "(case gget m k of Some p \<Rightarrow> p | None \<Rightarrow> None) = Some c" by (simp add: entry_def)
    then show ?case using Cons by simp
  qed simp
  then show ?thesis using assms unfolding buildWifiSupplicantConf_def by simp
qed

context setup_policy
begin

lemma ok_supplicant [behaves_intros]:
  "ok (stopSupplicant i)" "ok (runSupplicant i d c)" "ok (write_and_run n d c)" "ok (setup8021x n a)"
  unfolding stopSupplicant_def runSupplicant_def write_and_run_def setup8021x_def Let_def
  by (intro behaves_intros; simp add: request_defs)+

lemma ok_setupWifiSupplicant [behaves_intros]:
  "(nn \<Longrightarrow> full (\<lambda>_. True) (wifi_AccessPoints w)) \<Longrightarrow> ok (setupWifiSupplicant n w)"
  unfolding setupWifiSupplicant_def using wifi_conf_no_panic[of w]
  by (auto intro!: behaves_intros split: sum.splits fault.splits)

lemma ok_entries [behaves_intros]:
  "allow m \<Longrightarrow> (nn \<Longrightarrow> q \<noteq> None) \<Longrightarrow> ok (addRoutingPolicy m q)"
  "allow m \<Longrightarrow> (nn \<Longrightarrow> r \<noteq> None) \<Longrightarrow> ok (addRoute m d r)"
  "allow m \<Longrightarrow> (nn \<Longrightarrow> f \<noteq> None) \<Longrightarrow> ok (add_fdb m n b f)"
  "allow m \<Longrightarrow> (nn \<Longrightarrow> g \<noteq> None) \<Longrightarrow> ok (add_neigh m n g)"
  unfolding addRoutingPolicy_def addRoute_def add_fdb_def add_neigh_def by (intro behaves_intros; assumption?)+

lemma ok_device_parts [behaves_intros]:
  "ok (applyNameservers m n ns)"
  "allow m \<Longrightarrow> ok (applyNDProxy m n d)"
  "allow m \<Longrightarrow> ok (add_addresses m n as)"
  "allow m \<Longrightarrow> (nn \<Longrightarrow> no_nil rs) \<Longrightarrow> ok (add_routes m n rs)"
  unfolding applyNameservers_def applyNDProxy_def add_addresses_def add_routes_def
  by (intro behaves_intros; auto intro: no_nil_Some)+

lemma ok_setupDevice [behaves_intros]: "allow m \<Longrightarrow> (nn \<Longrightarrow> no_nil rs) \<Longrightarrow> ok (setupDevice m n as rs mtu mac)"
  unfolding setupDevice_def by (intro behaves_intros) simp_all

lemma ok_setupDeviceWithDHCP [behaves_intros]: "allow m \<Longrightarrow> (nn \<Longrightarrow> eth_full c) \<Longrightarrow> ok (setupDeviceWithDHCP m n c)"
  unfolding setupDeviceWithDHCP_def Let_def by (intro behaves_intros) (auto simp: request_defs eth_full_def intro: no_nil_Some)

lemma ok_hardware [behaves_intros]:
  "ok (applyOffload m n c)" "ok (applyInfinibandMode n md)" "ok (applyEthernetExtras m n c)"
  "ok (setNumVFs n i)" "ok (setEswitchMode n md)" "ok (applySRIOV n c)"
  unfolding applyOffload_def applyInfinibandMode_def applyEthernetExtras_def setNumVFs_def setEswitchMode_def
    applySRIOV_def Let_def
  by (intro behaves_intros; simp add: request_defs)+

lemma ok_create_missing [behaves_intros]: "allow m \<Longrightarrow> (\<not> ex \<Longrightarrow> ok c) \<Longrightarrow> ok (create_missing m n c)"
  unfolding create_missing_def by (intro behaves_intros) auto

lemma ok_create_and_move [behaves_intros]:
  "allow m \<Longrightarrow> (\<And>d. allow d \<Longrightarrow> ok (c d)) \<Longrightarrow> ok (create_and_move m ns n c)"
  unfolding create_and_move_def by (intro behaves_intros) simp_all

section \<open>Device maps\<close>

lemma ok_setupLoopback [behaves_intros]:
  "allow m \<Longrightarrow> (\<And>c. nn \<Longrightarrow> cfg = Some c \<Longrightarrow> eth_full c) \<Longrightarrow> ok (setupLoopback m cfg)"
  unfolding setupLoopback_def by (intro behaves_intros) (simp_all add: eth_full_def)

lemma ok_resolveEthernetName [behaves_intros]:
  "allow m \<Longrightarrow> (\<And>x. ok (k x)) \<Longrightarrow> ok (resolveEthernetName m key c k)"
  unfolding resolveEthernetName_def Let_def by (intro behaves_intros)

lemma ok_configure_ethernet [behaves_intros]: "allow m \<Longrightarrow> (nn \<Longrightarrow> eth_full c) \<Longrightarrow> ok (configure_ethernet m ns n c)"
  unfolding configure_ethernet_def move_into_netns_def by (intro behaves_intros) auto

lemma ok_setupEthernets [behaves_intros]: "allow m \<Longrightarrow> (nn \<Longrightarrow> full eth_full ds) \<Longrightarrow> ok (setupEthernets m ns ds)"
  unfolding setupEthernets_def by (intro behaves_entry[of nn eth_full] behaves_intros) auto

lemma ok_setupDummyDevices [behaves_intros]: "allow m \<Longrightarrow> (nn \<Longrightarrow> full eth_full ds) \<Longrightarrow> ok (setupDummyDevices m ns ds)"
  unfolding setupDummyDevices_def by (intro behaves_entry[of nn eth_full] behaves_intros) (auto simp: eth_full_def)

lemma ok_setupWifis [behaves_intros]:
  "allow m \<Longrightarrow> (nn \<Longrightarrow> full (\<lambda>w. no_nil (wifi_Routes w) \<and> full (\<lambda>_. True) (wifi_AccessPoints w)) ds) \<Longrightarrow> ok (setupWifis m ns ds)"
  unfolding setupWifis_def
  by (intro behaves_entry[of nn "\<lambda>w. no_nil (wifi_Routes w) \<and> full (\<lambda>_. True) (wifi_AccessPoints w)"] behaves_intros)
    (simp_all add: request_defs eth_full_def wifiToEthernet_def zero_Ethernet_def)

lemma ok_setupMacvlanDevices [behaves_intros]:
  "allow m \<Longrightarrow> (nn \<Longrightarrow> full (\<lambda>v. no_nil (macvlan_Routes v)) ds) \<Longrightarrow> ok (setupMacvlanDevices m ns ds b)"
  unfolding setupMacvlanDevices_def by (intro behaves_entry[of nn "\<lambda>v. no_nil (macvlan_Routes v)"] behaves_intros) simp_all

lemma ok_setupIpvlanDevices [behaves_intros]:
  "allow m \<Longrightarrow> (nn \<Longrightarrow> full (\<lambda>v. no_nil (ipvlan_Routes v)) ds) \<Longrightarrow> ok (setupIpvlanDevices m ns ds)"
  unfolding setupIpvlanDevices_def by (intro behaves_entry[of nn "\<lambda>v. no_nil (ipvlan_Routes v)"] behaves_intros) simp_all

lemma ok_setupVlans [behaves_intros]:
  "allow m \<Longrightarrow> (nn \<Longrightarrow> full (\<lambda>v. no_nil (vlan_Routes v)) ds) \<Longrightarrow> ok (setupVlans m ns ds)"
  unfolding setupVlans_def by (intro behaves_entry[of nn "\<lambda>v. no_nil (vlan_Routes v)"] behaves_intros) simp_all

lemma ok_setupVxlans [behaves_intros]:
  "allow m \<Longrightarrow> (nn \<Longrightarrow> full (\<lambda>v. no_nil (vxlan_Routes v) \<and> no_nil (vxlan_FDB v) \<and> no_nil (vxlan_Neighbors v)) ds)
    \<Longrightarrow> ok (setupVxlans m ns ds)"
  unfolding setupVxlans_def setupOneVxlan_def
  by (intro behaves_entry[of nn "\<lambda>v. no_nil (vxlan_Routes v) \<and> no_nil (vxlan_FDB v) \<and> no_nil (vxlan_Neighbors v)"] behaves_intros)
    (auto intro: no_nil_Some)

lemma ok_applyVxlanNeighSuppress [behaves_intros]: "(nn \<Longrightarrow> full f ds) \<Longrightarrow> ok (applyVxlanNeighSuppress ds)"
  unfolding applyVxlanNeighSuppress_def by (intro behaves_entry[of nn f] behaves_intros) simp_all

lemma ok_applyBridgePortAttrs [behaves_intros]: "ok (applyBridgePortAttrs ds)"
  unfolding applyBridgePortAttrs_def by (intro behaves_intros)

lemma ok_setupBonds [behaves_intros]:
  "allow m \<Longrightarrow> (nn \<Longrightarrow> full (\<lambda>v. no_nil (bond_Routes v)) ds) \<Longrightarrow> ok (setupBonds m ns ds)"
  unfolding setupBonds_def by (intro behaves_entry[of nn "\<lambda>v. no_nil (bond_Routes v)"] behaves_intros) auto

lemma ok_setupBridges [behaves_intros]:
  "allow m \<Longrightarrow> (nn \<Longrightarrow> full (\<lambda>v. no_nil (br_Routes v) \<and> no_nil (br_FDB v) \<and> no_nil (br_Neighbors v)) ds)
    \<Longrightarrow> ok (setupBridges m ns ds)"
  unfolding setupBridges_def
  by (intro behaves_entry[of nn "\<lambda>v. no_nil (br_Routes v) \<and> no_nil (br_FDB v) \<and> no_nil (br_Neighbors v)"] behaves_intros)
    (auto intro: no_nil_Some)

lemma ok_setupVrfs [behaves_intros]:
  "allow m \<Longrightarrow> (nn \<Longrightarrow> full (\<lambda>v. no_nil (vrf_Routes v) \<and> no_nil (vrf_RoutingPolicy v)) ds) \<Longrightarrow> ok (setupVrfs m ns ds)"
  unfolding setupVrfs_def
  by (intro behaves_entry[of nn "\<lambda>v. no_nil (vrf_Routes v) \<and> no_nil (vrf_RoutingPolicy v)"] behaves_intros)
    (auto intro: no_nil_Some)

lemma ok_virtual_ethernets:
  "allow m \<Longrightarrow> (nn \<Longrightarrow> full (\<lambda>v. no_nil (virt_Routes v)) ds) \<Longrightarrow> set names \<subseteq> set (gkeys ds)
    \<Longrightarrow> ok (virtual_ethernets m ds handled names)"
proof (induction names arbitrary: handled)
  case (Cons n names)
  have peer: "q \<noteq> None" "\<And>c. q = Some c \<Longrightarrow> no_nil (virt_Routes c)" if nn "gget ds peer = Some q" for q peer
    using full_gget[OF Cons.prems(2)[OF that(1)] that(2)] by auto
  show ?case
    unfolding virtual_ethernets.simps using Cons
    by (intro behaves_entry[of nn "\<lambda>v. no_nil (virt_Routes v)"] behaves_intros) (auto dest: peer)
qed simp

lemma ok_setupVirtualEthernets [behaves_intros]:
  "allow m \<Longrightarrow> (nn \<Longrightarrow> full (\<lambda>v. no_nil (virt_Routes v)) ds) \<Longrightarrow> ok (setupVirtualEthernets m ns ds)"
  unfolding setupVirtualEthernets_def by (rule ok_virtual_ethernets) simp_all

lemma ok_create_veth [behaves_intros]: "\<not> ex \<Longrightarrow> ok (create_veth ns n p)"
  unfolding create_veth_def by (intro behaves_intros) simp_all

abbreviation veth_full :: "VethDevice \<Rightarrow> bool" where
  "veth_full v \<equiv> no_nil (veth_Routes v) \<and> (case veth_Peer v of None \<Rightarrow> True | Some p \<Rightarrow> no_nil (peer_Routes p))"

lemma ok_setupVethDevices:
  assumes "allow m" "nn \<Longrightarrow> full veth_full ds"
    "\<And>n c p. entry ds n = Some c \<Longrightarrow> veth_Peer c = Some p \<Longrightarrow> allow (peer_Netns p)"
  shows "ok (setupVethDevices m ns ds)"
  unfolding setupVethDevices_def setup_veth_peer_def using assms
  by (intro behaves_entry[of nn veth_full] behaves_intros) simp_all

lemma ok_wg_peers_of: "(nn \<Longrightarrow> no_nil ps) \<Longrightarrow> (\<And>x. ok (k x)) \<Longrightarrow> ok (wg_peers_of ps acc k)"
  by (induction ps arbitrary: acc) (auto simp: None_neq_iff intro!: behaves_intros)

lemma ok_setupTunnels [behaves_intros]:
  "allow m \<Longrightarrow> allow ns \<Longrightarrow> (nn \<Longrightarrow> full (\<lambda>v. no_nil (tun_Routes v) \<and> no_nil (tun_Peers v)) ds) \<Longrightarrow> ok (setupTunnels m ns ds)"
  unfolding setupTunnels_def configureTunnelWireguard_def Let_def
  by (intro behaves_entry[of nn "\<lambda>v. no_nil (tun_Routes v) \<and> no_nil (tun_Peers v)"] behaves_intros ok_wg_peers_of) simp_all

lemma ok_setupTunTapDevices [behaves_intros]:
  "allow m \<Longrightarrow> (nn \<Longrightarrow> full (\<lambda>v. no_nil (tuntap_Routes v)) ds) \<Longrightarrow> ok (setupTunTapDevices m ns ds b)"
  unfolding setupTunTapDevices_def by (intro behaves_entry[of nn "\<lambda>v. no_nil (tuntap_Routes v)"] behaves_intros) simp_all

lemma ok_need_strict: "(nn \<Longrightarrow> no_nil ps) \<Longrightarrow> (\<And>b. ok (k b)) \<Longrightarrow> ok (need_strict ps k)"
  by (induction ps) (auto simp: None_neq_iff intro!: behaves_intros)

lemma ok_add_sids: "allow m \<Longrightarrow> (nn \<Longrightarrow> no_nil ps) \<Longrightarrow> ok (add_sids m d b ps)"
  by (induction ps arbitrary: b) (auto simp: Let_def ensureSRv6Dummy_def None_neq_iff intro!: behaves_intros)

lemma ok_setupSRv6 [behaves_intros]:
  "allow m \<Longrightarrow> (\<And>c. nn \<Longrightarrow> cfg = Some c \<Longrightarrow> no_nil (srv6_LocalSIDs c)) \<Longrightarrow> ok (setupSRv6 m ns cfg)"
  unfolding setupSRv6_def by (intro behaves_intros ok_need_strict ok_add_sids) simp_all

lemma ok_setup_all:
  assumes "allow m" "allow ns" "nn \<Longrightarrow> ns_full c"
    "\<And>n v p. entry (ns_VethDevices c) n = Some v \<Longrightarrow> veth_Peer v = Some p \<Longrightarrow> allow (peer_Netns p)"
  shows "ok (setup_all m ns c)"
  unfolding setup_all_def runPostScript_def using assms
  by (intro behaves_intros ok_setupVethDevices ok_applyVxlanNeighSuppress[where f = "\<lambda>v. no_nil (vxlan_Routes v)
      \<and> no_nil (vxlan_FDB v) \<and> no_nil (vxlan_Neighbors v)"]) (simp_all add: ns_full_def request_defs)

lemma ok_applyNamespaceConfig:
  assumes "allow ns" "\<And>c. nn \<Longrightarrow> cfg = Some c \<Longrightarrow> ns_full c"
    "\<And>c n v p. cfg = Some c \<Longrightarrow> entry (ns_VethDevices c) n = Some v \<Longrightarrow> veth_Peer v = Some p \<Longrightarrow> allow (peer_Netns p)"
  shows "ok (applyNamespaceConfig ns cfg)"
proof -
  have "ok (setup_all m ns c)" if "cfg = Some c" "allow m" for c m
    using that assms by (intro ok_setup_all) auto
  then show ?thesis
    unfolding applyNamespaceConfig_def using assms(1) by (auto intro!: behaves_intros)
qed

end

text \<open>The VPP side makes no request on the kernel beyond routine ones, so the contract of the
  configuration commands gives that of the applier.\<close>

sublocale setup_policy \<subseteq> vpp: vpp_policy E nn P "\<lambda>_. False" True True
  by unfold_locales (auto simp: request_defs vpp_routine_def intro!: request_ok split: request.splits)

context setup_policy
begin

lemma ok_setupVPP [behaves_intros]: "\<not> nn \<Longrightarrow> ok (setupVPP vmarshal g v prev)"
  by (rule vpp.vok_setupVPP) simp_all

lemma ok_apply_phases:
  assumes "\<And>ns. allow ns"
  shows "ok (create_netns cfg)" "\<not> nn \<Longrightarrow> ok (apply_default vmarshal vprev cfg)" "\<not> nn \<Longrightarrow> ok (apply_netns cfg)"
    "ok (warn (save_state marshal now s))"
  unfolding create_netns_def apply_default_def apply_netns_def save_state_def
  by (intro behaves_intros ok_applyNamespaceConfig; auto simp: assms request_defs)+

end

end
