(* ===== verification/Removals.thy ===== *)
theory Removals
  imports Apply
begin

text \<open>
  What the removing half of an apply and the rollback of a trial delete. The kernel is only
  assumed to answer a lookup by name with a link of that name; failing requests, vanished links and
  namespaces are all allowed.
\<close>

section \<open>Lookups and deletions\<close>

definition honest :: "environment \<Rightarrow> bool" where
  "honest env \<longleftrightarrow> (\<forall>tr ns n l. env tr (Ev ns (LinkByName n)) = RLink l \<longrightarrow> l_Name l = n)"

lemma honest_link: "replies honest (Ev m (LinkByName n)) r \<Longrightarrow> r = RLink l \<Longrightarrow> l_Name l = n"
  by (auto simp: replies_def honest_def)

definition read_only :: "request \<Rightarrow> bool" where
  "read_only r = (case r of NewHandle \<Rightarrow> True | NsGetFromName _ \<Rightarrow> True | LinkByName _ \<Rightarrow> True | ParseAddr _ \<Rightarrow> True | _ \<Rightarrow> False)"

text \<open>The contract of the removing commands: queries satisfy the predicate; for each kind of
  deletion the predicate has to hold on the namespace and the link at hand.\<close>

locale removal_policy =
  fixes P :: "event \<Rightarrow> bool"
  assumes read_ok: "read_only r \<Longrightarrow> P (Ev ns r)"
begin

abbreviation ok :: "cmd \<Rightarrow> bool" where
  "ok \<equiv> behaves honest True P"

lemma ok_GetLink [behaves_intros]: "(\<And>l. l_Name l = n \<Longrightarrow> ok (k l)) \<Longrightarrow> ok (GetLink m n k)"
  unfolding GetLink_def by (intro behaves_intros) (auto simp: read_ok read_only_def dest: honest_link)

lemma ok_queries [behaves_intros]:
  "(\<And>b. ok (k2 b)) \<Longrightarrow> ok (LinkExists m n k2)"
  "(\<And>b. ok (k3 b)) \<Longrightarrow> ok (NetnsExists ns k3)"
  "(\<And>a. ok (k4 a)) \<Longrightarrow> ok (with_addr m s k4)"
  "ok (k5 '''') \<Longrightarrow> ok (New k5)"
  "ok (k6 ns) \<Longrightarrow> ok (NewWithNetns ns k6)"
  "(\<And>i. ok (k7 i)) \<Longrightarrow> ok (opt_index m d k7)"
  unfolding GetLink_def LinkExists_def NetnsExists_def with_addr_def New_def NewWithNetns_def opt_index_def
  by (intro behaves_intros; simp add: read_ok read_only_def)+

lemma ok_with_ns_mgr [behaves_intros]: "(\<And>m. m = ns \<Longrightarrow> ok (k m)) \<Longrightarrow> ok (with_ns_mgr ns k)"
  unfolding with_ns_mgr_def by (intro behaves_intros) simp_all

lemma ok_deletions [behaves_intros]:
  "(\<And>l a. l_Name l = n \<Longrightarrow> P (Ev m (AddrDel l a))) \<Longrightarrow> ok (DeleteAddress m n c)"
  "(\<And>r. P (Ev m (RouteDel r))) \<Longrightarrow> ok (DeleteRoute m dst gw dev t)"
  "(\<And>l. l_Name l = n \<Longrightarrow> P (Ev m (LinkDel l))) \<Longrightarrow> ok (DeleteLink m n)"
  "P (Ev '''' (NsDeleteNamed ns)) \<Longrightarrow> ok (DeleteNetns ns)"
  "(\<And>l a x p. P (Ev m (AddrAdd l a x p))) \<Longrightarrow> ok (AddAddress m n c)"
  unfolding DeleteAddress_def DeleteRoute_def DeleteLink_def DeleteNetns_def AddAddress_def AddAddressOpts_def Let_def
  by (intro behaves_intros; simp)+

lemma ok_remove_addresses [behaves_intros]:
  "(\<And>dev l a. dev \<in> fst ` set (snd nd) \<Longrightarrow> l_Name l = dev \<Longrightarrow> P (Ev (fst nd) (AddrDel l a))) \<Longrightarrow> ok (remove_addresses nd)"
  unfolding remove_addresses_def by (intro behaves_intros) force+

lemma ok_remove_routes [behaves_intros]: "(\<And>r. P (Ev (fst nd) (RouteDel r))) \<Longrightarrow> ok (remove_routes nd)"
  unfolding remove_routes_def by (intro behaves_intros) simp_all

lemma ok_remove_devices [behaves_intros]:
  "(\<And>dev l. dev \<in> set (snd nd) \<Longrightarrow> l_Name l = dev \<Longrightarrow> P (Ev (fst nd) (LinkDel l))) \<Longrightarrow> ok (remove_devices nd)"
  unfolding remove_devices_def by (intro behaves_intros) simp_all

lemma ok_remove_ns [behaves_intros]: "(ns \<noteq> '''' \<Longrightarrow> P (Ev '''' (NsDeleteNamed ns))) \<Longrightarrow> ok (remove_ns ns)"
  unfolding remove_ns_def by (intro behaves_intros) simp_all

lemma ok_restore_addresses [behaves_intros]:
  "(\<And>l a x p. P (Ev (fst nd) (AddrAdd l a x p))) \<Longrightarrow> ok (restore_addresses nd)"
  unfolding restore_addresses_def by (intro behaves_intros) simp_all

end

section \<open>Removals of an apply\<close>

text \<open>A request that the removals of the diff \<open>d\<close> may make.\<close>

definition removal_ok :: "Diff \<Rightarrow> event \<Rightarrow> bool" where
  "removal_ok d e = (case ev_req e of
      AddrDel l _ \<Rightarrow> list_ex (\<lambda>(ns, devs). ns = ev_ns e \<and> l_Name l \<in> set (map fst devs)) (AddressesToRemove d)
    | RouteDel _ \<Rightarrow> ev_ns e \<in> set (map fst (RoutesToRemove d))
    | LinkDel l \<Rightarrow> list_ex (\<lambda>(ns, devs). ns = ev_ns e \<and> l_Name l \<in> set devs) (DevicesToRemove d)
    | NsDeleteNamed ns \<Rightarrow> ns \<noteq> '''' \<and> ns \<in> set (NsToRemove d)
    | r \<Rightarrow> read_only r)"

interpretation listed: removal_policy "removal_ok d" for d
  by unfold_locales (simp add: removal_ok_def read_only_def split: request.splits)

lemma no_error_only_if: "no_error c \<Longrightarrow> no_error (only_if b c)"
  by (simp add: only_if_def no_error_nop)

lemma no_error_each: "(\<And>x. no_error (f x)) \<Longrightarrow> no_error (each xs f)"
  unfolding each_def by (rule no_error_steps) auto

lemma no_error_with_ns_mgr: "no_error (with_ns_mgr ns k)"
  unfolding with_ns_mgr_def NetnsExists_def by (auto intro!: no_error_warn no_error_ask no_error_only_if)

lemma no_error_applyRemovals: "no_error (applyRemovals d)"
  unfolding applyRemovals_def remove_addresses_def remove_routes_def remove_devices_def remove_ns_def NetnsExists_def
  by (auto intro!: no_error_andthen no_error_nop no_error_each no_error_with_ns_mgr no_error_only_if no_error_ask no_error_warn)

lemma completes:
  assumes "no_error c" "\<not> panics (fst (run env c))"
  shows "fst (run env c) = None"
proof -
  obtain r w where c: "c \<lparr>w_env = env, w_trace = [], w_idx = []\<rparr> = (r, w)" by force
  have "case fst (c \<lparr>w_env = env, w_trace = [], w_idx = []\<rparr>) of Some (Err _) \<Rightarrow> False | _ \<Rightarrow> True"
    using assms(1) unfolding no_error_def by blast
  then show ?thesis
    using assms(2) c by (auto simp: run_def panics_def split: option.splits fault.splits)
qed

lemma applyRemovals_behaves: "behaves honest True (removal_ok d) (applyRemovals d)"
  unfolding applyRemovals_def by (intro behaves_intros) (force simp: removal_ok_def list_ex_iff)+

text \<open>(C7) The removals always run to the end: a failing deletion is skipped, nothing
  panics and no error is returned. The requests are queries and deletions: a link is deleted, or loses
  an address, only if the diff lists it under its namespace, routes are deleted only in
  namespaces for which the diff lists some, and a namespace is deleted only if the diff lists
  it, never the default one.\<close>

theorem applyRemovals_only_listed:
  assumes "honest env"
  shows "fst (run env (applyRemovals d)) = None \<and> list_all (removal_ok d) (snd (run env (applyRemovals d)))"
  using behaves_run[OF applyRemovals_behaves assms] completes[OF no_error_applyRemovals] by simp

definition lookup_env :: environment where
  "lookup_env tr e = (case ev_req e of
      LinkByName n \<Rightarrow> RLink \<lparr>l_Name = n, l_Index = 1, l_Up = True, l_HW = '''', l_Type = '''', l_Oper = ''up'', l_MTU = 1500, l_Master = 0\<rparr>
    | _ \<Rightarrow> ROk)"

lemma lookup_env_honest: "honest lookup_env"
  by (simp add: honest_def lookup_env_def)

theorem applyRemovals_only_listed_witness:
  "snd (run lookup_env (applyRemovals (NewDiff\<lparr>DevicesToRemove := [('''', [''br0''])]\<rparr>))) \<noteq> []
   \<and> list_all (removal_ok (NewDiff\<lparr>DevicesToRemove := [('''', [''br0''])]\<rparr>))
       (snd (run lookup_env (applyRemovals (NewDiff\<lparr>DevicesToRemove := [('''', [''br0''])]\<rparr>))))"
proof -
  have "snd (run lookup_env (applyRemovals (NewDiff\<lparr>DevicesToRemove := [('''', [''br0''])]\<rparr>))) \<noteq> []"
    by (simp add: run_def applyRemovals_def remove_devices_def with_ns_mgr_def New_def cmd_defs NewDiff_def lookup_env_def LinkExists_def
      DeleteLink_def GetLink_def)
  with applyRemovals_only_listed[OF lookup_env_honest] show ?thesis by blast
qed

section \<open>The rollback of a trial\<close>

definition keeps_link :: "string \<Rightarrow> string \<Rightarrow> event \<Rightarrow> bool" where
  "keeps_link ns dev e = (case ev_req e of LinkDel l \<Rightarrow> \<not> (ev_ns e = ns \<and> l_Name l = dev) | _ \<Rightarrow> True)"

interpretation keeps: removal_policy "keeps_link ns dev" for ns dev
  by unfold_locales (simp add: keeps_link_def read_only_def split: request.splits)

lemma push_fold_distinct:
  "distinct (map fst m) \<Longrightarrow> distinct (map fst (foldl (\<lambda>m v. if P v then push_dev (f v) (g v) m else m) m vs))"
  by (induction vs arbitrary: m) (auto simp: push_dev_def)

lemma added_devices:
  assumes "state_ok s" "state_ok t" "ComputeDiff s t = Inr d" "(ns, devs) \<in> set (DevicesToAdd d)" "dev \<in> set devs"
  shows "dev_of t ns dev \<noteq> None \<and> dev_of s ns dev = None"
proof -
  note f = ComputeDiff_fields(4)[OF assms(1-3)]
  have "distinct (map fst (DevicesToAdd d))" unfolding f by (rule push_fold_distinct) simp
  then have "dev \<in> set (bucket (DevicesToAdd d) ns)" using assms(4,5) by (simp add: bucket_def)
  then show ?thesis unfolding f bucket_fold visits_bex[OF assms(2)] by (auto simp: bucket_def)
qed

text \<open>(C40) A rollback deletes no device that the trial has created: it computes the difference
  from the current state to the old one and deletes what is to be added, so a device of the current
  state stays.\<close>

theorem rollback_keeps_trial_devices:
  assumes "honest env" "state_ok cur" "state_ok old" "dev_of cur ns dev \<noteq> None"
  shows "list_all (keeps_link ns dev) (snd (run env (rollback (Some old) (Inr cur) marshal now)))"
proof -
  obtain d where d: "ComputeDiff cur old = Inr d" using ComputeDiff_folds[OF assms(2,3)] by blast
  have gone: "\<not> (ns' = ns \<and> dev' = dev)" if "(ns', devs) \<in> set (DevicesToAdd d)" "dev' \<in> set devs" for ns' devs dev'
    using added_devices[OF assms(2,3) d that] assms(4) by auto
  have "behaves honest True (keeps_link ns dev) (rollback (Some old) (Inr cur) marshal now)"
    unfolding rollback_def option.case sum.case d lift_state_def applyRollbackRemovals_def applyRollbackAdditions_def
      rollback_remove_addresses_def save_state_def
    by (intro behaves_intros) (use gone in \<open>force simp: keeps_link_def\<close>)+
  from behaves_run[OF this assms(1)] show ?thesis by simp
qed

theorem rollback_keeps_trial_devices_witness:
  "list_all (keeps_link '''' ''br0'') (snd (run lookup_env
     (rollback (Some (example_state [])) (Inr (example_state [(''br0'', example_dev ''netcfg'' [])])) (\<lambda>_. ''{}'') 1)))"
  by (rule rollback_keeps_trial_devices[OF lookup_env_honest example_state_ok example_state_ok]) (simp_all add: example_dev_of)

end
