(* ===== verification/ApplySafe.thy ===== *)
theory ApplySafe
  imports Policy Removals
begin

text \<open>
  The effects of an apply, from the interpretations of \<open>setup_policy\<close>: configuring a namespace
  takes no kernel object away, stays in its namespaces, creates nothing that exists and does
  not panic without a null entry; an apply with an unchanged state removes nothing.
\<close>

section \<open>Configuring a namespace\<close>

interpretation build: setup_policy "\<lambda>_. True" False False "\<lambda>e. \<not> destructive (ev_req e)" "\<lambda>_. True"
  by unfold_locales simp_all

interpretation scoped: setup_policy "\<lambda>_. True" False False "\<lambda>e. ev_ns e = '''' \<or> ev_ns e \<in> S" "\<lambda>ns. ns = '''' \<or> ns \<in> S" for S
  by unfold_locales simp_all

interpretation total: setup_policy "\<lambda>_. True" True False "\<lambda>_. True" "\<lambda>_. True"
  by unfold_locales simp_all

text \<open>An environment in which every link and every namespace that is looked up exists.\<close>

definition everything_there :: "environment \<Rightarrow> bool" where
  "everything_there env \<longleftrightarrow> (\<forall>tr e. found e (env tr e))"

interpretation present: setup_policy everything_there False True "\<lambda>e. \<not> creates (ev_req e)" "\<lambda>_. True"
  by unfold_locales (auto simp: everything_there_def replies_def)


definition peer_namespaces :: "Namespace option \<Rightarrow> string list" where
  "peer_namespaces cfg = (case cfg of None \<Rightarrow> [] | Some c \<Rightarrow>
     concat (map (\<lambda>(k, v). case v of None \<Rightarrow> [] | Some d \<Rightarrow>
       (case veth_Peer d of None \<Rightarrow> [] | Some p \<Rightarrow> [peer_Netns p])) (entries (ns_VethDevices c))))"

lemma entry_in: "entry m n = Some c \<Longrightarrow> (n, Some c) \<in> set (entries m)"
  by (auto simp: entry_def gget_def split: option.splits dest: map_of_SomeD)

lemma peer_namespacesI:
  assumes "cfg = Some c" "entry (ns_VethDevices c) n = Some v" "veth_Peer v = Some p"
  shows "peer_Netns p \<in> set (peer_namespaces cfg)"
  using entry_in[OF assms(2)] assms by (force simp: peer_namespaces_def)

text \<open>(C6) Every request made while configuring a namespace is made on the default namespace, on
  that namespace, or on the namespace of the peer of one of its veth devices.\<close>

theorem applyNamespaceConfig_scope:
  "list_all (\<lambda>e. ev_ns e = '''' \<or> ev_ns e = ns \<or> ev_ns e \<in> set (peer_namespaces cfg))
     (snd (run env (applyNamespaceConfig ns cfg)))"
proof -
  let ?S = "insert ns (set (peer_namespaces cfg))"
  have "behaves (\<lambda>_. True) False (\<lambda>e. ev_ns e = '''' \<or> ev_ns e \<in> ?S) (applyNamespaceConfig ns cfg)"
    using peer_namespacesI by (intro scoped.ok_applyNamespaceConfig) blast+
  from behaves_run[OF this] show ?thesis by simp
qed


definition example_ns :: Namespace where
  "example_ns = zero_Namespace\<lparr>ns_DummyDevices := Some [(''d0'', Some (zero_Ethernet\<lparr>
     eth_Addresses := [zero_Address\<lparr>addr_CIDR := ''10.0.0.1/24''\<rparr>],
     eth_Routes := [Some (zero_Route\<lparr>route_To := ''default'', route_Via := ''10.0.0.254''\<rparr>)]\<rparr>))]\<rparr>"


text \<open>(C4) Configuring a namespace again while every link and namespace it looks up exists
  creates no link and no namespace.\<close>

theorem applyNamespaceConfig_creates_nothing_twice:
  assumes "everything_there env"
  shows "list_all (\<lambda>e. \<not> creates (ev_req e)) (snd (run env (applyNamespaceConfig ns cfg)))"
proof -
  have "behaves everything_there False (\<lambda>e. \<not> creates (ev_req e)) (applyNamespaceConfig ns cfg)"
    by (rule present.ok_applyNamespaceConfig) simp_all
  from behaves_run[OF this assms] show ?thesis by simp
qed

definition present_env :: environment where
  "present_env tr e = (case ev_req e of
      LinkByName n \<Rightarrow> RLink \<lparr>l_Name = n, l_Index = 1, l_Up = True, l_HW = '''', l_Type = '''', l_Oper = ''up'', l_MTU = 1500, l_Master = 0\<rparr> | AddrList _ \<Rightarrow> RAddrs [] | ParseAddr a \<Rightarrow> RAddr a | _ \<Rightarrow> ROk)"

theorem applyNamespaceConfig_creates_nothing_twice_witness:
  "everything_there present_env
   \<and> list_all (\<lambda>e. \<not> creates (ev_req e)) (snd (run present_env (applyNamespaceConfig ''blue'' (Some example_ns))))"
proof -
  have "found e (present_env tr e)" for tr e
    by (simp add: found_def present_env_def split: request.splits)
  then have "everything_there present_env" by (simp add: everything_there_def)
  then show ?thesis using applyNamespaceConfig_creates_nothing_twice by blast
qed

section \<open>An unchanged configuration\<close>

lemma each_Nil [simp]: "each [] f = nop"
  by (simp add: each_def)

lemma same_state_diff:
  assumes "state_ok s" "state_ok t" "st_Namespaces s = st_Namespaces t" "ComputeDiff s t = Inr d"
  shows "AddressesToRemove d = []" "RoutesToRemove d = []" "DevicesToRemove d = []" "NsToRemove d = []"
proof -
  have dev: "dev_of s = dev_of t" and ns: "has_ns s = has_ns t"
    using assms(3) by (simp_all add: dev_of_def has_ns_def fun_eq_iff)
  note f = ComputeDiff_fields[OF assms(1,2,4)]
  show "NsToRemove d = []" unfolding f by (simp add: filter_empty_conv has_ns_def gget_None_iff assms(3))
  have has: "dev_of t n k = Some x \<Longrightarrow> has_ns t n" for n k x
    by (auto simp: dev_of_def has_ns_def split: option.splits)
  show "DevicesToRemove d = []"
    unfolding f push_fold_empty visits_ball[OF assms(1)] dev using has by (auto simp: dev_gone_def)
  show "AddressesToRemove d = []" "RoutesToRemove d = []"
    unfolding f put2_fold_empty delta_empty_iff[OF assms(1)] dev by (auto simp: diffStrings_sets)
qed

lemma GetNamespace_same:
  assumes "state_ok t" "(ns, Some n) \<in> set (entries (st_Namespaces t))"
  shows "GetNamespace t ns = Some n"
  using assms by (auto simp: GetNamespace_def gget_def state_ok_def)

lemma reap_same:
  assumes "state_ok t" "st_Namespaces s = st_Namespaces t"
  shows "behaves E False P (reapSRv6Orphans s t)" "behaves E False P (reapNDProxyOrphans s t)"
  using GetNamespace_same[OF assms(1)] unfolding reapSRv6Orphans_def reapNDProxyOrphans_def assms(2) Let_def
  by (intro behaves_intros; auto simp: ns_sids_def sid_orphans_def proxy_orphans_def)+



end
