(* ===== verification/Complete.thy ===== *)
theory Complete
  imports Policy
begin

text \<open>
  What an apply has done when it reports success. \<open>ensures S Q c\<close>: whenever \<open>c\<close> returns without an error from a
  world that satisfies \<open>S\<close>, it has made consecutive requests that satisfy \<open>Q\<close> together with their replies. The
  rules follow the combinators, for conditions \<open>S\<close> that further requests do not destroy (the locale
  \<open>success_logic\<close>); that the other parts of a command only add to the trace is the contract
  \<open>setup_policy\<close> with the trivial predicate.
\<close>

section \<open>Requests a successful command has made\<close>

interpretation free: setup_policy "\<lambda>_. True" False False "\<lambda>_. True" "\<lambda>_. True"
  by unfold_locales simp_all

abbreviation grows :: "cmd \<Rightarrow> bool" where
  "grows \<equiv> behaves (\<lambda>_. True) False (\<lambda>_. True)"

type_synonym evidence = "environment \<Rightarrow> event list \<Rightarrow> event list \<Rightarrow> bool"

definition shows_in :: "evidence \<Rightarrow> world \<Rightarrow> world \<Rightarrow> bool" where
  "shows_in Q w w' \<longleftrightarrow> (\<exists>pre es post. w_trace w' = w_trace w @ pre @ es @ post \<and> Q (w_env w) (w_trace w @ pre) es)"

definition ensures :: "(world \<Rightarrow> bool) \<Rightarrow> evidence \<Rightarrow> cmd \<Rightarrow> bool" where
  "ensures S Q c \<longleftrightarrow> (\<forall>w w'. S w \<longrightarrow> c w = (None, w') \<longrightarrow> shows_in Q w w')"

lemma growsD:
  assumes "grows c" "c w = (r, w')"
  shows "w_env w' = w_env w" "\<exists>es. w_trace w' = w_trace w @ es"
  using behaves_atD[OF assms(1), of w] assms(2) by (auto simp: behaves_at_def)

lemma andthen_None:
  assumes "andthen a b w = (None, w')"
  obtains w1 where "a w = (None, w1)" "b w1 = (None, w')"
  using assms by (auto simp: andthen_def split: prod.splits option.splits)

lemma shows_in_later: "shows_in Q w w1 \<Longrightarrow> w_trace w' = w_trace w1 @ es \<Longrightarrow> shows_in Q w w'"
  unfolding shows_in_def by (metis append.assoc)

lemma shows_in_earlier:
  assumes "shows_in Q w1 w'" "w_env w1 = w_env w" "w_trace w1 = w_trace w @ es"
  shows "shows_in Q w w'"
proof -
  obtain pre fs post where "w_trace w' = w_trace w @ (es @ pre) @ fs @ post" "Q (w_env w) (w_trace w @ (es @ pre)) fs"
    using assms unfolding shows_in_def by auto
  then show ?thesis unfolding shows_in_def by blast
qed

lemma ensures_andthen1:
  assumes "ensures S Q a" "grows b"
  shows "ensures S Q (andthen a b)"
  unfolding ensures_def
proof (intro allI impI)
  fix w w' assume S: "S w" and ab: "andthen a b w = (None, w')"
  from ab obtain w1 where a: "a w = (None, w1)" and b: "b w1 = (None, w')" by (rule andthen_None)
  have "shows_in Q w w1" using assms(1) S a by (simp add: ensures_def)
  then show "shows_in Q w w'" using growsD(2)[OF assms(2) b] shows_in_later by blast
qed

text \<open>The first command may establish a condition \<open>T\<close> the second one needs.\<close>

lemma ensures_sequence:
  assumes "grows a" "\<And>w w'. S w \<Longrightarrow> a w = (None, w') \<Longrightarrow> T w'" "ensures T Q b"
  shows "ensures S Q (andthen a b)"
  unfolding ensures_def
proof (intro allI impI)
  fix w w' assume S: "S w" and ab: "andthen a b w = (None, w')"
  from ab obtain w1 where a: "a w = (None, w1)" and b: "b w1 = (None, w')" by (rule andthen_None)
  have "shows_in Q w1 w'" using assms(3) assms(2)[OF S a] b by (simp add: ensures_def)
  then show "shows_in Q w w'" using growsD[OF assms(1) a] shows_in_earlier by blast
qed

lemma ensures_stop [simp]: "ensures S Q (failwith e)" "ensures S Q (crash p)"
  by (simp_all add: ensures_def failwith_def crash_def)

lemma wrap_None: "wrap s c w = (None, w') \<longleftrightarrow> c w = (None, w')"
  by (auto simp: wrap_def attempt_def nop_def failwith_def split: prod.splits option.splits fault.splits)

lemma ensures_wrap [simp]: "ensures S Q (wrap s c) = ensures S Q c"
  by (simp add: ensures_def wrap_None)

lemma ensures_with_ptr: "(\<And>x. p = Some x \<Longrightarrow> ensures S Q (k x)) \<Longrightarrow> ensures S Q (with_ptr p k)"
  by (cases p) (simp_all add: with_ptr_def)

lemma ensures_option: "(\<And>x. p = Some x \<Longrightarrow> ensures S Q (k x)) \<Longrightarrow> ensures S Q (case p of None \<Rightarrow> failwith e | Some x \<Rightarrow> k x)"
  by (cases p) simp_all

lemma ensures_reply: "((\<And>m. r \<noteq> RFail m) \<Longrightarrow> ensures S Q c) \<Longrightarrow> ensures S Q (case r of RFail m \<Rightarrow> failwith (f m) | _ \<Rightarrow> c)"
  by (cases r) simp_all

lemma grows_wireguard: "grows (configureTunnelWireguard n ns c)"
  unfolding configureTunnelWireguard_def Let_def by (auto intro!: behaves_intros free.ok_wg_peers_of)

section \<open>The rules\<close>

locale success_logic =
  fixes S :: "world \<Rightarrow> bool"
  assumes persists: "S w \<Longrightarrow> w_env w' = w_env w \<Longrightarrow> w_trace w' = w_trace w @ es \<Longrightarrow> S w'"
begin

lemma skip:
  assumes "grows a" "ensures S Q b"
  shows "ensures S Q (andthen a b)"
proof (rule ensures_sequence[OF assms(1) _ assms(2)])
  fix w w' assume S: "S w" and a: "a w = (None, w')"
  obtain es where "w_trace w' = w_trace w @ es" using growsD(2)[OF assms(1) a] by blast
  with S growsD(1)[OF assms(1) a] show "S w'" by (rule persists)
qed

lemma some_step: "list_ex (ensures S Q) cs \<Longrightarrow> list_all grows cs \<Longrightarrow> ensures S Q (steps cs)"
proof (induction cs)
  case (Cons c cs)
  have "grows (steps cs)" using Cons.prems(2) by (induction cs) (auto intro: behaves_intros)
  then show ?case using Cons by (auto intro: ensures_andthen1 skip)
qed simp

lemma some_iteration:
  assumes "x \<in> set xs" "ensures S Q (f x)" "\<And>y. grows (f y)"
  shows "ensures S Q (each xs f)"
  unfolding each_def using assms by (intro some_step) (auto simp: list_ex_iff list_all_iff)

lemma key:
  assumes "n \<in> set (gkeys m)" "ensures S Q (f n)" "\<And>k. grows (f k)"
  shows "ensures S Q (each_key m f)"
  unfolding each_key_def using assms by (intro some_iteration) simp_all

lemma asked:
  assumes "\<And>r. ensures S Q (k r)"
  shows "ensures S Q (ask e k)"
  unfolding ensures_def
proof (intro allI impI)
  fix w w' :: world
  let ?w = "w\<lparr>w_trace := w_trace w @ [e]\<rparr>"
  assume S: "S w" and run: "ask e k w = (None, w')"
  have "S ?w" by (rule persists[OF S]) simp_all
  then have "shows_in Q ?w w'" using assms run by (simp add: ensures_def ask_def)
  then show "shows_in Q w w'" by (rule shows_in_earlier) simp_all
qed

lemma managers:
  "ensures S Q (k1 '''') \<Longrightarrow> ensures S Q (New k1)" "ensures S Q (k2 ns) \<Longrightarrow> ensures S Q (NewWithNetns ns k2)"
  "(\<And>b. ensures S Q (k3 b)) \<Longrightarrow> ensures S Q (LinkExists m n k3)"
  unfolding New_def NewWithNetns_def LinkExists_def by (intro asked ensures_reply; assumption)+

lemma then_ptr:
  "grows a \<Longrightarrow> (\<And>c. p = Some c \<Longrightarrow> ensures S Q (k c)) \<Longrightarrow> ensures S Q (andthen a (with_ptr p k))"
  by (intro skip ensures_with_ptr)

text \<open>Each kind of device: what \<open>setupDevice\<close> ensures for an entry, the loop over the entries does.\<close>

lemma dummy:
  assumes "n \<in> set (gkeys ds)"
    "\<And>c. entry ds n = Some c \<Longrightarrow> ensures S Q (setupDevice m n (eth_Addresses c) (eth_Routes c) (eth_MTU c) (eth_MacAddress c))"
  shows "ensures S Q (setupDummyDevices m ns ds)"
  unfolding setupDummyDevices_def
  by (rule key[OF assms(1)], intro then_ptr ensures_andthen1) (auto intro!: behaves_intros assms(2))

lemma macvlan:
  assumes "n \<in> set (gkeys ds)"
    "\<And>c. entry ds n = Some c \<Longrightarrow> ensures S Q (setupDevice m n (macvlan_Addresses c) (macvlan_Routes c) (macvlan_MTU c) (macvlan_MacAddress c))"
  shows "ensures S Q (setupMacvlanDevices m ns ds b)"
  unfolding setupMacvlanDevices_def
  by (rule key[OF assms(1)], intro ensures_with_ptr some_step) (auto intro!: behaves_intros simp: assms(2))

lemma ipvlan:
  assumes "n \<in> set (gkeys ds)"
    "\<And>c. entry ds n = Some c \<Longrightarrow> ensures S Q (setupDevice m n (ipvlan_Addresses c) (ipvlan_Routes c) (ipvlan_MTU c) '''')"
  shows "ensures S Q (setupIpvlanDevices m ns ds)"
  unfolding setupIpvlanDevices_def
  by (rule key[OF assms(1)], intro ensures_with_ptr some_step) (auto intro!: behaves_intros simp: assms(2))

lemma vxlan:
  assumes "n \<in> set (gkeys ds)"
    "\<And>c. entry ds n = Some c \<Longrightarrow> ensures S Q (setupDevice m n (vxlan_Addresses c) (vxlan_Routes c) (vxlan_MTU c) (vxlan_MacAddress c))"
  shows "ensures S Q (setupVxlans m ns ds)"
  unfolding setupVxlans_def setupOneVxlan_def
  by (rule key[OF assms(1)], intro ensures_with_ptr some_step) (auto intro!: behaves_intros simp: assms(2))

lemma bond:
  assumes "n \<in> set (gkeys ds)"
    "\<And>c. entry ds n = Some c \<Longrightarrow> ensures S Q (setupDevice m n (bond_Addresses c) (bond_Routes c) (bond_MTU c) (bond_MacAddress c))"
  shows "ensures S Q (setupBonds m ns ds)"
  unfolding setupBonds_def
  by (rule key[OF assms(1)], intro managers ensures_with_ptr some_step) (auto intro!: behaves_intros simp: assms(2))

lemma bridge:
  assumes "n \<in> set (gkeys ds)"
    "\<And>c. entry ds n = Some c \<Longrightarrow> ensures S Q (setupDevice m n (br_Addresses c) (br_Routes c) (br_MTU c) (br_MacAddress c))"
  shows "ensures S Q (setupBridges m ns ds)"
  unfolding setupBridges_def
  by (rule key[OF assms(1)], intro then_ptr some_step) (auto intro!: behaves_intros simp: assms(2))

lemma vrf:
  assumes "n \<in> set (gkeys ds)" "ensures S Q (SetLinkUp m n)"
  shows "ensures S Q (setupVrfs m ns ds)"
  unfolding setupVrfs_def
  by (rule key[OF assms(1)], intro ensures_with_ptr some_step) (auto intro!: behaves_intros simp: assms(2))

lemma tunnel:
  assumes "n \<in> set (gkeys ds)"
    "\<And>c. entry ds n = Some c \<Longrightarrow> ensures S Q (setupDevice m n (tun_Addresses c) (tun_Routes c) (tun_MTU c) '''')"
  shows "ensures S Q (setupTunnels m ns ds)"
  unfolding setupTunnels_def
  by (rule key[OF assms(1)], intro ensures_with_ptr some_step) (auto intro!: behaves_intros grows_wireguard simp: assms(2))

lemma tuntap:
  assumes "n \<in> set (gkeys ds)"
    "\<And>c. entry ds n = Some c \<Longrightarrow> ensures S Q (setupDevice m n (tuntap_Addresses c) (tuntap_Routes c) (tuntap_MTU c) '''')"
  shows "ensures S Q (setupTunTapDevices m ns ds b)"
  unfolding setupTunTapDevices_def
  by (rule key[OF assms(1)], intro then_ptr ensures_andthen1) (auto intro!: behaves_intros assms(2))

lemma veth:
  assumes "n \<in> set (gkeys ds)"
    "\<And>c. entry ds n = Some c \<Longrightarrow> ensures S Q (setupDevice m n (veth_Addresses c) (veth_Routes c) (veth_MTU c) (veth_MacAddress c))"
  shows "ensures S Q (setupVethDevices m ns ds)"
  unfolding setupVethDevices_def setup_veth_peer_def
  by (rule key[OF assms(1)], intro ensures_with_ptr ensures_option some_step) (auto intro!: behaves_intros simp: assms(2))

text \<open>A part of \<open>setup_all\<close> that ensures something, then \<open>applyNamespaceConfig\<close> does.\<close>

lemma part:
  assumes "ensures S Q (setupDummyDevices ns ns (ns_DummyDevices c)) \<or> ensures S Q (setupMacvlanDevices ns ns (ns_MacvlanDevices c) False)
    \<or> ensures S Q (setupMacvlanDevices ns ns (ns_MacvtapDevices c) True) \<or> ensures S Q (setupIpvlanDevices ns ns (ns_IpvlanDevices c))
    \<or> ensures S Q (setupVxlans ns ns (ns_Vxlans c)) \<or> ensures S Q (setupBonds ns ns (ns_Bonds c)) \<or> ensures S Q (setupBridges ns ns (ns_Bridges c))
    \<or> ensures S Q (setupVrfs ns ns (ns_Vrfs c)) \<or> ensures S Q (setupTunnels ns ns (ns_Tunnels c))
    \<or> ensures S Q (setupTunTapDevices ns ns (ns_TunDevices c) False) \<or> ensures S Q (setupTunTapDevices ns ns (ns_TapDevices c) True)
    \<or> ensures S Q (setupVethDevices ns ns (ns_VethDevices c))"
  shows "ensures S Q (applyNamespaceConfig ns (Some c))"
proof -
  have "ensures S Q (setup_all ns ns c)"
    unfolding setup_all_def
    apply (rule some_step)
    subgoal using assms by auto
    subgoal by (auto simp: runPostScript_def intro!: behaves_intros free.ok_setupVethDevices)
    done
  then show ?thesis by (auto simp: applyNamespaceConfig_def when_some_def intro: managers)
qed

end

lemma ensures_run:
  assumes "ensures S Q c" "S \<lparr>w_env = env, w_trace = [], w_idx = []\<rparr>" "fst (run env c) = None"
  shows "\<exists>pre es post. snd (run env c) = pre @ es @ post \<and> Q env pre es"
proof -
  let ?w = "\<lparr>w_env = env, w_trace = [], w_idx = []\<rparr>"
  obtain w' where w': "c ?w = (None, w')" using assms(3) by (cases "c ?w") (simp add: run_def)
  then have "shows_in Q ?w w'" using assms(1,2) by (simp add: ensures_def)
  then show ?thesis using w' by (simp add: run_def shows_in_def)
qed

interpretation always: success_logic "\<lambda>_. True"
  by unfold_locales simp

section \<open>Devices that are up\<close>

text \<open>The link was found under its name on the handle, and the request to set this link up did not
  fail.\<close>

definition set_up :: "mgr \<Rightarrow> string \<Rightarrow> evidence" where
  "set_up m name env tr es \<longleftrightarrow> (\<exists>l. es = [Ev m (LinkByName name), Ev m (LinkSetUp l)]
     \<and> env tr (Ev m (LinkByName name)) = RLink l \<and> (\<forall>x. env (tr @ [Ev m (LinkByName name)]) (Ev m (LinkSetUp l)) \<noteq> RFail x))"

lemma SetLinkUp_None:
  assumes "SetLinkUp m n w = (None, w')"
  obtains l where "w_env w (w_trace w) (Ev m (LinkByName n)) = RLink l" "w_trace w' = w_trace w @ [Ev m (LinkByName n), Ev m (LinkSetUp l)]"
    "\<forall>x. w_env w (w_trace w @ [Ev m (LinkByName n)]) (Ev m (LinkSetUp l)) \<noteq> RFail x" "w_env w' = w_env w"
proof -
  obtain l where l: "w_env w (w_trace w) (Ev m (LinkByName n)) = RLink l"
    using assms by (auto simp: SetLinkUp_def GetLink_def ask_def failwith_def split: reply.splits)
  then show ?thesis
    using assms by (intro that[of l]) (auto simp: SetLinkUp_def GetLink_def ask_def call_def failwith_def nop_def split: reply.splits)
qed

lemma ensures_SetLinkUp [simp]: "ensures S (set_up m n) (SetLinkUp m n)"
  unfolding ensures_def shows_in_def
proof (intro allI impI)
  fix w w' assume "SetLinkUp m n w = (None, w')"
  then obtain l where "w_trace w' = w_trace w @ [] @ [Ev m (LinkByName n), Ev m (LinkSetUp l)] @ []"
      "set_up m n (w_env w) (w_trace w @ []) [Ev m (LinkByName n), Ev m (LinkSetUp l)]"
    by (rule SetLinkUp_None) (simp add: set_up_def)
  then show "\<exists>pre es post. w_trace w' = w_trace w @ pre @ es @ post \<and> set_up m n (w_env w) (w_trace w @ pre) es" by blast
qed

lemma ensures_setupDevice: "ensures (\<lambda>_. True) (set_up m n) (setupDevice m n as rs mtu mac)"
  unfolding setupDevice_def by (rule always.some_step) (auto intro!: behaves_intros)

text \<open>The devices whose failure is an error of the apply. (A failing VLAN or virtual-ethernet peer is
  logged, a missing ethernet or wifi is skipped.)\<close>

definition strict_devices :: "Namespace \<Rightarrow> string set" where
  "strict_devices c = set (gkeys (ns_DummyDevices c)) \<union> set (gkeys (ns_MacvlanDevices c)) \<union> set (gkeys (ns_MacvtapDevices c))
     \<union> set (gkeys (ns_IpvlanDevices c)) \<union> set (gkeys (ns_Vxlans c)) \<union> set (gkeys (ns_Bonds c)) \<union> set (gkeys (ns_Bridges c))
     \<union> set (gkeys (ns_Vrfs c)) \<union> set (gkeys (ns_Tunnels c)) \<union> set (gkeys (ns_TunDevices c)) \<union> set (gkeys (ns_TapDevices c))
     \<union> set (gkeys (ns_VethDevices c))"

lemmas always_kinds = always.dummy always.macvlan always.ipvlan always.vxlan always.bond always.bridge always.vrf always.tunnel
  always.tuntap always.veth

lemma devices_up:
  assumes "n \<in> strict_devices c"
  shows "ensures (\<lambda>_. True) (set_up ns n) (applyNamespaceConfig ns (Some c))"
  using assms by (intro always.part) (auto simp: strict_devices_def ensures_setupDevice always_kinds)

section \<open>Addresses that are present\<close>

text \<open>The kernel listed the address on the link, or its addition to the link was requested with the
  configured label and lifetime.\<close>

definition addressed :: "mgr \<Rightarrow> string \<Rightarrow> Address \<Rightarrow> evidence" where
  "addressed m n a env tr es \<longleftrightarrow>
    (\<exists>l as. es = [Ev m (LinkByName n), Ev m (AddrList l)] \<and> env tr (Ev m (LinkByName n)) = RLink l
       \<and> env (tr @ [Ev m (LinkByName n)]) (Ev m (AddrList l)) = RAddrs as \<and> addr_CIDR a \<in> set as)
    \<or> (\<exists>l x pre. es = pre @ [Ev m (LinkByName n), Ev m (ParseAddr (addr_CIDR a)), Ev m (AddrAdd l x (addr_Label a) (to_lower (addr_Lifetime a) = ''0''))]
       \<and> env (tr @ pre) (Ev m (LinkByName n)) = RLink l
       \<and> env (tr @ pre @ [Ev m (LinkByName n)]) (Ev m (ParseAddr (addr_CIDR a))) = RAddr x)"

text \<open>A kernel that keeps the links it has found, lists the addresses of a link, and accepts the
  notation of the address.\<close>

definition steady :: "mgr \<Rightarrow> string \<Rightarrow> Address \<Rightarrow> environment \<Rightarrow> bool" where
  "steady m n a env \<longleftrightarrow>
    (\<forall>tr tr' l. env tr (Ev m (LinkByName n)) = RLink l \<longrightarrow> (\<exists>l'. env (tr @ tr') (Ev m (LinkByName n)) = RLink l'))
    \<and> (\<forall>tr l. \<exists>as. env tr (Ev m (AddrList l)) = RAddrs as) \<and> (\<forall>tr. \<exists>x. env tr (Ev m (ParseAddr (addr_CIDR a))) = RAddr x)"

definition seen :: "mgr \<Rightarrow> string \<Rightarrow> world \<Rightarrow> bool" where
  "seen m n w \<longleftrightarrow> (\<exists>tr tr' l. w_trace w = tr @ tr' \<and> w_env w tr (Ev m (LinkByName n)) = RLink l)"

interpretation steady: success_logic "\<lambda>w. steady m n a (w_env w)" for m n a
  by unfold_locales simp

interpretation found: success_logic "\<lambda>w. steady m n a (w_env w) \<and> seen m n w" for m n a
  by unfold_locales (force simp: seen_def)

definition lifetime_ok :: "Address \<Rightarrow> bool" where
  "lifetime_ok a \<longleftrightarrow> to_lower (addr_Lifetime a) \<in> {'''', ''forever'', ''0''}"

lemma ensures_address:
  assumes "lifetime_ok a"
  shows "ensures (\<lambda>w. steady m n a (w_env w) \<and> seen m n w) (addressed m n a)
    (warn (HasAddress m n (addr_CIDR a) (\<lambda>has. only_if (\<not> has) (AddAddressOpts m n (addr_CIDR a) (addr_Label a) (addr_Lifetime a)))))"
  unfolding ensures_def
proof (intro allI impI)
  fix w w' :: world
  let ?e = "Ev m (LinkByName n)" and ?p = "Ev m (ParseAddr (addr_CIDR a))" and ?tr = "w_trace w" and ?env = "w_env w"
  assume S: "steady m n a ?env \<and> seen m n w"
    and run: "warn (HasAddress m n (addr_CIDR a) (\<lambda>has. only_if (\<not> has) (AddAddressOpts m n (addr_CIDR a) (addr_Label a) (addr_Lifetime a)))) w = (None, w')"
  have there: "\<exists>l. ?env (?tr @ more) ?e = RLink l" for more
    using S unfolding steady_def seen_def by (metis append.assoc)
  obtain l where l: "?env ?tr ?e = RLink l" using there[of "[]"] by auto
  obtain as where as: "?env (?tr @ [?e]) (Ev m (AddrList l)) = RAddrs as" using S unfolding steady_def by blast
  obtain l' where l': "?env (?tr @ [?e, Ev m (AddrList l)]) ?e = RLink l'" using there by blast
  obtain x where x: "?env (?tr @ [?e, Ev m (AddrList l), ?e]) ?p = RAddr x" using S unfolding steady_def by blast
  note defs = HasAddress_def GetLink_def warn_def attempt_def ask_def nop_def only_if_def AddAddressOpts_def with_addr_def
    call_def failwith_def Let_def
  show "shows_in (addressed m n a) w w'"
  proof (cases "addr_CIDR a \<in> set as")
    case True
    have "w_trace w' = ?tr @ [] @ [?e, Ev m (AddrList l)] @ []" using run True by (auto simp: defs l as)
    moreover have "addressed m n a ?env (?tr @ []) [?e, Ev m (AddrList l)]" using l as True by (simp add: addressed_def)
    ultimately show ?thesis unfolding shows_in_def by blast
  next
    case False
    let ?add = "Ev m (AddrAdd l' x (addr_Label a) (to_lower (addr_Lifetime a) = ''0''))"
    have "w_trace w' = ?tr @ [] @ [?e, Ev m (AddrList l), ?e, ?p, ?add] @ []"
      using run False assms by (auto simp: defs l as l' x lifetime_ok_def split: reply.splits)
    moreover have "addressed m n a ?env (?tr @ []) ([?e, Ev m (AddrList l)] @ [?e, ?p, ?add])"
      unfolding addressed_def using l' x by (intro disjI2 exI[of _ l'] exI[of _ x] exI[of _ "[?e, Ev m (AddrList l)]"]) simp
    ultimately show ?thesis unfolding shows_in_def by (metis append_Cons append_Nil)
  qed
qed

lemma ensures_setupDevice_address:
  assumes "a \<in> set as" "lifetime_ok a"
  shows "ensures (\<lambda>w. steady m n a (w_env w)) (addressed m n a) (setupDevice m n as rs mtu mac)"
proof -
  have add: "ensures (\<lambda>w. steady m n a (w_env w) \<and> seen m n w) (addressed m n a) (steps [add_addresses m n as, add_routes m n rs])"
    unfolding add_addresses_def using assms
    by (intro found.some_step) (auto intro!: found.some_iteration[of a] ensures_address behaves_intros)
  have "seen m n w'" if up: "wrap s (SetLinkUp m n) w = (None, w')" for s and w w' :: world
  proof -
    obtain l where "w_env w (w_trace w) (Ev m (LinkByName n)) = RLink l" "w_env w' = w_env w"
      "w_trace w' = w_trace w @ [Ev m (LinkByName n), Ev m (LinkSetUp l)]"
      using up[unfolded wrap_None] by (rule SetLinkUp_None)
    then show ?thesis unfolding seen_def by metis
  qed
  moreover have g: "grows (wrap s (SetLinkUp m n))" for s by (auto intro!: behaves_intros)
  ultimately have body: "ensures (\<lambda>w. steady m n a (w_env w)) (addressed m n a)
      (andthen (wrap s (SetLinkUp m n)) (steps [add_addresses m n as, add_routes m n rs]))" for s
    using add growsD(1)[OF g] by (intro ensures_sequence[OF g]) auto
  show ?thesis
    unfolding setupDevice_def steps.simps
    by (rule steady.skip, (auto intro!: behaves_intros)[1], rule steady.skip, (auto intro!: behaves_intros)[1],
        rule body[unfolded steps.simps])
qed

text \<open>The addresses of these devices (a VRF has none).\<close>

definition listed :: "'v option gomap \<Rightarrow> ('v \<Rightarrow> Address list) \<Rightarrow> (string \<times> Address) set" where
  "listed ds f = {(n, a). \<exists>c. entry ds n = Some c \<and> a \<in> set (f c)}"

lemma listedD: "(n, a) \<in> listed ds f \<Longrightarrow> n \<in> set (gkeys ds) \<and> (\<forall>c. entry ds n = Some c \<longrightarrow> a \<in> set (f c))"
  by (auto simp: listed_def entry_def gget_in_keys split: option.splits)

definition strict_addresses :: "Namespace \<Rightarrow> (string \<times> Address) set" where
  "strict_addresses c = listed (ns_DummyDevices c) eth_Addresses \<union> listed (ns_MacvlanDevices c) macvlan_Addresses
     \<union> listed (ns_MacvtapDevices c) macvlan_Addresses \<union> listed (ns_IpvlanDevices c) ipvlan_Addresses
     \<union> listed (ns_Vxlans c) vxlan_Addresses \<union> listed (ns_Bonds c) bond_Addresses \<union> listed (ns_Bridges c) br_Addresses
     \<union> listed (ns_Tunnels c) tun_Addresses \<union> listed (ns_TunDevices c) tuntap_Addresses \<union> listed (ns_TapDevices c) tuntap_Addresses
     \<union> listed (ns_VethDevices c) veth_Addresses"

lemmas steady_kinds = steady.dummy steady.macvlan steady.ipvlan steady.vxlan steady.bond steady.bridge steady.tunnel
  steady.tuntap steady.veth

lemma addresses_present:
  assumes "(n, a) \<in> strict_addresses c" "lifetime_ok a"
  shows "ensures (\<lambda>w. steady ns n a (w_env w)) (addressed ns n a) (applyNamespaceConfig ns (Some c))"
  using assms by (intro steady.part) (auto simp: strict_addresses_def ensures_setupDevice_address steady_kinds dest!: listedD)

section \<open>Properties\<close>

text \<open>(C2) A namespace whose configuration is reported as successful has its devices up: for every dummy,
  macvlan, macvtap, ipvlan, vxlan, bond, bridge, VRF, tunnel, tun, tap and veth device listed, the
  kernel found a link of this name on the namespace's handle and did not refuse the request to set this very
  link up.\<close>

theorem applyNamespaceConfig_devices_up:
  assumes "fst (run env (applyNamespaceConfig ns (Some c))) = None" "name \<in> strict_devices c"
  shows "\<exists>pre l post. snd (run env (applyNamespaceConfig ns (Some c))) =
      pre @ [Ev ns (LinkByName name), Ev ns (LinkSetUp l)] @ post
    \<and> env pre (Ev ns (LinkByName name)) = RLink l
    \<and> (\<forall>x. env (pre @ [Ev ns (LinkByName name)]) (Ev ns (LinkSetUp l)) \<noteq> RFail x)"
  using ensures_run[OF devices_up[OF assms(2), of ns] _ assms(1)] unfolding set_up_def by blast

text \<open>(C3) Nor does it forget an address: on a kernel that keeps the links it has found, lists addresses and accepts
  their notation, every address of these devices with a valid lifetime was on the list of its
  link, or its addition to the link was requested, with its label and lifetime.\<close>

theorem applyNamespaceConfig_addresses:
  assumes "fst (run env (applyNamespaceConfig ns (Some c))) = None" "(name, a) \<in> strict_addresses c" "lifetime_ok a" "steady ns name a env"
  shows "\<exists>pre es post. snd (run env (applyNamespaceConfig ns (Some c))) = pre @ es @ post \<and> addressed ns name a env pre es"
  using ensures_run[OF addresses_present[OF assms(2,3), of ns] _ assms(1)] assms(4) by simp

definition up_address :: Address where
  "up_address = \<lparr>addr_CIDR = ''10.0.0.1/24'', addr_Lifetime = ''forever'', addr_Label = ''''\<rparr>"

definition up_eth :: Ethernet where
  "up_eth = zero_Ethernet\<lparr>eth_Addresses := [up_address]\<rparr>"

definition up_ns :: Namespace where
  "up_ns = zero_Namespace\<lparr>ns_DummyDevices := Some [(''dummy0'', Some up_eth)]\<rparr>"

text \<open>A kernel with no links, which has those that were added and accepts every request.\<close>

definition added :: "string \<Rightarrow> event list \<Rightarrow> bool" where
  "added n tr = list_ex (\<lambda>x. case ev_req x of LinkAdd k _ \<Rightarrow> k = n | _ \<Rightarrow> False) tr"

definition empty_env :: environment where
  "empty_env tr e = (case ev_req e of
      LinkByName n \<Rightarrow> if added n tr
        then RLink \<lparr>l_Name = n, l_Index = 7, l_Up = False, l_HW = '''', l_Type = ''dummy'', l_Oper = ''down'', l_MTU = 1500, l_Master = 0\<rparr>
        else RNotExist
    | AddrList _ \<Rightarrow> RAddrs []
    | ParseAddr s \<Rightarrow> RAddr s
    | _ \<Rightarrow> ROk)"

lemma empty_env_simps:
  "empty_env tr (Ev m (AddrList l)) = RAddrs []" "\<exists>x. empty_env tr (Ev m (ParseAddr s)) = RAddr x"
  "(\<exists>l. empty_env tr (Ev m (LinkByName n)) = RLink l) \<longleftrightarrow> added n tr"
  by (simp_all add: empty_env_def)

lemma empty_env_steady: "steady m n a empty_env"
proof -
  have "\<exists>l'. empty_env (tr @ tr') (Ev m (LinkByName n)) = RLink l'" if "empty_env tr (Ev m (LinkByName n)) = RLink l" for tr tr' l
    using that empty_env_simps(3) by (metis added_def list_ex_append)
  then show ?thesis by (simp add: steady_def empty_env_simps)
qed

lemma idle_setups:
  "each_key None f = nop" "andthen nop x = x" "andthen x nop = x" "wrap t nop = nop" "only_if False x = nop" "only_if True x = x" "each [] g = nop"
  by (auto simp: each_key_def each_def sortedKeys_def nop_def andthen_def wrap_def attempt_def only_if_def fun_eq_iff split: prod.splits option.splits)

lemma setup_up_ns:
  "setup_all m ''red'' up_ns = andthen (wrap ''failed to setup loopback'' (setupLoopback m None))
     (wrap ''failed to setup dummy devices'' (setupDummyDevices m ''red'' (Some [(''dummy0'', Some up_eth)])))"
  by (simp add: setup_all_def up_ns_def zero_Namespace_def setupEthernets_def setupWifis_def setupVirtualEthernets_def
      setupMacvlanDevices_def setupIpvlanDevices_def setupVlans_def setupVxlans_def setupBonds_def setupBridges_def
      applyVxlanNeighSuppress_def applyBridgePortAttrs_def setupVrfs_def setupTunnels_def setupTunTapDevices_def
      setupVethDevices_def setupSRv6_def when_some_def idle_setups sortedKeys_def)

lemma up_ns_succeeds: "fst (run empty_env (applyNamespaceConfig ''red'' (Some up_ns))) = None"
proof -
  let ?a = "warn (HasAddress ''red'' ''dummy0'' ''10.0.0.1/24'' (\<lambda>has. only_if (\<not> has) (AddAddressOpts ''red'' ''dummy0'' ''10.0.0.1/24'' '''' ''forever'')))"
  have "sortedKeys (Some [(''dummy0'', Some up_eth)]) = [''dummy0'']" by (simp add: sortedKeys_def)
  moreover have "entry (Some [(''dummy0'', Some up_eth)]) ''dummy0'' = Some up_eth" by (simp add: entry_def)
  moreover have "setupDevice ''red'' ''dummy0'' (eth_Addresses up_eth) (eth_Routes up_eth) (eth_MTU up_eth) (eth_MacAddress up_eth)
      = andthen (wrap ''failed to set dummy0 up'' (SetLinkUp ''red'' ''dummy0'')) ?a"
    "applyNameservers ''red'' ''dummy0'' (eth_Nameservers up_eth) = nop"
    by (simp_all add: setupDevice_def add_addresses_def add_routes_def applyNameservers_def up_eth_def zero_Ethernet_def
        up_address_def idle_setups each_def)
  ultimately have "setupDummyDevices ''red'' ''red'' (Some [(''dummy0'', Some up_eth)]) =
      andthen (create_missing ''red'' ''dummy0'' (wrap ''failed to create dummy dummy0'' (AddDummyDevice ''red'' ''dummy0'')))
        (wrap ''failed to setup dummy dummy0'' (andthen (wrap ''failed to set dummy0 up'' (SetLinkUp ''red'' ''dummy0'')) ?a))"
    by (simp add: setupDummyDevices_def each_key_def each_def with_ptr_def idle_setups)
  moreover have "to_lower ''forever'' = ''forever''" by code_simp
  ultimately show ?thesis
    by (simp add: run_def applyNamespaceConfig_def when_some_def NewWithNetns_def setup_up_ns setupLoopback_def create_missing_def
        SetLinkUp_def GetLink_def LinkExists_def AddDummyDevice_def HasAddress_def AddAddressOpts_def with_addr_def Let_def
        cmd_defs empty_env_def added_def)
qed

theorem applyNamespaceConfig_devices_up_witness:
  "\<exists>pre l post. snd (run empty_env (applyNamespaceConfig ''red'' (Some up_ns))) =
      pre @ [Ev ''red'' (LinkByName ''dummy0''), Ev ''red'' (LinkSetUp l)] @ post
    \<and> empty_env pre (Ev ''red'' (LinkByName ''dummy0'')) = RLink l"
proof -
  have "''dummy0'' \<in> strict_devices up_ns" by (simp add: strict_devices_def up_ns_def gkeys_def)
  then show ?thesis
    using up_ns_succeeds applyNamespaceConfig_devices_up[of empty_env "''red''" up_ns "''dummy0''"] by blast
qed

theorem applyNamespaceConfig_addresses_witness:
  "\<exists>l x pre post. snd (run empty_env (applyNamespaceConfig ''red'' (Some up_ns))) = pre @ [Ev ''red'' (AddrAdd l x '''' False)] @ post"
proof -
  have life: "to_lower ''forever'' = ''forever''" by code_simp
  have "(''dummy0'', up_address) \<in> strict_addresses up_ns"
    by (simp add: strict_addresses_def listed_def up_ns_def up_eth_def entry_def)
  moreover have "lifetime_ok up_address" by (simp add: lifetime_ok_def up_address_def life)
  ultimately obtain pre es post where r: "snd (run empty_env (applyNamespaceConfig ''red'' (Some up_ns))) = pre @ es @ post"
      "addressed ''red'' ''dummy0'' up_address empty_env pre es"
    using applyNamespaceConfig_addresses[OF up_ns_succeeds _ _ empty_env_steady] by blast
  then obtain l x mid where "es = mid @ [Ev ''red'' (AddrAdd l x '''' False)]"
    by (auto simp: addressed_def empty_env_simps up_address_def life)
  then show ?thesis using r(1) by (metis append.assoc)
qed

end
