(* ===== verification/NdpResponder.thy ===== *)
theory NdpResponder
  imports VppPlan
begin

text \<open>
  The NDP responder (\<open>ndpproxy/responder.go\<close>): which neighbour solicitations it answers and with what
  packet. The codec of the ndp package (parsing a message, marshalling an advertisement with its
  checksum) and the kernel's route lookup are parameters, the record \<open>ndp_lib\<close>. An address is
  its list of bytes.
\<close>

section \<open>Prefixes\<close>

record Prefix =
  pf_Addr :: "byte list"
  pf_Bits :: nat

text \<open>\<open>netip.ParsePrefix\<close>: the length follows the last slash, without sign or leading zero.\<close>

definition ParsePrefix :: "string \<Rightarrow> Prefix option" where
  "ParsePrefix s =
    (if \<not> contains_byte (CHR ''/'') s then None
     else let bits = rev (takeWhile (\<lambda>c. c \<noteq> CHR ''/'') (rev s));
              addr = rev (tl (dropWhile (\<lambda>c. c \<noteq> CHR ''/'') (rev s)));
              mk = (\<lambda>b. if bits = [] \<or> \<not> list_all is_digit bits \<or> (1 < length bits \<and> hd bits = CHR ''0'') \<or> 8 * length b < dec_val bits
                        then None else Some \<lparr>pf_Addr = b, pf_Bits = dec_val bits\<rparr>)
          in (case parse_addr addr of
                None \<Rightarrow> None
              | Some (IP4 b) \<Rightarrow> mk b
              | Some (IP6 b z) \<Rightarrow> if z = [] then mk b else None))"

definition nth_bit :: "byte list \<Rightarrow> nat \<Rightarrow> bool" where
  "nth_bit b i = bit (b ! (i div 8)) (7 - i mod 8)"

definition Contains :: "Prefix \<Rightarrow> byte list \<Rightarrow> bool" where
  "Contains p ip \<longleftrightarrow> length ip = length (pf_Addr p) \<and> list_all (\<lambda>i. nth_bit ip i = nth_bit (pf_Addr p) i) [0..<pf_Bits p]"

section \<open>Configuration and replies\<close>

record Rule =
  rl_Prefix :: Prefix
  rl_Neighbor :: "byte list option"
  rl_Auto :: bool

record RConfig =
  rc_Iface :: string
  rc_Router :: bool
  rc_Rules :: "Rule list"

record Responder =
  rs_cfg :: RConfig
  rs_index :: int
  rs_hwaddr :: "byte list"

record NeighborAdvertisement =
  na_Router :: bool
  na_Solicited :: bool
  na_Override :: bool
  na_TargetAddress :: "byte list"
  na_TLLA :: "byte list"

record ndp_lib =
  nl_parseNS :: "byte list \<Rightarrow> byte list option"
  nl_marshalNA :: "NeighborAdvertisement \<Rightarrow> byte list \<Rightarrow> byte list \<Rightarrow> byte list option"
  nl_routeGet :: "byte list \<Rightarrow> int list option"

definition allNodesMAC :: "byte list" where
  "allNodesMAC = [0x33, 0x33, 0, 0, 0, 1]"

definition allNodesIP :: "byte list" where
  "allNodesIP = [0xff, 2, 0, 0, 0, 0, 0, 0, 0, 0, 0, 0, 0, 0, 0, 1]"

definition match_rule :: "RConfig \<Rightarrow> byte list \<Rightarrow> Rule option" where
  "match_rule cfg t = List.find (\<lambda>rl. Contains (rl_Prefix rl) t) (rc_Rules cfg)"

definition routeElsewhere :: "ndp_lib \<Rightarrow> byte list \<Rightarrow> int \<Rightarrow> bool" where
  "routeElsewhere lib t ourIndex = (case nl_routeGet lib t of None \<Rightarrow> False
     | Some links \<Rightarrow> list_ex (\<lambda>l. l \<noteq> 0 \<and> l \<noteq> ourIndex) links)"

definition put_uint16 :: "nat \<Rightarrow> byte list" where
  "put_uint16 n = [of_nat (n div 256), of_nat n]"

definition buildIPv6 :: "byte list \<Rightarrow> byte list \<Rightarrow> byte list \<Rightarrow> byte list" where
  "buildIPv6 src dst payload = [0x60, 0, 0, 0] @ put_uint16 (length payload) @ [58, 255] @ src @ dst @ payload"

definition is_unspecified :: "byte list \<Rightarrow> bool" where
  "is_unspecified ip \<longleftrightarrow> list_all (\<lambda>b. b = 0) ip"

definition reply_to :: "byte list \<Rightarrow> byte list \<Rightarrow> byte list \<times> byte list" where
  "reply_to srcIP srcMAC =
    (if is_unspecified srcIP then (allNodesIP, allNodesMAC)
     else (srcIP, if length srcMAC = 6 then srcMAC else allNodesMAC))"

definition buildReply :: "ndp_lib \<Rightarrow> Responder \<Rightarrow> byte list \<Rightarrow> byte list \<Rightarrow> byte list \<Rightarrow> (byte list \<times> byte list) option" where
  "buildReply lib r target srcIP srcMAC =
    (case match_rule (rs_cfg r) target of
       None \<Rightarrow> None
     | Some rule \<Rightarrow>
        if rl_Auto rule \<and> \<not> routeElsewhere lib target (rs_index r) then None
        else (case reply_to srcIP srcMAC of (dstIP, dstMAC) \<Rightarrow>
          (case nl_marshalNA lib
              \<lparr>na_Router = rc_Router (rs_cfg r), na_Solicited = \<not> is_unspecified srcIP, na_Override = True,
               na_TargetAddress = target,
               na_TLLA = (case rl_Neighbor rule of Some mac \<Rightarrow> mac | None \<Rightarrow> rs_hwaddr r)\<rparr> target dstIP of
             None \<Rightarrow> None
           | Some icmp \<Rightarrow> Some (buildIPv6 target dstIP icmp, dstMAC))))"

text \<open>The header check of \<open>handle\<close>: IPv6, ICMPv6 directly after the header, hop limit 255.\<close>

definition ndp_header :: "byte list \<Rightarrow> bool" where
  "ndp_header pkt \<longleftrightarrow> 40 \<le> length pkt \<and> drop_bit 4 (pkt ! 0) = 6 \<and> pkt ! 6 = 58 \<and> pkt ! 7 = 255"

definition handle :: "ndp_lib \<Rightarrow> Responder \<Rightarrow> byte list \<Rightarrow> byte list \<Rightarrow> (byte list \<times> byte list) option" where
  "handle lib r pkt srcMAC =
    (if \<not> ndp_header pkt then None
     else (case nl_parseNS lib (drop 40 pkt) of
         None \<Rightarrow> None
       | Some target \<Rightarrow> buildReply lib r target (take 16 (drop 8 pkt)) srcMAC))"

text \<open>The loop of \<open>Run\<close> on the results of \<open>ReadFrom\<close>: a packet, cut to the buffer, with the sender's link-layer
  address, or an error, which is the regular end after the context is cancelled. The result is the
  packets sent and how the loop has ended.\<close>

datatype read_result = Packet "byte list" "byte list" | ReadFailed bool

datatype run_end = Reading | Closed | ReadErr

fun Run :: "ndp_lib \<Rightarrow> Responder \<Rightarrow> read_result list \<Rightarrow> (byte list \<times> byte list) list \<times> run_end" where
  "Run lib r [] = ([], Reading)"
| "Run lib r (Packet p mac # rs) = (case handle lib r (take 1500 p) mac of
      None \<Rightarrow> Run lib r rs
    | Some out \<Rightarrow> map_prod (Cons out) id (Run lib r rs))"
| "Run lib r (ReadFailed cancelled # rs) = ([], if cancelled then Closed else ReadErr)"

section \<open>Properties\<close>

lemma put_uint16_length [simp]: "length (put_uint16 n) = 2"
  by (simp add: put_uint16_def)

lemma buildIPv6_fields:
  assumes "length src = 16" "length dst = 16"
  shows "take 16 (drop 8 (buildIPv6 src dst p)) = src" "take 16 (drop 24 (buildIPv6 src dst p)) = dst"
    "drop 40 (buildIPv6 src dst p) = p" "ndp_header (buildIPv6 src dst p)"
    "length (buildIPv6 src dst p) = 40 + length p"
  using assms by (simp_all add: buildIPv6_def put_uint16_def ndp_header_def)

lemma uint16_round_trip:
  assumes "n < 65536"
  shows "256 * unat (put_uint16 n ! 0) + unat (put_uint16 n ! 1) = n"
  using assms by (simp add: put_uint16_def unat_of_nat)

lemma find_first:
  "List.find P xs = Some x \<Longrightarrow> \<exists>pre post. xs = pre @ x # post \<and> P x \<and> list_all (\<lambda>q. \<not> P q) pre"
proof (induction xs)
  case (Cons a xs)
  show ?case
  proof (cases "P a")
    case True then show ?thesis using Cons.prems by (intro exI[of _ "[]"] exI[of _ xs]) simp
  next
    case False
    then obtain pre post where "xs = pre @ x # post" "P x" "list_all (\<lambda>q. \<not> P q) pre" using Cons by auto
    then show ?thesis using False by (intro exI[of _ "a # pre"] exI[of _ post]) simp
  qed
qed simp

lemma find_skip: "list_all (\<lambda>q. \<not> P q) pre \<Longrightarrow> P x \<Longrightarrow> List.find P (pre @ x # post) = Some x"
  by (induction pre) auto

lemma match_rule_iff:
  "match_rule cfg t = Some rule \<longleftrightarrow> (\<exists>pre post. rc_Rules cfg = pre @ rule # post \<and> Contains (rl_Prefix rule) t
    \<and> list_all (\<lambda>q. \<not> Contains (rl_Prefix q) t) pre)"
  unfolding match_rule_def using find_first[of "\<lambda>rl. Contains (rl_Prefix rl) t"] find_skip[of "\<lambda>rl. Contains (rl_Prefix rl) t"]
  by auto

text \<open>(C25) The responder sends an answer exactly when the packet has the header of an NDP message and
  parses as a solicitation, its target lies in the prefix of some rule, the first such rule is
  not automatic or the kernel routes the target out of an interface other than the responder's,
  and the advertisement with this rule's link-layer address can be encoded.\<close>

theorem handle_answers_iff:
  "handle lib r pkt srcMAC \<noteq> None \<longleftrightarrow>
    ndp_header pkt \<and> (\<exists>target pre rule post. nl_parseNS lib (drop 40 pkt) = Some target
      \<and> rc_Rules (rs_cfg r) = pre @ rule # post \<and> Contains (rl_Prefix rule) target
      \<and> list_all (\<lambda>q. \<not> Contains (rl_Prefix q) target) pre
      \<and> (rl_Auto rule \<longrightarrow> (\<exists>links l. nl_routeGet lib target = Some links \<and> l \<in> set links \<and> l \<noteq> 0 \<and> l \<noteq> rs_index r))
      \<and> nl_marshalNA lib \<lparr>na_Router = rc_Router (rs_cfg r), na_Solicited = \<not> is_unspecified (take 16 (drop 8 pkt)),
            na_Override = True, na_TargetAddress = target,
            na_TLLA = (case rl_Neighbor rule of Some mac \<Rightarrow> mac | None \<Rightarrow> rs_hwaddr r)\<rparr>
          target (if is_unspecified (take 16 (drop 8 pkt)) then allNodesIP else take 16 (drop 8 pkt)) \<noteq> None)"
proof -
  have route: "routeElsewhere lib t i \<longleftrightarrow> (\<exists>links l. nl_routeGet lib t = Some links \<and> l \<in> set links \<and> l \<noteq> 0 \<and> l \<noteq> i)" for t i
    by (auto simp: routeElsewhere_def list_ex_iff split: option.splits)
  have reply: "handle lib r pkt srcMAC \<noteq> None \<longleftrightarrow>
    ndp_header pkt \<and> (\<exists>target rule. nl_parseNS lib (drop 40 pkt) = Some target \<and> match_rule (rs_cfg r) target = Some rule
      \<and> (rl_Auto rule \<longrightarrow> routeElsewhere lib target (rs_index r))
      \<and> nl_marshalNA lib \<lparr>na_Router = rc_Router (rs_cfg r), na_Solicited = \<not> is_unspecified (take 16 (drop 8 pkt)),
            na_Override = True, na_TargetAddress = target,
            na_TLLA = (case rl_Neighbor rule of Some mac \<Rightarrow> mac | None \<Rightarrow> rs_hwaddr r)\<rparr>
          target (if is_unspecified (take 16 (drop 8 pkt)) then allNodesIP else take 16 (drop 8 pkt)) \<noteq> None)"
    by (auto simp: handle_def buildReply_def reply_to_def split: option.splits prod.splits if_splits)
  show ?thesis unfolding reply match_rule_iff route by blast
qed


definition sample_lib :: ndp_lib where
  "sample_lib = \<lparr>nl_parseNS = (\<lambda>m. if length m = 16 then Some m else None),
     nl_marshalNA = (\<lambda>na src dst. Some (na_TargetAddress na @ na_TLLA na)), nl_routeGet = (\<lambda>_. None)\<rparr>"

definition sample_responder :: Responder where
  "sample_responder = \<lparr>rs_cfg = \<lparr>rc_Iface = ''eth0'', rc_Router = True,
       rc_Rules = [\<lparr>rl_Prefix = \<lparr>pf_Addr = [0x20, 1] @ replicate 14 0, pf_Bits = 16\<rparr>, rl_Neighbor = None, rl_Auto = False\<rparr>]\<rparr>,
     rs_index = 2, rs_hwaddr = [2, 0, 0, 0, 0, 1]\<rparr>"

definition sample_ns :: "byte list" where
  "sample_ns = buildIPv6 (replicate 16 0) allNodesIP ([0x20, 1] @ replicate 14 7)"

theorem handle_answers_iff_witness:
  "handle sample_lib sample_responder sample_ns [] \<noteq> None"
proof -
  obtain rule where r: "rc_Rules (rs_cfg sample_responder) = [] @ rule # []" "Contains (rl_Prefix rule) ([0x20, 1] @ replicate 14 7)"
      "\<not> rl_Auto rule"
  proof
    show "rc_Rules (rs_cfg sample_responder) = [] @ hd (rc_Rules (rs_cfg sample_responder)) # []" by (simp add: sample_responder_def)
    show "Contains (rl_Prefix (hd (rc_Rules (rs_cfg sample_responder)))) ([0x20, 1] @ replicate 14 7)" by code_simp
    show "\<not> rl_Auto (hd (rc_Rules (rs_cfg sample_responder)))" by code_simp
  qed
  have "ndp_header sample_ns" by code_simp
  moreover have "nl_parseNS sample_lib (drop 40 sample_ns) = Some ([0x20, 1] @ replicate 14 7)" by code_simp
  moreover have "nl_marshalNA sample_lib na src dst \<noteq> None" for na src dst by (simp add: sample_lib_def)
  ultimately show ?thesis using r handle_answers_iff[of sample_lib sample_responder sample_ns "[]"] by fastforce
qed


end
