(* ===== verification/Dhcp.thy ===== *)
theory Dhcp
  imports Netlink
begin

text \<open>
  DHCP (\<open>netlink/dhcp.go\<close>, \<open>netlink/purego/dhcp4_client.go\<close>, \<open>netlink/purego/dhcp6_client.go\<close>): the
  clients' exchanges, the leases they parse, the fallback to external clients, and the
  application of a lease to an interface. The DHCP library is reached through requests; what its
  accessors return for a message is the reply. A nil \<open>net.IP\<close> or mask is the empty list; durations
  are nanoseconds. The message constructors of the library are taken to fail only together with
  the sending of the message.
\<close>

section \<open>Numbers and text\<close>

definition wrap64 :: "int \<Rightarrow> int" where
  "wrap64 x = sint (word_of_int x :: 64 word)"

text \<open>Integer division of Go truncates towards zero.\<close>

definition go_quot :: "int \<Rightarrow> int \<Rightarrow> int" where
  "go_quot a b = sgn a * sgn b * (\<bar>a\<bar> div \<bar>b\<bar>)"

definition second :: int where
  "second = 1000000000"

definition hour :: int where
  "hour = 3600 * second"

text \<open>\<open>filepath.Base\<close> of a path without a trailing slash.\<close>

definition base_name :: "string \<Rightarrow> string" where
  "base_name p = last (split_on (CHR ''/'') p)"

section \<open>Leases\<close>

record DHCPv4Lease =
  l4_IP :: "byte list"
  l4_Netmask :: "byte list"
  l4_Gateway :: "byte list"
  l4_DNS :: "byte list list"
  l4_Domain :: string
  l4_LeaseTime :: int
  l4_ServerIP :: "byte list"
  l4_MTU :: int
  l4_NTPServers :: "byte list list"

record DHCPv6Lease =
  l6_Addresses :: "byte list list"
  l6_Prefixes :: "IPNet list"
  l6_DNS :: "byte list list"
  l6_Domains :: "string list"
  l6_LeaseTime :: int
  l6_ServerDUID :: "string option"

record p4Lease =
  p4_IP :: "byte list"
  p4_Netmask :: "byte list"
  p4_Gateway :: "byte list"
  p4_DNS :: "byte list list"
  p4_Domain :: string
  p4_LeaseTime :: int
  p4_ServerIP :: "byte list"
  p4_MTU :: int
  p4_Routes :: "string list"
  p4_NTPServers :: "byte list list"
  p4_RenewTime :: int
  p4_RebindTime :: int

record p6Lease =
  p6_Addresses :: "byte list list"
  p6_Prefixes :: "IPNet list"
  p6_DNS :: "byte list list"
  p6_Domains :: "string list"
  p6_LeaseTime :: int
  p6_ServerDUID :: "string option"
  p6_IAID :: "byte list"

definition purego4ToLease :: "p4Lease \<Rightarrow> DHCPv4Lease" where
  "purego4ToLease p = \<lparr>l4_IP = p4_IP p, l4_Netmask = p4_Netmask p, l4_Gateway = p4_Gateway p, l4_DNS = p4_DNS p,
     l4_Domain = p4_Domain p, l4_LeaseTime = p4_LeaseTime p, l4_ServerIP = p4_ServerIP p, l4_MTU = p4_MTU p,
     l4_NTPServers = p4_NTPServers p\<rparr>"

definition purego6ToLease :: "p6Lease \<Rightarrow> DHCPv6Lease" where
  "purego6ToLease p = \<lparr>l6_Addresses = p6_Addresses p, l6_Prefixes = p6_Prefixes p, l6_DNS = p6_DNS p,
     l6_Domains = p6_Domains p, l6_LeaseTime = p6_LeaseTime p, l6_ServerDUID = p6_ServerDUID p\<rparr>"

section \<open>The DHCPv4 client\<close>

record DHCPv4Client =
  c4_ifaceName :: string
  c4_iface :: iface
  c4_timeout :: int
  c4_retries :: int
  c4_hostname :: string
  c4_clientID :: "byte list option"
  c4_requestIPs :: "byte list list"
  c4_options :: "string list"

definition dhcp :: "dhcp_call \<Rightarrow> (reply \<Rightarrow> cmd) \<Rightarrow> cmd" where
  "dhcp c k = ask (Ev '''' (Dhcp c)) k"

definition NewDHCPv4Client :: "string \<Rightarrow> (nl_error + DHCPv4Client \<Rightarrow> cmd) \<Rightarrow> cmd" where
  "NewDHCPv4Client name k = ask (Ev '''' (NetInterface name)) (\<lambda>r. k (case r of
      RIface i \<Rightarrow> Inr \<lparr>c4_ifaceName = name, c4_iface = i, c4_timeout = 10 * second, c4_retries = 3, c4_hostname = '''',
        c4_clientID = None, c4_requestIPs = [], c4_options = []\<rparr>
    | _ \<Rightarrow> Inl (Wrap (''interface '' @ name @ '' not found'') (sys_error r))))"

definition parseLeaseFromACK :: "ack4 \<Rightarrow> p4Lease" where
  "parseLeaseFromACK a =
    (let lt = (if ak_LeaseTime a > 0 then ak_LeaseTime a else 24 * hour) in
     \<lparr>p4_IP = ak_YourIPAddr a,
      p4_Netmask = (case ak_SubnetMask a of Some m \<Rightarrow> m | None \<Rightarrow> cidr_mask 24 32),
      p4_Gateway = (case ak_Router a of [] \<Rightarrow> [] | g # _ \<Rightarrow> g),
      p4_DNS = ak_DNS a,
      p4_Domain = ak_DomainName a,
      p4_LeaseTime = lt,
      p4_ServerIP = (case ak_ServerID a of Some s \<Rightarrow> s | None \<Rightarrow> ak_ServerIPAddr a),
      p4_MTU = (case ak_MTU a of Some m \<Rightarrow> uint m | None \<Rightarrow> 0),
      p4_Routes = (case ak_Routes a of Some r \<Rightarrow> r | None \<Rightarrow> []),
      p4_NTPServers = (case ak_NTP a of Some n \<Rightarrow> n | None \<Rightarrow> []),
      p4_RenewTime = (if ak_T1 a > 0 then ak_T1 a else go_quot lt 2),
      p4_RebindTime = (if ak_T2 a > 0 then ak_T2 a else go_quot (wrap64 (lt * 7)) 8)\<rparr>)"

definition createOfferFromLease :: "DHCPv4Client \<Rightarrow> p4Lease \<Rightarrow> offer4" where
  "createOfferFromLease c l = \<lparr>of_HW = if_HW (c4_iface c), of_YourIP = p4_IP l, of_ServerIP = p4_ServerIP l,
     of_Netmask = p4_Netmask l, of_Router = p4_Gateway l, of_DNS = p4_DNS l\<rparr>"

definition requested4 :: "dhcp4_option list" where
  "requested4 = [SubnetMask, Router, DomainNameServer, DomainName, InterfaceMTU, ClasslessStaticRoute, NTPServers]"

definition mods4 :: "DHCPv4Client \<Rightarrow> dhcp4_mod list" where
  "mods4 c = (if c4_hostname c \<noteq> '''' then [WithHostName (c4_hostname c)] else [])
     @ (case c4_clientID c of None \<Rightarrow> [] | Some i \<Rightarrow> [WithClientIdentifier i])
     @ map WithOption4 (c4_options c) @ [WithRequested4 requested4]"

definition c4_Request :: "DHCPv4Client \<Rightarrow> (nl_error + p4Lease \<Rightarrow> cmd) \<Rightarrow> cmd" where
  "c4_Request c k = dhcp (Client4 (c4_ifaceName c) (Some (c4_timeout c)) (Some (c4_retries c))) (\<lambda>r. case r of
      RFail m \<Rightarrow> k (Inl (Wrap ''create DHCP client'' (Sys m)))
    | _ \<Rightarrow> dhcp (Request4 (mods4 c)) (\<lambda>r. k (case r of
        RAck a \<Rightarrow> Inr (parseLeaseFromACK a)
      | _ \<Rightarrow> Inl (Wrap ''DHCP request failed'' (sys_error r)))))"

definition c4_Renew :: "DHCPv4Client \<Rightarrow> p4Lease \<Rightarrow> (nl_error + p4Lease \<Rightarrow> cmd) \<Rightarrow> cmd" where
  "c4_Renew c l k = dhcp (Client4 (c4_ifaceName c) (Some (c4_timeout c)) None) (\<lambda>r. case r of
      RFail m \<Rightarrow> k (Inl (Sys m))
    | _ \<Rightarrow> dhcp (SendAndRead4 (Some (p4_ServerIP l)) (RequestFromOffer (createOfferFromLease c l))) (\<lambda>r. k (case r of
        RAck a \<Rightarrow> if ak_IsAck a then Inr (parseLeaseFromACK a) else Inl (Sys ''renew got no ACK'')
      | _ \<Rightarrow> Inl (Wrap ''renew failed'' (sys_error r)))))"

text \<open>Release and decline are best effort: only opening the client can fail.\<close>

definition c4_Release :: "DHCPv4Client \<Rightarrow> p4Lease \<Rightarrow> cmd" where
  "c4_Release c l = andthen (call (Ev '''' (Dhcp (Client4 (c4_ifaceName c) None None))))
     (warn (call (Ev '''' (Dhcp (SendAndRead4 (Some (p4_ServerIP l)) (MsgRelease (if_HW (c4_iface c)) (p4_IP l) (p4_ServerIP l)))))))"

definition c4_Decline :: "DHCPv4Client \<Rightarrow> byte list \<Rightarrow> byte list \<Rightarrow> cmd" where
  "c4_Decline c ip serverIP = andthen (call (Ev '''' (Dhcp (Client4 (c4_ifaceName c) None None))))
     (warn (call (Ev '''' (Dhcp (SendAndRead4 None (MsgDecline (if_HW (c4_iface c)) ip serverIP))))))"

definition c4_Inform :: "DHCPv4Client \<Rightarrow> byte list \<Rightarrow> (nl_error + p4Lease \<Rightarrow> cmd) \<Rightarrow> cmd" where
  "c4_Inform c clientIP k = dhcp (Client4 (c4_ifaceName c) None None) (\<lambda>r. case r of
      RFail m \<Rightarrow> k (Inl (Sys m))
    | _ \<Rightarrow> dhcp (SendAndRead4 None (MsgInform (if_HW (c4_iface c)) clientIP [DomainNameServer, DomainName, NTPServers])) (\<lambda>r. k (case r of
        RAck a \<Rightarrow> Inr ((parseLeaseFromACK a)\<lparr>p4_IP := clientIP\<rparr>)
      | _ \<Rightarrow> Inl (sys_error r))))"

section \<open>The DHCPv6 client\<close>

record DHCPv6Client =
  c6_ifaceName :: string
  c6_iface :: iface
  c6_timeout :: int
  c6_retries :: int
  c6_rapidCommit :: bool
  c6_requestPD :: bool
  c6_requestNA :: bool
  c6_pdHint :: "8 word"
  c6_options :: "string list"

definition NewDHCPv6Client :: "string \<Rightarrow> (nl_error + DHCPv6Client \<Rightarrow> cmd) \<Rightarrow> cmd" where
  "NewDHCPv6Client name k = ask (Ev '''' (NetInterface name)) (\<lambda>r. k (case r of
      RIface i \<Rightarrow> Inr \<lparr>c6_ifaceName = name, c6_iface = i, c6_timeout = 10 * second, c6_retries = 3, c6_rapidCommit = False,
        c6_requestPD = False, c6_requestNA = True, c6_pdHint = 0, c6_options = []\<rparr>
    | _ \<Rightarrow> Inl (Wrap (''interface '' @ name @ '' not found'') (sys_error r))))"

definition iana_step :: "p6Lease \<Rightarrow> iana6 \<Rightarrow> p6Lease" where
  "iana_step l ia = foldl (\<lambda>l (a, valid). l\<lparr>p6_Addresses := p6_Addresses l @ [a],
       p6_LeaseTime := (if valid > 0 then valid else p6_LeaseTime l)\<rparr>)
     (l\<lparr>p6_IAID := ia_IaId ia\<rparr>) (ia_Addresses ia)"

definition parseLeaseFromReply :: "reply6 \<Rightarrow> p6Lease" where
  "parseLeaseFromReply r =
    (let l = foldl iana_step \<lparr>p6_Addresses = [], p6_Prefixes = [], p6_DNS = [], p6_Domains = [], p6_LeaseTime = 0,
               p6_ServerDUID = None, p6_IAID = [0, 0, 0, 0]\<rparr> (r6_IANA r)
     in l\<lparr>p6_Prefixes := concat (r6_IAPD r), p6_DNS := r6_DNS r,
          p6_Domains := (case r6_Domains r of Some d \<Rightarrow> d | None \<Rightarrow> []),
          p6_ServerDUID := r6_ServerID r,
          p6_LeaseTime := (if p6_LeaseTime l = 0 then 24 * hour else p6_LeaseTime l)\<rparr>)"

definition mods6 :: "DHCPv6Client \<Rightarrow> dhcp6_mod list" where
  "mods6 c = [WithRequested6 [DNSRecursiveNameServer, DomainSearchList]]
     @ (if c6_requestPD c then [WithIAPD [0, 0, 0, 2]] else []) @ map WithOption6 (c6_options c)"

definition got6 :: "(nl_error + p6Lease \<Rightarrow> cmd) \<Rightarrow> (nl_error \<Rightarrow> nl_error) \<Rightarrow> reply \<Rightarrow> cmd" where
  "got6 k f r = k (case r of RReply6 m \<Rightarrow> Inr (parseLeaseFromReply m) | _ \<Rightarrow> Inl (f (sys_error r)))"

definition c6_Request :: "DHCPv6Client \<Rightarrow> (nl_error + p6Lease \<Rightarrow> cmd) \<Rightarrow> cmd" where
  "c6_Request c k = dhcp (Client6 (c6_ifaceName c) (Some (c6_timeout c)) (Some (c6_retries c))) (\<lambda>r. case r of
      RFail m \<Rightarrow> k (Inl (Wrap ''create DHCPv6 client'' (Sys m)))
    | _ \<Rightarrow> if c6_rapidCommit c
        then dhcp (RapidSolicit6 (mods6 c @ [WithRapidCommit])) (got6 k (Wrap ''DHCPv6 request failed''))
        else dhcp (Solicit6 (mods6 c)) (\<lambda>r. case r of
            RFail m \<Rightarrow> k (Inl (Wrap ''solicit failed'' (Sys m)))
          | _ \<Rightarrow> dhcp (Request6 (mods6 c)) (got6 k (Wrap ''DHCPv6 request failed''))))"

definition msg6 :: "DHCPv6Client \<Rightarrow> dhcp6_type \<Rightarrow> string option \<Rightarrow> byte list \<Rightarrow> byte list list \<Rightarrow> dhcp6_option list \<Rightarrow> dhcp6_msg" where
  "msg6 c t server iaid addrs opts = \<lparr>m6_Type = t, m6_ClientLL = if_HW (c6_iface c), m6_ServerID = server,
     m6_IANA = map (\<lambda>a. (iaid, a)) addrs, m6_Requested = opts\<rparr>"

definition exchange6 :: "DHCPv6Client \<Rightarrow> dhcp6_msg \<Rightarrow> (nl_error \<Rightarrow> nl_error) \<Rightarrow> (nl_error + p6Lease \<Rightarrow> cmd) \<Rightarrow> cmd" where
  "exchange6 c m f k = dhcp (Client6 (c6_ifaceName c) (Some (c6_timeout c)) None) (\<lambda>r. case r of
      RFail e \<Rightarrow> k (Inl (Sys e)) | _ \<Rightarrow> dhcp (SendAndRead6 m) (got6 k f))"

definition c6_Renew :: "DHCPv6Client \<Rightarrow> p6Lease \<Rightarrow> (nl_error + p6Lease \<Rightarrow> cmd) \<Rightarrow> cmd" where
  "c6_Renew c l = exchange6 c (msg6 c RENEW6 (p6_ServerDUID l) (p6_IAID l) (p6_Addresses l) []) (Wrap ''renew failed'')"

definition c6_Rebind :: "DHCPv6Client \<Rightarrow> p6Lease \<Rightarrow> (nl_error + p6Lease \<Rightarrow> cmd) \<Rightarrow> cmd" where
  "c6_Rebind c l = exchange6 c (msg6 c REBIND6 None (p6_IAID l) (p6_Addresses l) []) (Wrap ''rebind failed'')"

definition c6_InformationRequest :: "DHCPv6Client \<Rightarrow> (nl_error + p6Lease \<Rightarrow> cmd) \<Rightarrow> cmd" where
  "c6_InformationRequest c = exchange6 c (msg6 c INFORMATION_REQUEST6 None [] []
     [DNSRecursiveNameServer, DomainSearchList, BootfileURL, SNTPServerList]) (\<lambda>e. e)"

definition send6 :: "DHCPv6Client \<Rightarrow> dhcp6_msg \<Rightarrow> cmd" where
  "send6 c m = andthen (call (Ev '''' (Dhcp (Client6 (c6_ifaceName c) None None)))) (warn (call (Ev '''' (Dhcp (SendAndRead6 m)))))"

definition c6_Release :: "DHCPv6Client \<Rightarrow> p6Lease \<Rightarrow> cmd" where
  "c6_Release c l = send6 c (msg6 c RELEASE6 (p6_ServerDUID l) (p6_IAID l) (p6_Addresses l) [])"

definition c6_Decline :: "DHCPv6Client \<Rightarrow> p6Lease \<Rightarrow> byte list list \<Rightarrow> cmd" where
  "c6_Decline c l conflict = send6 c (msg6 c DECLINE6 (p6_ServerDUID l) (p6_IAID l) conflict [])"

section \<open>The DHCP manager\<close>

record DHCPManager =
  dm_timeout :: int
  dm_retries :: int
  dm_hostname :: string
  dm_dhcpIdent :: string
  dm_externalV4 :: string
  dm_externalV6 :: string

fun lookup_first :: "string list \<Rightarrow> (string \<Rightarrow> cmd) \<Rightarrow> cmd" where
  "lookup_first [] k = k ''''"
| "lookup_first (n # ns) k = ask (Ev '''' (LookPath n)) (\<lambda>r. case r of RStr p \<Rightarrow> k p | _ \<Rightarrow> lookup_first ns k)"

definition clients4 :: "string list" where
  "clients4 = [''dhclient'', ''dhcpcd'', ''udhcpc'']"

definition clients6 :: "string list" where
  "clients6 = [''dhclient'', ''dhcpcd'', ''dhcp6c'']"

definition detectExternalClients :: "DHCPManager \<Rightarrow> (DHCPManager \<Rightarrow> cmd) \<Rightarrow> cmd" where
  "detectExternalClients m k = lookup_first clients4 (\<lambda>p4. lookup_first clients6 (\<lambda>p6.
     k (m\<lparr>dm_externalV4 := p4, dm_externalV6 := p6\<rparr>)))"

definition NewDHCPManager :: "(DHCPManager \<Rightarrow> cmd) \<Rightarrow> cmd" where
  "NewDHCPManager k = detectExternalClients \<lparr>dm_timeout = 30 * second, dm_retries = 3, dm_hostname = '''', dm_dhcpIdent = '''',
       dm_externalV4 = '''', dm_externalV6 = ''''\<rparr>
     (\<lambda>m. ask (Ev '''' Hostname) (\<lambda>r. k (case r of RStr h \<Rightarrow> m\<lparr>dm_hostname := h\<rparr> | _ \<Rightarrow> m)))"

definition SetSendHostname :: "bool \<Rightarrow> DHCPManager \<Rightarrow> DHCPManager" where
  "SetSendHostname send m = (if send then m else m\<lparr>dm_hostname := ''''\<rparr>)"

definition SetHostname :: "string \<Rightarrow> DHCPManager \<Rightarrow> DHCPManager" where
  "SetHostname h m = m\<lparr>dm_hostname := h\<rparr>"

definition SetDHCPIdentifier :: "string \<Rightarrow> DHCPManager \<Rightarrow> DHCPManager" where
  "SetDHCPIdentifier i m = m\<lparr>dm_dhcpIdent := to_lower i\<rparr>"

subsection \<open>Leases read back from the system\<close>

definition lf :: char where
  "lf = CHR 0x0A"

definition resolv_line :: "byte list list \<times> string \<Rightarrow> string \<Rightarrow> byte list list \<times> string" where
  "resolv_line acc line = (case acc of (dns, domain) \<Rightarrow>
    (let f = Fields (trim_space line) in
     if length f < 2 \<or> has_prefix (f ! 0) ''#'' then (dns, domain)
     else if f ! 0 = ''nameserver'' then (case ParseIP (f ! 1) of Some ip \<Rightarrow> (dns @ [ip], domain) | None \<Rightarrow> (dns, domain))
     else if f ! 0 = ''search'' \<or> f ! 0 = ''domain'' then (dns, f ! 1)
     else (dns, domain)))"

text \<open>\<open>parseDNSFromResolv\<close> on the contents of the file (empty when it cannot be read).\<close>

definition parse_resolv :: "string \<Rightarrow> byte list list \<times> string" where
  "parse_resolv s = foldl resolv_line ([], '''') (split_on lf s)"

text \<open>\<open>fmt.Sscanf(s, "%02x...")\<close>: up to two hexadecimal digits per byte; scanning stops at the
  first byte without a digit and leaves the others zero.\<close>

fun scan_hex :: "nat \<Rightarrow> string \<Rightarrow> byte list" where
  "scan_hex 0 s = []"
| "scan_hex (Suc n) s = (let h = take 2 (hex_run s) in
     if h = [] then replicate (Suc n) 0 else of_nat (hex_num h) # scan_hex n (drop (length h) s))"

definition route_gw :: "string \<Rightarrow> byte list option" where
  "route_gw line = (let f = Fields line in
     if 3 \<le> length f \<and> f ! 1 = ''00000000'' then Some (v4_prefix @ rev (scan_hex 4 (f ! 2))) else None)"

definition default_gw :: "string \<Rightarrow> byte list" where
  "default_gw s = (case List.map_filter route_gw (drop 1 (split_on lf s)) of [] \<Rightarrow> [] | g # _ \<Rightarrow> g)"

definition file_text :: "reply \<Rightarrow> string" where
  "file_text r = (case r of RStr s \<Rightarrow> s | _ \<Rightarrow> [])"

definition getLease4FromInterface :: "string \<Rightarrow> (nl_error + DHCPv4Lease \<Rightarrow> cmd) \<Rightarrow> cmd" where
  "getLease4FromInterface name k = ask (Ev '''' (NetInterface name)) (\<lambda>r. case r of
      RIface i \<Rightarrow> (case filter (\<lambda>n. To4 (ipnet_IP n) \<noteq> None) (if_Addrs i) of
          [] \<Rightarrow> k (Inl (Missing (''IPv4 on '' @ name)))
        | n # _ \<Rightarrow> ask (Ev '''' (ReadFile ''/proc/net/route'')) (\<lambda>rt. ask (Ev '''' (ReadFile ''/etc/resolv.conf'')) (\<lambda>rc.
            case parse_resolv (file_text rc) of (dns, domain) \<Rightarrow>
              k (Inr \<lparr>l4_IP = the (To4 (ipnet_IP n)), l4_Netmask = ipnet_Mask n, l4_Gateway = default_gw (file_text rt), l4_DNS = dns,
                 l4_Domain = domain, l4_LeaseTime = 0, l4_ServerIP = [], l4_MTU = if_MTU i, l4_NTPServers = []\<rparr>))))
    | _ \<Rightarrow> k (Inl (sys_error r)))"

definition link_local6 :: "byte list \<Rightarrow> bool" where
  "link_local6 ip \<longleftrightarrow> length ip = 16 \<and> ip ! 0 = 254 \<and> and (ip ! 1) 192 = 128"

definition getLease6FromInterface :: "string \<Rightarrow> (nl_error + DHCPv6Lease \<Rightarrow> cmd) \<Rightarrow> cmd" where
  "getLease6FromInterface name k = ask (Ev '''' (NetInterface name)) (\<lambda>r. case r of
      RIface i \<Rightarrow> (let addrs = filter (\<lambda>ip. length ip = 16 \<and> To4 ip = None \<and> \<not> link_local6 ip) (map ipnet_IP (if_Addrs i)) in
        k (if addrs = [] then Inl (Missing (''IPv6 on '' @ name))
           else Inr \<lparr>l6_Addresses = addrs, l6_Prefixes = [], l6_DNS = [], l6_Domains = [], l6_LeaseTime = 0, l6_ServerDUID = None\<rparr>))
    | _ \<Rightarrow> k (Inl (sys_error r)))"

subsection \<open>Requesting a lease\<close>

definition client_id :: "DHCPManager \<Rightarrow> string \<Rightarrow> (byte list option \<Rightarrow> cmd) \<Rightarrow> cmd" where
  "client_id m name k = (if dm_dhcpIdent m = ''mac''
     then ask (Ev '''' (NetInterface name)) (\<lambda>r. k (case r of
       RIface i \<Rightarrow> if if_HW i \<noteq> [] then Some (1 # if_HW i) else None | _ \<Rightarrow> None))
     else k None)"

definition requestDHCPv4PureGo :: "DHCPManager \<Rightarrow> string \<Rightarrow> (nl_error + DHCPv4Lease \<Rightarrow> cmd) \<Rightarrow> cmd" where
  "requestDHCPv4PureGo m name k = NewDHCPv4Client name (\<lambda>r. case r of
      Inl e \<Rightarrow> k (Inl e)
    | Inr c \<Rightarrow> client_id m name (\<lambda>cid.
        c4_Request (c\<lparr>c4_timeout := dm_timeout m, c4_retries := dm_retries m, c4_hostname := dm_hostname m, c4_clientID := cid\<rparr>)
          (\<lambda>r. k (map_sum id purego4ToLease r))))"

definition hostname_args :: "DHCPManager \<Rightarrow> string list" where
  "hostname_args m = (if dm_hostname m \<noteq> '''' then [''-H'', dm_hostname m] else [])"

definition pid_file4 :: "string \<Rightarrow> string" where
  "pid_file4 name = ''/run/netcfg-dhcp4-'' @ name @ ''.pid''"

definition pid_file6 :: "string \<Rightarrow> string" where
  "pid_file6 name = ''/run/netcfg-dhcp6-'' @ name @ ''.pid''"

text \<open>The command line of an external client; \<open>None\<close> is the nil command of a client the switch
  does not know.\<close>

definition argv4 :: "DHCPManager \<Rightarrow> string \<Rightarrow> string list option" where
  "argv4 m name = (let b = base_name (dm_externalV4 m); x = dm_externalV4 m in
     if b = ''dhclient'' then Some ([x, ''-v'', ''-1'', ''-pf'', pid_file4 name, ''-lf'', ''/var/lib/netcfg/dhcp4-'' @ name @ ''.lease'']
       @ hostname_args m @ [name])
     else if b = ''dhcpcd'' then Some [x, ''-w'', ''-1'', ''-4'', name]
     else if b = ''udhcpc'' then Some ([x, ''-i'', name, ''-f'', ''-q'', ''-n''] @ hostname_args m)
     else None)"

definition argv6 :: "DHCPManager \<Rightarrow> string \<Rightarrow> string list option" where
  "argv6 m name = (let b = base_name (dm_externalV6 m); x = dm_externalV6 m in
     if b = ''dhclient'' then Some [x, ''-6'', ''-v'', ''-1'', ''-pf'', pid_file6 name, ''-lf'', ''/var/lib/netcfg/dhcp6-'' @ name @ ''.lease'', name]
     else if b = ''dhcpcd'' then Some [x, ''-w'', ''-1'', ''-6'', name]
     else None)"

definition run_client :: "string \<Rightarrow> string list option \<Rightarrow> (nl_error option \<Rightarrow> cmd) \<Rightarrow> cmd" where
  "run_client what argv k = ask (Ev '''' (Mkdir ''/var/lib/netcfg'')) (\<lambda>_. with_ptr argv (\<lambda>a.
     ask (Ev '''' (Exec a)) (\<lambda>r. k (case r of RFail e \<Rightarrow> Some (Wrap what (Sys e)) | _ \<Rightarrow> None))))"

definition requestDHCPv4External :: "DHCPManager \<Rightarrow> string \<Rightarrow> (nl_error + DHCPv4Lease \<Rightarrow> cmd) \<Rightarrow> cmd" where
  "requestDHCPv4External m name k = run_client ''DHCPv4 failed'' (argv4 m name) (\<lambda>e. case e of
      Some err \<Rightarrow> k (Inl err) | None \<Rightarrow> getLease4FromInterface name k)"

definition RequestDHCPv4 :: "DHCPManager \<Rightarrow> string \<Rightarrow> (nl_error + DHCPv4Lease \<Rightarrow> cmd) \<Rightarrow> cmd" where
  "RequestDHCPv4 m name k = requestDHCPv4PureGo m name (\<lambda>r. case r of
      Inr l \<Rightarrow> k (Inr l)
    | Inl e \<Rightarrow> if dm_externalV4 m = '''' then k (Inl (Wrap ''DHCPv4 failed'' e)) else requestDHCPv4External m name k)"

definition RenewDHCPv4 :: "DHCPManager \<Rightarrow> string \<Rightarrow> DHCPv4Lease option \<Rightarrow> (nl_error + DHCPv4Lease \<Rightarrow> cmd) \<Rightarrow> cmd" where
  "RenewDHCPv4 m name lease k =
    (let again = RequestDHCPv4 m name k in
     case lease of None \<Rightarrow> again
     | Some l \<Rightarrow> if l4_ServerIP l = [] then again
       else NewDHCPv4Client name (\<lambda>r. case r of
          Inl e \<Rightarrow> again
        | Inr c \<Rightarrow> c4_Renew (c\<lparr>c4_timeout := dm_timeout m, c4_hostname := dm_hostname m\<rparr>)
            \<lparr>p4_IP = l4_IP l, p4_Netmask = l4_Netmask l, p4_Gateway = l4_Gateway l, p4_DNS = [], p4_Domain = '''',
             p4_LeaseTime = l4_LeaseTime l, p4_ServerIP = l4_ServerIP l, p4_MTU = 0, p4_Routes = [], p4_NTPServers = [],
             p4_RenewTime = 0, p4_RebindTime = 0\<rparr>
            (\<lambda>r. case r of Inr p \<Rightarrow> k (Inr (purego4ToLease p)) | Inl e \<Rightarrow> again)))"

definition ReleaseDHCPv4 :: "DHCPManager \<Rightarrow> string \<Rightarrow> cmd" where
  "ReleaseDHCPv4 m name = (let x = dm_externalV4 m; b = base_name x in
     if x = '''' then nop
     else if b = ''dhclient'' then warn (call (Ev '''' (Exec [x, ''-r'', ''-pf'', pid_file4 name, name])))
     else if b = ''dhcpcd'' then warn (call (Ev '''' (Exec [x, ''-k'', ''-4'', name])))
     else nop)"

definition requestDHCPv6PureGo :: "DHCPManager \<Rightarrow> string \<Rightarrow> bool \<Rightarrow> (nl_error + DHCPv6Lease \<Rightarrow> cmd) \<Rightarrow> cmd" where
  "requestDHCPv6PureGo m name rapid k = NewDHCPv6Client name (\<lambda>r. case r of
      Inl e \<Rightarrow> k (Inl e)
    | Inr c \<Rightarrow> c6_Request (c\<lparr>c6_timeout := dm_timeout m, c6_retries := dm_retries m, c6_rapidCommit := rapid, c6_requestNA := True\<rparr>)
        (\<lambda>r. k (map_sum id purego6ToLease r)))"

definition requestDHCPv6External :: "DHCPManager \<Rightarrow> string \<Rightarrow> (nl_error + DHCPv6Lease \<Rightarrow> cmd) \<Rightarrow> cmd" where
  "requestDHCPv6External m name k = run_client ''DHCPv6 failed'' (argv6 m name) (\<lambda>e. case e of
      Some err \<Rightarrow> k (Inl err) | None \<Rightarrow> getLease6FromInterface name k)"

definition RequestDHCPv6 :: "DHCPManager \<Rightarrow> string \<Rightarrow> bool \<Rightarrow> (nl_error + DHCPv6Lease \<Rightarrow> cmd) \<Rightarrow> cmd" where
  "RequestDHCPv6 m name rapid k = requestDHCPv6PureGo m name rapid (\<lambda>r. case r of
      Inr l \<Rightarrow> k (Inr l)
    | Inl e \<Rightarrow> if dm_externalV6 m = '''' then k (Inl (Wrap ''DHCPv6 failed'' e)) else requestDHCPv6External m name k)"

definition ReleaseDHCPv6 :: "DHCPManager \<Rightarrow> string \<Rightarrow> cmd" where
  "ReleaseDHCPv6 m name = (let x = dm_externalV6 m; b = base_name x in
     if x = '''' then nop
     else if b = ''dhclient'' then warn (call (Ev '''' (Exec [x, ''-6'', ''-r'', ''-pf'', pid_file6 name, name])))
     else if b = ''dhcpcd'' then warn (call (Ev '''' (Exec [x, ''-k'', ''-6'', name])))
     else nop)"

subsection \<open>Applying a lease\<close>

definition defaultDHCPOverrides :: nl_DHCPOverrides where
  "defaultDHCPOverrides = \<lparr>do_UseDNS = True, do_UseMTU = True, do_UseRoutes = True, do_RouteMetric = 0, do_UseDomains = False\<rparr>"

definition resolv_conf :: "byte list list \<Rightarrow> string \<Rightarrow> string" where
  "resolv_conf dns domain = ''# Generated by netcfg'' @ [lf]
     @ (if domain \<noteq> '''' then ''search '' @ domain @ [lf] else [])
     @ concat (map (\<lambda>d. ''nameserver '' @ ip_string d @ [lf]) dns)"

definition UpdateResolvConf :: "byte list list \<Rightarrow> string \<Rightarrow> cmd" where
  "UpdateResolvConf dns domain = ask (Ev '''' (StatFile ''/run/systemd/resolve/stub-resolv.conf'')) (\<lambda>r. case r of
      RFail _ \<Rightarrow> call (Ev '''' (WriteFile ''/etc/resolv.conf'' (resolv_conf dns domain)))
    | _ \<Rightarrow> nop)"

definition overrides_of :: "nl_DHCPOverrides option \<Rightarrow> nl_DHCPOverrides" where
  "overrides_of ov = (case ov of Some o1 \<Rightarrow> o1 | None \<Rightarrow> defaultDHCPOverrides)"

definition lease_route :: "nl_DHCPOverrides \<Rightarrow> link \<Rightarrow> byte list \<Rightarrow> nlroute" where
  "lease_route ov l gw = empty_route\<lparr>rt_LinkIndex := l_Index l, rt_Gw := Some gw,
     rt_Priority := (if do_RouteMetric ov > 0 then do_RouteMetric ov else 0)\<rparr>"

definition ApplyDHCPv4Lease :: "string \<Rightarrow> DHCPv4Lease \<Rightarrow> nl_DHCPOverrides option \<Rightarrow> cmd" where
  "ApplyDHCPv4Lease name lease ov0 = (let ov = overrides_of ov0 in
     ask (Ev '''' (LinkByName name)) (\<lambda>r. case r of
       RLink l \<Rightarrow> ask (Ev '''' (AddrListV4 l)) (\<lambda>r. steps
         [each (case r of RAddrs as \<Rightarrow> as | _ \<Rightarrow> []) (\<lambda>a. warn (call (Ev '''' (AddrDel l a)))),
          wrap ''add addr'' (call (Ev '''' (AddrAddNet l \<lparr>ipnet_IP = l4_IP lease, ipnet_Mask = l4_Netmask lease\<rparr>))),
          only_if (l4_Gateway lease \<noteq> [] \<and> do_UseRoutes ov) (warn (call (Ev '''' (RouteAdd (lease_route ov l (l4_Gateway lease)))))),
          only_if (l4_MTU lease > 0 \<and> do_UseMTU ov) (warn (call (Ev '''' (LinkSetMTU l (l4_MTU lease))))),
          only_if (l4_DNS lease \<noteq> [] \<and> do_UseDNS ov)
            (warn (UpdateResolvConf (l4_DNS lease) (if do_UseDomains ov then l4_Domain lease else '''')))])
     | _ \<Rightarrow> failwith (sys_error r)))"

definition ApplyDHCPv6Lease :: "string \<Rightarrow> DHCPv6Lease \<Rightarrow> nl_DHCPOverrides option \<Rightarrow> cmd" where
  "ApplyDHCPv6Lease name lease ov0 = (let ov = overrides_of ov0 in
     ask (Ev '''' (LinkByName name)) (\<lambda>r. case r of
       RLink l \<Rightarrow> andthen
         (each (l6_Addresses lease) (\<lambda>ip. warn (call (Ev '''' (AddrAddNet l \<lparr>ipnet_IP = ip, ipnet_Mask = cidr_mask 128 128\<rparr>)))))
         (only_if (l6_DNS lease \<noteq> [] \<and> do_UseDNS ov)
            (warn (UpdateResolvConf (l6_DNS lease) (if do_UseDomains ov \<and> l6_Domains lease \<noteq> [] then hd (l6_Domains lease) else ''''))))
     | _ \<Rightarrow> failwith (sys_error r)))"

text \<open>The goroutines that an apply starts for a device: the lease is requested and applied, and
  errors are logged.\<close>

definition go_dhcp4 :: "DHCPManager \<Rightarrow> string \<Rightarrow> nl_DHCPOverrides option \<Rightarrow> cmd" where
  "go_dhcp4 m name ov = RequestDHCPv4 m name (\<lambda>r. case r of Inl e \<Rightarrow> nop | Inr l \<Rightarrow> warn (ApplyDHCPv4Lease name l ov))"

definition go_dhcp6 :: "DHCPManager \<Rightarrow> string \<Rightarrow> nl_DHCPOverrides option \<Rightarrow> cmd" where
  "go_dhcp6 m name ov = RequestDHCPv6 m name False (\<lambda>r. case r of Inl e \<Rightarrow> nop | Inr l \<Rightarrow> warn (ApplyDHCPv6Lease name l ov))"

end
