(* ===== verification/DhcpDaemon.thy ===== *)
theory DhcpDaemon
  imports Dhcp
begin

text \<open>
  The lease daemon (\<open>netlink/dhcp_daemon.go\<close>, with the reload step of \<open>cmd/daemon.go\<close>): the leases it
  keeps, the files it keeps them in, the renewal tick, and what it does to interfaces. Each
  operation takes the time and the results of the DHCP requests it makes and returns the
  new state; the actions on interfaces are recorded in order and \<open>perform\<close> says which command each
  stands for. The mutex makes operations atomic, so an execution is a sequence of them. The JSON
  codec and the success of file writes are parameters. Times are nanoseconds, 0 is the zero time.
\<close>

section \<open>State\<close>

record LeaseState =
  ls_Interface :: string
  ls_IPv4 :: "DHCPv4Lease option"
  ls_IPv6 :: "DHCPv6Lease option"
  ls_ObtainedAt :: int
  ls_RenewAt :: int
  ls_ExpireAt :: int
  ls_V4Overrides :: "nl_DHCPOverrides option"

datatype lease_action =
    Apply4 string DHCPv4Lease "nl_DHCPOverrides option"
  | Apply6 string DHCPv6Lease "nl_DHCPOverrides option"
  | Release4 string
  | Release6 string

record DHCPDaemon =
  dd_leases :: "LeaseState alist"
  dd_files :: "string alist"
  dd_actions :: "lease_action list"

record codec =
  cd_marshal :: "LeaseState \<Rightarrow> string"
  cd_unmarshal :: "string \<Rightarrow> LeaseState option"
  cd_writable :: "string \<Rightarrow> bool"

definition perform :: "DHCPManager \<Rightarrow> lease_action \<Rightarrow> cmd" where
  "perform m a = (case a of
      Apply4 name l ov \<Rightarrow> warn (ApplyDHCPv4Lease name l ov)
    | Apply6 name l ov \<Rightarrow> warn (ApplyDHCPv6Lease name l ov)
    | Release4 name \<Rightarrow> ReleaseDHCPv4 m name
    | Release6 name \<Rightarrow> ReleaseDHCPv6 m name)"

definition NewDHCPDaemon :: "string alist \<Rightarrow> DHCPDaemon" where
  "NewDHCPDaemon files = \<lparr>dd_leases = [], dd_files = files, dd_actions = []\<rparr>"

definition lease_file :: "string \<Rightarrow> string" where
  "lease_file name = ''/var/lib/netcfg/leases/'' @ name @ ''.json''"

definition act :: "lease_action \<Rightarrow> DHCPDaemon \<Rightarrow> DHCPDaemon" where
  "act a d = d\<lparr>dd_actions := dd_actions d @ [a]\<rparr>"

definition saveLease :: "codec \<Rightarrow> string \<Rightarrow> LeaseState \<Rightarrow> DHCPDaemon \<Rightarrow> DHCPDaemon" where
  "saveLease c name s d = (if cd_writable c (lease_file name)
     then d\<lparr>dd_files := alist_put (lease_file name) (cd_marshal c s) (dd_files d)\<rparr> else d)"

section \<open>Operations\<close>

text \<open>The times of a new lease.\<close>

definition new_times :: "int \<Rightarrow> DHCPv4Lease \<Rightarrow> LeaseState \<Rightarrow> LeaseState" where
  "new_times now l s = (if l4_LeaseTime l > 0
     then s\<lparr>ls_RenewAt := now + l4_LeaseTime l div 2, ls_ExpireAt := now + l4_LeaseTime l\<rparr>
     else s\<lparr>ls_RenewAt := now + 12 * hour, ls_ExpireAt := now + 24 * hour\<rparr>)"

definition RequestLease :: "codec \<Rightarrow> int \<Rightarrow> DHCPv4Lease option \<Rightarrow> DHCPv6Lease option \<Rightarrow> string \<Rightarrow> bool \<Rightarrow> bool
    \<Rightarrow> nl_DHCPOverrides option \<Rightarrow> nl_DHCPOverrides option \<Rightarrow> DHCPDaemon \<Rightarrow> DHCPDaemon" where
  "RequestLease c now res4 res6 name wantV4 wantV6 v4ov v6ov d =
    (let s0 = \<lparr>ls_Interface = name, ls_IPv4 = None, ls_IPv6 = None, ls_ObtainedAt = now, ls_RenewAt = 0, ls_ExpireAt = 0,
               ls_V4Overrides = v4ov\<rparr>;
         (s1, d1) = (case (wantV4, res4) of
             (True, Some l) \<Rightarrow> (new_times now l (s0\<lparr>ls_IPv4 := Some l\<rparr>), act (Apply4 name l v4ov) d)
           | _ \<Rightarrow> (s0, d));
         (s2, d2) = (case (wantV6, res6) of
             (True, Some l) \<Rightarrow> (s1\<lparr>ls_IPv6 := Some l\<rparr>, act (Apply6 name l v6ov) d1)
           | _ \<Rightarrow> (s1, d1))
     in if ls_IPv4 s2 \<noteq> None \<or> ls_IPv6 s2 \<noteq> None
        then saveLease c name s2 (d2\<lparr>dd_leases := alist_put name s2 (dd_leases d2)\<rparr>) else d2)"

definition ReleaseLease :: "string \<Rightarrow> DHCPDaemon \<Rightarrow> DHCPDaemon" where
  "ReleaseLease name d = (case map_of (dd_leases d) name of None \<Rightarrow> d
     | Some s \<Rightarrow>
       (let d1 = (if ls_IPv4 s \<noteq> None then act (Release4 name) d else d);
            d2 = (if ls_IPv6 s \<noteq> None then act (Release6 name) d1 else d1)
        in d2\<lparr>dd_leases := alist_del name (dd_leases d2), dd_files := alist_del (lease_file name) (dd_files d2)\<rparr>))"

definition GetLease :: "DHCPDaemon \<Rightarrow> string \<Rightarrow> LeaseState option" where
  "GetLease d name = map_of (dd_leases d) name"

definition due :: "int \<Rightarrow> LeaseState \<Rightarrow> bool" where
  "due now s \<longleftrightarrow> ls_IPv4 s \<noteq> None \<and> now > ls_RenewAt s"

text \<open>The new lease of a due interface: the renewal, or, within five minutes of the expiry, a new
  request.\<close>

definition new_lease :: "int \<Rightarrow> (string \<Rightarrow> DHCPv4Lease option) \<Rightarrow> (string \<Rightarrow> DHCPv4Lease option) \<Rightarrow> string \<Rightarrow> LeaseState
    \<Rightarrow> DHCPv4Lease option" where
  "new_lease now renew request name s = (case renew name of
      Some l \<Rightarrow> Some l
    | None \<Rightarrow> if now > ls_ExpireAt s - 5 * 60 * second then request name else None)"

definition renewed :: "int \<Rightarrow> DHCPv4Lease \<Rightarrow> LeaseState \<Rightarrow> LeaseState" where
  "renewed now l s = (let s1 = s\<lparr>ls_IPv4 := Some l, ls_ObtainedAt := now\<rparr> in
     if l4_LeaseTime l > 0
     then s1\<lparr>ls_RenewAt := now + l4_LeaseTime l div 2, ls_ExpireAt := now + l4_LeaseTime l\<rparr> else s1)"

definition renew_one :: "codec \<Rightarrow> int \<Rightarrow> (string \<Rightarrow> DHCPv4Lease option) \<Rightarrow> (string \<Rightarrow> DHCPv4Lease option)
    \<Rightarrow> DHCPDaemon \<Rightarrow> string \<times> LeaseState \<Rightarrow> DHCPDaemon" where
  "renew_one c now renew request d e = (case e of (name, s) \<Rightarrow>
     if \<not> due now s then d
     else (case new_lease now renew request name s of None \<Rightarrow> d
       | Some l \<Rightarrow> (let s1 = renewed now l s in
           saveLease c name s1 (act (Apply4 name l (ls_V4Overrides s))
             (d\<lparr>dd_leases := alist_put name s1 (dd_leases d)\<rparr>)))))"

definition checkRenewals :: "codec \<Rightarrow> int \<Rightarrow> (string \<Rightarrow> DHCPv4Lease option) \<Rightarrow> (string \<Rightarrow> DHCPv4Lease option)
    \<Rightarrow> DHCPDaemon \<Rightarrow> DHCPDaemon" where
  "checkRenewals c now renew request d = foldl (renew_one c now renew request) d (dd_leases d)"

definition load_one :: "codec \<Rightarrow> int \<Rightarrow> DHCPDaemon \<Rightarrow> string \<times> string \<Rightarrow> DHCPDaemon" where
  "load_one c now d f = (case cd_unmarshal c (snd f) of None \<Rightarrow> d
     | Some s \<Rightarrow> if now > ls_ExpireAt s then d\<lparr>dd_files := alist_del (fst f) (dd_files d)\<rparr>
         else d\<lparr>dd_leases := alist_put (ls_Interface s) s (dd_leases d)\<rparr>)"

definition loadLeases :: "codec \<Rightarrow> int \<Rightarrow> DHCPDaemon \<Rightarrow> DHCPDaemon" where
  "loadLeases c now d = foldl (load_one c now) d (dd_files d)"

definition saveLeases :: "codec \<Rightarrow> DHCPDaemon \<Rightarrow> DHCPDaemon" where
  "saveLeases c d = foldl (\<lambda>d (name, s). saveLease c name s d) d (dd_leases d)"

text \<open>\<open>Start\<close> and \<open>Stop\<close>: the renewal goroutine is the sequence of ticks in between.\<close>

definition Start :: "codec \<Rightarrow> int \<Rightarrow> DHCPDaemon \<Rightarrow> DHCPDaemon" where
  "Start = loadLeases"

definition Stop :: "codec \<Rightarrow> DHCPDaemon \<Rightarrow> DHCPDaemon" where
  "Stop = saveLeases"

text \<open>The one instance of the process: the first call creates it, later calls return what it has
  become.\<close>

definition GetDHCPDaemon :: "string alist \<Rightarrow> DHCPDaemon option \<Rightarrow> DHCPDaemon" where
  "GetDHCPDaemon files globalDaemon = (case globalDaemon of None \<Rightarrow> NewDHCPDaemon files | Some d \<Rightarrow> d)"

record lease_info =
  in_obtained_at :: int
  in_renew_at :: int
  in_expire_at :: int
  in_ipv4 :: "string option"
  in_ipv6 :: "string option"

definition lease_info_of :: "LeaseState \<Rightarrow> lease_info" where
  "lease_info_of s = \<lparr>in_obtained_at = ls_ObtainedAt s, in_renew_at = ls_RenewAt s, in_expire_at = ls_ExpireAt s,
     in_ipv4 = map_option (\<lambda>l. ip_string (l4_IP l)) (ls_IPv4 s),
     in_ipv6 = map_option (\<lambda>l. ''['' @ join_with '' '' (map ip_string (l6_Addresses l)) @ '']'') (ls_IPv6 s)\<rparr>"

text \<open>The reported \<open>running\<close> is always true.\<close>

definition daemon_Status :: "DHCPDaemon \<Rightarrow> bool \<times> lease_info alist" where
  "daemon_Status d = (True, map (\<lambda>(name, s). (name, lease_info_of s)) (dd_leases d))"

section \<open>Executions\<close>

text \<open>One step of the running daemon: a request (at the start or after SIGHUP), a release, or a
  tick of the renewal loop.\<close>

inductive daemon_step :: "codec \<Rightarrow> DHCPDaemon \<Rightarrow> DHCPDaemon \<Rightarrow> bool" for c where
  request: "daemon_step c d (RequestLease c now res4 res6 name want4 want6 ov4 ov6 d)"
| release: "daemon_step c d (ReleaseLease name d)"
| tick: "daemon_step c d (checkRenewals c now renew request d)"

inductive reachable :: "codec \<Rightarrow> string alist \<Rightarrow> DHCPDaemon \<Rightarrow> bool" for c files where
  start: "reachable c files (Start c now (NewDHCPDaemon files))"
| step: "reachable c files d \<Longrightarrow> daemon_step c d d' \<Longrightarrow> reachable c files d'"

section \<open>What the operations leave alone\<close>

lemma saveLease_simps [simp]:
  "dd_leases (saveLease c n s d) = dd_leases d" "dd_actions (saveLease c n s d) = dd_actions d"
  by (simp_all add: saveLease_def)

lemma act_simps [simp]:
  "dd_leases (act a d) = dd_leases d" "dd_files (act a d) = dd_files d" "dd_actions (act a d) = dd_actions d @ [a]"
  by (simp_all add: act_def)

lemma saveLeases_leases [simp]: "dd_leases (foldl (\<lambda>d (name, s). saveLease c name s d) d xs) = dd_leases d"
  by (induction xs arbitrary: d) auto

section \<open>The invariant\<close>

definition lease_wf :: "string \<times> LeaseState \<Rightarrow> bool" where
  "lease_wf e \<longleftrightarrow> ls_Interface (snd e) = fst e \<and> ls_RenewAt (snd e) \<le> ls_ExpireAt (snd e)"

definition daemon_wf :: "DHCPDaemon \<Rightarrow> bool" where
  "daemon_wf d \<longleftrightarrow> distinct (map fst (dd_leases d)) \<and> list_all lease_wf (dd_leases d)"

lemma daemon_wf_put:
  "daemon_wf d \<Longrightarrow> lease_wf (n, s) \<Longrightarrow> daemon_wf (d\<lparr>dd_leases := alist_put n s (dd_leases d)\<rparr>)"
  using alist_put_set[of n s "dd_leases d"] by (auto simp: daemon_wf_def list_all_iff)

lemma daemon_wf_cong: "dd_leases d' = dd_leases d \<Longrightarrow> daemon_wf d' = daemon_wf d"
  by (simp add: daemon_wf_def)

lemma daemon_wf_RequestLease:
  assumes "daemon_wf d"
  shows "daemon_wf (RequestLease c now res4 res6 name w4 w6 ov4 ov6 d)"
proof -
  have w: "daemon_wf (saveLease c name s (e\<lparr>dd_leases := alist_put name s (dd_leases d)\<rparr>))"
    if "lease_wf (name, s)" for s e
    using daemon_wf_put[OF assms that] by (simp add: daemon_wf_def)
  show ?thesis
    using assms by (auto simp: RequestLease_def Let_def new_times_def lease_wf_def hour_def second_def daemon_wf_cong[of "act _ _"]
        split: option.splits bool.splits intro!: w)
qed

lemma daemon_wf_ReleaseLease: "daemon_wf d \<Longrightarrow> daemon_wf (ReleaseLease name d)"
  by (auto simp: ReleaseLease_def Let_def daemon_wf_def list_all_iff alist_del_def distinct_alist_del[unfolded alist_del_def]
      split: option.splits)

lemma renew_one_leases:
  "dd_leases (renew_one c now renew request d (n, s)) =
    (case (if due now s then new_lease now renew request n s else None) of
       None \<Rightarrow> dd_leases d | Some l \<Rightarrow> alist_put n (renewed now l s) (dd_leases d))"
  by (simp add: renew_one_def Let_def split: option.splits)

lemma lease_wf_renewed: "lease_wf (n, s) \<Longrightarrow> lease_wf (n, renewed now l s)"
  by (auto simp: lease_wf_def renewed_def Let_def)

lemma daemon_wf_renewals:
  "daemon_wf d \<Longrightarrow> list_all lease_wf xs \<Longrightarrow> daemon_wf (foldl (renew_one c now renew request) d xs)"
proof (induction xs arbitrary: d)
  case (Cons e xs)
  obtain n s where e: "e = (n, s)" by force
  have "daemon_wf (renew_one c now renew request d e)"
    using Cons.prems daemon_wf_put[of d n "renewed now _ s"] lease_wf_renewed[of n s now]
    by (auto simp: e daemon_wf_def renew_one_leases split: option.splits if_splits)
  then show ?case using Cons by simp
qed simp

lemma daemon_wf_load:
  assumes "\<And>f s. f \<in> set xs \<Longrightarrow> cd_unmarshal c (snd f) = Some s \<Longrightarrow> ls_RenewAt s \<le> ls_ExpireAt s"
  shows "daemon_wf d \<Longrightarrow> daemon_wf (foldl (load_one c now) d xs)"
  using assms
proof (induction xs arbitrary: d)
  case (Cons f xs)
  have "daemon_wf (load_one c now d f)"
    using Cons.prems(1) Cons.prems(2)[of f] daemon_wf_put[of d] daemon_wf_cong[of "d\<lparr>dd_files := _\<rparr>" d]
    by (simp add: load_one_def lease_wf_def split: option.splits)
  from Cons.IH[OF this] show ?case using Cons.prems(2) by (metis foldl_Cons list.set_intros(2))
qed simp

text \<open>In every reachable state of the daemon the leases have distinct interfaces, each is filed under
  its own interface name, and no lease is to be renewed after it expires (if the files at the
  start have that property).\<close>

lemma reachable_daemon_wf:
  assumes "reachable c files d"
    and "\<forall>f\<in>set files. \<forall>s. cd_unmarshal c (snd f) = Some s \<longrightarrow> ls_RenewAt s \<le> ls_ExpireAt s"
  shows "daemon_wf d"
  using assms(1)
proof induction
  case (start now)
  have "daemon_wf (NewDHCPDaemon files)" by (simp add: daemon_wf_def NewDHCPDaemon_def)
  then show ?case
    unfolding Start_def loadLeases_def using assms(2)
    by (intro daemon_wf_load) (auto simp: NewDHCPDaemon_def)
next
  case (step d d')
  from step.hyps(2) show ?case
  proof cases
    case (tick now renew request)
    then show ?thesis using step.IH daemon_wf_renewals[of d "dd_leases d"] by (simp add: checkRenewals_def daemon_wf_def)
  qed (use step.IH in \<open>simp_all add: daemon_wf_RequestLease daemon_wf_ReleaseLease\<close>)
qed

definition plain_codec :: "LeaseState \<Rightarrow> codec" where
  "plain_codec s = \<lparr>cd_marshal = (\<lambda>_. ''{}''), cd_unmarshal = (\<lambda>x. if x = ''{}'' then Some s else None), cd_writable = (\<lambda>_. True)\<rparr>"

definition sample_lease4 :: DHCPv4Lease where
  "sample_lease4 = \<lparr>l4_IP = [10, 0, 0, 9], l4_Netmask = [255, 255, 255, 0], l4_Gateway = [], l4_DNS = [], l4_Domain = '''',
     l4_LeaseTime = 100, l4_ServerIP = [], l4_MTU = 0, l4_NTPServers = []\<rparr>"

definition sample_state :: LeaseState where
  "sample_state = \<lparr>ls_Interface = ''eth0'', ls_IPv4 = Some sample_lease4, ls_IPv6 = None, ls_ObtainedAt = 1000,
     ls_RenewAt = 1050, ls_ExpireAt = 1100, ls_V4Overrides = None\<rparr>"

section \<open>Renewal\<close>

definition after_tick :: "int \<Rightarrow> (string \<Rightarrow> DHCPv4Lease option) \<Rightarrow> (string \<Rightarrow> DHCPv4Lease option) \<Rightarrow> string \<Rightarrow> LeaseState \<Rightarrow> LeaseState" where
  "after_tick now renew request n s =
    (case (if due now s then new_lease now renew request n s else None) of None \<Rightarrow> s | Some l \<Rightarrow> renewed now l s)"

lemma renewals_lookup:
  assumes "distinct (map fst xs)" "\<And>m s. (m, s) \<in> set xs \<Longrightarrow> map_of (dd_leases d) m = Some s"
  shows "map_of (dd_leases (foldl (renew_one c now renew request) d xs)) n =
    (case map_of xs n of None \<Rightarrow> map_of (dd_leases d) n | Some s \<Rightarrow> Some (after_tick now renew request n s))"
  using assms
proof (induction xs arbitrary: d)
  case (Cons e xs)
  obtain m s where e: "e = (m, s)" by force
  let ?d = "renew_one c now renew request d e"
  have m: "map_of (dd_leases d) m = Some s" using Cons.prems(2) e by simp
  have l: "map_of (dd_leases ?d) k = (if k = m then Some (after_tick now renew request m s) else map_of (dd_leases d) k)" for k
    using m by (simp add: e renew_one_leases after_tick_def map_of_alist_put split: option.splits)
  have "m \<notin> fst ` set xs" using Cons.prems(1) e by simp
  then have "map_of (dd_leases ?d) k = Some s'" if "(k, s') \<in> set xs" for k s'
    using Cons.prems(2)[of k s'] that by (force simp: l)
  then have IH: "map_of (dd_leases (foldl (renew_one c now renew request) ?d xs)) n =
      (case map_of xs n of None \<Rightarrow> map_of (dd_leases ?d) n | Some s \<Rightarrow> Some (after_tick now renew request n s))"
    using Cons.prems(1) by (intro Cons.IH) simp_all
  show ?case
  proof (cases "n = m")
    case True
    then have "map_of xs n = None" using \<open>m \<notin> fst ` set xs\<close> by (simp add: map_of_eq_None_iff)
    then show ?thesis unfolding foldl_Cons IH using True l[of m] by (simp add: e)
  next
    case False
    then have "map_of (dd_leases ?d) n = map_of (dd_leases d) n" "map_of (e # xs) n = map_of xs n"      using l[of n] e by simp_all
    then show ?thesis unfolding foldl_Cons IH by (simp split: option.split)
  qed
qed simp


definition sample_daemon :: DHCPDaemon where
  "sample_daemon = \<lparr>dd_leases = [(''eth0'', sample_state)], dd_files = [], dd_actions = []\<rparr>"


text \<open>A lease without a lease time, which is what reading an interface back after an external
  client ran gives, does not move the renewal time: once due, the interface is renewed again on
  every now2 tick.\<close>

theorem renewal_without_time_repeats:
  assumes "due now s" "l4_LeaseTime l = 0" "now \<le> now2"
  shows "due now2 (renewed now l s)"
  using assms by (auto simp: due_def renewed_def Let_def)

theorem renewal_without_time_repeats_witness:
  "due 3000 (renewed 2000 (sample_lease4\<lparr>l4_LeaseTime := 0\<rparr>) sample_state)"
  by (rule renewal_without_time_repeats) (simp_all add: due_def sample_state_def sample_lease4_def)

section \<open>Restarting\<close>

lemma load_other:
  assumes "\<And>f s. f \<in> set xs \<Longrightarrow> cd_unmarshal c (snd f) = Some s \<Longrightarrow> ls_Interface s \<noteq> n"
  shows "map_of (dd_leases (foldl (load_one c now) d xs)) n = map_of (dd_leases d) n"
  using assms
proof (induction xs arbitrary: d)
  case (Cons f xs)
  have "map_of (dd_leases (load_one c now d f)) n = map_of (dd_leases d) n"
    using Cons.prems[of f] by (auto simp: load_one_def map_of_alist_put split: option.splits)
  moreover have "map_of (dd_leases (foldl (load_one c now) (load_one c now d f) xs)) n = map_of (dd_leases (load_one c now d f)) n"
    by (rule Cons.IH, rule Cons.prems) auto
  ultimately show ?case by simp
qed simp

text \<open>The file of an interface after all leases are written.\<close>

lemma saved_file:
  assumes "distinct (map fst xs)" "map_of xs n = Some s" "cd_writable c (lease_file n)"
  shows "map_of (dd_files (foldl (\<lambda>d (name, s). saveLease c name s d) d xs)) (lease_file n) = Some (cd_marshal c s)"
  using assms
proof (induction xs arbitrary: d)
  case (Cons e xs)
  obtain m t where e: "e = (m, t)" by force
  have keep: "map_of (dd_files (foldl (\<lambda>d (name, s). saveLease c name s d) d ys)) (lease_file k) = map_of (dd_files d) (lease_file k)"
    if "k \<notin> fst ` set ys" for ys k d
    using that by (induction ys arbitrary: d) (auto simp: saveLease_def map_of_alist_put lease_file_def)
  show ?case
  proof (cases "n = m")
    case True
    then have "n \<notin> fst ` set xs" "t = s" using Cons.prems(1,2) e by simp_all
    have "map_of (dd_files (saveLease c m t d)) (lease_file n) = Some (cd_marshal c s)"
      using Cons.prems(3) True \<open>t = s\<close> by (simp add: saveLease_def map_of_alist_put)
    then show ?thesis using keep[OF \<open>n \<notin> fst ` set xs\<close>, of "saveLease c m t d"] by (simp add: e)
  next
    case False
    then have "map_of xs n = Some s" "distinct (map fst xs)" using Cons.prems(1,2) e by simp_all
    from Cons.IH[OF this(2,1) Cons.prems(3)] show ?thesis by (simp add: e)
  qed
qed simp

lemma load_one_step:
  assumes "cd_unmarshal c x = Some s" "now \<le> ls_ExpireAt s"
  shows "map_of (dd_leases (load_one c now d (f, x))) (ls_Interface s) = Some s"
  using assms by (simp add: load_one_def map_of_alist_put)

text \<open>(C36) A lease that has not expired survives a restart: stopping the daemon writes it, and
  starting it again from those files finds it unchanged, provided the file is writable, the
  codec decodes what it encodes for this lease, and no other file claims the interface.\<close>

theorem restart_keeps_lease:
  assumes "daemon_wf d" "GetLease d n = Some s" "cd_writable c (lease_file n)" "cd_unmarshal c (cd_marshal c s) = Some s"
    "now \<le> ls_ExpireAt s" "distinct (map fst (dd_files (Stop c d)))"
    "\<forall>f\<in>set (dd_files (Stop c d)). fst f \<noteq> lease_file n \<longrightarrow> (\<forall>t. cd_unmarshal c (snd f) = Some t \<longrightarrow> ls_Interface t \<noteq> n)"
  shows "GetLease (Start c now (NewDHCPDaemon (dd_files (Stop c d)))) n = Some s"
proof -
  let ?fs = "dd_files (Stop c d)"
  have "map_of (dd_leases d) n = Some s" using assms(2) by (simp add: GetLease_def)
  then have in_d: "(n, s) \<in> set (dd_leases d)" by (rule map_of_SomeD)
  have wf: "distinct (map fst (dd_leases d))" using assms(1) by (simp add: daemon_wf_def)
  have "lease_wf (n, s)" using assms(1) in_d unfolding daemon_wf_def list_all_iff by blast
  then have nm: "ls_Interface s = n" by (simp add: lease_wf_def)
  have "map_of ?fs (lease_file n) = Some (cd_marshal c s)"
    using saved_file[OF wf _ assms(3), of s d] assms(2) by (simp add: GetLease_def Stop_def saveLeases_def)
  then have "(lease_file n, cd_marshal c s) \<in> set ?fs" by (rule map_of_SomeD)
  then obtain ys zs where fs: "?fs = ys @ (lease_file n, cd_marshal c s) # zs" by (meson split_list)
  have "ls_Interface t \<noteq> n" if "f \<in> set zs" "cd_unmarshal c (snd f) = Some t" for f t
  proof -
    have "fst f \<in> fst ` set zs" "lease_file n \<notin> fst ` set zs" using assms(6) that(1) by (simp_all add: fs)
    then have "fst f \<noteq> lease_file n" by metis
    then show ?thesis using assms(7) that by (auto simp: fs)
  qed
  from load_other[OF this] show ?thesis
    using load_one_step[OF assms(4,5)] nm
    by (simp add: GetLease_def Start_def loadLeases_def NewDHCPDaemon_def fs)
qed

theorem restart_keeps_lease_witness:
  "GetLease (Start (plain_codec sample_state) 1010 (NewDHCPDaemon (dd_files (Stop (plain_codec sample_state) sample_daemon)))) ''eth0''
    = Some sample_state"
  by (rule restart_keeps_lease) (simp_all add: daemon_wf_def sample_daemon_def sample_state_def lease_wf_def GetLease_def
      plain_codec_def Stop_def saveLeases_def saveLease_def)

definition v6_state :: "string \<Rightarrow> DHCPv6Lease \<Rightarrow> int \<Rightarrow> nl_DHCPOverrides option \<Rightarrow> LeaseState" where
  "v6_state n l t0 ov = \<lparr>ls_Interface = n, ls_IPv4 = None, ls_IPv6 = Some l, ls_ObtainedAt = t0, ls_RenewAt = 0, ls_ExpireAt = 0,
     ls_V4Overrides = ov\<rparr>"

text \<open>A lease with only an IPv6 part never gets an expiry time, so the next start of the
  daemon takes it for expired: it is dropped and its file deleted.\<close>

theorem v6_only_lease_lost:
  assumes "0 < now" "cd_writable c (lease_file n)"
    "cd_unmarshal c (cd_marshal c (v6_state n l t0 ov4)) = Some (v6_state n l t0 ov4)"
  shows "let d = RequestLease c t0 None (Some l) n False True ov4 ov6 (NewDHCPDaemon []);
             d' = Start c now (NewDHCPDaemon (dd_files d))
         in GetLease d n \<noteq> None \<and> GetLease d' n = None \<and> dd_files d' = []"
  using assms by (simp add: RequestLease_def Let_def NewDHCPDaemon_def GetLease_def saveLease_def Start_def loadLeases_def load_one_def
      alist_del_def v6_state_def)

definition sample_lease6 :: DHCPv6Lease where
  "sample_lease6 = \<lparr>l6_Addresses = [replicate 16 1], l6_Prefixes = [], l6_DNS = [], l6_Domains = [], l6_LeaseTime = 100,
     l6_ServerDUID = None\<rparr>"

theorem v6_only_lease_lost_witness:
  "let c = plain_codec (v6_state ''eth0'' sample_lease6 5 None);
       d = RequestLease c 5 None (Some sample_lease6) ''eth0'' False True None None (NewDHCPDaemon []);
       d' = Start c 6 (NewDHCPDaemon (dd_files d))
   in GetLease d ''eth0'' \<noteq> None \<and> GetLease d' ''eth0'' = None \<and> dd_files d' = []"
  using v6_only_lease_lost[of 6 "plain_codec (v6_state ''eth0'' sample_lease6 5 None)" "''eth0''" sample_lease6 5 None None]
  by (simp add: plain_codec_def Let_def)

end
