(* ===== verification/NdpManager.thy ===== *)
theory NdpManager
  imports NdpResponder DhcpDaemon SetupDevice
begin

text \<open>
  The daemon process (\<open>cmd/daemon.go\<close>) and the NDP responders it runs (\<open>cmd/ndp.go\<close>,
  \<open>cmd/ndptap_daemon.go\<close>): the responder configurations derived from a configuration, the manager
  that starts and stops responders, and the watcher that rebuilds a deleted VPP tap.
  Goroutines and the multicast switch of an interface are actions recorded in order. Whether a
  responder can be opened on an interface and what \<open>LoadConfig\<close> returns are arguments.
\<close>

section \<open>Responder configurations\<close>

fun responder_rules :: "bool \<Rightarrow> NDProxyRule option list \<Rightarrow> (nl_error, Rule list) result" where
  "responder_rules staticOnly [] = Inr []"
| "responder_rules staticOnly (p # ps) = rbind (deref p) (\<lambda>r. rbind (responder_rules staticOnly ps) (\<lambda>rest.
     let auto = equal_fold (rule_Mode r) ''auto''; mac = (if rule_Neighbor r = '''' then None else ParseMAC (rule_Neighbor r)) in
     case ParsePrefix (rule_Prefix r) of
       None \<Rightarrow> Inr rest
     | Some pfx \<Rightarrow>
        if rule_Neighbor r \<noteq> '''' \<and> mac = None then Inr rest
        else if staticOnly \<and> (mac = None \<or> auto) then Inr rest
        else Inr (\<lparr>rl_Prefix = pfx, rl_Neighbor = mac, rl_Auto = auto\<rparr> # rest)))"

definition addOn :: "string \<Rightarrow> NDProxy option \<Rightarrow> bool \<Rightarrow> (nl_error, RConfig list) result" where
  "addOn iface n staticOnly = (case n of None \<Rightarrow> Inr []
     | Some d \<Rightarrow> rbind (responder_rules staticOnly (ndp_Rules d)) (\<lambda>rules.
         Inr (if rules = [] then []
              else [\<lparr>rc_Iface = iface, rc_Router = (case ndp_Router d of Some b \<Rightarrow> b | None \<Rightarrow> True), rc_Rules = rules\<rparr>])))"

definition addDev :: "string \<Rightarrow> NDProxy option \<Rightarrow> bool \<Rightarrow> (nl_error, RConfig list) result" where
  "addDev name ndp vppManaged = (if vppManaged then Inr [] else addOn name ndp False)"

definition dev_configs :: "('c \<Rightarrow> string \<Rightarrow> (nl_error, RConfig list) result) \<Rightarrow> 'c option gomap \<Rightarrow> (nl_error, RConfig list) result" where
  "dev_configs f m = rfold (\<lambda>acc (name, p). rbind (deref p) (\<lambda>d. rbind (f d name) (\<lambda>cs. Inr (acc @ cs)))) [] (entries m)"

definition ndpResponderConfigs :: "Config \<Rightarrow> (nl_error, RConfig list) result" where
  "ndpResponderConfigs cfg = (let n = cfg_Network cfg; g = net_Renderer n in
     rbind (dev_configs (\<lambda>d name. addDev name (eth_NDProxy d) (VPPManaged (eth_VPP d) (eth_Renderer d) g)) (net_Ethernets n)) (\<lambda>a.
     rbind (dev_configs (\<lambda>d name. addDev name (vlan_NDProxy d) (VPPManaged (vlan_VPP d) (vlan_Renderer d) g)) (net_Vlans n)) (\<lambda>b.
     rbind (dev_configs (\<lambda>d name. addDev name (bond_NDProxy d) (VPPManaged (bond_VPP d) (bond_Renderer d) g)) (net_Bonds n)) (\<lambda>c.
     rbind (dev_configs (\<lambda>d name. if VPPManaged (br_VPP d) (br_Renderer d) g then addOn (NDPTapName name) (br_NDProxy d) True
         else addOn name (br_NDProxy d) False) (net_Bridges n)) (\<lambda>e.
     Inr (a @ b @ c @ e))))))"

section \<open>The manager\<close>

record ndpTapSpec =
  ts_bridge :: string
  ts_bdID :: "32 word"

datatype ndp_action = Allmulti string bool | Launch RConfig | CancelResponder string

record ndpManager =
  nm_running :: "string list"
  nm_configs :: "RConfig alist"
  nm_tapSpecs :: "ndpTapSpec alist"
  nm_apiSocket :: string
  nm_watching :: bool
  nm_log :: "ndp_action list"

definition SetAllmulti :: "mgr \<Rightarrow> string \<Rightarrow> bool \<Rightarrow> cmd" where
  "SetAllmulti m iface on = GetLink m iface (\<lambda>l. call (Ev m (LinkSetAllmulti l on)))"

definition setAllmulti :: "string \<Rightarrow> bool \<Rightarrow> cmd" where
  "setAllmulti iface on = warn (New (\<lambda>m. SetAllmulti m iface on))"

definition newNDPManager :: ndpManager where
  "newNDPManager = \<lparr>nm_running = [], nm_configs = [], nm_tapSpecs = [], nm_apiSocket = '''', nm_watching = False, nm_log = []\<rparr>"

definition note_actions :: "ndp_action list \<Rightarrow> ndpManager \<Rightarrow> ndpManager" where
  "note_actions as m = m\<lparr>nm_log := nm_log m @ as\<rparr>"

definition startLocked :: "(string \<Rightarrow> bool) \<Rightarrow> RConfig \<Rightarrow> ndpManager \<Rightarrow> ndpManager" where
  "startLocked opens c m = (let i = rc_Iface c in
     if opens i then note_actions [Allmulti i True, Launch c] (m\<lparr>nm_running := List.insert i (nm_running m)\<rparr>)
     else note_actions [Allmulti i True, Allmulti i False] m)"

definition stop_one :: "ndpManager \<Rightarrow> string \<Rightarrow> ndpManager" where
  "stop_one m i = note_actions [CancelResponder i, Allmulti i False] (m\<lparr>nm_running := removeAll i (nm_running m)\<rparr>)"

definition ndp_Stop :: "ndpManager \<Rightarrow> ndpManager" where
  "ndp_Stop m = foldl stop_one m (nm_running m)"

definition restart :: "(string \<Rightarrow> bool) \<Rightarrow> string \<Rightarrow> ndpManager \<Rightarrow> ndpManager" where
  "restart opens iface m =
    (let m1 = (if iface \<in> set (nm_running m)
               then note_actions [CancelResponder iface] (m\<lparr>nm_running := removeAll iface (nm_running m)\<rparr>) else m)
     in case map_of (nm_configs m1) iface of None \<Rightarrow> m1 | Some c \<Rightarrow> startLocked opens c m1)"

definition tap_spec :: "string \<Rightarrow> ndpTapSpec alist \<Rightarrow> string \<times> Bridge option \<Rightarrow> (nl_error, ndpTapSpec alist) result" where
  "tap_spec g specs kv = (case kv of (name, p) \<Rightarrow> (case p of None \<Rightarrow> Inr specs
     | Some b \<Rightarrow> if \<not> VPPManaged (br_VPP b) (br_Renderer b) g then Inr specs
       else rbind (vppNDPTapRules (br_NDProxy b)) (\<lambda>(rules, _).
         Inr (if rules = [] then specs
              else alist_put (NDPTapName name) \<lparr>ts_bridge = name, ts_bdID = ndpTapBdID name b\<rparr> specs))))"

definition ndpTapSpecs :: "Config \<Rightarrow> (nl_error, ndpTapSpec alist \<times> string) result" where
  "ndpTapSpecs cfg = (let n = cfg_Network cfg in
     rbind (rfold (tap_spec (net_Renderer n)) [] (entries (net_Bridges n))) (\<lambda>specs.
       Inr (specs, case net_VPP n of None \<Rightarrow> '''' | Some v \<Rightarrow> vppg_APISocket v)))"

definition ensureWatcher :: "ndpManager \<Rightarrow> ndpManager" where
  "ensureWatcher m = (if nm_watching m \<or> nm_tapSpecs m = [] then m else m\<lparr>nm_watching := True\<rparr>)"

definition start_config :: "(string \<Rightarrow> bool) \<Rightarrow> ndpManager \<Rightarrow> RConfig \<Rightarrow> ndpManager" where
  "start_config opens m c = startLocked opens c (m\<lparr>nm_configs := alist_put (rc_Iface c) c (nm_configs m)\<rparr>)"

definition Reload :: "(string \<Rightarrow> bool) \<Rightarrow> Config \<Rightarrow> ndpManager \<Rightarrow> (nl_error, ndpManager) result" where
  "Reload opens cfg m =
    rbind (ndpResponderConfigs cfg) (\<lambda>cs.
    rbind (ndpTapSpecs cfg) (\<lambda>(specs, sock).
      let m1 = foldl (start_config opens) ((ndp_Stop m)\<lparr>nm_configs := []\<rparr>) cs
      in Inr (ensureWatcher (m1\<lparr>nm_tapSpecs := specs, nm_apiSocket := sock\<rparr>))))"

section \<open>Rebuilding taps\<close>

definition rebuildNDPTap :: "string \<Rightarrow> string \<Rightarrow> 32 word \<Rightarrow> cmd" where
  "rebuildNDPTap sock bridge bdID = steps
    [Connect sock, NewApplier, warn (DeleteNDPTap (NDPTapName bridge)), EnsureNDPTap bridge bdID]"

definition wantedTapSpec :: "(cfg_error, Config) result \<Rightarrow> string \<Rightarrow> ndpManager
    \<Rightarrow> (nl_error, ndpManager \<times> ndpTapSpec option) result" where
  "wantedTapSpec loaded name m = (case loaded of
      Inl (Panic p) \<Rightarrow> Inl (Panic p)
    | Inl (Err e) \<Rightarrow> Inr (m, map_of (nm_tapSpecs m) name)
    | Inr cfg \<Rightarrow> rbind (ndpTapSpecs cfg) (\<lambda>(specs, sock).
        Inr (m\<lparr>nm_tapSpecs := specs, nm_apiSocket := sock\<rparr>, map_of specs name)))"

text \<open>The reaction to the deletion of a link: only a tap the manager owns and the configuration on
  disk still wants is rebuilt, and its responder restarted if that succeeded.\<close>

definition link_deleted :: "(cfg_error, Config) result \<Rightarrow> (string \<Rightarrow> bool) \<Rightarrow> string \<Rightarrow> ndpManager \<Rightarrow> world
    \<Rightarrow> (nl_error, ndpManager) result \<times> world" where
  "link_deleted loaded opens name m w =
    (if map_of (nm_tapSpecs m) name = None then (Inr m, w)
     else (case wantedTapSpec loaded name m of
         Inl e \<Rightarrow> (Inl e, w)
       | Inr (m1, None) \<Rightarrow> (Inr m1, w)
       | Inr (m1, Some spec) \<Rightarrow>
          (case rebuildNDPTap (nm_apiSocket m1) (ts_bridge spec) (ts_bdID spec) w of
             (Some (Err e), w1) \<Rightarrow> (Inr m1, w1)
           | (Some (Panic p), w1) \<Rightarrow> (Inl (Panic p), w1)
           | (None, w1) \<Rightarrow> (case setNDPTapAlias name (ts_bridge spec) w1 of
                (Some (Panic p), w2) \<Rightarrow> (Inl (Panic p), w2)
              | (_, w2) \<Rightarrow> (Inr (restart opens name m1), w2)))))"

section \<open>The daemon\<close>

record lease_input =
  li_now :: int
  li_res4 :: "DHCPv4Lease option"
  li_res6 :: "DHCPv6Lease option"

definition request_eth :: "codec \<Rightarrow> (string \<Rightarrow> lease_input) \<Rightarrow> DHCPDaemon \<Rightarrow> string \<times> Ethernet option \<Rightarrow> (nl_error, DHCPDaemon) result" where
  "request_eth c inp d kv = (case kv of (name, p) \<Rightarrow> rbind (deref p) (\<lambda>e.
     Inr (if eth_DHCP4 e \<or> eth_DHCP6 e
       then RequestLease c (li_now (inp name)) (li_res4 (inp name)) (li_res6 (inp name)) name (eth_DHCP4 e) (eth_DHCP6 e)
         (Some (dhcpOverridesToNl (eth_DHCP4Overrides e))) (Some (dhcpOverridesToNl (eth_DHCP6Overrides e))) d
       else d)))"

definition applyConfigWithDaemon :: "codec \<Rightarrow> (string \<Rightarrow> lease_input) \<Rightarrow> Config \<Rightarrow> DHCPDaemon \<Rightarrow> (nl_error, DHCPDaemon) result" where
  "applyConfigWithDaemon c inp cfg d = rfold (request_eth c inp) d (entries (net_Ethernets (cfg_Network cfg)))"

record daemon =
  dn_dhcp :: DHCPDaemon
  dn_ndp :: ndpManager

text \<open>A configuration that loads is applied (at the start and on SIGHUP); one that does not is
  logged.\<close>

definition load_and_apply :: "codec \<Rightarrow> (string \<Rightarrow> lease_input) \<Rightarrow> (string \<Rightarrow> bool) \<Rightarrow> (cfg_error, Config) result \<Rightarrow> daemon
    \<Rightarrow> (nl_error, daemon) result" where
  "load_and_apply c inp opens loaded d = (case loaded of
      Inl (Panic p) \<Rightarrow> Inl (Panic p)
    | Inl (Err e) \<Rightarrow> Inr d
    | Inr cfg \<Rightarrow> rbind (applyConfigWithDaemon c inp cfg (dn_dhcp d)) (\<lambda>d1.
        rbind (Reload opens cfg (dn_ndp d)) (\<lambda>m1. Inr (d\<lparr>dn_dhcp := d1, dn_ndp := m1\<rparr>))))"

definition terminate :: "codec \<Rightarrow> daemon \<Rightarrow> daemon" where
  "terminate c d = d\<lparr>dn_dhcp := Stop c (dn_dhcp d), dn_ndp := ndp_Stop (dn_ndp d)\<rparr>"

definition runDaemon_start :: "codec \<Rightarrow> int \<Rightarrow> string alist \<Rightarrow> (string \<Rightarrow> lease_input) \<Rightarrow> (string \<Rightarrow> bool) \<Rightarrow> (cfg_error, Config) result
    \<Rightarrow> (nl_error, daemon) result" where
  "runDaemon_start c now files inp opens loaded =
    load_and_apply c inp opens loaded \<lparr>dn_dhcp = Start c now (NewDHCPDaemon files), dn_ndp = newNDPManager\<rparr>"

end
