(* ===== verification/NdpSafe.thy ===== *)
theory NdpSafe
  imports NdpManager "HOL-Library.Multiset"
begin

text \<open>
  The NDP responder manager over its whole life: the relation between the actions it has taken and
  the responders it has registered, as an invariant of the states that reloads, stops and
  deletions of links lead to.
\<close>

section \<open>The history of a manager\<close>

text \<open>Which interfaces receive all multicast after a sequence of actions, and which responders are
  alive: cancelling stops the responder started last.\<close>

definition multicast_step :: "string set \<Rightarrow> ndp_action \<Rightarrow> string set" where
  "multicast_step on a = (case a of Allmulti i b \<Rightarrow> (if b then insert i on else on - {i}) | _ \<Rightarrow> on)"

definition multicast :: "ndp_action list \<Rightarrow> string set" where
  "multicast as = foldl multicast_step {} as"

definition live_step :: "string multiset \<Rightarrow> ndp_action \<Rightarrow> string multiset" where
  "live_step ls a = (case a of Launch c \<Rightarrow> add_mset (rc_Iface c) ls | CancelResponder i \<Rightarrow> ls - {#i#} | _ \<Rightarrow> ls)"

definition live :: "ndp_action list \<Rightarrow> string multiset" where
  "live as = foldl live_step {#} as"

inductive managed :: "(Config \<Rightarrow> bool) \<Rightarrow> ndpManager \<Rightarrow> bool" for ok where
  fresh: "managed ok newNDPManager"
| reload: "managed ok m \<Longrightarrow> ok cfg \<Longrightarrow> Reload opens cfg m = Inr m' \<Longrightarrow> managed ok m'"
| stop: "managed ok m \<Longrightarrow> managed ok (ndp_Stop m)"
| deleted: "managed ok m \<Longrightarrow> link_deleted loaded opens name m w = (Inr m', w') \<Longrightarrow> managed ok m'"

definition manager_inv :: "ndpManager \<Rightarrow> bool" where
  "manager_inv m \<longleftrightarrow> multicast (nm_log m) = set (nm_running m) \<and> distinct (nm_running m)
     \<and> set (nm_running m) \<subseteq> fst ` set (nm_configs m) \<and> (\<forall>e \<in> set (nm_configs m). rc_Iface (snd e) = fst e)"

definition no_leak :: "ndpManager \<Rightarrow> bool" where
  "no_leak m \<longleftrightarrow> live (nm_log m) = mset (nm_running m)"

lemma multicast_append [simp]: "multicast (as @ bs) = foldl multicast_step (multicast as) bs"
  by (simp add: multicast_def)

lemma live_append [simp]: "live (as @ bs) = foldl live_step (live as) bs"
  by (simp add: live_def)

lemma note_actions_simps [simp]:
  "nm_running (note_actions as m) = nm_running m" "nm_configs (note_actions as m) = nm_configs m"
  "nm_tapSpecs (note_actions as m) = nm_tapSpecs m" "nm_log (note_actions as m) = nm_log m @ as"
  by (simp_all add: note_actions_def)

lemmas step_simps = multicast_step_def live_step_def

lemma removeAll_distinct_mset: "distinct xs \<Longrightarrow> mset (removeAll i xs) = mset xs - {#i#}"
  by (simp add: distinct_remove1_removeAll [symmetric])

section \<open>Starting and stopping\<close>

lemma startLocked_simps [simp]:
  "nm_configs (startLocked opens c m) = nm_configs m" "nm_tapSpecs (startLocked opens c m) = nm_tapSpecs m"
  "set (nm_running (startLocked opens c m)) = set (nm_running m) \<union> (if opens (rc_Iface c) then {rc_Iface c} else {})"
  by (auto simp: startLocked_def Let_def)

lemma startLocked_inv:
  assumes "multicast (nm_log m) = set (nm_running m)" "distinct (nm_running m)"
    "rc_Iface c \<in> set (nm_running m) \<longrightarrow> opens (rc_Iface c)"
  shows "multicast (nm_log (startLocked opens c m)) = set (nm_running (startLocked opens c m))"
    "distinct (nm_running (startLocked opens c m))"
  using assms by (auto simp: startLocked_def Let_def step_simps)

lemma startLocked_no_leak:
  assumes "no_leak m" "rc_Iface c \<notin> set (nm_running m)"
  shows "no_leak (startLocked opens c m)"
  using assms by (simp add: no_leak_def startLocked_def Let_def step_simps)

lemma stop_all:
  "distinct xs \<Longrightarrow> nm_running m = xs \<Longrightarrow> multicast (nm_log m) = set xs \<Longrightarrow>
    nm_running (foldl stop_one m xs) = [] \<and> multicast (nm_log (foldl stop_one m xs)) = {}
    \<and> (no_leak m \<longrightarrow> no_leak (foldl stop_one m xs))
    \<and> nm_configs (foldl stop_one m xs) = nm_configs m \<and> nm_tapSpecs (foldl stop_one m xs) = nm_tapSpecs m"
proof (induction xs arbitrary: m)
  case (Cons i xs)
  have r: "nm_running (stop_one m i) = xs" using Cons.prems by (simp add: stop_one_def)
  moreover have "multicast (nm_log (stop_one m i)) = set xs" using Cons.prems by (auto simp: stop_one_def step_simps)
  moreover have "no_leak m \<longrightarrow> no_leak (stop_one m i)"
    using Cons.prems r by (simp add: no_leak_def stop_one_def step_simps)
  moreover have "nm_configs (stop_one m i) = nm_configs m" "nm_tapSpecs (stop_one m i) = nm_tapSpecs m"
    by (simp_all add: stop_one_def)
  ultimately show ?case using Cons.IH[of "stop_one m i"] Cons.prems(1) by simp
qed simp

lemma ndp_Stop_inv:
  assumes "manager_inv m"
  shows "nm_running (ndp_Stop m) = []" "multicast (nm_log (ndp_Stop m)) = {}" "no_leak m \<Longrightarrow> no_leak (ndp_Stop m)"
    "nm_configs (ndp_Stop m) = nm_configs m" "nm_tapSpecs (ndp_Stop m) = nm_tapSpecs m"
  using stop_all[of "nm_running m" m] assms by (simp_all add: manager_inv_def ndp_Stop_def)

lemma start_config_configs: "nm_configs (start_config opens m c) = alist_put (rc_Iface c) c (nm_configs m)"
  by (simp add: start_config_def)

lemma start_configs:
  assumes "manager_inv m" "\<forall>i \<in> set (nm_running m). opens i"
  shows "manager_inv (foldl (start_config opens) m cs)
    \<and> set (nm_running (foldl (start_config opens) m cs)) = set (nm_running m) \<union> {i \<in> rc_Iface ` set cs. opens i}
    \<and> fst ` set (nm_configs (foldl (start_config opens) m cs)) = fst ` set (nm_configs m) \<union> rc_Iface ` set cs
    \<and> (no_leak m \<and> distinct (map rc_Iface cs) \<and> set (nm_running m) \<inter> rc_Iface ` set cs = {}
        \<longrightarrow> no_leak (foldl (start_config opens) m cs))"
  using assms
proof (induction cs arbitrary: m)
  case (Cons c cs)
  let ?m = "start_config opens m c"
  let ?put = "m\<lparr>nm_configs := alist_put (rc_Iface c) c (nm_configs m)\<rparr>"
  have run: "set (nm_running ?m) = set (nm_running m) \<union> (if opens (rc_Iface c) then {rc_Iface c} else {})"
    by (simp only: start_config_def startLocked_simps) simp
  have inv: "manager_inv ?m"
    using Cons.prems startLocked_inv[of ?put c opens] alist_put_set[of "rc_Iface c" c "nm_configs m"]
    by (auto simp: manager_inv_def start_config_def)
  have op: "\<forall>i \<in> set (nm_running ?m). opens i" using run Cons.prems by (auto split: if_splits)
  have leak: "no_leak m \<Longrightarrow> rc_Iface c \<notin> set (nm_running m) \<Longrightarrow> no_leak ?m"
    using startLocked_no_leak[of ?put c opens] by (simp add: start_config_def no_leak_def)
  note IH = Cons.IH[OF inv op]
  have "no_leak (foldl (start_config opens) ?m cs)"
    if "no_leak m" "distinct (map rc_Iface (c # cs))" "set (nm_running m) \<inter> rc_Iface ` set (c # cs) = {}"
    using that IH leak run by auto
  then show ?case using IH run start_config_configs[of opens m c] by auto
qed (simp add: manager_inv_def)

lemma ensureWatcher_simps [simp]:
  "nm_running (ensureWatcher m) = nm_running m" "nm_configs (ensureWatcher m) = nm_configs m"
  "nm_tapSpecs (ensureWatcher m) = nm_tapSpecs m" "nm_log (ensureWatcher m) = nm_log m"
  by (simp_all add: ensureWatcher_def)

lemma manager_inv_cong:
  "nm_running m' = nm_running m \<Longrightarrow> nm_log m' = nm_log m \<Longrightarrow> nm_configs m' = nm_configs m \<Longrightarrow> manager_inv m' = manager_inv m"
  by (simp add: manager_inv_def)

lemma Reload_inv:
  assumes inv: "manager_inv m" and rel: "Reload opens cfg m = Inr m'" "ndpResponderConfigs cfg = Inr cs"
  shows "manager_inv m'" "set (nm_running m') = {i \<in> rc_Iface ` set cs. opens i}" "fst ` set (nm_configs m') = rc_Iface ` set cs"
    "no_leak m \<Longrightarrow> distinct (map rc_Iface cs) \<Longrightarrow> no_leak m'"
proof -
  let ?put = "(ndp_Stop m)\<lparr>nm_configs := []\<rparr>"
  let ?started = "foldl (start_config opens) ?put cs"
  note stop = ndp_Stop_inv[OF inv]
  have inv0: "manager_inv ?put" "\<forall>i \<in> set (nm_running ?put). opens i" using stop by (simp_all add: manager_inv_def)
  obtain specs sock where m': "m' = ensureWatcher (?started\<lparr>nm_tapSpecs := specs, nm_apiSocket := sock\<rparr>)"
    using rel by (auto simp: Reload_def rbind_eq_Inr Let_def)
  note started = start_configs[OF inv0, of cs]
  show "manager_inv m'" using started stop by (simp add: m' manager_inv_def)
  show "set (nm_running m') = {i \<in> rc_Iface ` set cs. opens i}" "fst ` set (nm_configs m') = rc_Iface ` set cs"
    using started stop by (simp_all add: m')
  show "no_leak m'" if "no_leak m" "distinct (map rc_Iface cs)"
    using started stop that by (simp add: m' no_leak_def)
qed

lemma Reload_configs: "Reload opens cfg m = Inr m' \<Longrightarrow> \<exists>cs. ndpResponderConfigs cfg = Inr cs"
  by (auto simp: Reload_def rbind_eq_Inr)

lemma restart_inv:
  assumes "manager_inv m"
  shows "manager_inv (restart opens i m)" "no_leak m \<Longrightarrow> no_leak (restart opens i m)"
proof -
  define m1 where "m1 = (if i \<in> set (nm_running m)
     then note_actions [CancelResponder i] (m\<lparr>nm_running := removeAll i (nm_running m)\<rparr>) else m)"
  have same: "nm_configs m1 = nm_configs m" and run: "nm_running m1 = removeAll i (nm_running m)"
    by (simp_all add: m1_def)
  have leak: "no_leak m1" if "no_leak m"
    using that assms by (simp add: m1_def no_leak_def manager_inv_def step_simps removeAll_distinct_mset)
  have mc: "multicast (nm_log m1) = set (nm_running m)"
    using assms by (simp add: m1_def manager_inv_def step_simps)
  have r: "restart opens i m = (case map_of (nm_configs m) i of None \<Rightarrow> m1 | Some c \<Rightarrow> startLocked opens c m1)"
    by (simp add: restart_def m1_def [symmetric] same)
  have key: "rc_Iface c = i" if "map_of (nm_configs m) i = Some c" for c
    using assms map_of_SomeD[OF that] by (force simp: manager_inv_def)
  have idle: "m1 = m" if "map_of (nm_configs m) i = None"
    using assms that by (auto simp: m1_def manager_inv_def map_of_eq_None_iff)
  show "manager_inv (restart opens i m)"
  proof (cases "map_of (nm_configs m) i")
    case None then show ?thesis using assms r idle by simp
  next
    case (Some c)
    then have "i \<in> fst ` set (nm_configs m)" by (force dest: map_of_SomeD)
    then show ?thesis using assms Some mc same run key[OF Some]
      by (auto simp: r manager_inv_def startLocked_def Let_def step_simps distinct_removeAll)
  qed
  show "no_leak (restart opens i m)" if "no_leak m"
    using startLocked_no_leak[OF leak[OF that]] that run key idle by (auto simp: r split: option.splits)
qed

lemma link_deleted_cases:
  assumes "link_deleted loaded opens name m w = (Inr m', w')"
  shows "\<exists>m1. nm_running m1 = nm_running m \<and> nm_log m1 = nm_log m \<and> nm_configs m1 = nm_configs m
    \<and> (m' = m1 \<or> m' = restart opens name m1)"
proof -
  have *: "nm_running m1 = nm_running m \<and> nm_log m1 = nm_log m \<and> nm_configs m1 = nm_configs m"
    if "wantedTapSpec loaded name m = Inr (m1, s)" for m1 s
    using that by (auto simp: wantedTapSpec_def rbind_eq_Inr split: sum.splits fault.splits)
  show ?thesis using assms
    by (auto simp: link_deleted_def dest!: * split: if_splits sum.splits option.splits prod.splits fault.splits)
qed

lemma managed_inv: "managed ok m \<Longrightarrow> manager_inv m"
proof (induction rule: managed.induct)
  case fresh then show ?case by (simp add: manager_inv_def newNDPManager_def multicast_def)
next
  case (reload m cfg opens m')
  obtain cs where "ndpResponderConfigs cfg = Inr cs" using Reload_configs[OF reload.hyps(3)] by blast
  then show ?case by (rule Reload_inv(1)[OF reload.IH reload.hyps(3)])
next
  case (stop m)
  then show ?case using ndp_Stop_inv[OF stop.IH] by (simp add: manager_inv_def)
next
  case (deleted m loaded opens name w m' w')
  from link_deleted_cases[OF deleted.hyps(2)] deleted.IH show ?case
    by (metis manager_inv_cong restart_inv(1))
qed

lemma managed_no_leak:
  assumes "\<forall>cfg cs. ok cfg \<longrightarrow> ndpResponderConfigs cfg = Inr cs \<longrightarrow> distinct (map rc_Iface cs)"
  shows "managed ok m \<Longrightarrow> no_leak m"
proof (induction rule: managed.induct)
  case fresh then show ?case by (simp add: no_leak_def newNDPManager_def live_def)
next
  case (reload m cfg opens m')
  obtain cs where cs: "ndpResponderConfigs cfg = Inr cs" using Reload_configs[OF reload.hyps(3)] by blast
  have "distinct (map rc_Iface cs)" using assms reload.hyps(2) cs by blast
  then show ?case by (rule Reload_inv(4)[OF managed_inv[OF reload.hyps(1)] reload.hyps(3) cs reload.IH])
next
  case (stop m)
  then show ?case using ndp_Stop_inv(3)[OF managed_inv] by blast
next
  case (deleted m loaded opens name w m' w')
  obtain m1 where m1: "nm_running m1 = nm_running m" "nm_log m1 = nm_log m" "nm_configs m1 = nm_configs m"
    "m' = m1 \<or> m' = restart opens name m1"
    using link_deleted_cases[OF deleted.hyps(2)] by blast
  have "no_leak m1" "manager_inv m1"
    using deleted.IH managed_inv[OF deleted.hyps(1)] m1 by (simp_all add: no_leak_def manager_inv_def)
  then show ?case using m1(4) restart_inv(2) by blast
qed

section \<open>Properties\<close>



text \<open>A link that is deleted is left alone, without a request to VPP or a change of the responders,
  when it is not a tap of the manager or when the configuration on disk no longer asks for it.\<close>

theorem unwanted_tap_not_rebuilt:
  assumes "map_of (nm_tapSpecs m) name = None
    \<or> (\<exists>cfg specs sock. loaded = Inr cfg \<and> ndpTapSpecs cfg = Inr (specs, sock) \<and> map_of specs name = None)"
  shows "\<exists>m'. link_deleted loaded opens name m w = (Inr m', w) \<and> nm_running m' = nm_running m \<and> nm_log m' = nm_log m
    \<and> (map_of (nm_tapSpecs m) name \<noteq> None \<longrightarrow> map_of (nm_tapSpecs m') name = None)"
  using assms by (auto simp: link_deleted_def wantedTapSpec_def)

section \<open>Examples\<close>

definition sample_rule :: "string \<Rightarrow> NDProxyRule" where
  "sample_rule prefix = zero_NDProxyRule\<lparr>rule_Prefix := prefix, rule_Neighbor := ''02:00:00:00:00:01''\<rparr>"

definition sample_ndp :: "string \<Rightarrow> NDProxy" where
  "sample_ndp prefix = zero_NDProxy\<lparr>ndp_Rules := [Some (sample_rule prefix)]\<rparr>"

definition kernel_cfg :: Config where
  "kernel_cfg = zero_Config\<lparr>cfg_Network := zero_Network\<lparr>net_Bridges :=
     Some [(''br0'', Some (zero_Bridge\<lparr>br_NDProxy := Some (sample_ndp ''2001:db8::/64'')\<rparr>))]\<rparr>\<rparr>"

definition vpp_cfg :: Config where
  "vpp_cfg = zero_Config\<lparr>cfg_Network := zero_Network\<lparr>net_Bridges :=
     Some [(''br0'', Some (zero_Bridge\<lparr>br_Renderer := ''vpp'', br_NDProxy := Some (sample_ndp ''2001:db8::/64'')\<rparr>))]\<rparr>\<rparr>"

lemma samples:
  "map_sum id (map rc_Iface) (ndpResponderConfigs kernel_cfg) = Inr [''br0'']
   \<and> map_sum id nm_running (Reload (\<lambda>_. True) kernel_cfg newNDPManager) = Inr [''br0'']
   \<and> map_sum id (\<lambda>m. map fst (nm_tapSpecs m)) (Reload (\<lambda>_. True) vpp_cfg newNDPManager) = Inr [NDPTapName ''br0'']
   \<and> ndpResponderConfigs zero_Config = Inr [] \<and> ndpTapSpecs zero_Config = Inr ([], '''')
   \<and> check_ndp_rule (Some (sample_rule ''2001:db8::/064'')) = Inr ()
   \<and> responder_rules True (ndp_Rules (sample_ndp ''2001:db8::/064'')) = Inr []"
  by code_simp

lemma kernel_manager:
  obtains m where "Reload (\<lambda>_. True) kernel_cfg newNDPManager = Inr m" "nm_running m = [''br0'']"
    "managed (\<lambda>c. c = kernel_cfg) m"
proof -
  obtain m where m: "Reload (\<lambda>_. True) kernel_cfg newNDPManager = Inr m" "nm_running m = [''br0'']"
    using samples by (cases "Reload (\<lambda>_. True) kernel_cfg newNDPManager") auto
  have "managed (\<lambda>c. c = kernel_cfg) m" by (rule managed.reload[OF managed.fresh _ m(1)]) simp
  then show ?thesis using that m by blast
qed



theorem unwanted_tap_not_rebuilt_witness:
  "\<exists>m. Reload (\<lambda>_. True) vpp_cfg newNDPManager = Inr m \<and> map_of (nm_tapSpecs m) (NDPTapName ''br0'') \<noteq> None
     \<and> (\<forall>w. \<exists>m'. link_deleted (Inr zero_Config) (\<lambda>_. True) (NDPTapName ''br0'') m w = (Inr m', w))"
proof -
  obtain m where m: "Reload (\<lambda>_. True) vpp_cfg newNDPManager = Inr m" "map fst (nm_tapSpecs m) = [NDPTapName ''br0'']"
    using samples by (cases "Reload (\<lambda>_. True) vpp_cfg newNDPManager") auto
  have s: "ndpTapSpecs zero_Config = Inr ([], '''')" using samples by simp
  have own: "map_of (nm_tapSpecs m) (NDPTapName ''br0'') \<noteq> None"
    using m(2) by (metis list.set_intros(1) list.set_map map_of_eq_None_iff)
  have "\<exists>m'. link_deleted (Inr zero_Config) (\<lambda>_. True) (NDPTapName ''br0'') m w = (Inr m', w)" for w
    using unwanted_tap_not_rebuilt[of m "NDPTapName ''br0''" "Inr zero_Config" "\<lambda>_. True" w] s by auto
  then show ?thesis using m own by blast
qed

text \<open>A prefix length with a leading zero passes validation and gets a VPP tap, but the responder
  skips the rule: validation uses \<open>net.ParseCIDR\<close>, the responder \<open>netip.ParsePrefix\<close>.\<close>

theorem leading_zero_prefix_unanswered:
  "validateNDProxyBlock scope (Some (sample_ndp ''2001:db8::/064'')) = Inr ()
    \<and> vppNDPTapRules (Some (sample_ndp ''2001:db8::/064'')) = Inr ([sample_rule ''2001:db8::/064''], 0)
    \<and> addOn iface (Some (sample_ndp ''2001:db8::/064'')) True = Inr []"
proof -
  have "check_ndp_rule (Some (sample_rule ''2001:db8::/064'')) = Inr ()" using samples by simp
  then have "validateNDProxyBlock scope (Some (sample_ndp ''2001:db8::/064'')) = Inr ()"
    by (simp add: validateNDProxyBlock_def in_scope_def sample_ndp_def zero_NDProxy_def)
  moreover have "vppNDPTapRules (Some (sample_ndp ''2001:db8::/064'')) = Inr ([sample_rule ''2001:db8::/064''], 0)"
    by (simp add: vppNDPTapRules_def sample_ndp_def sample_rule_def zero_NDProxy_def zero_NDProxyRule_def equal_fold_def fold_norm_def)
  moreover have "responder_rules True (ndp_Rules (sample_ndp ''2001:db8::/064'')) = Inr []" using samples by simp
  then have "addOn iface (Some (sample_ndp ''2001:db8::/064'')) True = Inr []" by (simp add: addOn_def)
  ultimately show ?thesis by blast
qed

end
