(* ===== verification/Daemon.thy ===== *)
theory Daemon
  imports NdpSafe
begin

text \<open>
  The daemon process as a whole (\<open>cmd/daemon.go\<close>): it starts the lease daemon, applies the configuration
  to it and to the NDP manager, and then waits for signals while the renewal loop and the tap
  watcher run. The goroutines take the mutex of their component for each operation, so an execution is
  a sequence of events; each carries what the outside world returns while it is handled.
\<close>

section \<open>The signal loop\<close>

datatype daemon_event =
    Hup "(cfg_error, Config) result" "string \<Rightarrow> lease_input" "string \<Rightarrow> bool"
  | Terminate
  | Tick int "string \<Rightarrow> DHCPv4Lease option" "string \<Rightarrow> DHCPv4Lease option"
  | LinkGone "(cfg_error, Config) result" "string \<Rightarrow> bool" string world

text \<open>The result says whether \<open>runDaemon\<close> has returned; a panic in any goroutine ends the process.\<close>

fun daemon_loop :: "codec \<Rightarrow> daemon_event list \<Rightarrow> daemon \<Rightarrow> (nl_error, bool \<times> daemon) result" where
  "daemon_loop c [] d = Inr (False, d)"
| "daemon_loop c (Hup loaded inp opens # es) d = rbind (load_and_apply c inp opens loaded d) (daemon_loop c es)"
| "daemon_loop c (Terminate # es) d = Inr (True, terminate c d)"
| "daemon_loop c (Tick now renew request # es) d =
    daemon_loop c es (d\<lparr>dn_dhcp := checkRenewals c now renew request (dn_dhcp d)\<rparr>)"
| "daemon_loop c (LinkGone loaded opens name w # es) d =
    rbind (fst (link_deleted loaded opens name (dn_ndp d) w)) (\<lambda>m. daemon_loop c es (d\<lparr>dn_ndp := m\<rparr>))"

definition runDaemon :: "codec \<Rightarrow> int \<Rightarrow> string alist \<Rightarrow> (string \<Rightarrow> lease_input) \<Rightarrow> (string \<Rightarrow> bool) \<Rightarrow> (cfg_error, Config) result
    \<Rightarrow> daemon_event list \<Rightarrow> (nl_error, bool \<times> daemon) result" where
  "runDaemon c now files inp opens loaded es = rbind (runDaemon_start c now files inp opens loaded) (daemon_loop c es)"

section \<open>Invariants of the process\<close>

text \<open>Both components are in states their own executions reach.\<close>

definition daemon_ok :: "codec \<Rightarrow> string alist \<Rightarrow> (Config \<Rightarrow> bool) \<Rightarrow> daemon \<Rightarrow> bool" where
  "daemon_ok c files ok d \<longleftrightarrow> reachable c files (dn_dhcp d) \<and> managed ok (dn_ndp d)"

definition configs_of :: "(cfg_error, Config) result \<Rightarrow> daemon_event list \<Rightarrow> Config set" where
  "configs_of loaded es = {cfg. loaded = Inr cfg \<or> (\<exists>inp opens. Hup (Inr cfg) inp opens \<in> set es)}"

definition finish :: "codec \<Rightarrow> bool \<Rightarrow> daemon \<Rightarrow> daemon" where
  "finish c ended d = (if ended then terminate c d else d)"

lemma apply_reachable:
  assumes "applyConfigWithDaemon c inp cfg d = Inr d'" "reachable c files d"
  shows "reachable c files d'"
proof -
  have "rfold (request_eth c inp) d xs = Inr d' \<Longrightarrow> reachable c files d \<Longrightarrow> reachable c files d'" for xs d
  proof (induction xs arbitrary: d)
    case (Cons kv xs)
    obtain d1 where d1: "request_eth c inp d kv = Inr d1" "rfold (request_eth c inp) d1 xs = Inr d'"
      using Cons.prems(1) by (auto split: sum.splits)
    have "reachable c files d1"
      using d1(1) Cons.prems(2)
      by (auto simp: request_eth_def rbind_eq_Inr split: prod.splits intro!: reachable.step[OF _ daemon_step.request])
    then show ?case using Cons.IH d1(2) by blast
  qed simp
  then show ?thesis using assms unfolding applyConfigWithDaemon_def by blast
qed

lemma load_and_apply_ok:
  assumes "load_and_apply c inp opens loaded d = Inr d'" "daemon_ok c files ok d" "\<forall>cfg. loaded = Inr cfg \<longrightarrow> ok cfg"
  shows "daemon_ok c files ok d'"
  using assms
  by (auto simp: load_and_apply_def daemon_ok_def rbind_eq_Inr split: sum.splits fault.splits
      intro: apply_reachable managed.reload)

lemma daemon_loop_ok:
  assumes "daemon_loop c es d = Inr (ended, d')" "daemon_ok c files ok d"
    "\<forall>cfg inp opens. Hup (Inr cfg) inp opens \<in> set es \<longrightarrow> ok cfg"
  shows "(ended \<longleftrightarrow> Terminate \<in> set es) \<and> (\<exists>d0. daemon_ok c files ok d0 \<and> d' = finish c ended d0)"
  using assms
proof (induction c es d rule: daemon_loop.induct)
  case (2 c loaded inp opens es d)
  obtain d1 where d1: "load_and_apply c inp opens loaded d = Inr d1" "daemon_loop c es d1 = Inr (ended, d')"
    using "2.prems"(1) by (auto simp: rbind_eq_Inr)
  have "daemon_ok c files ok d1" using load_and_apply_ok[OF d1(1) "2.prems"(2)] "2.prems"(3) by auto
  then show ?case using "2.IH"[OF d1(2)] "2.prems"(3) by auto
next
  case (4 c now renew request es d)
  have "daemon_ok c files ok (d\<lparr>dn_dhcp := checkRenewals c now renew request (dn_dhcp d)\<rparr>)"
    using "4.prems"(2) by (auto simp: daemon_ok_def intro!: reachable.step[OF _ daemon_step.tick])
  then show ?case using "4.IH" "4.prems" by auto
next
  case (5 c loaded opens name w es d)
  obtain m w' where m: "link_deleted loaded opens name (dn_ndp d) w = (Inr m, w')" "daemon_loop c es (d\<lparr>dn_ndp := m\<rparr>) = Inr (ended, d')"
    using "5.prems"(1) by (cases "link_deleted loaded opens name (dn_ndp d) w") (auto simp: rbind_eq_Inr)
  have "daemon_ok c files ok (d\<lparr>dn_ndp := m\<rparr>)"
    using "5.prems"(2) m(1) by (auto simp: daemon_ok_def intro: managed.deleted)
  then show ?case using "5.IH"[OF m(2)] "5.prems"(3) by auto
qed (auto simp: finish_def)

lemma runDaemon_ok:
  assumes "runDaemon c now files inp opens loaded es = Inr (ended, d)" "configs_of loaded es \<subseteq> Collect ok"
  shows "(ended \<longleftrightarrow> Terminate \<in> set es) \<and> (\<exists>d0. daemon_ok c files ok d0 \<and> d = finish c ended d0)"
proof -
  obtain d1 where d1: "runDaemon_start c now files inp opens loaded = Inr d1" "daemon_loop c es d1 = Inr (ended, d)"
    using assms(1) by (auto simp: runDaemon_def rbind_eq_Inr)
  have "daemon_ok c files ok \<lparr>dn_dhcp = Start c now (NewDHCPDaemon files), dn_ndp = newNDPManager\<rparr>"
    by (simp add: daemon_ok_def reachable.start managed.fresh)
  then have "daemon_ok c files ok d1"
    using load_and_apply_ok[of c inp opens loaded _ d1] d1(1) assms(2) by (auto simp: runDaemon_start_def configs_of_def)
  moreover have "\<forall>cfg inp opens. Hup (Inr cfg) inp opens \<in> set es \<longrightarrow> ok cfg" using assms(2) by (auto simp: configs_of_def)
  ultimately show ?thesis by (rule daemon_loop_ok[OF d1(2)])
qed

section \<open>Properties\<close>


text \<open>A configuration that does not load on SIGHUP changes nothing: leases and responders go on.\<close>

lemma bad_reload_ignored: "daemon_loop c (Hup (Inl (Err e)) inp opens # es) d = daemon_loop c es d"
  by (simp add: load_and_apply_def)

definition no_lease :: "string \<Rightarrow> lease_input" where
  "no_lease _ = \<lparr>li_now = 0, li_res4 = None, li_res6 = None\<rparr>"

definition sample_run :: "(nl_error, bool \<times> daemon) result" where
  "sample_run = runDaemon (plain_codec sample_state) 1010 [(lease_file ''eth0'', ''{}'')] no_lease (\<lambda>_. True) (Inr kernel_cfg)
     [Tick 2000 (\<lambda>_. Some sample_lease4) (\<lambda>_. None), Hup (Inl (Err (GlobFailed ''d''))) no_lease (\<lambda>_. True), Terminate]"

lemma sample_run_ends:
  "case sample_run of Inr (ended, d) \<Rightarrow> ended \<and> map fst (dd_leases (dn_dhcp d)) = [''eth0''] \<and> nm_log (dn_ndp d) \<noteq> [] | Inl _ \<Rightarrow> False"
  by code_simp


end
