(* ===== verification/GetSet.thy ===== *)
theory GetSet
  imports VppPlan "HOL-Library.Sublist"
begin

text \<open>
  The \<open>get\<close>, \<open>set\<close> and \<open>generate\<close> commands (\<open>cmd/getset.go\<close>, \<open>cmd/generate.go\<close>): navigation in the generic YAML value
  of a configuration by a dotted path. The YAML codec is a parameter, the record \<open>yaml_codec\<close>: a \<open>None\<close>
  is the error of the codec. What \<open>LoadConfig\<close> returned is an argument of the commands.
\<close>

section \<open>Commands\<close>

record yaml_codec =
  y_marshalCfg :: "Config \<Rightarrow> string option"
  y_unmarshalMap :: "string \<Rightarrow> yval gomap option"
  y_marshal :: "yval \<Rightarrow> string option"
  y_unmarshal :: "string \<Rightarrow> yval option"

definition with_config :: "(cfg_error, Config) result \<Rightarrow> (Config \<Rightarrow> cmd) \<Rightarrow> cmd" where
  "with_config loaded k = (case loaded of
      Inl (Panic p) \<Rightarrow> crash p
    | Inl (Err e) \<Rightarrow> failwith (Wrap ''failed to load config'' (CfgErr e))
    | Inr cfg \<Rightarrow> k cfg)"

definition yaml_ok :: "'a option \<Rightarrow> ('a \<Rightarrow> cmd) \<Rightarrow> cmd" where
  "yaml_ok r k = (case r of None \<Rightarrow> failwith (Sys ''yaml'') | Some x \<Rightarrow> k x)"

definition say :: "string \<Rightarrow> cmd" where
  "say s = ask (Ev '''' (Print s)) (\<lambda>_. nop)"

section \<open>Paths\<close>

fun navigate :: "string \<Rightarrow> yval \<Rightarrow> string list \<Rightarrow> (nl_error, yval) result" where
  "navigate path v [] = Inr v"
| "navigate path (YMap kvs) (part # parts) = (case map_of kvs part of
      None \<Rightarrow> Inl (Err (Invalid ''path not found'' path))
    | Some x \<Rightarrow> navigate path x parts)"
| "navigate path v (part # parts) = Inl (Err (Invalid ''cannot navigate into non-map'' part))"

definition sub_map :: "yval option \<Rightarrow> yval alist" where
  "sub_map next = (case next of Some (YMap kvs) \<Rightarrow> kvs | _ \<Rightarrow> [])"

fun setNestedValue :: "yval gomap \<Rightarrow> string list \<Rightarrow> yval \<Rightarrow> (nl_error, yval gomap) result" where
  "setNestedValue m [] value = Inl (Err (Missing ''path''))"
| "setNestedValue m [key] value = gput key value m"
| "setNestedValue m (key # k2 # rest) value =
    rbind (setNestedValue (Some (sub_map (gget m key))) (k2 # rest) value) (\<lambda>nextMap.
      gput key (YMap (entries nextMap)) m)"

definition runGet :: "yaml_codec \<Rightarrow> (cfg_error, Config) result \<Rightarrow> string list \<Rightarrow> cmd" where
  "runGet y loaded args = with_config loaded (\<lambda>cfg. yaml_ok (y_marshalCfg y cfg) (\<lambda>data.
     case args of
       [] \<Rightarrow> say data
     | path # _ \<Rightarrow> yaml_ok (y_unmarshalMap y data) (\<lambda>m.
         lift_nl (navigate path (YMap (entries m)) (split_on (CHR ''.'') path)) (\<lambda>current.
           yaml_ok (y_marshal y current) say))))"

definition new_config :: Config where
  "new_config = zero_Config\<lparr>cfg_Network := zero_Network\<lparr>net_Version := 2\<rparr>\<rparr>"

definition set_value :: "yaml_codec \<Rightarrow> string \<Rightarrow> yval" where
  "set_value y s = (case y_unmarshal y s of None \<Rightarrow> YStr s | Some v \<Rightarrow> v)"

definition save_map :: "yaml_codec \<Rightarrow> string \<Rightarrow> string \<Rightarrow> yval gomap \<Rightarrow> cmd" where
  "save_map y hint dir m = (let file = dir @ ''/99-'' @ hint @ ''.yaml'' in
     andthen (wrap ''failed to create config dir'' (call (Ev '''' (Mkdir dir))))
       (yaml_ok (y_marshal y (YMap (entries m))) (\<lambda>out. steps
         [wrap ''failed to write config'' (call (Ev '''' (WriteFile file out))),
          say (''Configuration saved to '' @ file), say ''Run 'netcfg apply' to apply changes''])))"

definition runSet :: "yaml_codec \<Rightarrow> string \<Rightarrow> string \<Rightarrow> (cfg_error, Config) result \<Rightarrow> string list \<Rightarrow> cmd" where
  "runSet y hint dir loaded args = (case args of
      [] \<Rightarrow> failwith (Missing ''usage: netcfg set path=value'')
    | a # _ \<Rightarrow>
       if \<not> contains_byte (CHR ''='') a then failwith (Invalid ''invalid format, expected path=value'' a)
       else (case loaded of
          Inl (Panic p) \<Rightarrow> crash p
        | _ \<Rightarrow> yaml_ok (y_marshalCfg y (case loaded of Inr cfg \<Rightarrow> cfg | Inl _ \<Rightarrow> new_config)) (\<lambda>data.
            yaml_ok (y_unmarshalMap y data) (\<lambda>m.
              lift_nl (setNestedValue m (split_on (CHR ''.'') (before (CHR ''='') a)) (set_value y (after (CHR ''='') a)))
                (save_map y hint dir)))))"

definition runGenerate :: "yaml_codec \<Rightarrow> string \<Rightarrow> (cfg_error, Config) result \<Rightarrow> cmd" where
  "runGenerate y dir loaded = with_config loaded (\<lambda>cfg.
     case y_marshalCfg y cfg of
       None \<Rightarrow> failwith (Wrap ''failed to marshal config'' (Sys ''yaml''))
     | Some data \<Rightarrow> andthen (say (''# Merged configuration from '' @ dir)) (say data))"

section \<open>Properties\<close>

lemma split_on_ne [simp]: "split_on c s \<noteq> []"
  by (induction s) (auto split: list.splits)

lemma set_then_get_aux:
  "path \<noteq> [] \<Longrightarrow> \<exists>kvs'. setNestedValue (Some kvs) path v = Inr (Some kvs') \<and> navigate p (YMap kvs') path = Inr v"
proof (induction path arbitrary: kvs)
  case (Cons k rest)
  show ?case
  proof (cases rest)
    case Nil then show ?thesis by (simp add: gomap_simps)
  next
    case (Cons k2 r)
    obtain sub where "setNestedValue (Some (sub_map (map_of kvs k))) rest v = Inr (Some sub)" "navigate p (YMap sub) rest = Inr v"
      using Cons.IH[of "sub_map (map_of kvs k)"] Cons by blast
    then show ?thesis by (simp add: Cons gomap_simps)
  qed
qed simp

text \<open>(C23) A value stored under a path is what the path then leads to, whatever the map held before:
  setting never fails on an allocated map and replaces values that are in the way.\<close>

theorem set_then_get:
  assumes "path \<noteq> []"
  shows "\<exists>kvs'. setNestedValue (Some kvs) path v = Inr (Some kvs') \<and> navigate p (YMap kvs') path = Inr v"
  by (rule set_then_get_aux[OF assms])

theorem set_then_get_witness:
  "\<exists>kvs'. setNestedValue (Some [(''network'', YInt 5)]) [''network'', ''ethernets'', ''eth0''] (YBool True) = Inr (Some kvs')
    \<and> navigate ''p'' (YMap kvs') [''network'', ''ethernets'', ''eth0''] = Inr (YBool True)"
  by (rule set_then_get) simp

lemma navigate_sub_map:
  "navigate p (YMap kvs) (k # q) = Inr x \<Longrightarrow> q \<noteq> [] \<Longrightarrow> navigate p (YMap (sub_map (map_of kvs k))) q = Inr x"
  by (cases q) (auto simp: sub_map_def split: option.splits yval.splits)

text \<open>(C24) Setting a path leaves every value alone that is found under a path neither above nor
  below it.\<close>

theorem set_keeps_others:
  assumes "setNestedValue (Some kvs) path v = Inr (Some kvs')" "navigate p (YMap kvs) q = Inr x"
    "\<not> prefix path q" "\<not> prefix q path"
  shows "navigate p (YMap kvs') q = Inr x"
  using assms
proof (induction path arbitrary: kvs kvs' q)
  case (Cons k rest)
  obtain j q' where q: "q = j # q'" using Cons.prems(4) by (cases q) auto
  show ?case
  proof (cases rest)
    case Nil
    then have "j \<noteq> k" using Cons.prems(3) q by auto
    then show ?thesis using Cons.prems(1,2) Nil by (auto simp: q gomap_simps)
  next
    case R: (Cons k2 r)
    obtain sub where sub: "setNestedValue (Some (sub_map (map_of kvs k))) rest v = Inr (Some sub)"
      using set_then_get_aux[of rest "sub_map (map_of kvs k)" v p] R by auto
    then have kvs': "kvs' = alist_put k (YMap sub) kvs" using Cons.prems(1) R by simp
    show ?thesis
    proof (cases "j = k")
      case False then show ?thesis using Cons.prems(2) by (simp add: kvs' q gomap_simps)
    next
      case True
      then have "q' \<noteq> []" "\<not> prefix rest q'" "\<not> prefix q' rest" using Cons.prems(3,4) q by auto
      then have "navigate p (YMap sub) q' = Inr x"
        using Cons.IH[OF sub navigate_sub_map[of p kvs k q' x]] Cons.prems(2) True q by blast
      then show ?thesis by (simp add: kvs' q True gomap_simps)
    qed
  qed
qed simp

theorem set_keeps_others_witness:
  "\<exists>kvs'. setNestedValue (Some [(''a'', YMap [(''b'', YInt 1)])]) [''a'', ''c''] (YInt 2) = Inr (Some kvs')
     \<and> navigate ''p'' (YMap kvs') [''a'', ''b''] = Inr (YInt 1)"
proof -
  obtain kvs' where s: "setNestedValue (Some [(''a'', YMap [(''b'', YInt 1)])]) [''a'', ''c''] (YInt 2) = Inr (Some kvs')"
    using set_then_get_aux[of "[''a'', ''c'']"] by blast
  have "navigate ''p'' (YMap kvs') [''a'', ''b''] = Inr (YInt 1)"
    by (rule set_keeps_others[OF s]) simp_all
  with s show ?thesis by blast
qed

lemma before_after_sep: "c \<notin> set s \<Longrightarrow> before c (s @ c # r) = s \<and> after c (s @ c # r) = r \<and> contains_byte c (s @ c # r)"
  by (induction s) (auto simp: before_def after_def contains_byte_def)

text \<open>\<open>netcfg set path=value\<close> on a configuration whose YAML form is the map \<open>kvs\<close> writes one
  file, \<open>99-\<close>hint\<open>.yaml\<close>, that holds the whole map with the value under the path.\<close>

theorem runSet_writes_merged:
  assumes "CHR ''='' \<notin> set path" "y_marshalCfg y cfg = Some data" "y_unmarshalMap y data = Some (Some kvs)"
    "\<forall>v. \<exists>s. y_marshal y v = Some s" "\<forall>tr e. env tr e = ROk"
  shows "\<exists>kvs' out. navigate path (YMap kvs') (split_on (CHR ''.'') path) = Inr (set_value y val)
    \<and> y_marshal y (YMap kvs') = Some out
    \<and> fst (run env (runSet y hint dir (Inr cfg) [path @ ''='' @ val])) = None
    \<and> filter (\<lambda>e. \<forall>s. ev_req e \<noteq> Print s) (snd (run env (runSet y hint dir (Inr cfg) [path @ ''='' @ val])))
        = [Ev '''' (Mkdir dir), Ev '''' (WriteFile (dir @ ''/99-'' @ hint @ ''.yaml'') out)]"
proof -
  obtain kvs' where s: "setNestedValue (Some kvs) (split_on (CHR ''.'') path) (set_value y val) = Inr (Some kvs')"
    and n: "navigate path (YMap kvs') (split_on (CHR ''.'') path) = Inr (set_value y val)"
    using set_then_get_aux[of "split_on (CHR ''.'') path"] by (metis split_on_ne)
  obtain out where out: "y_marshal y (YMap kvs') = Some out" using assms(4) by blast
  have "run env (runSet y hint dir (Inr cfg) [path @ ''='' @ val]) = run env (save_map y hint dir (Some kvs'))"
    using before_after_sep[OF assms(1), of val] assms(2,3) s by (simp add: runSet_def yaml_ok_def lift_nl_def)
  then show ?thesis using n out assms(5)
    by (intro exI[of _ kvs'] exI[of _ out]) (simp add: run_def save_map_def yaml_ok_def say_def cmd_defs Let_def)
qed

definition sample_yaml :: yaml_codec where
  "sample_yaml = \<lparr>y_marshalCfg = (\<lambda>_. Some ''network: {}''), y_unmarshalMap = (\<lambda>_. Some (Some [(''network'', YMap [])])),
     y_marshal = (\<lambda>_. Some ''out''), y_unmarshal = (\<lambda>s. Some (YStr s))\<rparr>"

theorem runSet_writes_merged_witness:
  "\<exists>kvs'. navigate ''network.version'' (YMap kvs') (split_on (CHR ''.'') ''network.version'') = Inr (YStr ''2'')
    \<and> filter (\<lambda>e. \<forall>s. ev_req e \<noteq> Print s)
        (snd (run (\<lambda>_ _. ROk) (runSet sample_yaml ''netcfg'' ''/etc/netplan'' (Inr new_config) [''network.version'' @ ''='' @ ''2''])))
      = [Ev '''' (Mkdir ''/etc/netplan''), Ev '''' (WriteFile (''/etc/netplan'' @ ''/99-'' @ ''netcfg'' @ ''.yaml'') ''out'')]"
  using runSet_writes_merged[of "''network.version''" sample_yaml new_config "''network: {}''" "[(''network'', YMap [])]" "\<lambda>_ _. ROk" "''2''" "''netcfg''" "''/etc/netplan''"]
  by (simp add: sample_yaml_def set_value_def)

text \<open>A configuration that does not load (one invalid entry is enough) is replaced by an empty
  one: the file written then holds the new value only.\<close>

lemma runSet_drops_unloadable: "runSet y hint dir (Inl (Err e)) args = runSet y hint dir (Inr new_config) args"
  by (simp add: runSet_def split: list.splits)

end
