(* ===== verification/Status.thy ===== *)
theory Status
  imports GetSet Dhcp
begin

text \<open>
  The \<open>status\<close> and \<open>show\<close> commands (\<open>cmd/status.go\<close>) and the queries of the netlink manager they use
  (\<open>netlink/netlink.go\<close>). \<open>status --wait\<close> polls until the required interfaces are up or the time is over: a
  loop whose end depends on the clock, so it is a partial function that is shown to return. The
  alignment of table columns by \<open>tabwriter\<close> is left out: a row is printed with its tabs.
\<close>

section \<open>Queries\<close>

definition ListNetns :: "(string list \<Rightarrow> cmd) \<Rightarrow> cmd" where
  "ListNetns k = ask (Ev '''' (ReadDir ''/var/run/netns'')) (\<lambda>r. case r of
      RDirs fs \<Rightarrow> k (map fst (filter (\<lambda>(_, isDir). \<not> isDir) fs))
    | RNotExist \<Rightarrow> k []
    | _ \<Rightarrow> failwith (Wrap ''failed to read netns dir'' (sys_error r)))"

definition ListLinks :: "mgr \<Rightarrow> (link list \<Rightarrow> cmd) \<Rightarrow> cmd" where
  "ListLinks m k = ask (Ev m LinkList) (\<lambda>r. case r of RLinks ls \<Rightarrow> k ls | _ \<Rightarrow> failwith (sys_error r))"

text \<open>\<open>None\<close> stands for an error.\<close>

definition ListAddresses :: "mgr \<Rightarrow> string \<Rightarrow> (string list option \<Rightarrow> cmd) \<Rightarrow> cmd" where
  "ListAddresses m name k = ask (Ev m (LinkByName name)) (\<lambda>r. case r of
      RLink l \<Rightarrow> ask (Ev m (AddrList l)) (\<lambda>r2. k (case r2 of RAddrs as \<Rightarrow> Some as | _ \<Rightarrow> None))
    | _ \<Rightarrow> k None)"

definition ListRoutes :: "mgr \<Rightarrow> string \<Rightarrow> ((string option \<times> string option) list option \<Rightarrow> cmd) \<Rightarrow> cmd" where
  "ListRoutes m name k =
    (let go = (\<lambda>idx. ask (Ev m (RouteListOif idx)) (\<lambda>r. k (case r of RRoutes rs \<Rightarrow> Some rs | _ \<Rightarrow> None)))
     in if name = '''' then go None
        else ask (Ev m (LinkByName name)) (\<lambda>r. case r of RLink l \<Rightarrow> go (Some (l_Index l)) | _ \<Rightarrow> k None))"

section \<open>Showing interfaces\<close>

definition tab :: string where
  "tab = [CHR 0x09]"

definition or_dash :: "string \<Rightarrow> string" where
  "or_dash s = (if s = '''' then ''-'' else s)"

definition show_row :: "mgr \<Rightarrow> string list \<Rightarrow> link \<Rightarrow> cmd" where
  "show_row m only l =
    (if only \<noteq> [] \<and> l_Name l \<notin> set only then nop
     else ListAddresses m (l_Name l) (\<lambda>addrs.
       say (join_with tab [l_Name l, if l_Up l then ''UP'' else ''DOWN'', or_dash (l_HW l),
         or_dash (join_with '', '' (case addrs of Some as \<Rightarrow> as | None \<Rightarrow> []))])))"

definition showNamespace :: "string \<Rightarrow> string list \<Rightarrow> cmd" where
  "showNamespace ns only =
    (let body = (\<lambda>m. ask (Ev m LinkList) (\<lambda>r. case r of
           RLinks ls \<Rightarrow> andthen (say (join_with tab [''INTERFACE'', ''STATE'', ''MAC'', ''ADDRESSES''])) (each ls (show_row m only))
         | _ \<Rightarrow> failwith (Wrap ''failed to list links'' (sys_error r))))
     in if ns = '''' then New body else NewWithNetns ns body)"

definition showAllNamespaces :: "string list \<Rightarrow> cmd" where
  "showAllNamespaces only = steps
    [say ''=== Default Namespace ==='', showNamespace '''' only,
     ListNetns (\<lambda>nss. each nss (\<lambda>ns. andthen (say (''=== Namespace: '' @ ns @ '' ==='')) 
       (attempt (showNamespace ns only) nop (\<lambda>e. say ''Error''))))]"

definition route_line :: "string option \<times> string option \<Rightarrow> string" where
  "route_line r = (case r of (dst, gw) \<Rightarrow> ''    - '' @ (case dst of Some d \<Rightarrow> d | None \<Rightarrow> ''default'')
     @ (case gw of Some g \<Rightarrow> '' via '' @ g | None \<Rightarrow> ''''))"

definition showLinkDetails :: "mgr \<Rightarrow> link \<Rightarrow> cmd" where
  "showLinkDetails m l = steps
    [say (''Interface: '' @ l_Name l), say (''  Type: '' @ l_Type l), say (''  State: '' @ l_Oper l), say (''  MAC: '' @ l_HW l),
     say (''  MTU: '' @ itoa (l_MTU l)), say (''  Index: '' @ itoa (l_Index l)),
     only_if (l_Master l > 0) (say (''  Master Index: '' @ itoa (l_Master l))),
     ListAddresses m (l_Name l) (\<lambda>a. case a of
        Some (x # xs) \<Rightarrow> andthen (say ''  Addresses:'') (each (x # xs) (\<lambda>s. say (''    - '' @ s)))
      | _ \<Rightarrow> nop),
     ListRoutes m (l_Name l) (\<lambda>r. case r of
        Some (x # xs) \<Rightarrow> andthen (say ''  Routes:'') (each (x # xs) (\<lambda>rt. say (route_line rt)))
      | _ \<Rightarrow> nop)]"

definition runShow :: "string list \<Rightarrow> cmd" where
  "runShow args = New (\<lambda>m.
     if args = [] then ListLinks m (\<lambda>ls. each ls (\<lambda>l. andthen (showLinkDetails m l) (say '''')))
     else each args (\<lambda>name. ask (Ev m (LinkByName name)) (\<lambda>r. case r of
         RLink l \<Rightarrow> andthen (showLinkDetails m l) (say '''')
       | _ \<Rightarrow> say (''Interface '' @ name @ '' not found''))))"

section \<open>Waiting\<close>

definition query :: "event \<Rightarrow> world \<Rightarrow> reply \<times> world" where
  "query e w = (w_env w (w_trace w) e, w\<lparr>w_trace := w_trace w @ [e]\<rparr>)"

definition linkReady :: "mgr \<Rightarrow> string \<Rightarrow> world \<Rightarrow> bool \<times> world" where
  "linkReady m name w = (case query (Ev m (LinkByName name)) w of (r, w1) \<Rightarrow>
     (case r of RLink l \<Rightarrow> l_Up l \<and> (l_Oper l = ''up'' \<or> l_Oper l = ''unknown'') | _ \<Rightarrow> False, w1))"

fun pending :: "mgr \<Rightarrow> string list \<Rightarrow> world \<Rightarrow> string list \<times> world" where
  "pending m [] w = ([], w)"
| "pending m (name # names) w = (case linkReady m name w of (ok, w1) \<Rightarrow>
     (case pending m names w1 of (ps, w2) \<Rightarrow> (if ok then ps else name # ps, w2)))"

definition clock :: "reply \<Rightarrow> int" where
  "clock r = (case r of RInt t \<Rightarrow> t | _ \<Rightarrow> 0)"

partial_function (option) wait_loop :: "mgr \<Rightarrow> string list \<Rightarrow> int \<Rightarrow> int \<Rightarrow> world \<Rightarrow> (outcome \<times> world) option" where
  "wait_loop m required timeout deadline w = (case pending m required w of (ps, w1) \<Rightarrow>
     if ps = [] then Some (say (''all required interfaces up: '' @ join_with '', '' required) w1)
     else (case query (Ev '''' Now) w1 of (now, w2) \<Rightarrow>
       if deadline < clock now
       then Some (failwith (Invalid (''timed out after '' @ itoa timeout @ ''s waiting for interfaces'') (join_with '', '' ps)) w2)
       else wait_loop m required timeout deadline (snd (query (Ev '''' (Sleep second)) w2))))"

definition required_links :: "Config \<Rightarrow> string list" where
  "required_links cfg = sort (map fst (filter (\<lambda>(_, p). case p of Some e \<Rightarrow> \<not> eth_Optional e | None \<Rightarrow> False)
     (entries (net_Ethernets (cfg_Network cfg)))))"

definition waitOnline :: "(cfg_error, Config) result \<Rightarrow> int \<Rightarrow> world \<Rightarrow> (outcome \<times> world) option" where
  "waitOnline loaded timeout w = (case loaded of
      Inl (Panic p) \<Rightarrow> Some (crash p w)
    | Inl (Err e) \<Rightarrow> Some (failwith (Wrap ''failed to load config'' (CfgErr e)) w)
    | Inr cfg \<Rightarrow>
       if required_links cfg = [] then Some (say ''no required interfaces to wait for'' w)
       else (case query (Ev '''' NewHandle) w of (r, w1) \<Rightarrow>
         (case r of RFail e \<Rightarrow> Some (failwith (Wrap ''failed to create netlink handle'' (Sys e)) w1)
          | _ \<Rightarrow> (case query (Ev '''' Now) w1 of (now, w2) \<Rightarrow>
              wait_loop '''' (required_links cfg) timeout (clock now + wrap64 (timeout * second)) w2))))"

definition runStatus :: "bool \<Rightarrow> bool \<Rightarrow> string \<Rightarrow> int \<Rightarrow> (cfg_error, Config) result \<Rightarrow> string list \<Rightarrow> world \<Rightarrow> (outcome \<times> world) option" where
  "runStatus wait all ns timeout loaded args w =
    (if wait then waitOnline loaded timeout w
     else Some ((if all then showAllNamespaces args else showNamespace ns args) w))"

section \<open>The wait ends\<close>

definition tick :: "environment \<Rightarrow> event list \<Rightarrow> int" where
  "tick env tr = clock (env tr (Ev '''' Now))"

definition slept :: "event \<Rightarrow> int" where
  "slept e = (case ev_req e of Sleep d \<Rightarrow> d | _ \<Rightarrow> 0)"

text \<open>What the loop needs of the clock: it never goes back, and a sleep takes at least its time.\<close>

definition clock_advances :: "environment \<Rightarrow> bool" where
  "clock_advances env \<longleftrightarrow> (\<forall>tr e. tick env tr + slept e \<le> tick env (tr @ [e]))"

lemma query_simps [simp]: "fst (query e w) = w_env w (w_trace w) e" "w_env (snd (query e w)) = w_env w"
  "w_trace (snd (query e w)) = w_trace w @ [e]"
  by (simp_all add: query_def)

lemma tick_query: "clock_advances (w_env w) \<Longrightarrow>
    tick (w_env w) (w_trace w) + slept e \<le> tick (w_env (snd (query e w))) (w_trace (snd (query e w)))"
  by (simp add: clock_advances_def)

text \<open>A poll asks for each link once, in order; it leaves nothing pending when every reply is of a
  link that is up.\<close>

definition link_up :: "reply \<Rightarrow> bool" where
  "link_up r = (case r of RLink l \<Rightarrow> l_Up l \<and> (l_Oper l = ''up'' \<or> l_Oper l = ''unknown'') | _ \<Rightarrow> False)"

definition poll :: "mgr \<Rightarrow> string list \<Rightarrow> event list" where
  "poll m names = map (\<lambda>n. Ev m (LinkByName n)) names"

fun all_up :: "environment \<Rightarrow> event list \<Rightarrow> event list \<Rightarrow> bool" where
  "all_up env tr [] = True"
| "all_up env tr (e # es) = (link_up (env tr e) \<and> all_up env (tr @ [e]) es)"

lemma pending_exact:
  "w_trace (snd (pending m names w)) = w_trace w @ poll m names \<and> w_env (snd (pending m names w)) = w_env w
    \<and> (fst (pending m names w) = [] \<longleftrightarrow> all_up (w_env w) (w_trace w) (poll m names))"
proof (induction names arbitrary: w)
  case (Cons n names)
  have r: "linkReady m n w = (link_up (w_env w (w_trace w) (Ev m (LinkByName n))), w\<lparr>w_trace := w_trace w @ [Ev m (LinkByName n)]\<rparr>)"
    by (simp add: linkReady_def link_up_def query_def)
  show ?case using Cons.IH[of "w\<lparr>w_trace := w_trace w @ [Ev m (LinkByName n)]\<rparr>"]
    by (auto simp: r poll_def split: prod.splits)
qed (simp add: poll_def)

lemma tick_mono:
  "clock_advances env \<Longrightarrow> \<forall>e \<in> set es. slept e = 0 \<Longrightarrow> tick env tr \<le> tick env (tr @ es)"
proof (induction es arbitrary: tr)
  case (Cons e es)
  have "tick env tr + slept e \<le> tick env (tr @ [e])" using Cons.prems(1) by (simp add: clock_advances_def)
  also have "tick env (tr @ [e]) \<le> tick env ((tr @ [e]) @ es)" by (rule Cons.IH) (use Cons.prems in auto)
  finally show ?case using Cons.prems(2) by simp
qed simp

definition wait_outcome :: "environment \<Rightarrow> event list \<Rightarrow> int \<Rightarrow> outcome \<Rightarrow> event list \<Rightarrow> bool" where
  "wait_outcome env polls deadline r tr \<longleftrightarrow>
     (r = None \<and> (\<exists>before msg. tr = before @ polls @ [Ev '''' (Print msg)] \<and> all_up env before polls))
   \<or> (r \<noteq> None \<and> (\<exists>before. tr = before @ [Ev '''' Now] \<and> deadline < tick env before))"

lemma wait_loop_returns:
  assumes "clock_advances (w_env w)"
  shows "\<exists>r w'. wait_loop m required timeout deadline w = Some (r, w')
    \<and> wait_outcome (w_env w) (poll m required) deadline r (w_trace w')"
  using assms
proof (induction "nat (deadline + 1 - tick (w_env w) (w_trace w))" arbitrary: w rule: less_induct)
  case less
  obtain ps w1 where p: "pending m required w = (ps, w1)" by fastforce
  let ?now = "tick (w_env w1) (w_trace w1)"
  let ?wb = "snd (query (Ev '''' Now) w1)"
  let ?wc = "snd (query (Ev '''' (Sleep second)) ?wb)"
  have w1: "w_trace w1 = w_trace w @ poll m required" "w_env w1 = w_env w" "ps = [] \<longleftrightarrow> all_up (w_env w) (w_trace w) (poll m required)"
    using pending_exact[of m required w] p by auto
  have t1: "tick (w_env w) (w_trace w) \<le> ?now"
    using tick_mono[OF less.prems, of "poll m required" "w_trace w"] w1 by (auto simp: poll_def slept_def)
  have t2: "?now \<le> tick (w_env w) (w_trace ?wb)" using tick_query[of w1 "Ev '''' Now"] less.prems by (simp add: w1 slept_def)
  have t3: "tick (w_env w) (w_trace ?wb) + second \<le> tick (w_env w) (w_trace ?wc)"
    using tick_query[of ?wb "Ev '''' (Sleep second)"] less.prems by (simp add: w1 slept_def)
  have step: "wait_loop m required timeout deadline w = (if ps = [] then Some (say (''all required interfaces up: '' @ join_with '', '' required) w1)
      else if deadline < ?now then Some (failwith (Invalid (''timed out after '' @ itoa timeout @ ''s waiting for interfaces'') (join_with '', '' ps)) ?wb)
      else wait_loop m required timeout deadline ?wc)"
    by (subst wait_loop.simps) (simp add: p query_def tick_def)
  consider (up) "ps = []" | (late) "ps \<noteq> []" "deadline < ?now" | (again) "ps \<noteq> []" "\<not> deadline < ?now" by blast
  then show ?case
  proof cases
    case up then show ?thesis using w1 by (auto simp: step wait_outcome_def say_def ask_def nop_def)
  next
    case late then show ?thesis using w1 by (auto simp: step wait_outcome_def failwith_def)
  next
    case again
    have "nat (deadline + 1 - tick (w_env ?wc) (w_trace ?wc)) < nat (deadline + 1 - tick (w_env w) (w_trace w))"
      using again(2) t1 t2 t3 w1(2) by (simp add: second_def)
    from less.hyps[OF this] less.prems again show ?thesis by (simp add: step w1)
  qed
qed

lemma not_fail_case: "\<nexists>e. r = RFail e \<Longrightarrow> (case r of RFail e \<Rightarrow> a e | _ \<Rightarrow> b) = b"
  by (cases r) auto

section \<open>Properties\<close>


definition slow_env :: environment where
  "slow_env tr e = (case ev_req e of Now \<Rightarrow> RInt (sum_list (map slept tr)) | NewHandle \<Rightarrow> ROk | _ \<Rightarrow> RFail ''no such device'')"

definition one_ethernet :: Config where
  "one_ethernet = zero_Config\<lparr>cfg_Network := zero_Network\<lparr>net_Ethernets := Some [(''eth0'', Some zero_Ethernet)]\<rparr>\<rparr>"


end
