(* ===== verification/DhcpFacts.thy ===== *)
theory DhcpFacts
  imports Dhcp
begin

text \<open>
  Facts about DHCP leases: the times of a parsed lease, what applying a lease does to an
  interface, the fallback to external clients, and the round trip of a generated
  \<open>resolv.conf\<close>.
\<close>

section \<open>Decimal addresses\<close>

lemma hd_digits_nonzero: "0 < n \<Longrightarrow> hd (digits n) \<noteq> CHR ''0''"
proof (induction n rule: digits.induct)
  case (1 n)
  show ?case
  proof (cases "n < 10")
    case True
    have "(48::nat) + n \<noteq> of_char (CHR ''0'')" using 1(2) by simp
    then show ?thesis using True by (subst digits.simps) (auto simp: of_char_of dest: arg_cong[where f = "of_char :: char \<Rightarrow> nat"])
  next
    case False
    then show ?thesis using 1(1) by (subst digits.simps) (simp add: hd_append)
  qed
qed

lemma octet_digits: "n < 256 \<Longrightarrow> octet (digits n) = Some (of_nat n)"
proof -
  assume n: "n < 256"
  have "hd (digits n) \<noteq> CHR ''0'' \<or> \<not> 1 < length (digits n)"
    using hd_digits_nonzero[of n] by (cases "n = 0") (simp_all add: digits.simps[of 0])
  then show ?thesis using n digits_is_digit[of n] by (auto simp: octet_def list_all_iff)
qed

lemma split_on_no_sep: "c \<notin> set s \<Longrightarrow> split_on c s = [s]"
  by (induction s) auto

lemma split_on_append: "c \<notin> set s \<Longrightarrow> split_on c (s @ c # r) = s # split_on c r"
  by (induction s) auto

lemma split_on_join: "xs \<noteq> [] \<Longrightarrow> \<forall>x\<in>set xs. c \<notin> set x \<Longrightarrow> split_on c (join_with [c] xs) = xs"
  by (induction "[c]" xs rule: join_with.induct) (auto simp: split_on_no_sep split_on_append)

lemma dot_notin_digits: "CHR ''.'' \<notin> set (digits n)"
  using digits_code[of "CHR ''.''" n] by auto

lemma those_map_Some: "those (map (\<lambda>x. Some (f x)) xs) = Some (map f xs)"
  by (induction xs) simp_all

lemma parse_ipv4_string:
  assumes "length b = 4"
  shows "parse_ipv4 (ip4_string b) = Some b"
proof -
  let ?p = "map (\<lambda>x. digits (unat x)) b"
  have "split_on (CHR ''.'') (ip4_string b) = ?p"
    unfolding ip4_string_def using assms dot_notin_digits by (intro split_on_join) auto
  moreover have "map octet ?p = map (\<lambda>x. Some x) b"
  proof (rule nth_equalityI)
    fix i assume "i < length (map octet ?p)"
    then show "map octet ?p ! i = map (\<lambda>x. Some x) b ! i"
      using octet_digits[of "unat (b ! i)"] unsigned_less[of "b ! i"] by simp
  qed simp
  then have "those (map octet ?p) = Some b" by (simp only: those_map_Some[of "\<lambda>x. x" b] list.map_ident)
  ultimately show ?thesis using assms by (simp add: parse_ipv4_def those_bytes_def Let_def)
qed

lemma join_dots: "b \<noteq> [] \<Longrightarrow> tl b \<noteq> [] \<Longrightarrow>
  ip4_string b = digits (unat (hd b)) @ CHR ''.'' # ip4_string (tl b)"
  by (cases b; cases "tl b") (auto simp: ip4_string_def)

lemma ParseIP_ip4_string:
  assumes "length b = 4"
  shows "ParseIP (ip_string b) = Some (v4_prefix @ b)"
proof -
  have b: "b \<noteq> []" "tl b \<noteq> []" using assms by (auto simp: length_Suc_conv numeral_eq_Suc)
  have s: "ip_string b = ip4_string b" using b assms by (simp add: ip_string_def To4_def)
  have "\<forall>c\<in>set (digits (unat (hd b))). c \<notin> {CHR ''.'', CHR '':'', CHR ''%''}"
    using digits_code by fastforce
  then have "dropWhile (\<lambda>c. c \<notin> {CHR ''.'', CHR '':'', CHR ''%''}) (ip4_string b) = CHR ''.'' # ip4_string (tl b)"
    unfolding join_dots[OF b] by (subst dropWhile_append2) auto
  then have "parse_addr (ip4_string b) = Some (IP4 b)"
    by (simp add: parse_addr_def parse_ipv4_string[OF assms])
  then show ?thesis by (simp add: s ParseIP_def)
qed

section \<open>Lines of plain text\<close>

definition plain :: "string \<Rightarrow> bool" where
  "plain s \<longleftrightarrow> s \<noteq> [] \<and> (\<forall>c\<in>set s. 32 < code c \<and> code c < (128::nat))"

lemma plain_token: "plain s \<Longrightarrow> token s"
  by (simp add: plain_def token_ascii)

lemma plain_ip4: "length b = 4 \<Longrightarrow> plain (ip4_string b)"
proof -
  assume "length b = 4"
  then obtain w x y z where b: "b = [w, x, y, z]" by (auto simp: numeral_eq_Suc length_Suc_conv)
  have "32 < code c \<and> code c < (128::nat)" if "c \<in> set (digits n)" for c n
    using digits_code[OF that] by simp
  then show ?thesis unfolding b plain_def ip4_string_def by auto
qed

lemma fields_aux_ne:
  assumes "\<forall>c\<in>set s. code c < (128::nat)" "cur \<noteq> [] \<or> (\<exists>c\<in>set s. 32 < code c)"
  shows "fields_aux 0 cur s \<noteq> []"
  using assms
proof (induction s arbitrary: cur)
  case (Cons c s)
  show ?case
  proof (cases "(9::nat) \<le> code c \<and> code c \<le> (13::nat) \<or> code c = (32::nat)")
    case True
    then have "space_rune (c # s) = Suc 0" by (simp add: space_rune_def)
    then show ?thesis using True Cons by auto
  next
    case False
    then have "space_rune (c # s) = 0" using Cons.prems(1) by (auto simp: space_rune_def split: list.splits)
    then show ?thesis using Cons by simp
  qed
qed simp

lemma trim_right_id:
  assumes "\<forall>c\<in>set s. code c < (128::nat)" "s \<noteq> []" "32 < code (last s)"
  shows "trim_right s = s"
  using assms
proof (induction s)
  case (Cons c s)
  have "Fields (c # s) \<noteq> []"
    unfolding Fields_def using Cons.prems by (intro fields_aux_ne) (auto split: if_splits dest: last_in_set)
  moreover have "trim_right s = s" using Cons by (cases s) auto
  ultimately show ?case by simp
qed simp

lemma trim_space_id:
  assumes "\<forall>c\<in>set s. code c < (128::nat)" "s \<noteq> []" "32 < code (hd s)" "32 < code (last s)"
  shows "trim_space s = s"
proof -
  have "space_rune s = 0" using assms by (cases s) (auto simp: space_rune_ascii)
  then show ?thesis using trim_right_id[OF assms(1,2,4)] by (simp add: trim_space_def trim_left.simps)
qed

lemma Fields_keyword_line:
  assumes "plain k" "plain v"
  shows "Fields (trim_space (k @ CHR '' '' # v)) = [k, v]"
proof -
  have "trim_space (k @ CHR '' '' # v) = k @ CHR '' '' # v"
    using assms by (intro trim_space_id) (auto simp: plain_def hd_append)
  then show ?thesis using assms by (simp add: Fields_token_space Fields_token plain_token)
qed

section \<open>resolv.conf\<close>

lemma parse_resolv_cons: "lf \<notin> set l \<Longrightarrow> foldl f a (split_on lf (l @ lf # r)) = foldl f (f a l) (split_on lf r)"
  by (simp add: split_on_append)

lemma plain_no_lf: "plain s \<Longrightarrow> lf \<notin> set s"
  by (auto simp: plain_def lf_def)

lemma nameserver_line:
  assumes "length b = 4"
  shows "resolv_line (dns, sd) (''nameserver '' @ ip_string b) = (dns @ [v4_prefix @ b], sd)"
proof -
  have "ip_string b = ip4_string b" using assms by (auto simp: ip_string_def To4_def)
  then have "Fields (trim_space (''nameserver'' @ CHR '' '' # ip_string b)) = [''nameserver'', ip_string b]"
    using plain_ip4[OF assms] by (intro Fields_keyword_line) (auto simp: plain_def)
  then show ?thesis using ParseIP_ip4_string[OF assms] by (simp add: resolv_line_def has_prefix_def)
qed

lemma nameserver_lines:
  assumes "\<forall>b\<in>set dns. length b = 4"
  shows "foldl resolv_line (acc, sd) (split_on lf (concat (map (\<lambda>d. ''nameserver '' @ ip_string d @ [lf]) dns)))
    = (acc @ map ((@) v4_prefix) dns, sd)"
  using assms
proof (induction dns arbitrary: acc)
  case Nil
  have "Fields (trim_space []) = []" by (simp add: trim_space_def trim_left.simps Fields_def)
  then show ?case by (simp add: resolv_line_def)
next
  case (Cons b dns)
  then have "ip_string b = ip4_string b" by (auto simp: ip_string_def To4_def)
  then have "lf \<notin> set (''nameserver '' @ ip_string b)" using plain_no_lf[OF plain_ip4] Cons.prems by (auto simp: lf_def)
  note no = this
  let ?g = "\<lambda>d. ''nameserver '' @ ip_string d @ [lf]"
  have e: "concat (map ?g (b # dns)) = (''nameserver '' @ ip_string b) @ lf # concat (map ?g dns)" by simp
  have "length b = 4" "\<forall>b\<in>set dns. length b = 4" using Cons.prems by simp_all
  note f = nameserver_line[OF this(1)] Cons.IH[OF this(2)]
  show ?case unfolding e parse_resolv_cons[OF no] f by simp
qed

text \<open>(C37) Reading back a generated \<open>resolv.conf\<close> yields the search domain and the IPv4 name
  servers it was generated from, in order (in the sixteen-byte form of the parser).\<close>

theorem resolv_conf_round_trip:
  assumes "\<forall>b\<in>set dns. length b = 4" "domain = '''' \<or> plain domain"
  shows "parse_resolv (resolv_conf dns domain) = (map ((@) v4_prefix) dns, domain)"
proof -
  have g: "resolv_line ([], '''') ''# Generated by netcfg'' = ([], '''')" by code_simp
  have "lf \<notin> set ''# Generated by netcfg''" by (simp add: lf_def)
  note c = parse_resolv_cons[OF this, of resolv_line]
  let ?g = "\<lambda>d. ''nameserver '' @ ip_string d @ [lf]"
  show ?thesis
  proof (cases "domain = ''''")
    case True
    then have "resolv_conf dns domain = ''# Generated by netcfg'' @ lf # concat (map ?g dns)" by (simp add: resolv_conf_def)
    then show ?thesis
      unfolding parse_resolv_def by (simp only: c g nameserver_lines[OF assms(1)] True append_Nil)
  next
    case False
    then have p: "plain domain" using assms(2) by simp
    have d: "resolv_line ([], '''') (''search '' @ domain) = ([], domain)"
      using Fields_keyword_line[of "''search''" domain] p by (simp add: resolv_line_def has_prefix_def plain_def)
    have "lf \<notin> set (''search '' @ domain)" using plain_no_lf[OF p] by (auto simp: lf_def)
    note c2 = parse_resolv_cons[OF this, of resolv_line]
    have "resolv_conf dns domain = ''# Generated by netcfg'' @ lf # (''search '' @ domain) @ lf # concat (map ?g dns)"
      using False by (simp add: resolv_conf_def)
    then show ?thesis
      unfolding parse_resolv_def by (simp only: c c2 g d nameserver_lines[OF assms(1)] append_Nil)
  qed
qed

theorem resolv_conf_round_trip_witness:
  "parse_resolv (resolv_conf [[9, 9, 9, 9], [192, 168, 0, 1]] ''lan'') = (map ((@) v4_prefix) [[9, 9, 9, 9], [192, 168, 0, 1]], ''lan'')"
  by (rule resolv_conf_round_trip) (simp_all add: plain_def)

section \<open>The times of a lease\<close>

lemma wrap64_id: "- (2 ^ 63) \<le> x \<Longrightarrow> x < 2 ^ 63 \<Longrightarrow> wrap64 x = x"
  by (simp add: wrap64_def signed_of_int signed_take_bit_int_eq_self)

lemma go_quot_pos: "0 \<le> a \<Longrightarrow> 0 < b \<Longrightarrow> go_quot a b = a div b"
  by (cases "a = 0") (simp_all add: go_quot_def)

text \<open>(C38) A lease parsed from an acknowledgement lasts a positive time, and when the server names no
  renewal and rebinding times they are in order within it, provided that seven times the lease
  time fits a 64-bit duration.\<close>

theorem parseLeaseFromACK_times:
  assumes "ak_T1 a \<le> 0" "ak_T2 a \<le> 0" "ak_LeaseTime a * 7 < 2 ^ 63"
  shows "let l = parseLeaseFromACK a in
    0 < p4_LeaseTime l \<and> 0 \<le> p4_RenewTime l \<and> p4_RenewTime l \<le> p4_RebindTime l \<and> p4_RebindTime l < p4_LeaseTime l"
proof -
  define l where "l = parseLeaseFromACK a"
  define t where "t = p4_LeaseTime l"
  have t: "0 < t" "t * 7 < 2 ^ 63"
    using assms(3) by (auto simp: t_def l_def parseLeaseFromACK_def hour_def second_def Let_def)
  have "p4_RenewTime l = t div 2" "p4_RebindTime l = t * 7 div 8"
    using assms(1,2) t wrap64_id[of "t * 7"] unfolding l_def t_def
    by (auto simp: parseLeaseFromACK_def Let_def go_quot_pos)
  then show ?thesis using t(1) unfolding Let_def l_def[symmetric] t_def[symmetric] by auto
qed

definition example_ack :: ack4 where
  "example_ack = \<lparr>ak_IsAck = True, ak_YourIPAddr = [10, 0, 0, 9], ak_ServerIPAddr = [0, 0, 0, 0], ak_SubnetMask = None,
     ak_Router = [], ak_DNS = [], ak_DomainName = '''', ak_LeaseTime = 3600 * second, ak_MTU = None, ak_Routes = None,
     ak_NTP = None, ak_ServerID = None, ak_T1 = 0, ak_T2 = 0\<rparr>"

theorem parseLeaseFromACK_times_witness:
  "p4_RebindTime (parseLeaseFromACK example_ack) < p4_LeaseTime (parseLeaseFromACK example_ack)"
  using parseLeaseFromACK_times[of example_ack] by (simp add: example_ack_def second_def Let_def)

text \<open>For the infinite lease time of the protocol (all ones) the default rebinding time
  overflows and comes out negative.\<close>

theorem infinite_lease_rebind_negative:
  "p4_RebindTime (parseLeaseFromACK (example_ack\<lparr>ak_LeaseTime := 4294967295 * second\<rparr>)) < 0"
  by (simp add: parseLeaseFromACK_def example_ack_def Let_def second_def wrap64_def go_quot_def signed_of_int signed_take_bit_eq_if_negative)

section \<open>Applying a lease\<close>

lemma warn_call: "warn (call e) w = (None, w\<lparr>w_trace := w_trace w @ [e]\<rparr>)"
  by (simp add: cmd_defs split: reply.splits)

lemma each_warn_call:
  "each xs (\<lambda>x. warn (call (f x))) w = (None, w\<lparr>w_trace := w_trace w @ map f xs\<rparr>)"
proof (induction xs arbitrary: w)
  case Nil
  show ?case by (simp add: each_def nop_def)
next
  case (Cons x xs)
  then show ?case by (simp add: each_def andthen_def warn_call)
qed

lemma trace_extends:
  "\<exists>es. w_trace (snd (c w)) = w_trace w @ es" if "behaves (\<lambda>_. True) False (\<lambda>_. True) c"
  using behaves_atD[OF that, of w] by (auto simp: behaves_at_def)

text \<open>Applying a DHCPv4 lease first deletes every IPv4 address the interface has, those the
  configuration put there included, and then adds the address of the lease.\<close>

theorem ApplyDHCPv4Lease_flushes:
  assumes "\<forall>tr. env tr (Ev '''' (LinkByName name)) = RLink l" "\<forall>tr. env tr (Ev '''' (AddrListV4 l)) = RAddrs as"
  shows "\<exists>rest. snd (run env (ApplyDHCPv4Lease name lease ov)) =
    [Ev '''' (LinkByName name), Ev '''' (AddrListV4 l)] @ map (\<lambda>a. Ev '''' (AddrDel l a)) as
      @ [Ev '''' (AddrAddNet l \<lparr>ipnet_IP = l4_IP lease, ipnet_Mask = l4_Netmask lease\<rparr>)] @ rest"
proof -
  let ?n = "\<lparr>ipnet_IP = l4_IP lease, ipnet_Mask = l4_Netmask lease\<rparr>" and ?o = "overrides_of ov"
  let ?rest = "steps [only_if (l4_Gateway lease \<noteq> [] \<and> do_UseRoutes ?o) (warn (call (Ev '''' (RouteAdd (lease_route ?o l (l4_Gateway lease)))))),
          only_if (l4_MTU lease > 0 \<and> do_UseMTU ?o) (warn (call (Ev '''' (LinkSetMTU l (l4_MTU lease))))),
          only_if (l4_DNS lease \<noteq> [] \<and> do_UseDNS ?o)
            (warn (UpdateResolvConf (l4_DNS lease) (if do_UseDomains ?o then l4_Domain lease else '''')))]"
  let ?add = "wrap ''add addr'' (call (Ev '''' (AddrAddNet l ?n)))"
  have rest: "behaves (\<lambda>_. True) False (\<lambda>_. True) ?rest"
    unfolding UpdateResolvConf_def by (intro behaves_intros) simp_all
  define w where "w = \<lparr>w_env = env, w_trace = [Ev '''' (LinkByName name), Ev '''' (AddrListV4 l)] @ map (\<lambda>a. Ev '''' (AddrDel l a)) as, w_idx = []\<rparr>"
  have "run env (ApplyDHCPv4Lease name lease ov) = (case andthen ?add ?rest w of (r, w') \<Rightarrow> (r, w_trace w'))"
    using assms unfolding run_def ApplyDHCPv4Lease_def Let_def w_def
    by (simp add: ask_def andthen_def each_warn_call[of as "\<lambda>a. Ev '''' (AddrDel l a)"])
  moreover have "\<exists>es. w_trace (snd (andthen ?add ?rest w)) = w_trace w @ [Ev '''' (AddrAddNet l ?n)] @ es"
    using trace_extends[OF rest, of "w\<lparr>w_trace := w_trace w @ [Ev '''' (AddrAddNet l ?n)]\<rparr>"]
    by (cases "w_env w (w_trace w) (Ev '''' (AddrAddNet l ?n))") (simp_all add: cmd_defs)
  ultimately show ?thesis by (auto simp: w_def split: prod.splits)
qed

definition example_link :: link where
  "example_link = \<lparr>l_Name = ''eth0'', l_Index = 2, l_Up = True, l_HW = '''', l_Type = '''', l_Oper = ''up'', l_MTU = 1500, l_Master = 0\<rparr>"

definition example_lease :: DHCPv4Lease where
  "example_lease = purego4ToLease (parseLeaseFromACK example_ack)"

definition static_env :: environment where
  "static_env tr e = (case ev_req e of LinkByName _ \<Rightarrow> RLink example_link | AddrListV4 _ \<Rightarrow> RAddrs [''192.0.2.1/24''] | _ \<Rightarrow> ROk)"

theorem ApplyDHCPv4Lease_flushes_witness:
  "Ev '''' (AddrDel example_link ''192.0.2.1/24'') \<in> set (snd (run static_env (ApplyDHCPv4Lease ''eth0'' example_lease None)))"
proof -
  have "\<forall>tr. static_env tr (Ev '''' (LinkByName ''eth0'')) = RLink example_link"
    "\<forall>tr. static_env tr (Ev '''' (AddrListV4 example_link)) = RAddrs [''192.0.2.1/24'']"
    by (simp_all add: static_env_def)
  from ApplyDHCPv4Lease_flushes[OF this, of example_lease None] show ?thesis by auto
qed

section \<open>External clients\<close>

text \<open>The DHCPv6 manager looks for a \<open>dhcp6c\<close> binary but has no command line for it: when
  that is the only client found and the built-in client fails, a nil command is run, a panic.\<close>

theorem dhcp6c_fallback_panics:
  assumes "base_name (dm_externalV6 m) = ''dhcp6c''" "\<forall>tr. env tr (Ev '''' (NetInterface name)) = RFail e"
  shows "panics (fst (run env (RequestDHCPv6 m name rapid k)))"
proof -
  have "dm_externalV6 m \<noteq> ''''" using assms(1) by (auto simp: base_name_def)
  then show ?thesis
    using assms by (simp add: RequestDHCPv6_def requestDHCPv6PureGo_def NewDHCPv6Client_def requestDHCPv6External_def run_client_def
        argv6_def run_def ask_def with_ptr_def crash_def Let_def)
qed

theorem dhcp6c_fallback_panics_witness:
  "panics (fst (run (\<lambda>_ _. RFail ''no such device'') (RequestDHCPv6
     \<lparr>dm_timeout = 1, dm_retries = 1, dm_hostname = '''', dm_dhcpIdent = '''', dm_externalV4 = '''', dm_externalV6 = ''/usr/sbin/dhcp6c''\<rparr>
     ''eth0'' False (\<lambda>_. nop))))"
  by (rule dhcp6c_fallback_panics) (simp_all add: base_name_def)

end
