(* ===== verification/Takeover.thy ===== *)
theory Takeover
  imports Netlink
begin

text \<open>
  The \<open>takeover\<close> command (\<open>cmd/takeover.go\<close>): moving netplan's files out of the way of systemd-networkd
  and back. The file system is a table from cleaned paths to files and directories; the directories
  that \<open>MkdirAll\<close> makes are left out of it. Which operations fail is an argument, the record \<open>fs_ops\<close>.
\<close>

section \<open>Paths\<close>

definition clean_step :: "bool \<Rightarrow> string list \<Rightarrow> string \<Rightarrow> string list" where
  "clean_step rooted stack part =
    (if part = '''' \<or> part = ''.'' then stack
     else if part \<noteq> ''..'' then stack @ [part]
     else if stack \<noteq> [] \<and> last stack \<noteq> ''..'' then butlast stack
     else if rooted then stack else stack @ [''..''])"

definition Clean :: "string \<Rightarrow> string" where
  "Clean p = (if p = '''' then ''.''
     else let rooted = (hd p = CHR ''/''); parts = foldl (clean_step rooted) [] (split_on (CHR ''/'') p)
          in if rooted then CHR ''/'' # join_with ''/'' parts else if parts = [] then ''.'' else join_with ''/'' parts)"

definition Join2 :: "string \<Rightarrow> string \<Rightarrow> string" where
  "Join2 a b = (if a = '''' \<and> b = '''' then '''' else if a = '''' then Clean b else if b = '''' then Clean a
     else Clean (a @ ''/'' @ b))"

definition TrimPrefix :: "string \<Rightarrow> string \<Rightarrow> string" where
  "TrimPrefix s p = (if has_prefix s p then drop (length p) s else s)"

section \<open>Files\<close>

datatype node = File string nat | Dir

type_synonym fs = "node alist"

record fs_ops =
  fo_rename :: "string \<Rightarrow> string \<Rightarrow> bool"
  fo_mkdir :: "string \<Rightarrow> bool"
  fo_open :: "string \<Rightarrow> bool"
  fo_create :: "string \<Rightarrow> bool"
  fo_copy :: "string \<Rightarrow> string \<Rightarrow> nat option"
  fo_close :: "string \<Rightarrow> bool"
  fo_remove :: "string \<Rightarrow> bool"
  fo_umask :: "nat \<Rightarrow> nat"

definition is_file :: "fs \<Rightarrow> string \<Rightarrow> bool" where
  "is_file fs p = (case map_of fs p of Some (File _ _) \<Rightarrow> True | _ \<Rightarrow> False)"

definition create_mode :: "fs_ops \<Rightarrow> fs \<Rightarrow> string \<Rightarrow> nat \<Rightarrow> nat" where
  "create_mode ops fs dst mode = (case map_of fs dst of Some (File _ m) \<Rightarrow> m | _ \<Rightarrow> fo_umask ops mode)"

text \<open>\<open>fo_copy\<close> gives the number of bytes after which a copy fails.\<close>

definition moveFile :: "fs_ops \<Rightarrow> string \<Rightarrow> string \<Rightarrow> fs \<Rightarrow> bool \<times> fs" where
  "moveFile ops src dst fs = (case map_of fs src of
      Some (File d mode) \<Rightarrow>
        if fo_rename ops src dst then (True, alist_put dst (File d mode) (alist_del src fs))
        else if \<not> fo_open ops src \<or> \<not> fo_create ops dst then (False, fs)
        else let m = create_mode ops fs dst mode in
          (case fo_copy ops src dst of
             Some n \<Rightarrow> (False, alist_put dst (File (take n d) m) fs)
           | None \<Rightarrow>
              if fo_close ops dst \<and> fo_remove ops src then (True, alist_del src (alist_put dst (File d m) fs))
              else (False, alist_put dst (File d m) fs))
    | _ \<Rightarrow> (False, fs))"

section \<open>The command\<close>

definition networkdDirs :: "string list" where
  "networkdDirs = [''/etc/systemd/network'', ''/run/systemd/network'']"

definition netplanGlobs :: "string list" where
  "netplanGlobs = [''10-netplan-*'']"

definition netplanBackupDir :: string where
  "netplanBackupDir = ''/var/lib/netcfg/netplan-networkd-backup''"

definition in_dir :: "string \<Rightarrow> string \<Rightarrow> bool" where
  "in_dir dir p \<longleftrightarrow> has_prefix p (dir @ ''/'') \<and> \<not> contains_byte (CHR ''/'') (drop (length dir + 1) p)"

definition Glob :: "string \<Rightarrow> string \<Rightarrow> fs \<Rightarrow> string list" where
  "Glob dir pat fs = sort (filter (\<lambda>p. in_dir dir p \<and> filepath_Match pat (drop (length dir + 1) p)) (map fst fs))"

definition add_match :: "fs \<Rightarrow> string list \<Rightarrow> string \<Rightarrow> string list" where
  "add_match fs matches f = (if f \<in> set matches \<or> \<not> is_file fs f then matches else matches @ [f])"

definition takeover_matches :: "fs \<Rightarrow> string list" where
  "takeover_matches fs = foldl (add_match fs) []
     (concat (map (\<lambda>dir. concat (map (\<lambda>g. Glob dir g fs) netplanGlobs)) networkdDirs))"

definition backup_path :: "string \<Rightarrow> string \<Rightarrow> string" where
  "backup_path backup src = Join2 backup (TrimPrefix (Clean src) ''/'')"

text \<open>The body of both loops: make the directory, move the file, count it.\<close>

definition move_one :: "fs_ops \<Rightarrow> (string \<Rightarrow> string) \<Rightarrow> bool \<Rightarrow> fs \<times> nat \<Rightarrow> string \<Rightarrow> fs \<times> nat" where
  "move_one ops target dry st src = (case st of (fs, moved) \<Rightarrow> (let dst = target src in
     if dry \<or> \<not> fo_mkdir ops dst then (fs, moved)
     else (case moveFile ops src dst fs of (ok, fs') \<Rightarrow> (fs', if ok then moved + 1 else moved))))"

definition takeoverNeutralize :: "fs_ops \<Rightarrow> string \<Rightarrow> bool \<Rightarrow> fs \<Rightarrow> fs \<times> nat" where
  "takeoverNeutralize ops backup dry fs = foldl (move_one ops (backup_path backup) dry) (fs, 0) (takeover_matches fs)"

text \<open>\<open>WalkDir\<close> visits the files below a directory in the order of their path components and names
  them by cleaned paths.\<close>

definition walk_files :: "string \<Rightarrow> fs \<Rightarrow> string list" where
  "walk_files root fs = sort_key (split_on (CHR ''/''))
     (filter (\<lambda>p. has_prefix p (Clean root @ ''/'') \<and> is_file fs p) (map fst fs))"

definition restore_path :: "string \<Rightarrow> string \<Rightarrow> string" where
  "restore_path backup path = Clean (''/'' @ TrimPrefix path backup)"

definition takeoverRestore :: "fs_ops \<Rightarrow> string \<Rightarrow> bool \<Rightarrow> fs \<Rightarrow> fs \<times> nat" where
  "takeoverRestore ops backup dry fs = foldl (move_one ops (restore_path backup) dry) (fs, 0) (walk_files backup fs)"

definition takeover :: "fs_ops \<Rightarrow> string \<Rightarrow> bool \<Rightarrow> bool \<Rightarrow> fs \<Rightarrow> fs \<times> nat" where
  "takeover ops backup revert dry fs =
    (if revert then takeoverRestore ops backup dry fs else takeoverNeutralize ops backup dry fs)"

section \<open>Cleaned paths\<close>

definition part_ok :: "string \<Rightarrow> bool" where
  "part_ok x \<longleftrightarrow> x \<noteq> '''' \<and> x \<noteq> ''.'' \<and> x \<noteq> ''..'' \<and> CHR ''/'' \<notin> set x"

definition abs_path :: "string list \<Rightarrow> string" where
  "abs_path ps = concat (map (\<lambda>x. CHR ''/'' # x) ps)"

definition plain_path :: "string \<Rightarrow> bool" where
  "plain_path p \<longleftrightarrow> p \<noteq> '''' \<and> (let ps = split_on (CHR ''/'') p in hd ps = '''' \<and> tl ps \<noteq> [] \<and> list_all part_ok (tl ps))"

lemma split_on_slash: "c \<notin> set x \<Longrightarrow> split_on c (x @ c # r) = x # split_on c r"
  by (induction x) auto

lemma split_on_plain: "c \<notin> set x \<Longrightarrow> split_on c x = [x]"
  by (induction x) auto

lemma split_on_nonempty [simp]: "split_on c s \<noteq> []"
  by (induction s) (auto split: list.splits)

lemma split_abs_path: "list_all part_ok ps \<Longrightarrow> CHR ''/'' \<notin> set x \<Longrightarrow> split_on (CHR ''/'') (x @ abs_path ps) = x # ps"
proof (induction ps arbitrary: x)
  case (Cons p ps)
  then show ?case using split_on_slash[of "CHR ''/''" x "p @ abs_path ps"] by (simp add: abs_path_def part_ok_def)
qed (simp add: abs_path_def split_on_plain)

lemma join_abs_path: "ps \<noteq> [] \<Longrightarrow> CHR ''/'' # join_with ''/'' ps = abs_path ps"
  by (induction "''/''" ps rule: join_with.induct) (simp_all add: abs_path_def)

lemma join_split: "join_with [c] (split_on c s) = s"
proof (induction s)
  case (Cons x s)
  then show ?case by (cases "split_on c s"; cases "tl (split_on c s)") auto
qed simp

lemma plain_path_iff: "plain_path p \<longleftrightarrow> (\<exists>ps. ps \<noteq> [] \<and> list_all part_ok ps \<and> p = abs_path ps)"
proof
  assume "plain_path p"
  then obtain ps where ps: "split_on (CHR ''/'') p = '''' # ps" "ps \<noteq> []" "list_all part_ok ps"
    by (cases "split_on (CHR ''/'') p") (auto simp: plain_path_def Let_def)
  then have "p = CHR ''/'' # join_with ''/'' ps"
    using join_split[of "CHR ''/''" p] by (cases ps) auto
  then show "\<exists>ps. ps \<noteq> [] \<and> list_all part_ok ps \<and> p = abs_path ps" using ps join_abs_path by auto
next
  assume "\<exists>ps. ps \<noteq> [] \<and> list_all part_ok ps \<and> p = abs_path ps"
  then obtain ps where "ps \<noteq> []" "list_all part_ok ps" "p = abs_path ps" by blast
  then show "plain_path p" using split_abs_path[of ps "''''"] by (cases ps) (auto simp: plain_path_def Let_def abs_path_def)
qed

lemma clean_parts: "list_all part_ok ps \<Longrightarrow> foldl (clean_step r) acc ps = acc @ ps"
  by (induction ps arbitrary: acc) (auto simp: clean_step_def part_ok_def)

lemma Clean_abs: "ps \<noteq> [] \<Longrightarrow> list_all part_ok ps \<Longrightarrow> Clean (abs_path ps) = abs_path ps"
  "ps \<noteq> [] \<Longrightarrow> list_all part_ok ps \<Longrightarrow> Clean (CHR ''/'' # abs_path ps) = abs_path ps"
proof -
  assume ps: "ps \<noteq> []" "list_all part_ok ps"
  then have h: "abs_path ps \<noteq> ''''" "hd (abs_path ps) = CHR ''/''" by (cases ps; simp add: abs_path_def)+
  show "Clean (abs_path ps) = abs_path ps"
    using ps h split_abs_path[of ps "''''"] join_abs_path[of ps] by (simp add: Clean_def clean_step_def clean_parts)
  show "Clean (CHR ''/'' # abs_path ps) = abs_path ps"
    using ps split_abs_path[of ps "''''"] join_abs_path[of ps] by (simp add: Clean_def clean_step_def clean_parts)
qed

lemma Clean_plain: "plain_path p \<Longrightarrow> Clean p = p" "plain_path p \<Longrightarrow> Clean (CHR ''/'' # p) = p"
  using Clean_abs by (auto simp: plain_path_iff)

lemma plain_path_append: "plain_path p \<Longrightarrow> plain_path q \<Longrightarrow> plain_path (p @ q)"
proof -
  assume "plain_path p" "plain_path q"
  then obtain ps qs where "ps \<noteq> []" "list_all part_ok ps" "p = abs_path ps" "list_all part_ok qs" "q = abs_path qs"
    by (auto simp: plain_path_iff)
  then show ?thesis by (auto simp: plain_path_iff abs_path_def intro!: exI[of _ "ps @ qs"])
qed

lemma plain_path_slash: "plain_path p \<Longrightarrow> \<exists>q. p = CHR ''/'' # q \<and> q \<noteq> ''''"
  by (auto simp: plain_path_iff abs_path_def neq_Nil_conv part_ok_def)

lemma backup_restore_path:
  assumes "plain_path b" "plain_path p"
  shows "backup_path b p = b @ p" "restore_path b (b @ p) = p"
proof -
  obtain q where q: "p = CHR ''/'' # q" "q \<noteq> ''''" using plain_path_slash[OF assms(2)] by blast
  have "b \<noteq> ''''" using assms(1) by (auto simp: plain_path_def)
  then show "backup_path b p = b @ p"
    using Clean_plain(1)[OF assms(2)] Clean_plain(1)[OF plain_path_append[OF assms]] q
    by (simp add: backup_path_def TrimPrefix_def has_prefix_def Join2_def)
  show "restore_path b (b @ p) = p"
    using Clean_plain(2)[OF assms(2)] by (simp add: restore_path_def TrimPrefix_def has_prefix_def)
qed

lemma add_match_fold:
  "set (foldl (add_match fs) acc xs) = set acc \<union> {x \<in> set xs. is_file fs x}"
  "distinct acc \<Longrightarrow> distinct (foldl (add_match fs) acc xs)"
  by (induction xs arbitrary: acc) (auto simp: add_match_def)

lemma in_dir_split: "in_dir dir p \<Longrightarrow> \<exists>name. p = dir @ ''/'' @ name \<and> CHR ''/'' \<notin> set name"
  by (intro exI[of _ "drop (length dir + 1) p"])
    (auto simp: in_dir_def has_prefix_def contains_byte_def intro!: append_take_drop_id[of "length dir + 1" p, symmetric, THEN trans])

lemma netplan_names: "\<not> filepath_Match ''10-netplan-*'' ''''" "\<not> filepath_Match ''10-netplan-*'' ''.''"
  "\<not> filepath_Match ''10-netplan-*'' ''..''"
  by code_simp+

lemma networkd_paths: "dir \<in> set networkdDirs \<Longrightarrow> \<exists>ps. list_all part_ok ps \<and> dir = abs_path ps \<and> length dir = 20"
proof -
  assume "dir \<in> set networkdDirs"
  then have "dir = abs_path [''etc'', ''systemd'', ''network''] \<or> dir = abs_path [''run'', ''systemd'', ''network'']"
    by (auto simp: networkdDirs_def abs_path_def)
  moreover have "list_all part_ok [''etc'', ''systemd'', ''network'']" "list_all part_ok [''run'', ''systemd'', ''network'']"
    by (simp_all add: part_ok_def)
  moreover have "length (abs_path [''etc'', ''systemd'', ''network'']) = 20" "length (abs_path [''run'', ''systemd'', ''network'']) = 20"
    by (simp_all add: abs_path_def)
  ultimately show ?thesis by metis
qed

lemma is_file_key: "is_file fs p \<Longrightarrow> p \<in> fst ` set fs"
  by (force simp: is_file_def dest: map_of_SomeD split: option.splits)

lemma takeover_matches_iff: "p \<in> set (takeover_matches fs) \<longleftrightarrow> is_file fs p
    \<and> (\<exists>dir \<in> set networkdDirs. in_dir dir p \<and> filepath_Match ''10-netplan-*'' (drop (length dir + 1) p))"
  using is_file_key[of fs p] by (auto simp: takeover_matches_def add_match_fold Glob_def netplanGlobs_def)

lemma distinct_matches: "distinct (takeover_matches fs)"
  by (simp add: takeover_matches_def add_match_fold)

lemma matches_plain:
  assumes "p \<in> set (takeover_matches fs)"
  shows "plain_path p"
proof -
  obtain dir where d: "dir \<in> set networkdDirs" "in_dir dir p" "filepath_Match ''10-netplan-*'' (drop (length dir + 1) p)"
    using assms by (auto simp: takeover_matches_iff)
  obtain name where name: "p = dir @ ''/'' @ name" "CHR ''/'' \<notin> set name" using in_dir_split[OF d(2)] by blast
  obtain ps where ps: "list_all part_ok ps" "dir = abs_path ps" using networkd_paths[OF d(1)] by blast
  have "part_ok name" using d(3) name netplan_names by (auto simp: part_ok_def)
  then show ?thesis using ps name by (auto simp: plain_path_iff abs_path_def intro!: exI[of _ "ps @ [name]"])
qed

text \<open>A backup of a match is not itself a match: the two directories are equally long.\<close>

lemma backup_not_match:
  assumes "p \<in> set (takeover_matches fs)" "b \<noteq> ''''"
  shows "b @ p \<notin> set (takeover_matches fs)"
proof
  assume "b @ p \<in> set (takeover_matches fs)"
  then obtain d1 d2 n1 n2 where s: "p = d1 @ ''/'' @ n1" "CHR ''/'' \<notin> set n1" "b @ p = d2 @ ''/'' @ n2" "CHR ''/'' \<notin> set n2"
      "length d1 = 20" "length d2 = 20"
    using assms(1) networkd_paths in_dir_split by (metis takeover_matches_iff)
  have last_part: "takeWhile (\<lambda>c. c \<noteq> CHR ''/'') (rev (d @ ''/'' @ n)) = rev n" if "CHR ''/'' \<notin> set n" for d n :: string
    using that by (auto simp: takeWhile_tail takeWhile_eq_all_conv)
  have "takeWhile (\<lambda>c. c \<noteq> CHR ''/'') (rev (b @ p)) = rev n1"
    using last_part[OF s(2), of "b @ d1"] by (simp add: s(1))
  moreover have "takeWhile (\<lambda>c. c \<noteq> CHR ''/'') (rev (b @ p)) = rev n2"
    using last_part[OF s(4), of d2] by (simp only: s(3))
  ultimately have "length n1 = length n2" by (metis length_rev)
  moreover have "length (b @ p) = length b + (21 + length n1)" using s(1,5) by simp
  moreover have "length (b @ p) = length (d2 @ ''/'' @ n2)" using s(3) by (rule arg_cong)
  then have "length (b @ p) = 21 + length n2" using s(6) by simp
  ultimately show False using assms(2) by simp
qed

section \<open>Moving files\<close>

definition content :: "fs \<Rightarrow> string \<Rightarrow> string option" where
  "content fs p = (case map_of fs p of Some (File d _) \<Rightarrow> Some d | _ \<Rightarrow> None)"

lemma moveFile_other: "p \<noteq> src \<Longrightarrow> p \<noteq> dst \<Longrightarrow> map_of (snd (moveFile ops src dst fs)) p = map_of fs p"
  by (auto simp: moveFile_def Let_def map_of_alist_put map_of_alist_del split: option.splits node.splits)

lemma moveFile_content:
  "src \<noteq> dst \<Longrightarrow> content fs src = Some d \<Longrightarrow>
    content (snd (moveFile ops src dst fs)) src = Some d \<or> content (snd (moveFile ops src dst fs)) dst = Some d"
  by (auto simp: moveFile_def content_def Let_def map_of_alist_put map_of_alist_del split: option.splits node.splits)

lemma move_one_other: "p \<noteq> src \<Longrightarrow> p \<noteq> g src \<Longrightarrow> map_of (fst (move_one ops g dry st src)) p = map_of (fst st) p"
  using moveFile_other[of p src "g src" ops "fst st"]
  by (auto simp: move_one_def Let_def split: prod.splits)

lemma move_one_content:
  "src \<noteq> g src \<Longrightarrow> content (fst st) src = Some d \<Longrightarrow>
    content (fst (move_one ops g dry st src)) src = Some d \<or> content (fst (move_one ops g dry st src)) (g src) = Some d"
  using moveFile_content[of src "g src" "fst st" d ops]
  by (auto simp: move_one_def Let_def split: prod.splits)

lemma move_fold_other:
  "p \<notin> set xs \<Longrightarrow> p \<notin> g ` set xs \<Longrightarrow> map_of (fst (foldl (move_one ops g dry) st xs)) p = map_of (fst st) p"
  by (induction xs arbitrary: st) (simp_all add: move_one_other)

lemma content_cong: "map_of fs p = map_of fs' p \<Longrightarrow> content fs p = content fs' p"
  by (simp add: content_def)

lemma move_fold_content:
  assumes "distinct xs" "inj_on g (set xs)" "g ` set xs \<inter> set xs = {}" "x \<in> set xs" "content (fst st) x = Some d"
  shows "content (fst (foldl (move_one ops g dry) st xs)) x = Some d \<or> content (fst (foldl (move_one ops g dry) st xs)) (g x) = Some d"
  using assms
proof (induction xs arbitrary: st)
  case (Cons y ys)
  let ?st = "move_one ops g dry st y"
  show ?case
  proof (cases "x = y")
    case True
    then have "x \<noteq> g x" "x \<notin> set ys" "x \<notin> g ` set ys" "g x \<notin> set ys" "g x \<notin> g ` set ys"
      using Cons.prems by (auto simp: inj_on_def)
    then show ?thesis using move_one_content[of x g st d ops dry] Cons.prems(5) True
      by (auto simp: content_def move_fold_other)
  next
    case False
    then have "content (fst ?st) x = Some d"
      using Cons.prems content_cong[OF move_one_other[of x y g ops dry st]] by auto
    then show ?thesis using Cons.IH[of ?st] Cons.prems False by auto
  qed
qed simp

lemma backup_moves:
  assumes "plain_path backup"
  shows "\<forall>m \<in> set (takeover_matches fs). backup_path backup m = backup @ m \<and> restore_path backup (backup @ m) = m"
    "inj_on (backup_path backup) (set (takeover_matches fs))"
    "backup_path backup ` set (takeover_matches fs) = (\<lambda>m. backup @ m) ` set (takeover_matches fs)"
    "backup_path backup ` set (takeover_matches fs) \<inter> set (takeover_matches fs) = {}"
proof -
  have ne: "backup \<noteq> ''''" using assms by (auto simp: plain_path_def)
  show bp: "\<forall>m \<in> set (takeover_matches fs). backup_path backup m = backup @ m \<and> restore_path backup (backup @ m) = m"
    using backup_restore_path[OF assms matches_plain] by blast
  show "inj_on (backup_path backup) (set (takeover_matches fs))" using bp by (auto simp: inj_on_def)
  show img: "backup_path backup ` set (takeover_matches fs) = (\<lambda>m. backup @ m) ` set (takeover_matches fs)"
    using bp by (auto simp: image_def)
  show "backup_path backup ` set (takeover_matches fs) \<inter> set (takeover_matches fs) = {}"
    using backup_not_match[OF _ ne] img by auto
qed

lemma neutralize_safe:
  assumes "plain_path backup"
  shows "p \<in> set (takeover_matches fs) \<Longrightarrow> content fs p = Some d \<Longrightarrow>
      content (fst (takeoverNeutralize ops backup dry fs)) p = Some d
      \<or> content (fst (takeoverNeutralize ops backup dry fs)) (backup @ p) = Some d"
    and "p \<notin> set (takeover_matches fs) \<Longrightarrow> p \<notin> (\<lambda>m. backup @ m) ` set (takeover_matches fs) \<Longrightarrow>
      map_of (fst (takeoverNeutralize ops backup dry fs)) p = map_of fs p"
  using move_fold_content[OF distinct_matches backup_moves(2,4)[OF assms], of p fs "(fs, 0)" d ops dry]
    move_fold_other[of p "takeover_matches fs" "backup_path backup" ops dry "(fs, 0)"] backup_moves(1,3)[OF assms, of fs]
  unfolding takeoverNeutralize_def by auto

section \<open>Properties\<close>

text \<open>(C10) Whatever operations of the file system fail, the takeover loses no data of a netplan file:
  its content is afterwards at its place or in the backup. No path is touched but the
  netplan files and their backups.\<close>

theorem takeover_loses_nothing:
  assumes "plain_path backup"
  shows "(\<forall>p d. p \<in> set (takeover_matches fs) \<and> content fs p = Some d \<longrightarrow>
      content (fst (takeoverNeutralize ops backup dry fs)) p = Some d
      \<or> content (fst (takeoverNeutralize ops backup dry fs)) (backup @ p) = Some d)
    \<and> (\<forall>p. p \<notin> set (takeover_matches fs) \<and> p \<notin> (\<lambda>m. backup @ m) ` set (takeover_matches fs) \<longrightarrow>
      map_of (fst (takeoverNeutralize ops backup dry fs)) p = map_of fs p)"
  using neutralize_safe[OF assms] by blast

lemma moveFile_renamed:
  "fo_rename ops src dst \<Longrightarrow> is_file fs src \<Longrightarrow> moveFile ops src dst fs = (True, alist_put dst (the (map_of fs src)) (alist_del src fs))"
  by (auto simp: moveFile_def is_file_def split: option.splits node.splits)

lemma move_fold_exact:
  assumes "\<forall>s d. fo_rename ops s d" "\<forall>p. fo_mkdir ops p"
    and "distinct xs" "inj_on g (set xs)" "g ` set xs \<inter> set xs = {}" "\<forall>x \<in> set xs. is_file (fst st) x"
  shows "(\<forall>x \<in> set xs. map_of (fst (foldl (move_one ops g False) st xs)) (g x) = map_of (fst st) x
      \<and> map_of (fst (foldl (move_one ops g False) st xs)) x = None)
    \<and> snd (foldl (move_one ops g False) st xs) = snd st + length xs
    \<and> (distinct (map fst (fst st)) \<longrightarrow> distinct (map fst (fst (foldl (move_one ops g False) st xs))))"
  using assms(3-6)
proof (induction xs arbitrary: st)
  case (Cons y ys)
  let ?st = "move_one ops g False st y"
  have st: "?st = (alist_put (g y) (the (map_of (fst st) y)) (alist_del y (fst st)), snd st + 1)"
    using Cons.prems assms(1,2) by (cases st) (simp add: move_one_def moveFile_renamed)
  have y: "y \<noteq> g y" "y \<notin> set ys" "y \<notin> g ` set ys" "g y \<notin> set ys" "g y \<notin> g ` set ys" "map_of (fst st) y \<noteq> None"
    using Cons.prems by (auto simp: inj_on_def is_file_def)
  have keep: "map_of (fst ?st) x = map_of (fst st) x" if "x \<in> set ys" for x
    using that y move_one_other[of x y g ops False st] by metis
  have files: "\<forall>x \<in> set ys. is_file (fst ?st) x" using Cons.prems(4) keep by (auto simp: is_file_def)
  have IH: "(\<forall>x \<in> set ys. map_of (fst (foldl (move_one ops g False) ?st ys)) (g x) = map_of (fst ?st) x
      \<and> map_of (fst (foldl (move_one ops g False) ?st ys)) x = None)
    \<and> snd (foldl (move_one ops g False) ?st ys) = snd ?st + length ys
    \<and> (distinct (map fst (fst ?st)) \<longrightarrow> distinct (map fst (fst (foldl (move_one ops g False) ?st ys))))"
    by (rule Cons.IH) (use Cons.prems files in auto)
  have "map_of (fst (foldl (move_one ops g False) ?st ys)) (g y) = map_of (fst st) y"
    "map_of (fst (foldl (move_one ops g False) ?st ys)) y = None"
    using y move_fold_other[of "g y" ys g ops False ?st] move_fold_other[of y ys g ops False ?st]
    by (auto simp: st map_of_alist_put map_of_alist_del)
  then show ?case using IH keep by (auto simp: st distinct_alist_del)
qed simp

lemma walk_files_iff: "p \<in> set (walk_files root fs) \<longleftrightarrow> has_prefix p (Clean root @ ''/'') \<and> is_file fs p"
  using is_file_key[of fs p] by (auto simp: walk_files_def)

lemma neutralize_moves:
  assumes plain: "plain_path backup" and keys: "distinct (map fst fs)" and ops: "\<forall>s d. fo_rename ops s d" "\<forall>p. fo_mkdir ops p"
  shows "\<forall>m \<in> set (takeover_matches fs). map_of (fst (takeoverNeutralize ops backup False fs)) (backup @ m) = map_of fs m
      \<and> map_of (fst (takeoverNeutralize ops backup False fs)) m = None"
    "distinct (map fst (fst (takeoverNeutralize ops backup False fs)))"
proof -
  have files: "\<forall>x \<in> set (takeover_matches fs). is_file (fst (fs, 0::nat)) x" by (simp add: takeover_matches_iff)
  from move_fold_exact[OF ops distinct_matches backup_moves(2,4)[OF plain] files] keys backup_moves(1)[OF plain, of fs]
  show "\<forall>m \<in> set (takeover_matches fs). map_of (fst (takeoverNeutralize ops backup False fs)) (backup @ m) = map_of fs m
      \<and> map_of (fst (takeoverNeutralize ops backup False fs)) m = None"
    "distinct (map fst (fst (takeoverNeutralize ops backup False fs)))"
    by (auto simp: takeoverNeutralize_def)
qed

lemma walk_neutralized:
  assumes plain: "plain_path backup" and keys: "distinct (map fst fs)" and ops: "\<forall>s d. fo_rename ops s d" "\<forall>p. fo_mkdir ops p"
    and empty: "\<forall>p \<in> fst ` set fs. \<not> has_prefix p (backup @ ''/'')"
  shows "set (walk_files backup (fst (takeoverNeutralize ops backup False fs))) = (\<lambda>m. backup @ m) ` set (takeover_matches fs)"
proof (intro set_eqI iffI)
  let ?fs1 = "fst (takeoverNeutralize ops backup False fs)"
  note fs1 = neutralize_moves(1)[OF plain keys ops]
  fix p
  { assume "p \<in> set (walk_files backup ?fs1)"
    then have p: "has_prefix p (backup @ ''/'')" "is_file ?fs1 p" using Clean_plain(1)[OF plain] by (auto simp: walk_files_iff)
    then have "p \<notin> set (takeover_matches fs)" using fs1 by (auto simp: is_file_def)
    moreover have "\<not> is_file fs p" using is_file_key[of fs p] empty p(1) by blast
    then have "map_of ?fs1 p \<noteq> map_of fs p" using p(2) by (auto simp: is_file_def)
    ultimately show "p \<in> (\<lambda>m. backup @ m) ` set (takeover_matches fs)"
      using neutralize_safe(2)[OF plain] by blast }
  { assume "p \<in> (\<lambda>m. backup @ m) ` set (takeover_matches fs)"
    then obtain m where m: "m \<in> set (takeover_matches fs)" "p = backup @ m" by blast
    then have "is_file ?fs1 p" using fs1 by (auto simp: is_file_def takeover_matches_iff)
    then show "p \<in> set (walk_files backup ?fs1)"
      using m plain_path_slash[OF matches_plain[OF m(1)]] Clean_plain(1)[OF plain] by (auto simp: walk_files_iff has_prefix_def) }
qed


section \<open>Examples\<close>

definition quiet_ops :: fs_ops where
  "quiet_ops = \<lparr>fo_rename = (\<lambda>_ _. True), fo_mkdir = (\<lambda>_. True), fo_open = (\<lambda>_. True), fo_create = (\<lambda>_. True),
     fo_copy = (\<lambda>_ _. None), fo_close = (\<lambda>_. True), fo_remove = (\<lambda>_. True), fo_umask = id\<rparr>"

definition sample_fs :: fs where
  "sample_fs = [(''/etc/systemd/network/10-netplan-eth0.network'', File ''[Match]'' 420), (''/etc/hosts'', File ''localhost'' 420)]"

theorem takeover_loses_nothing_witness:
  "content (fst (takeoverNeutralize (quiet_ops\<lparr>fo_rename := (\<lambda>_ _. False), fo_copy := (\<lambda>_ _. Some 2)\<rparr>) netplanBackupDir False sample_fs))
     ''/etc/hosts'' = Some ''localhost''
   \<and> (\<exists>p. content (fst (takeoverNeutralize (quiet_ops\<lparr>fo_rename := (\<lambda>_ _. False), fo_copy := (\<lambda>_ _. Some 2)\<rparr>) netplanBackupDir False sample_fs)) p
      = Some ''[Match]'')"
proof -
  have "plain_path netplanBackupDir" by code_simp
  note safe = takeover_loses_nothing[OF this, of sample_fs "quiet_ops\<lparr>fo_rename := (\<lambda>_ _. False), fo_copy := (\<lambda>_ _. Some 2)\<rparr>" False]
  have "takeover_matches sample_fs = [''/etc/systemd/network/10-netplan-eth0.network'']" by code_simp
  moreover have "content sample_fs ''/etc/systemd/network/10-netplan-eth0.network'' = Some ''[Match]''"
    "content sample_fs ''/etc/hosts'' = Some ''localhost''" by code_simp+
  ultimately show ?thesis using safe by (auto simp: content_def netplanBackupDir_def)
qed


text \<open>A backup directory written with a leading \<open>./\<close> is not found again in the paths of the
  walk: the file comes back to a place below the root directory.\<close>

lemma unclean_backup_restored_elsewhere:
  "fst (takeoverRestore quiet_ops ''./b'' False (fst (takeoverNeutralize quiet_ops ''./b'' False sample_fs)))
    = [(''/etc/hosts'', File ''localhost'' 420), (''/b/etc/systemd/network/10-netplan-eth0.network'', File ''[Match]'' 420)]"
  by code_simp

end
