(* ===== verification/Commands.thy ===== *)
theory Commands
  imports Status Apply DhcpFacts Takeover
begin

text \<open>
  The remaining commands: \<open>apply\<close> (\<open>cmd/apply.go\<close>) and its preview \<open>diff\<close> (\<open>cmd/diff.go\<close>), \<open>destroy\<close> (\<open>cmd/destroy.go\<close>), \<open>netns\<close>
  (\<open>cmd/netns.go\<close>), \<open>rebind\<close> (\<open>cmd/rebind.go\<close>, \<open>cmd/sriov.go\<close>) and \<open>wg\<close> (\<open>cmd/wg.go\<close>, \<open>netlink/wireguard.go\<close>).
\<close>

section \<open>Namespaces\<close>

definition destroy_one :: "string \<Rightarrow> cmd" where
  "destroy_one ns = NetnsExists ns (\<lambda>there.
     only_if there (attempt (DeleteNetns ns) (say (''Destroyed netns: '' @ ns)) (\<lambda>_. nop)))"

definition destroy_list :: "string list \<Rightarrow> cmd" where
  "destroy_list nss = (if nss = [] then say ''No namespaces to destroy'' else each nss destroy_one)"

definition runDestroy :: "bool \<Rightarrow> (cfg_error, Config) result \<Rightarrow> string list \<Rightarrow> cmd" where
  "runDestroy all loaded args =
    (if all then ListNetns destroy_list
     else if args \<noteq> [] then destroy_list args
     else with_config loaded (\<lambda>cfg. destroy_list (GetNetnsNames cfg)))"

definition netns_path :: "string \<Rightarrow> string" where
  "netns_path ns = Join2 ''/var/run/netns'' ns"

definition runNetnsList :: cmd where
  "runNetnsList = ListNetns (\<lambda>nss.
     if nss = [] then say ''No network namespaces found''
     else andthen (say (''NAME'' @ tab @ ''PATH'')) (each nss (\<lambda>ns. say (ns @ tab @ netns_path ns))))"

definition runNetnsCreate :: "string \<Rightarrow> cmd" where
  "runNetnsCreate name = NetnsExists name (\<lambda>there.
     if there then failwith (Invalid ''netns already exists'' name)
     else andthen (wrap (''failed to create netns '' @ name) (CreateNetns name)) (say (''Created network namespace: '' @ name)))"

definition runNetnsDelete :: "string \<Rightarrow> cmd" where
  "runNetnsDelete name = NetnsExists name (\<lambda>there.
     if \<not> there then failwith (Invalid ''netns does not exist'' name)
     else andthen (wrap (''failed to delete netns '' @ name) (DeleteNetns name)) (say (''Deleted network namespace: '' @ name)))"

definition runInNetns :: "string \<Rightarrow> string \<Rightarrow> string list \<Rightarrow> cmd" where
  "runInNetns ns command args =
    ask (Ev '''' (StartProcess ''/sbin/ip'' ([''ip'', ''netns'', ''exec'', ns, command] @ args))) (\<lambda>r. case r of
       RInt n \<Rightarrow> if n = 0 then nop else failwith (Invalid ''command exited with status'' (itoa n))
     | _ \<Rightarrow> failwith (Wrap ''failed to exec'' (sys_error r)))"

definition runNetnsExec :: "string list \<Rightarrow> cmd" where
  "runNetnsExec args = (case args of
      ns # command # rest \<Rightarrow> NetnsExists ns (\<lambda>there.
        if \<not> there then failwith (Invalid ''netns does not exist'' ns) else runInNetns ns command rest)
    | _ \<Rightarrow> failwith (Missing ''arguments''))"

section \<open>Apply and its preview\<close>

definition runApply :: "(cfg_error, Config) result \<Rightarrow> (state_error, State) result \<Rightarrow> (VppState \<Rightarrow> string) \<Rightarrow> VppState \<Rightarrow> (State \<Rightarrow> string)
    \<Rightarrow> int \<Rightarrow> cmd" where
  "runApply loaded saved vmarshal vprev marshal now = with_config loaded (Apply saved vmarshal vprev marshal now)"

definition ns_label :: "string \<Rightarrow> string" where
  "ns_label ns = (if ns = '''' then ''default'' else ns)"

definition dev_lines :: "string \<Rightarrow> string list alist \<Rightarrow> string list" where
  "dev_lines verb m = concat (map (\<lambda>(ns, devs). map (\<lambda>d. verb @ '' device '' @ d @ '' (in '' @ ns_label ns @ '')'') devs) m)"

definition attr_lines :: "string \<Rightarrow> string \<Rightarrow> string \<Rightarrow> string list alist alist \<Rightarrow> string list" where
  "attr_lines verb what prep m = concat (map (\<lambda>(ns, devs). concat (map (\<lambda>(dev, xs).
     map (\<lambda>x. verb @ '' '' @ what @ '' '' @ x @ '' '' @ prep @ '' '' @ dev @ '' (in '' @ ns_label ns @ '')'') xs) devs)) m)"

definition diff_lines :: "Diff \<Rightarrow> string list" where
  "diff_lines d =
     map (\<lambda>ns. ''  - Remove namespace: '' @ ns) (NsToRemove d)
   @ map (\<lambda>ns. ''  + Add namespace: '' @ ns) (NsToAdd d)
   @ dev_lines ''  - Remove'' (DevicesToRemove d) @ dev_lines ''  + Add'' (DevicesToAdd d)
   @ attr_lines ''  - Remove'' ''address'' ''from'' (AddressesToRemove d) @ attr_lines ''  + Add'' ''address'' ''to'' (AddressesToAdd d)
   @ attr_lines ''  - Remove'' ''route'' ''from'' (RoutesToRemove d) @ attr_lines ''  + Add'' ''route'' ''to'' (RoutesToAdd d)"

definition runDiff :: "(cfg_error, Config) result \<Rightarrow> (state_error, State) result \<Rightarrow> cmd" where
  "runDiff loaded saved = with_config loaded (\<lambda>cfg.
     lift_state (buildStateFromConfig cfg) (\<lambda>newState.
     lift_state (ComputeDiff (case saved of Inr s \<Rightarrow> s | Inl _ \<Rightarrow> NewState) newState) (\<lambda>d.
       if IsEmpty d then say ''No changes detected.''
       else steps [say ''The following changes would be applied:'', say '''', each (diff_lines d) say])))"

section \<open>Rebinding virtual functions\<close>

record vfDev =
  vf_pci :: string
  vf_driver :: string

text \<open>The links \<open>virtfn0\<close>, \<open>virtfn1\<close>, \dots are followed until one is missing.\<close>

partial_function (option) enum_vfs :: "string \<Rightarrow> nat \<Rightarrow> vfDev list \<Rightarrow> world \<Rightarrow> (vfDev list \<times> world) option" where
  "enum_vfs base i vfs w = (case query (Ev '''' (Readlink (base @ ''/virtfn'' @ digits i))) w of (r, w1) \<Rightarrow>
     (case r of
        RStr target \<Rightarrow> (let pci = filepath_Base target in
          (case query (Ev '''' (Readlink (''/sys/bus/pci/devices/'' @ pci @ ''/driver''))) w1 of (r2, w2) \<Rightarrow>
             enum_vfs base (Suc i)
               (vfs @ [\<lparr>vf_pci = pci, vf_driver = (case r2 of RStr d \<Rightarrow> filepath_Base d | _ \<Rightarrow> '''')\<rparr>]) w2))
      | _ \<Rightarrow> Some (vfs, w1)))"

definition vf_write :: "string \<Rightarrow> vfDev \<Rightarrow> event list" where
  "vf_write op vf = (if vf_driver vf = '''' then []
     else [Ev '''' (WriteFile (''/sys/bus/pci/drivers/'' @ vf_driver vf @ ''/'' @ op) (vf_pci vf))])"

definition vf_writes :: "string \<Rightarrow> vfDev list \<Rightarrow> cmd" where
  "vf_writes op vfs = each (concat (map (vf_write op) vfs)) (\<lambda>e. warn (call e))"

definition rebindVFs :: "string \<Rightarrow> world \<Rightarrow> world option" where
  "rebindVFs pf w = (case enum_vfs (''/sys/class/net/'' @ pf @ ''/device'') 0 [] w of
      None \<Rightarrow> None
    | Some (vfs, w1) \<Rightarrow> Some (if vfs = [] then w1 else snd (andthen (vf_writes ''unbind'' vfs) (vf_writes ''bind'' vfs) w1)))"

definition pfsWithDelayRebind :: "Config \<Rightarrow> string list" where
  "pfsWithDelayRebind cfg = sort (map fst (filter (\<lambda>(_, p). case p of Some e \<Rightarrow> eth_DelayVFRebind e = Some True | None \<Rightarrow> False)
     (entries (net_Ethernets (cfg_Network cfg)))))"

fun rebind_all :: "string list \<Rightarrow> world \<Rightarrow> world option" where
  "rebind_all [] w = Some w"
| "rebind_all (pf # pfs) w = (case rebindVFs pf w of None \<Rightarrow> None | Some w1 \<Rightarrow> rebind_all pfs w1)"

definition runRebind :: "(cfg_error, Config) result \<Rightarrow> string list \<Rightarrow> world \<Rightarrow> (outcome \<times> world) option" where
  "runRebind loaded args w =
    (if args \<noteq> [] then map_option (Pair None) (rebind_all args w)
     else (case loaded of
        Inl (Panic p) \<Rightarrow> Some (crash p w)
      | Inl (Err e) \<Rightarrow> Some (failwith (Wrap ''failed to load config'' (CfgErr e)) w)
      | Inr cfg \<Rightarrow>
         if pfsWithDelayRebind cfg = []
         then Some (say ''no interfaces to rebind (specify PF names, or set delay-virtual-functions-rebind)'' w)
         else map_option (Pair None) (rebind_all (pfsWithDelayRebind cfg) w)))"

section \<open>WireGuard\<close>

definition peers_only :: "wg_peer list \<Rightarrow> wg_config" where
  "peers_only ps = \<lparr>wc_PrivateKey = None, wc_ListenPort = None, wc_FirewallMark = None, wc_ReplacePeers = False, wc_Peers = ps\<rparr>"

definition AddPeer :: "mgr \<Rightarrow> string \<Rightarrow> WireGuardPeer \<Rightarrow> cmd" where
  "AddPeer m dev peer = buildPeerConfig m peer (\<lambda>cfg. call (Ev m (WgConfigure dev (peers_only [cfg]))))"

definition RemovePeer :: "mgr \<Rightarrow> string \<Rightarrow> string \<Rightarrow> cmd" where
  "RemovePeer m dev publicKey = parseKey m ''invalid public key'' publicKey (\<lambda>key.
     call (Ev m (WgConfigure dev (peers_only [\<lparr>wp_PublicKey = key, wp_Remove = True, wp_PresharedKey = None, wp_Endpoint = None,
       wp_ReplaceAllowedIPs = False, wp_AllowedIPs = [], wp_Keepalive = None\<rparr>]))))"

definition GenerateKeyPair :: "(string \<Rightarrow> string \<Rightarrow> cmd) \<Rightarrow> cmd" where
  "GenerateKeyPair k = ask (Ev '''' (WgGenerate True)) (\<lambda>r. case r of
      RStr priv \<Rightarrow> ask (Ev '''' (WgPublicKey priv)) (\<lambda>r2. k priv (case r2 of RStr pub \<Rightarrow> pub | _ \<Rightarrow> ''''))
    | _ \<Rightarrow> failwith (Wrap ''failed to generate private key'' (sys_error r)))"

definition GeneratePresharedKey :: "(string \<Rightarrow> cmd) \<Rightarrow> cmd" where
  "GeneratePresharedKey k = ask (Ev '''' (WgGenerate False)) (\<lambda>r. case r of
      RStr key \<Rightarrow> k key | _ \<Rightarrow> failwith (Wrap ''failed to generate preshared key'' (sys_error r)))"

definition PublicKeyFromPrivate :: "string \<Rightarrow> (string \<Rightarrow> cmd) \<Rightarrow> cmd" where
  "PublicKeyFromPrivate s k = parseKey '''' ''invalid key'' s (\<lambda>key.
     ask (Ev '''' (WgPublicKey key)) (\<lambda>r. k (case r of RStr pub \<Rightarrow> pub | _ \<Rightarrow> '''')))"

definition wg_genkey :: cmd where
  "wg_genkey = GenerateKeyPair (\<lambda>priv _. say priv)"

text \<open>\<open>None\<close>: no key could be read from standard input.\<close>

definition wg_pubkey :: "string option \<Rightarrow> cmd" where
  "wg_pubkey input = (case input of None \<Rightarrow> failwith (Wrap ''failed to read private key'' (Sys ''stdin''))
     | Some privKey \<Rightarrow> PublicKeyFromPrivate privKey say)"

definition wg_genpsk :: cmd where
  "wg_genpsk = GeneratePresharedKey say"

text \<open>The loop of \<open>formatBytes\<close> on 64-bit integers; how \<open>%.2f\<close> prints a quotient is an argument.\<close>

function unit_loop :: "int \<Rightarrow> int \<Rightarrow> nat \<Rightarrow> int \<times> nat" where
  "unit_loop n dv exp = (if 1024 \<le> n then unit_loop (n div 1024) (wrap64 (dv * 1024)) (exp + 1) else (dv, exp))"
  by pat_completeness auto
termination
  by (relation "measure (\<lambda>(n, _, _). nat n)") auto

declare unit_loop.simps [simp del]

definition formatBytes :: "(int \<Rightarrow> int \<Rightarrow> string) \<Rightarrow> int \<Rightarrow> (nl_error, string) result" where
  "formatBytes fmt2 b =
    (if b < 1024 then Inr (itoa b @ '' B'')
     else (case unit_loop (b div 1024) 1024 0 of (dv, exp) \<Rightarrow>
       if exp < 6 then Inr (fmt2 b dv @ '' '' @ [''KMGTPE'' ! exp] @ ''iB'') else Inl (Panic IndexOutOfRange)))"

definition show_peer :: "(int \<Rightarrow> int \<Rightarrow> string) \<Rightarrow> (int \<Rightarrow> string) \<Rightarrow> wg_peer_info \<Rightarrow> cmd" where
  "show_peer fmt2 dur p = steps
    [say '''', say (''peer: '' @ wi_PublicKey p),
     (case wi_Endpoint p of None \<Rightarrow> nop | Some e \<Rightarrow> say (''  endpoint:'' @ tab @ e)),
     only_if (wi_AllowedIPs p \<noteq> []) (say (''  allowed ips:'' @ tab @ join_with '', '' (wi_AllowedIPs p))),
     (case wi_LastHandshake p of None \<Rightarrow> nop | Some t \<Rightarrow> say (''  latest handshake:'' @ tab @ t)),
     only_if (wi_ReceiveBytes p > 0 \<or> wi_TransmitBytes p > 0)
       (lift_nl (formatBytes fmt2 (wi_ReceiveBytes p)) (\<lambda>rx. lift_nl (formatBytes fmt2 (wi_TransmitBytes p)) (\<lambda>tx.
          say (''  transfer:'' @ tab @ rx @ '' received, '' @ tx @ '' sent'')))),
     only_if (wi_Keepalive p > 0) (say (''  persistent keepalive:'' @ tab @ ''every '' @ dur (wi_Keepalive p)))]"

definition showWireGuardDevice :: "(int \<Rightarrow> int \<Rightarrow> string) \<Rightarrow> (int \<Rightarrow> string) \<Rightarrow> string \<Rightarrow> cmd" where
  "showWireGuardDevice fmt2 dur name = ask (Ev '''' (WgDevice name)) (\<lambda>r. case r of
      RWg d \<Rightarrow> steps
        [say (''interface: '' @ wd_Name d), say (''  public key:'' @ tab @ wd_PublicKey d),
         only_if (wd_ListenPort d > 0) (say (''  listen port:'' @ tab @ itoa (wd_ListenPort d))),
         only_if (wd_FirewallMark d > 0) (say (''  fwmark:'' @ tab @ ''0x'' @ hexs (nat (wd_FirewallMark d)))),
         each (wd_Peers d) (show_peer fmt2 dur)]
    | _ \<Rightarrow> failwith (Wrap (''failed to get device '' @ name) (sys_error r)))"

definition wg_show :: "(int \<Rightarrow> int \<Rightarrow> string) \<Rightarrow> (int \<Rightarrow> string) \<Rightarrow> string list \<Rightarrow> cmd" where
  "wg_show fmt2 dur args = andthen (NewWireGuardManager '''') (case args of
      name # _ \<Rightarrow> showWireGuardDevice fmt2 dur name
    | [] \<Rightarrow> ask (Ev '''' WgDevices) (\<lambda>r. case r of
        RStrs [] \<Rightarrow> say ''No WireGuard devices found''
      | RStrs (d # ds) \<Rightarrow> andthen (showWireGuardDevice fmt2 dur d)
          (each ds (\<lambda>x. andthen (say '''') (showWireGuardDevice fmt2 dur x)))
      | _ \<Rightarrow> failwith (sys_error r)))"

section \<open>Properties\<close>

text \<open>A sysfs whose links do not change while they are read: \<open>ln\<close> gives the target of a link.\<close>

definition links_are :: "(string \<Rightarrow> string option) \<Rightarrow> environment \<Rightarrow> bool" where
  "links_are ln env \<longleftrightarrow> (\<forall>tr p. env tr (Ev '''' (Readlink p)) = (case ln p of Some t \<Rightarrow> RStr t | None \<Rightarrow> RNotExist))"

definition virtfn :: "string \<Rightarrow> nat \<Rightarrow> string" where
  "virtfn base i = base @ ''/virtfn'' @ digits i"

definition linked_vf :: "(string \<Rightarrow> string option) \<Rightarrow> string \<Rightarrow> nat \<Rightarrow> vfDev" where
  "linked_vf ln base i = (let pci = filepath_Base (the (ln (virtfn base i))) in
     \<lparr>vf_pci = pci, vf_driver = (case ln (''/sys/bus/pci/devices/'' @ pci @ ''/driver'') of Some d \<Rightarrow> filepath_Base d | None \<Rightarrow> '''')\<rparr>)"

definition is_readlink :: "event \<Rightarrow> bool" where
  "is_readlink e = (case ev_req e of Readlink _ \<Rightarrow> True | _ \<Rightarrow> False)"

lemma query_link:
  "links_are ln (w_env w) \<Longrightarrow> query (Ev '''' (Readlink p)) w
    = (case ln p of Some t \<Rightarrow> RStr t | None \<Rightarrow> RNotExist, w\<lparr>w_trace := w_trace w @ [Ev '''' (Readlink p)]\<rparr>)"
  by (simp add: query_def links_are_def)

lemma enum_vfs_returns:
  assumes "links_are ln (w_env w)" "\<forall>j<n. ln (virtfn base j) \<noteq> None" "ln (virtfn base n) = None" "i \<le> n"
  shows "\<exists>rs. enum_vfs base i acc w = Some (acc @ map (linked_vf ln base) [i..<n], w\<lparr>w_trace := w_trace w @ rs\<rparr>)
    \<and> list_all is_readlink rs"
  using assms(1,4)
proof (induction "n - i" arbitrary: i acc w)
  case 0
  then have "ln (base @ ''/virtfn'' @ digits i) = None" using assms(3) by (simp add: virtfn_def)
  then show ?case
    using 0 by (intro exI[of _ "[Ev '''' (Readlink (virtfn base i))]"], subst enum_vfs.simps)
      (simp add: query_link virtfn_def is_readlink_def)
next
  case (Suc k)
  then have "i < n" by simp
  then obtain t where t: "ln (base @ ''/virtfn'' @ digits i) = Some t" using assms(2) by (auto simp: virtfn_def)
  let ?es = "[Ev '''' (Readlink (virtfn base i)), Ev '''' (Readlink (''/sys/bus/pci/devices/'' @ filepath_Base t @ ''/driver''))]"
  let ?wb = "w\<lparr>w_trace := w_trace w @ ?es\<rparr>"
  have step: "enum_vfs base i acc w = enum_vfs base (Suc i) (acc @ [linked_vf ln base i]) ?wb"
    using Suc.prems(1) t
    by (subst enum_vfs.simps) (auto simp: query_link linked_vf_def virtfn_def Let_def split: option.splits)
  have "\<exists>rs. enum_vfs base (Suc i) (acc @ [linked_vf ln base i]) ?wb
      = Some ((acc @ [linked_vf ln base i]) @ map (linked_vf ln base) [Suc i..<n], ?wb\<lparr>w_trace := w_trace ?wb @ rs\<rparr>)
    \<and> list_all is_readlink rs"
    by (rule Suc.hyps(1)) (use Suc \<open>i < n\<close> in simp_all)
  then obtain rs where "enum_vfs base i acc w = Some (acc @ map (linked_vf ln base) [i..<n], w\<lparr>w_trace := w_trace w @ ?es @ rs\<rparr>)"
      "list_all is_readlink rs"
    unfolding step using upt_conv_Cons[OF \<open>i < n\<close>] by auto
  then show ?case by (intro exI[of _ "?es @ rs"]) (simp add: is_readlink_def)
qed

lemma vf_writes_trace: "snd (vf_writes op vfs w) = w\<lparr>w_trace := w_trace w @ concat (map (vf_write op) vfs)\<rparr> \<and> fst (vf_writes op vfs w) = None"
  by (simp add: vf_writes_def each_warn_call)

text \<open>(C39) Rebinding ends as soon as the links \<open>virtfn0\<close>, \<open>virtfn1\<close>, \dots do, and writes in the order switchdev mode
  asks for: each of the virtual functions is unbound from its driver before the first is bound
  again, in the order of their numbers, a function without a driver is not touched, and nothing
  else is written, whether or not the writes succeed.\<close>

theorem rebindVFs_unbinds_first:
  fixes pf defines "base \<equiv> ''/sys/class/net/'' @ pf @ ''/device''"
  assumes "links_are ln (w_env w)" "\<forall>j<n. ln (virtfn base j) \<noteq> None" "ln (virtfn base n) = None"
  shows "\<exists>rs w'. rebindVFs pf w = Some w' \<and> list_all is_readlink rs
    \<and> w_trace w' = w_trace w @ rs @ concat (map (vf_write ''unbind'') (map (linked_vf ln base) [0..<n]))
        @ concat (map (vf_write ''bind'') (map (linked_vf ln base) [0..<n]))"
proof -
  let ?vfs = "map (linked_vf ln base) [0..<n]"
  obtain rs where "enum_vfs base 0 [] w = Some (?vfs, w\<lparr>w_trace := w_trace w @ rs\<rparr>)" and rs: "list_all is_readlink rs"
    using enum_vfs_returns[OF assms(2,3,4), of 0 "[]"] by auto
  moreover obtain w1 where "w1 = w\<lparr>w_trace := w_trace w @ rs\<rparr>" by simp
  ultimately show ?thesis
    using vf_writes_trace[of "''unbind''" ?vfs w1] vf_writes_trace[of "''bind''" ?vfs "snd (vf_writes ''unbind'' ?vfs w1)"]
    by (intro exI[of _ rs]) (auto simp: rebindVFs_def base_def andthen_def split: prod.splits option.splits)
qed

lemma unit_loop_spec:
  "n = b div dv \<Longrightarrow> dv = 1024 ^ Suc e \<Longrightarrow> dv \<le> b \<Longrightarrow> b < 2 ^ 63 \<Longrightarrow>
    \<exists>e'. unit_loop n dv e = (1024 ^ Suc e', e') \<and> 1024 ^ Suc e' \<le> b \<and> b < 1024 * 1024 ^ Suc e'"
proof (induction n dv e rule: unit_loop.induct)
  case (1 n dv e)
  have pos: "0 < dv" using 1(3) by simp
  show ?case
  proof (cases "1024 \<le> n")
    case False
    then have "dv * (b div dv + 1) \<le> dv * 1024" using 1(2) pos by (intro mult_left_mono) simp_all
    then have "b < 1024 * dv" using mult_div_mod_eq[of dv b] pos_mod_bound[OF pos, of b]
      by (simp only: distrib_left mult_1_right)
    then show ?thesis using False 1 by (subst unit_loop.simps) (auto intro!: exI[of _ e])
  next
    case True
    have "dv * 1024 \<le> dv * (b div dv)" using True 1(2) pos by (intro mult_left_mono) simp_all
    then have le: "dv * 1024 \<le> b" using mult_div_mod_eq[of dv b] pos_mod_sign[OF pos, of b] by linarith
    have w: "wrap64 (dv * 1024) = dv * 1024" using le 1(5) pos by (intro wrap64_id) simp_all
    have "n div 1024 = b div (dv * 1024)" using 1(2) pos by (simp add: zdiv_zmult2_eq)
    then show ?thesis using 1(1)[OF True] le 1(3,5) True w by (subst unit_loop.simps) simp
  qed
qed

text \<open>A byte count of a 64-bit integer is shown in the largest binary unit that does not exceed
  it; the index into the six unit letters is always in range.\<close>

theorem formatBytes_unit:
  assumes "1024 \<le> b" "b < 2 ^ 63"
  shows "\<exists>e<6. formatBytes fmt2 b = Inr (fmt2 b (1024 ^ Suc e) @ '' '' @ [''KMGTPE'' ! e] @ ''iB'')
    \<and> 1024 ^ Suc e \<le> b \<and> b < 1024 * 1024 ^ Suc e"
proof -
  obtain e where e: "unit_loop (b div 1024) 1024 0 = (1024 ^ Suc e, e)" "1024 ^ Suc e \<le> b" "b < 1024 * 1024 ^ Suc e"
    using unit_loop_spec[of "b div 1024" b 1024 0] assms by auto
  have "e < 6"
  proof (rule ccontr)
    assume "\<not> e < 6"
    then have "(1024::int) ^ 7 \<le> 1024 ^ Suc e" by (intro power_increasing) auto
    then show False using e(2) assms(2) by simp
  qed
  then show ?thesis using e assms by (intro exI[of _ e]) (simp add: formatBytes_def)
qed

theorem formatBytes_unit_witness:
  "\<exists>e<6. formatBytes (\<lambda>b d. itoa (b div d)) 5000000 = Inr (itoa (5000000 div 1024 ^ Suc e) @ '' '' @ [''KMGTPE'' ! e] @ ''iB'')
    \<and> (1024 ^ Suc e :: int) \<le> 5000000"
  using formatBytes_unit[of 5000000 "\<lambda>b d. itoa (b div d)"] by auto

definition sriov_links :: "string \<Rightarrow> string option" where
  "sriov_links = map_of [(''/sys/class/net/eth0/device/virtfn0'', ''../0000:03:02.0''),
     (''/sys/bus/pci/devices/0000:03:02.0/driver'', ''../iavf'')]"

definition sriov_env :: environment where
  "sriov_env tr e = (case ev_req e of
      Readlink p \<Rightarrow> (case sriov_links p of Some t \<Rightarrow> RStr t | None \<Rightarrow> RNotExist) | _ \<Rightarrow> ROk)"

lemma sriov_vf:
  "concat (map (vf_write op) (map (linked_vf sriov_links ''/sys/class/net/eth0/device'') [0..<1]))
    = [Ev '''' (WriteFile (''/sys/bus/pci/drivers/iavf/'' @ op) ''0000:03:02.0'')]"
proof -
  have "linked_vf sriov_links ''/sys/class/net/eth0/device'' 0 = \<lparr>vf_pci = ''0000:03:02.0'', vf_driver = ''iavf''\<rparr>" by code_simp
  then show ?thesis by (simp add: vf_write_def)
qed

theorem rebindVFs_unbinds_first_witness:
  "\<exists>rs w'. rebindVFs ''eth0'' \<lparr>w_env = sriov_env, w_trace = [], w_idx = []\<rparr> = Some w' \<and> list_all is_readlink rs
    \<and> w_trace w' = rs @ [Ev '''' (WriteFile ''/sys/bus/pci/drivers/iavf/unbind'' ''0000:03:02.0''),
        Ev '''' (WriteFile ''/sys/bus/pci/drivers/iavf/bind'' ''0000:03:02.0'')]"
proof -
  have "sriov_links (virtfn ''/sys/class/net/eth0/device'' 0) \<noteq> None" by code_simp
  moreover have "sriov_links (virtfn ''/sys/class/net/eth0/device'' 1) = None" by code_simp
  ultimately show ?thesis
    using rebindVFs_unbinds_first[of sriov_links "\<lparr>w_env = sriov_env, w_trace = [], w_idx = []\<rparr>" 1 "''eth0''"] sriov_vf
    by (simp add: links_are_def sriov_env_def)
qed

lemma destroy_list_behaves:
  "behaves E nn (\<lambda>e. \<forall>n. ev_req e = NsDeleteNamed n \<longrightarrow> n \<in> set nss) (destroy_list nss)"
  unfolding destroy_list_def destroy_one_def NetnsExists_def DeleteNetns_def say_def
  by (intro behaves_intros) auto

text \<open>Without \<open>--all\<close>, \<open>netcfg destroy\<close> deletes no namespace but those named on the command line or, with
  no argument, those of the configuration; a configuration that does not load deletes nothing.\<close>

theorem runDestroy_only_named:
  "list_all (\<lambda>e. \<forall>n. ev_req e = NsDeleteNamed n \<longrightarrow>
      n \<in> set (if args \<noteq> [] then args else case loaded of Inr cfg \<Rightarrow> GetNetnsNames cfg | Inl _ \<Rightarrow> []))
    (snd (run env (runDestroy False loaded args)))"
proof -
  have "behaves (\<lambda>_. True) False (\<lambda>e. \<forall>n. ev_req e = NsDeleteNamed n \<longrightarrow>
      n \<in> set (if args \<noteq> [] then args else case loaded of Inr cfg \<Rightarrow> GetNetnsNames cfg | Inl _ \<Rightarrow> []))
     (runDestroy False loaded args)"
    using destroy_list_behaves unfolding runDestroy_def with_config_def
    by (auto split: sum.splits fault.splits intro: behaves_intros)
  from behaves_run[OF this] show ?thesis by simp
qed

theorem runDestroy_only_named_witness:
  "list_all (\<lambda>e. \<forall>n. ev_req e = NsDeleteNamed n \<longrightarrow> n \<in> set [''ns1''])
    (snd (run (\<lambda>_ _. ROk) (runDestroy False (Inr zero_Config) [''ns1''])))"
  using runDestroy_only_named[of "[''ns1'']" "Inr zero_Config" "\<lambda>_ _. ROk"] by simp

end
