(* ===== verification/Relay.thy ===== *)
theory Relay
  imports GoStd
begin

text \<open>
  The DHCP relay agent (\<open>netlink/purego/dhcp_relay.go\<close>, compiled only with the tag \<open>purego\<close>). Packets carry the
  fields the relay reads or writes; of the packages' options only the relay agent information and the
  three DHCPv6 relay options have a structure. Updating an option replaces the one
  with the same code.
\<close>

section \<open>DHCPv4\<close>

datatype sub_option = CircuitIDSub string | RemoteIDSub string | OtherSub nat "byte list"

datatype option4 = RelayAgentInfo "sub_option list" | Option4 nat "byte list"

fun code4 :: "option4 \<Rightarrow> nat" where
  "code4 (RelayAgentInfo _) = 82"
| "code4 (Option4 c _) = c"

record packet4 =
  pk_HopCount :: "8 word"
  pk_GatewayIPAddr :: "byte list option"
  pk_YourIPAddr :: "byte list"
  pk_Options :: "option4 list"

definition UpdateOption :: "option4 \<Rightarrow> option4 list \<Rightarrow> option4 list" where
  "UpdateOption opt opts = filter (\<lambda>x. code4 x \<noteq> code4 opt) opts @ [opt]"

definition relayAgentInfo :: "packet4 \<Rightarrow> sub_option list option" where
  "relayAgentInfo p = (case List.find (\<lambda>x. code4 x = 82) (pk_Options p) of Some (RelayAgentInfo subs) \<Rightarrow> Some subs | _ \<Rightarrow> None)"

record DHCPv4RelayConfig =
  r4_ListenAddr :: "byte list"
  r4_ServerAddrs :: "byte list list"
  r4_CircuitID :: string
  r4_RemoteID :: string
  r4_MaxHopCount :: int
  r4_GatewayIP :: "byte list option"

datatype relay_error = HopCountExceeded int | NotRelayReply | NoRelayMessage | NewMessageFailed

definition NewDHCPv4Relay :: "DHCPv4RelayConfig \<Rightarrow> DHCPv4RelayConfig" where
  "NewDHCPv4Relay c = (if r4_MaxHopCount c = 0 then c\<lparr>r4_MaxHopCount := 10\<rparr> else c)"

definition option82 :: "DHCPv4RelayConfig \<Rightarrow> sub_option list" where
  "option82 c = (if r4_CircuitID c \<noteq> '''' then [CircuitIDSub (r4_CircuitID c)] else [])
     @ (if r4_RemoteID c \<noteq> '''' then [RemoteIDSub (r4_RemoteID c)] else [])"

definition unset_ip :: "byte list option \<Rightarrow> bool" where
  "unset_ip a = (case a of None \<Rightarrow> True | Some b \<Rightarrow> (length b = 4 \<and> b = [0, 0, 0, 0]) \<or> (length b = 16 \<and> (list_all (\<lambda>x. x = 0) b \<or> b = v4_prefix @ [0, 0, 0, 0])))"

definition RelayToServer :: "DHCPv4RelayConfig \<Rightarrow> packet4 \<Rightarrow> (relay_error, packet4) result" where
  "RelayToServer c p =
    (if r4_MaxHopCount c \<le> int (unat (pk_HopCount p)) then Inl (Err (HopCountExceeded (r4_MaxHopCount c)))
     else Inr (p\<lparr>pk_HopCount := pk_HopCount p + 1,
       pk_GatewayIPAddr := (if unset_ip (pk_GatewayIPAddr p) then r4_GatewayIP c else pk_GatewayIPAddr p),
       pk_Options := (if r4_CircuitID c \<noteq> '''' \<or> r4_RemoteID c \<noteq> '''' then UpdateOption (RelayAgentInfo (option82 c)) (pk_Options p)
                      else pk_Options p)\<rparr>))"

definition RelayToClient :: "packet4 \<Rightarrow> packet4" where
  "RelayToClient p = p\<lparr>pk_Options := filter (\<lambda>x. code4 x \<noteq> 82) (pk_Options p)\<rparr>"

fun sub_step :: "string \<times> string \<Rightarrow> sub_option \<Rightarrow> string \<times> string" where
  "sub_step (c, r) (CircuitIDSub s) = (s, r)"
| "sub_step (c, r) (RemoteIDSub s) = (c, s)"
| "sub_step (c, r) (OtherSub _ _) = (c, r)"

definition GetOption82 :: "packet4 \<Rightarrow> string \<times> string" where
  "GetOption82 p = (case relayAgentInfo p of None \<Rightarrow> ('''', '''') | Some subs \<Rightarrow> foldl sub_step ('''', '''') subs)"

section \<open>DHCPv6\<close>

datatype relay_type = RelayForward | RelayReply | OtherType nat

datatype msg6 =
    Message6 nat "byte list"
  | RelayMessage relay_type "8 word" "byte list" "byte list" "option6 list"
and option6 = OptRelayMessage msg6 | OptInterfaceID string | OptRemoteID nat string | Option6 nat "byte list"

record DHCPv6RelayConfig =
  r6_ListenAddr :: "byte list"
  r6_ServerAddrs :: "byte list list"
  r6_InterfaceID :: string
  r6_RemoteID :: string
  r6_MaxHopCount :: int

definition NewDHCPv6Relay :: "DHCPv6RelayConfig \<Rightarrow> DHCPv6RelayConfig" where
  "NewDHCPv6Relay c = (if r6_MaxHopCount c = 0 then c\<lparr>r6_MaxHopCount := 32\<rparr> else c)"

fun hops6 :: "msg6 \<Rightarrow> 8 word option" where
  "hops6 (RelayMessage _ h _ _ _) = Some h"
| "hops6 (Message6 _ _) = None"

text \<open>The flag tells whether the package could make a new relay message.\<close>

definition EncapsulateToServer :: "bool \<Rightarrow> DHCPv6RelayConfig \<Rightarrow> msg6 \<Rightarrow> byte list \<Rightarrow> byte list \<Rightarrow> (relay_error, msg6) result" where
  "EncapsulateToServer made c msg peer link =
    (if (case hops6 msg of Some h \<Rightarrow> word_of_int (r6_MaxHopCount c) \<le> h | None \<Rightarrow> False)
     then Inl (Err (HopCountExceeded (r6_MaxHopCount c)))
     else if \<not> made then Inl (Err NewMessageFailed)
     else Inr (RelayMessage RelayForward (case hops6 msg of Some h \<Rightarrow> h + 1 | None \<Rightarrow> 0) link peer
       ([OptRelayMessage msg]
        @ (if r6_InterfaceID c \<noteq> '''' then [OptInterfaceID (r6_InterfaceID c)] else [])
        @ (if r6_RemoteID c \<noteq> '''' then [OptRemoteID 0 (r6_RemoteID c)] else []))))"

fun relay_option :: "option6 list \<Rightarrow> msg6 option" where
  "relay_option [] = None"
| "relay_option (OptRelayMessage m # opts) = Some m"
| "relay_option (_ # opts) = relay_option opts"

lemma relay_option_size: "relay_option opts = Some m \<Longrightarrow> size m < size_list size opts"
  by (induction opts rule: relay_option.induct) auto

function DecapsulateToClient :: "msg6 \<Rightarrow> (relay_error, msg6 \<times> byte list) result" where
  "DecapsulateToClient (RelayMessage t h link peer opts) =
    (if t \<noteq> RelayReply then Inl (Err NotRelayReply)
     else (case relay_option opts of
         None \<Rightarrow> Inl (Err NoRelayMessage)
       | Some (Message6 mt body) \<Rightarrow> Inr (Message6 mt body, peer)
       | Some (RelayMessage t2 h2 link2 peer2 opts2) \<Rightarrow> DecapsulateToClient (RelayMessage t2 h2 link2 peer2 opts2)))"
| "DecapsulateToClient (Message6 mt body) = Inl (Err NotRelayReply)"
  by pat_completeness auto
termination
  by (relation "measure size") (auto dest!: relay_option_size)

fun GetInterfaceID :: "option6 list \<Rightarrow> string" where
  "GetInterfaceID [] = ''''"
| "GetInterfaceID (OptInterfaceID s # opts) = s"
| "GetInterfaceID (_ # opts) = GetInterfaceID opts"

section \<open>The server\<close>

text \<open>Its \<open>Run\<close> only waits to be cancelled.\<close>

record RelayServer =
  rsv_v4Relay :: "DHCPv4RelayConfig option"
  rsv_v6Relay :: "DHCPv6RelayConfig option"

definition NewRelayServer :: "DHCPv4RelayConfig option \<Rightarrow> DHCPv6RelayConfig option \<Rightarrow> RelayServer" where
  "NewRelayServer v4Config v6Config =
    \<lparr>rsv_v4Relay = map_option NewDHCPv4Relay v4Config, rsv_v6Relay = map_option NewDHCPv6Relay v6Config\<rparr>"

section \<open>Properties\<close>

lemma option82_identifiers: "foldl sub_step ('''', '''') (option82 c) = (r4_CircuitID c, r4_RemoteID c)"
  by (simp add: option82_def)

lemma find_updated: "List.find (\<lambda>x. code4 x = code4 opt) (UpdateOption opt opts) = Some opt"
  by (induction opts) (auto simp: UpdateOption_def)

lemma find_deleted: "List.find (\<lambda>x. code4 x = n) (filter (\<lambda>x. code4 x \<noteq> n) opts) = None"
  by (auto simp: find_None_iff)

text \<open>A packet relayed to the server has gained one hop without wrapping around, is within the limit,
  keeps the gateway address of the first relay, and carries the configured identifiers, which
  are gone again from what is relayed to the client.\<close>

theorem relay4_round_trip:
  assumes "RelayToServer c p = Inr q" "r4_MaxHopCount c \<le> 255" "r4_CircuitID c \<noteq> '''' \<or> r4_RemoteID c \<noteq> ''''"
  shows "unat (pk_HopCount q) = unat (pk_HopCount p) + 1 \<and> int (unat (pk_HopCount q)) \<le> r4_MaxHopCount c
    \<and> (\<not> unset_ip (pk_GatewayIPAddr p) \<longrightarrow> pk_GatewayIPAddr q = pk_GatewayIPAddr p)
    \<and> GetOption82 q = (r4_CircuitID c, r4_RemoteID c) \<and> GetOption82 (RelayToClient q) = ('''', '''')"
proof -
  have lt: "int (unat (pk_HopCount p)) < r4_MaxHopCount c" using assms(1) by (auto simp: RelayToServer_def split: if_splits)
  then have "int (unat (pk_HopCount p)) < 255" using assms(2) by linarith
  then have "unat (pk_HopCount p) + 1 < 256" by linarith
  then have hop: "unat (pk_HopCount p + 1) = unat (pk_HopCount p) + 1" by (simp add: unat_word_ariths)
  have q: "pk_HopCount q = pk_HopCount p + 1" "pk_Options q = UpdateOption (RelayAgentInfo (option82 c)) (pk_Options p)"
      "pk_GatewayIPAddr q = (if unset_ip (pk_GatewayIPAddr p) then r4_GatewayIP c else pk_GatewayIPAddr p)"
    using assms(1,3) by (auto simp: RelayToServer_def split: if_splits)
  have "GetOption82 q = (r4_CircuitID c, r4_RemoteID c)"
    using find_updated[of "RelayAgentInfo (option82 c)" "pk_Options p"]
    by (simp add: GetOption82_def relayAgentInfo_def q option82_identifiers)
  moreover have "GetOption82 (RelayToClient q) = ('''', '''')"
    using find_deleted[of 82] by (simp add: GetOption82_def relayAgentInfo_def RelayToClient_def)
  ultimately show ?thesis using hop lt q by simp
qed

theorem relay4_round_trip_witness:
  "\<exists>q. RelayToServer (NewDHCPv4Relay \<lparr>r4_ListenAddr = [], r4_ServerAddrs = [], r4_CircuitID = ''port1'', r4_RemoteID = '''', r4_MaxHopCount = 0, r4_GatewayIP = Some [10, 0, 0, 1]\<rparr>)
      \<lparr>pk_HopCount = 3, pk_GatewayIPAddr = Some [10, 0, 0, 9], pk_YourIPAddr = [], pk_Options = []\<rparr> = Inr q
    \<and> unat (pk_HopCount q) = 4 \<and> GetOption82 q = (''port1'', '''')"
proof -
  let ?c = "NewDHCPv4Relay \<lparr>r4_ListenAddr = [], r4_ServerAddrs = [], r4_CircuitID = ''port1'', r4_RemoteID = '''', r4_MaxHopCount = 0, r4_GatewayIP = Some [10, 0, 0, 1]\<rparr>"
  let ?p = "\<lparr>pk_HopCount = 3, pk_GatewayIPAddr = Some [10, 0, 0, 9], pk_YourIPAddr = [], pk_Options = []\<rparr> :: packet4"
  obtain q where q: "RelayToServer ?c ?p = Inr q" by (simp add: RelayToServer_def NewDHCPv4Relay_def)
  from relay4_round_trip[OF q] q show ?thesis by (simp add: NewDHCPv4Relay_def)
qed

definition reply_layer :: "8 word \<times> byte list \<times> byte list \<Rightarrow> msg6 \<Rightarrow> msg6" where
  "reply_layer l m = (case l of (h, link, peer) \<Rightarrow> RelayMessage RelayReply h link peer [OptRelayMessage m])"

text \<open>Unwrapping a Relay-Reply always ends, and goes through every layer at once: the message
  inside is returned with the peer address of the innermost layer.\<close>

theorem DecapsulateToClient_innermost:
  assumes "layers \<noteq> []"
  shows "DecapsulateToClient (foldr reply_layer layers (Message6 t body)) = Inr (Message6 t body, snd (snd (last layers)))"
  using assms
proof (induction layers)
  case (Cons l ls)
  obtain h link peer where l: "l = (h, link, peer)" by (cases l) auto
  show ?case
  proof (cases ls)
    case Nil then show ?thesis by (simp add: l reply_layer_def)
  next
    case (Cons l2 ls2)
    then obtain t2 h2 k2 p2 o2 where inner: "foldr reply_layer ls (Message6 t body) = RelayMessage t2 h2 k2 p2 o2"
      by (cases l2) (auto simp: reply_layer_def)
    have "DecapsulateToClient (foldr reply_layer (l # ls) (Message6 t body)) = DecapsulateToClient (foldr reply_layer ls (Message6 t body))"
      unfolding foldr.simps o_apply inner l by (simp add: reply_layer_def)
    then show ?thesis using Cons.IH Cons by simp
  qed
qed simp

theorem DecapsulateToClient_innermost_witness:
  "DecapsulateToClient (foldr reply_layer [(1, [], [1]), (0, [], [2])] (Message6 7 [])) = Inr (Message6 7 [], [2])"
  using DecapsulateToClient_innermost[of "[(1, [], [1]), (0, [], [2])]" 7 "[]"] by simp

text \<open>The limit is cut to eight bits: a limit of 256 refuses every relayed message.\<close>

lemma hop_limit_truncated:
  assumes "r6_MaxHopCount c = 256"
  shows "EncapsulateToServer made c (RelayMessage t h link peer opts) p l = Inl (Err (HopCountExceeded 256))"
proof -
  have "(256 :: 8 word) = 0" by code_simp
  then have "(256 :: 8 word) \<le> h" by (metis word_zero_le)
  then show ?thesis using assms by (simp add: EncapsulateToServer_def)
qed

end
