(* ===== verification/Spec2Isabelle.thy ===== *)
theory Spec2Isabelle
  imports ApplySafe Complete Daemon Commands Relay
begin

text \<open>
  \<^bold>\<open>netcfg\<close>, a netplan-style network configurator with network namespace support: a model of its
  Go sources and the properties of the model.

  The program reads YAML files from a directory, merges and validates them, derives the state
  they ask for, compares it with the state saved by the previous run, removes what is gone,
  creates namespaces and devices through netlink, sysfs, ethtool, WireGuard and VPP, and saves
  the new state. A daemon beside it renews DHCP leases and answers neighbour solicitations on
  the bridges; further commands show, edit, take over and destroy configurations. One theory
  models each part:

  \<^bold>\<open>Foundations.\<close>
  \<^item> \<open>Prelude\<close>: Go results (a value, an error, or a panic), Go maps (association lists; nil and
    empty maps are told apart), the locales \<open>kv_table\<close> and \<open>kv_store\<close> for keyed stores.
  \<^item> \<open>GoStd\<close>: the parts of strings, strconv, fmt, path/filepath and net the sources use.
  \<^item> \<open>Sha256\<close>: the printing of addresses and the hash behind the stable secret of an interface.
  \<^item> \<open>Kernel\<close>: the boundary to the system. A request of the code is an event tagged with the
    namespace of the handle it is made on; the environment is an arbitrary function from
    the trace so far and the event to a reply. A command is a function on worlds (environment and
    trace) that ends normally, with an error or with a panic. \<open>behaves E nn P c\<close> says that every
    event of \<open>c\<close>, in every environment that satisfies \<open>E\<close>, satisfies \<open>P\<close>, and that \<open>c\<close> does not
    panic when \<open>nn\<close> is set.

  \<^bold>\<open>Configuration and state.\<close>
  \<^item> \<open>ConfigTypes\<close>: the structs of config/config.go; a pointer is an option, a null YAML
    entry is \<open>Some None\<close> in a map.
  \<^item> \<open>ConfigMerge\<close>: Normalize, mergeConfig, ToNamespace (config/config.go): later files win,
    normalising is idempotent and moves VXLAN tunnels.
  \<^item> \<open>ConfigValid\<close>: the validators (config/vpp.go, srv6.go, ndp.go), LoadConfig and startup.conf;
    each validator accepts exactly what a declarative condition says.
  \<^item> \<open>NetState\<close>: the saved state and its diff (state/state.go), characterised entry by entry.
    \<open>BuildState\<close>: the state a configuration asks for (cmd/apply.go).

  \<^bold>\<open>Applying.\<close>
  \<^item> \<open>Netlink\<close>: the manager (netlink/*.go); operations with a result take a continuation.
    \<open>Supplicant\<close> (cmd/dot1x.go, cmd/wifi.go), \<open>SetupDevice\<close> and \<open>Setup\<close> (cmd/apply.go,
    offload.go, sriov.go): the configuration of a device and of a namespace.
  \<^item> \<open>VppApply\<close> (vpp/*.go): the VPP applier, whose binary API calls are events. \<open>VppPlan\<close>
    (cmd/vpp.go, vpp/state.go): which devices go to VPP and which orphans are reaped.
    \<open>VppSafe\<close>: setting up what already exists creates nothing; orphans are exact.
  \<^item> \<open>Apply\<close>: the apply transaction and the rollback of a trial apply (cmd/apply.go, cmd/try.go).
    \<open>Policy\<close>: what the commands may ask of the system, as a locale interpreted on concrete
    predicates of events. \<open>Removals\<close>: what the removal pass deletes, through its own policy locale.
    \<open>ApplySafe\<close>: what the interpretations say an apply never does. \<open>Complete\<close>: what it has done when it
    reports success, with rules for requests that must have been made.

  \<^bold>\<open>The daemon.\<close>
  \<^item> \<open>Dhcp\<close> (netlink/dhcp.go and the clients of netlink/purego/): the exchanges, leases, resolv.conf and
    the application of a lease; \<open>DhcpFacts\<close>: round trip of resolv.conf, lease times, \<open>wrap64\<close>.
    \<open>DhcpDaemon\<close> (netlink/dhcp_daemon.go): the lease table, its files and the renewal loop as a transition system with an
    invariant.
  \<^item> \<open>NdpResponder\<close> (ndpproxy/responder.go): the answer to one packet. \<open>NdpManager\<close> (cmd/daemon.go,
    ndp.go, ndptap_daemon.go): start, stop,
    reload and the rebuilding of a deleted tap. \<open>NdpSafe\<close>: the invariants of the manager over all
    sequences of its operations.
  \<^item> \<open>Daemon\<close> (cmd/daemon.go): the whole process, the lease daemon and the NDP manager under one loop of
    signals, ticks and link events, with the invariants of both and a clean end.
  \<^item> \<open>Relay\<close>: the encapsulation of DHCP relay messages (netlink/purego/dhcp_relay.go).

  \<^bold>\<open>Other commands.\<close>
  \<^item> \<open>GetSet\<close> (cmd/getset.go, generate.go), \<open>Takeover\<close> (cmd/takeover.go) on an explicit file system
    whose operations may fail, \<open>Status\<close> (cmd/status.go) with the waiting loop, \<open>Commands\<close>
    (cmd/apply.go, diff.go, destroy.go, netns.go, rebind.go, wg.go).

  Map iteration, which Go leaves unordered, follows the order of the association list; where the
  code sorts, so does the model. Error values keep the failing check and its
  argument, not the message text. Logging and the closing of handles are left out. No
  definition uses fuel except the glob parser, whose fuel is the length of the pattern. The two
  loops whose end depends on the environment, \<open>wait_loop\<close> and \<open>enum_vfs\<close>, are partial functions;
  they are shown to return if the clock runs, and if the list of virtual functions ends.

  \<^bold>\<open>Parameters.\<close> The YAML and JSON codecs, the file system of LoadConfig, the NDP library that parses
  and marshals messages, and the DHCP exchange on the wire are arguments of the definitions that use
  them; what a property needs of them is a hypothesis with a concrete instance in the witness.

  \<^bold>\<open>Not modelled.\<close> The sockets of the responder and of the DHCP clients, the
  interleaving of goroutines within an operation (the operations of the daemons are atomic steps, as
  under their mutexes), the listing of FDB and neighbour entries, which nothing calls, the column
  alignment of printed tables, and the parsing of command line flags, which the cobra package does.
\<close>

end
